(* ===== verification/Nvnm_Prelude.thy ===== *)
theory Nvnm_Prelude
  imports Main "HOL-Library.Word" "HOL-Library.Char_ord" "HOL-Library.List_Lexorder"
    "HOL-Library.Product_Lexorder"
begin

text \<open>
  Shared vocabulary of the development: the integer and byte types of the Go code, the
  errors it returns, the result and action combinators that model \<open>(T, error)\<close> returns
  and writes to the store, the two \<open>fmt\<close> verbs the role identifiers are built with
  (\<open>%d\<close> and \<open>%x\<close>), and the generic lemmas the components use.
\<close>

section \<open>Types\<close>

type_synonym u64 = "64 word"
type_synonym byte = "8 word"

text \<open>\<open>[]byte\<close> and \<open>sdk.AccAddress\<close> are byte lists; a Go \<open>string\<close> is a byte string, here \<open>string\<close>.\<close>

type_synonym bytes = "byte list"
type_synonym addr = bytes

text \<open>\<open>[]byte(s)\<close> for a string \<open>s\<close>.\<close>

definition bytes_of_string :: "string \<Rightarrow> bytes" where
  "bytes_of_string s = map (\<lambda>c. of_nat (of_char c)) s"

section \<open>Errors, results, actions\<close>

text \<open>
  The errors the code returns. \<open>ErrMsg\<close> is \<open>fmt.Errorf\<close> or \<open>errors.New\<close> with its text,
  \<open>ErrWrap\<close> adds a text in front of another error, \<open>ErrLib\<close> is an error that comes out
  of a library call and is passed on, \<open>ErrStatus\<close> is a gRPC status error, \<open>GoPanic\<close> a
  panic (a nil dereference, an index out of range). The others are the sentinel errors
  of the SDK, of \<open>collections\<close>, of the ABI and EVM libraries, and of \<open>x/anchoring/types/errors.go\<close> and \<open>x/tax\<close>.
\<close>

datatype status_code = InvalidArgument | FailedPrecondition | StatusNotFound | StatusInternal

datatype error =
    ErrMsg string
  | ErrWrap string error
  | ErrLib string
  | ErrStatus status_code string
  | ErrInvalidRequest error
  | ErrUnauthorized
  | ErrSdkNotFound string
  | ErrCollNotFound
  | ErrCollEncoding
  | ErrMissingRole addr bytes
  | ErrRoleAdminNotConfigured bytes
  | ErrDuplicateRecordKey u64 u64 u64
  | ErrInvalidGenesisState string
  | ErrInvalidSigner string string
  | ErrUnexpectedEOF
  | ErrInvalidOffsetForDynamicField
  | ErrInvalidOffsetForSliceElement
  | ErrInvalidNumberOfTopics
  | ErrInvalidEventTopic
  | ErrWriteProtection
  | ErrExecutionReverted bytes
  | GoPanic

type_synonym 'a result = "error + 'a"

text \<open>Sequencing of \<open>if err != nil { return err }\<close> for code that reads only.\<close>

definition res_bind :: "'a result \<Rightarrow> ('a \<Rightarrow> 'b result) \<Rightarrow> 'b result" where
  "res_bind r f = (case r of Inl e \<Rightarrow> Inl e | Inr x \<Rightarrow> f x)"

definition res_map_err :: "(error \<Rightarrow> error) \<Rightarrow> 'a result \<Rightarrow> 'a result" where
  "res_map_err w r = (case r of Inl e \<Rightarrow> Inl (w e) | Inr x \<Rightarrow> Inr x)"

definition res_guard :: "bool \<Rightarrow> error \<Rightarrow> unit result" where
  "res_guard ok e = (if ok then Inr () else Inl e)"

definition res_ok :: "'a result \<Rightarrow> bool" where
  "res_ok r = (case r of Inl _ \<Rightarrow> False | Inr _ \<Rightarrow> True)"

text \<open>
  An action reads and writes a store and returns a result. What was written before an
  error stays written, as it does in the Go context the handler runs in; discarding it
  is the business of the caller (the transaction runner).
\<close>

type_synonym ('s, 'a) act = "'s \<Rightarrow> 'a result \<times> 's"

definition act_return :: "'a \<Rightarrow> ('s, 'a) act" where
  "act_return x = (\<lambda>s. (Inr x, s))"

definition act_fail :: "error \<Rightarrow> ('s, 'a) act" where
  "act_fail e = (\<lambda>s. (Inl e, s))"

definition act_try :: "'a result \<Rightarrow> ('s, 'a) act" where
  "act_try r = (\<lambda>s. (r, s))"

definition act_get :: "('s \<Rightarrow> 'a result) \<Rightarrow> ('s, 'a) act" where
  "act_get f = (\<lambda>s. (f s, s))"

definition act_put :: "('s \<Rightarrow> 's) \<Rightarrow> ('s, unit) act" where
  "act_put g = (\<lambda>s. (Inr (), g s))"

definition act_bind :: "('s, 'a) act \<Rightarrow> ('a \<Rightarrow> ('s, 'b) act) \<Rightarrow> ('s, 'b) act" where
  "act_bind m f = (\<lambda>s. case m s of (Inl e, s') \<Rightarrow> (Inl e, s') | (Inr x, s') \<Rightarrow> f x s')"

named_theorems act_defs "combinators of actions and results, to be unfolded"

lemmas act_unfold [act_defs] =
  act_return_def act_fail_def act_try_def act_get_def act_put_def act_bind_def
  res_bind_def res_map_err_def res_guard_def

lemma res_bind_Inr_iff: "res_bind r f = Inr y \<longleftrightarrow> (\<exists>x. r = Inr x \<and> f x = Inr y)"
  by (cases r) (auto simp: res_bind_def)

lemma res_map_err_Inr_iff [simp]: "res_map_err w r = Inr y \<longleftrightarrow> r = Inr y"
  by (cases r) (auto simp: res_map_err_def)

lemma res_guard_Inr_iff [simp]: "res_guard ok e = Inr u \<longleftrightarrow> ok"
  by (simp add: res_guard_def)

lemma res_ok_iff: "res_ok r \<longleftrightarrow> (\<exists>x. r = Inr x)"
  by (cases r) (auto simp: res_ok_def)

lemma res_ok_Inr [simp]: "res_ok (Inr x)" and res_ok_Inl [simp]: "\<not> res_ok (Inl e)"
  by (simp_all add: res_ok_def)

lemma act_bind_Inr_iff:
  "act_bind m f s = (Inr y, s') \<longleftrightarrow> (\<exists>x t. m s = (Inr x, t) \<and> f x t = (Inr y, s'))"
  by (auto simp: act_bind_def split: prod.splits sum.splits)

lemma act_return_iff [simp]: "act_return x s = (r, s') \<longleftrightarrow> r = Inr x \<and> s' = s"
  by (auto simp: act_return_def)

lemma act_fail_iff [simp]: "act_fail e s = (r, s') \<longleftrightarrow> r = Inl e \<and> s' = s"
  by (auto simp: act_fail_def)

lemma act_try_iff [simp]: "act_try r s = (r', s') \<longleftrightarrow> r = r' \<and> s' = s"
  by (auto simp: act_try_def)

lemma act_get_iff [simp]: "act_get f s = (r, s') \<longleftrightarrow> f s = r \<and> s' = s"
  by (auto simp: act_get_def)

lemma act_put_iff [simp]: "act_put g s = (r, s') \<longleftrightarrow> r = Inr () \<and> s' = g s"
  by (auto simp: act_put_def)

text \<open>
  The successful runs of a sequence of steps, one equation per kind of step; together
  they turn a successful run of a handler into the conjunction of its guards and its
  final state.
\<close>

lemmas act_success = act_bind_Inr_iff res_bind_Inr_iff

text \<open>Steps that only read, with the state already passed on.\<close>

lemma act_bind_try_Inr_iff:
  "act_bind (act_try r) f s = (Inr y, s') \<longleftrightarrow> (\<exists>x. r = Inr x \<and> f x s = (Inr y, s'))"
  by (auto simp: act_bind_Inr_iff)

lemma act_bind_get_Inr_iff:
  "act_bind (act_get g) f s = (Inr y, s') \<longleftrightarrow> (\<exists>x. g s = Inr x \<and> f x s = (Inr y, s'))"
  by (auto simp: act_bind_Inr_iff)

lemmas act_reads = act_bind_try_Inr_iff act_bind_get_Inr_iff

text \<open>
  \<open>Walk\<close> of a collection: the callback returns \<open>(stop, err)\<close> and may write the variables
  it closes over, which are the state of the action.
\<close>

fun walk :: "('e \<Rightarrow> ('s, bool) act) \<Rightarrow> 'e list \<Rightarrow> ('s, unit) act" where
  "walk f [] s = (Inr (), s)"
| "walk f (x # xs) s =
     (case f x s of
        (Inl e, s') \<Rightarrow> (Inl e, s')
      | (Inr True, s') \<Rightarrow> (Inr (), s')
      | (Inr False, s') \<Rightarrow> walk f xs s')"

text \<open>A Go \<open>for range\<close> loop whose body may return an error.\<close>

fun act_each :: "('e \<Rightarrow> ('s, unit) act) \<Rightarrow> 'e list \<Rightarrow> ('s, unit) act" where
  "act_each f [] s = (Inr (), s)"
| "act_each f (x # xs) s =
     (case f x s of (Inl e, s') \<Rightarrow> (Inl e, s') | (Inr _, s') \<Rightarrow> act_each f xs s')"

lemma act_each_Cons_Inr_iff:
  "act_each f (x # xs) s = (Inr u, s') \<longleftrightarrow> (\<exists>t. f x s = (Inr (), t) \<and> act_each f xs t = (Inr u, s'))"
  by (auto split: prod.splits sum.splits)

lemma act_each_append:
  "act_each f (xs @ ys) s = act_bind (act_each f xs) (\<lambda>_. act_each f ys) s"
  by (induction xs arbitrary: s) (auto simp: act_bind_def split: prod.splits sum.splits)

text \<open>An invariant of every step of a loop is an invariant of the loop.\<close>

lemma act_each_invariant:
  assumes step: "\<And>x s s'. x \<in> set xs \<Longrightarrow> I s \<Longrightarrow> f x s = (Inr (), s') \<Longrightarrow> I s'"
    and run: "act_each f xs s = (Inr u, s')" and init: "I s"
  shows "I s'"
  using step run init
proof (induction xs arbitrary: s)
  case Nil
  then show ?case by simp
next
  case (Cons x xs)
  from Cons.prems(2) obtain t where t: "f x s = (Inr (), t)" "act_each f xs t = (Inr u, s')"
    by (auto simp only: act_each_Cons_Inr_iff)
  from Cons.prems(1) [OF _ Cons.prems(3) t(1)] have "I t" by simp
  then show ?case
    using Cons.IH [OF _ t(2)] Cons.prems(1) by (meson list.set_intros(2))
qed

section \<open>Formatting\<close>

text \<open>\<open>fmt.Sprintf("%d", n)\<close> for an unsigned \<open>n\<close>, and \<open>fmt.Sprintf("%x", s)\<close> for a string.\<close>

definition digit_char :: "nat \<Rightarrow> char" where
  "digit_char d = char_of (48 + d)"

fun dec_string :: "nat \<Rightarrow> string" where
  "dec_string n = (if n < 10 then [digit_char n] else dec_string (n div 10) @ [digit_char (n mod 10)])"

declare dec_string.simps [simp del]

definition hex_digit :: "nat \<Rightarrow> char" where
  "hex_digit d = char_of (if d < 10 then 48 + d else 87 + d)"

fun hex_string :: "string \<Rightarrow> string" where
  "hex_string [] = []"
| "hex_string (c # cs) = hex_digit (of_char c div 16) # hex_digit (of_char c mod 16) # hex_string cs"

definition sprint_u64 :: "u64 \<Rightarrow> string" where
  "sprint_u64 w = dec_string (unat w)"

text \<open>Reading a decimal numeral back shows that printing is injective.\<close>

definition dec_value :: "string \<Rightarrow> nat" where
  "dec_value s = foldl (\<lambda>a c. 10 * a + (of_char c - 48)) 0 s"

lemma of_char_digit_char: "d < 10 \<Longrightarrow> (of_char (digit_char d) :: nat) = 48 + d"
  by (simp add: digit_char_def)

lemma dec_value_dec_string: "dec_value (dec_string n) = n"
proof (induction n rule: dec_string.induct)
  case (1 n)
  then show ?case
    by (subst dec_string.simps) (auto simp: dec_value_def of_char_digit_char)
qed

lemma dec_string_inj: "dec_string m = dec_string n \<longleftrightarrow> m = n"
  by (metis dec_value_dec_string)

lemma sprint_u64_inj: "sprint_u64 a = sprint_u64 b \<longleftrightarrow> a = b"
  by (simp add: sprint_u64_def dec_string_inj word_unat_eq_iff)

definition is_digit :: "char \<Rightarrow> bool" where
  "is_digit c \<longleftrightarrow> 48 \<le> (of_char c :: nat) \<and> (of_char c :: nat) < 58"

lemma dec_string_digits: "\<forall>c \<in> set (dec_string n). is_digit c"
proof (induction n rule: dec_string.induct)
  case (1 n)
  then show ?case
    by (subst dec_string.simps) (auto simp: is_digit_def of_char_digit_char)
qed

lemma colon_not_digit [simp]: "\<not> is_digit CHR '':''"
  by (simp add: is_digit_def)

lemma sprint_u64_no_colon: "CHR '':'' \<notin> set (sprint_u64 w)"
  using dec_string_digits [of "unat w"] by (auto simp: sprint_u64_def)

lemma of_char_hex_digit:
  "d < 16 \<Longrightarrow> (of_char (hex_digit d) :: nat) = (if d < 10 then 48 + d else 87 + d)"
  by (simp add: hex_digit_def)

lemma hex_digit_inj:
  assumes "d < 16" "e < 16"
  shows "hex_digit d = hex_digit e \<longleftrightarrow> d = e"
proof
  assume "hex_digit d = hex_digit e"
  then have "(if d < 10 then 48 + d else 87 + d) = (if e < 10 then 48 + e else 87 + e)"
    using of_char_hex_digit [OF assms(1)] of_char_hex_digit [OF assms(2)] by simp
  then show "d = e" using assms by (simp split: if_splits)
qed simp

lemma of_char_split_inj:
  assumes "(of_char c :: nat) div 16 = of_char d div 16" "(of_char c :: nat) mod 16 = of_char d mod 16"
  shows "c = d"
proof -
  have "(of_char c :: nat) = of_char d"
    using assms by (metis div_mult_mod_eq)
  then show ?thesis by simp
qed

lemma hex_nibble_bounds [simp]: "(of_char c :: nat) div 16 < 16" "(of_char c :: nat) mod 16 < 16"
  using nat_of_char_less_256 [of c] by (auto simp: less_mult_imp_div_less simp del: nat_of_char_less_256)

lemma hex_string_inj: "hex_string s = hex_string t \<longleftrightarrow> s = t"
proof (induction s arbitrary: t)
  case Nil
  then show ?case by (cases t) auto
next
  case (Cons c s)
  then show ?case
    by (cases t) (auto simp: hex_digit_inj intro: of_char_split_inj)
qed

lemma hex_digit_no_colon:
  assumes "d < 16"
  shows "hex_digit d \<noteq> CHR '':''"
proof
  assume "hex_digit d = CHR '':''"
  then have "(if d < 10 then 48 + d else 87 + d) = (58 :: nat)"
    using of_char_hex_digit [OF assms] by simp
  then show False by (simp split: if_splits)
qed

lemma hex_string_no_colon: "CHR '':'' \<notin> set (hex_string s)"
  by (induction s) (auto simp: hex_digit_no_colon dest: sym)

text \<open>A separator that occurs in neither prefix splits a string in one way only.\<close>

lemma append_sep_eq:
  assumes "x \<notin> set as" "x \<notin> set bs"
  shows "as @ x # cs = bs @ x # ds \<longleftrightarrow> as = bs \<and> cs = ds"
  using assms
proof (induction as arbitrary: bs)
  case Nil
  then show ?case by (cases bs) auto
next
  case (Cons a as)
  then show ?case by (cases bs) auto
qed

lemma of_nat_of_char_byte_inj: "inj (\<lambda>c :: char. of_nat (of_char c) :: byte)"
proof (rule injI)
  fix c d :: char
  assume "(of_nat (of_char c) :: byte) = of_nat (of_char d)"
  then have "unat (of_nat (of_char c) :: byte) = unat (of_nat (of_char d) :: byte)" by simp
  then have "(of_char c :: nat) = of_char d"
    by (simp add: unat_of_nat)
  then show "c = d" by simp
qed

lemma bytes_of_string_inj [simp]: "bytes_of_string s = bytes_of_string t \<longleftrightarrow> s = t"
  by (simp add: bytes_of_string_def inj_map_eq_map [OF of_nat_of_char_byte_inj])

section \<open>Counters\<close>

text \<open>A counter that does not wrap around: the next value is new and the bound moves by one.\<close>

lemma u64_unat_succ: "n + 1 \<noteq> (0 :: u64) \<Longrightarrow> unat (n + 1) = Suc (unat n)"
  using unatSuc [of n] by (simp add: add.commute)

lemma u64_le_succ: "n + 1 \<noteq> (0 :: u64) \<Longrightarrow> x \<le> n + 1 \<longleftrightarrow> x \<le> n \<or> x = n + 1"
  by (auto simp: word_le_nat_alt u64_unat_succ word_unat_eq_iff)

lemma u64_le_succI: "n + 1 \<noteq> (0 :: u64) \<Longrightarrow> x \<le> n \<Longrightarrow> x \<le> n + 1"
  by (simp add: u64_le_succ)

lemma u64_less_succ: "n + 1 \<noteq> (0 :: u64) \<Longrightarrow> n < n + 1"
  by (simp add: word_less_nat_alt u64_unat_succ)

lemma u64_succ_not_le: "n + 1 \<noteq> (0 :: u64) \<Longrightarrow> x \<le> n \<Longrightarrow> x \<noteq> n + 1"
  by (auto simp: word_le_nat_alt u64_unat_succ)

lemma u64_one_less_succ: "n + 1 \<noteq> (0 :: u64) \<Longrightarrow> n \<noteq> 0 \<Longrightarrow> 1 < n + 1"
  by (simp add: word_less_nat_alt u64_unat_succ unat_gt_0)

end
