(* ===== verification/Kv_Store.thy ===== *)
theory Kv_Store
  imports Nvnm_Prelude
begin

text \<open>
  The persistent collections of the keepers. \<open>cosmossdk.io/collections\<close> is a library the
  code calls: what the code relies on is the contract of an ordered finite map, stated
  here as the locale \<open>kv_collection\<close> (a \<open>Get\<close> after a \<open>Set\<close> or \<open>Remove\<close>, and \<open>Walk\<close>
  visiting every entry once in ascending key order). The type \<open>coll\<close> below is the
  ordered finite map the components are modelled over, and the interpretation at the
  end shows that it keeps the contract. \<open>collections.Item\<close> is an \<open>option\<close>.
\<close>

section \<open>The contract\<close>

locale kv_collection =
  fixes empty :: "'m"
    and get :: "'m \<Rightarrow> 'k::linorder \<Rightarrow> 'v option"
    and put :: "'k \<Rightarrow> 'v \<Rightarrow> 'm \<Rightarrow> 'm"
    and del :: "'k \<Rightarrow> 'm \<Rightarrow> 'm"
    and entries :: "'m \<Rightarrow> ('k \<times> 'v) list"
  assumes entries_sorted: "sorted_wrt (<) (map fst (entries m))"
    and get_entries: "get m k = map_of (entries m) k"
    and get_empty: "get empty k = None"
    and get_put: "get (put k v m) k' = (if k' = k then Some v else get m k')"
    and get_del: "get (del k m) k' = (if k' = k then None else get m k')"
begin

lemma entries_distinct: "distinct (map fst (entries m))"
  using entries_sorted by (simp add: strict_sorted_iff)

lemma mem_entries_iff: "(k, v) \<in> set (entries m) \<longleftrightarrow> get m k = Some v"
  by (simp add: get_entries entries_distinct)

lemma get_None_iff: "get m k = None \<longleftrightarrow> k \<notin> fst ` set (entries m)"
  by (simp add: get_entries map_of_eq_None_iff)

lemma finite_dom_get: "finite (dom (get m))"
  by (simp add: get_entries [abs_def] finite_dom_map_of)

text \<open>The walk of a collection is determined by what \<open>get\<close> answers.\<close>

lemma entries_eq_if_get_eq:
  assumes "\<And>k. get m k = get m' k"
  shows "entries m = entries m'"
proof -
  have eq: "set (entries m) = set (entries m')"
    using assms by (auto simp: mem_entries_iff)
  have inj: "inj_on fst (set (entries m) \<union> set (entries m'))"
    using entries_distinct [of m] eq by (simp add: distinct_map)
  show ?thesis
    using inj _ _ _ _ eq
    by (rule map_sorted_distinct_set_unique)
      (use entries_sorted entries_distinct in \<open>auto intro: strict_sorted_imp_sorted\<close>)
qed

lemma entries_put_put: "entries (put k v (put k w m)) = entries (put k v m)"
  by (rule entries_eq_if_get_eq) (simp add: get_put)

lemma entries_put_commute:
  "k \<noteq> k' \<Longrightarrow> entries (put k v (put k' v' m)) = entries (put k' v' (put k v m))"
  by (rule entries_eq_if_get_eq) (simp add: get_put)

text \<open>Storing a list of entries one after the other.\<close>

lemma get_fold_put:
  "get (fold (\<lambda>e. put (fst e) (snd e)) es m) k
     = (case map_of (rev es) k of None \<Rightarrow> get m k | Some v \<Rightarrow> Some v)"
  by (induction es arbitrary: m) (auto simp: get_put split: option.splits)

lemma get_fold_put_distinct:
  assumes "distinct (map fst es)"
  shows "get (fold (\<lambda>e. put (fst e) (snd e)) es m) k
     = (case map_of es k of None \<Rightarrow> get m k | Some v \<Rightarrow> Some v)"
proof -
  have "map_of (rev es) = map_of es"
    using assms by (intro map_of_eqI) (auto simp: rev_map [symmetric] image_iff)
  then show ?thesis by (simp add: get_fold_put)
qed

text \<open>Storing every entry a walk visits into an empty collection rebuilds it.\<close>

lemma rebuild_get: "get (fold (\<lambda>e. put (fst e) (snd e)) (entries m) empty) k = get m k"
  unfolding get_fold_put_distinct [OF entries_distinct] get_empty
  by (simp add: get_entries split: option.splits)

lemma rebuild_entries: "entries (fold (\<lambda>e. put (fst e) (snd e)) (entries m) empty) = entries m"
  by (rule entries_eq_if_get_eq) (rule rebuild_get)

end

section \<open>Ordered finite maps\<close>

typedef (overloaded) ('k::linorder, 'v) coll = "{xs :: ('k \<times> 'v) list. sorted_wrt (<) (map fst xs)}"
  morphisms centries Coll
  by (rule exI [of _ "[]"]) simp

setup_lifting type_definition_coll

fun place :: "'k::linorder \<Rightarrow> 'v \<Rightarrow> ('k \<times> 'v) list \<Rightarrow> ('k \<times> 'v) list" where
  "place k v [] = [(k, v)]"
| "place k v (e # es) =
     (if fst e < k then e # place k v es
      else (k, v) # (if fst e = k then es else e # es))"

lemma set_place_keys: "set (map fst (place k v es)) = insert k (set (map fst es))"
  by (induction es) auto

lemma place_sorted: "sorted_wrt (<) (map fst es) \<Longrightarrow> sorted_wrt (<) (map fst (place k v es))"
proof (induction es)
  case Nil
  then show ?case by simp
next
  case (Cons e es)
  then show ?case using set_place_keys [of k v es] by (auto simp del: set_map)
qed

lemma map_of_place: "map_of (place k v es) = (map_of es)(k \<mapsto> v)"
  by (induction es) (auto simp: fun_eq_iff)

lift_definition cempty :: "('k::linorder, 'v) coll" is "[]"
  by simp

lift_definition cget :: "('k::linorder, 'v) coll \<Rightarrow> 'k \<Rightarrow> 'v option" is "\<lambda>m. map_of m" .

lift_definition cset :: "'k::linorder \<Rightarrow> 'v \<Rightarrow> ('k, 'v) coll \<Rightarrow> ('k, 'v) coll" is place
  by (rule place_sorted)

lift_definition cremove :: "'k::linorder \<Rightarrow> ('k, 'v) coll \<Rightarrow> ('k, 'v) coll"
  is "\<lambda>k. filter (\<lambda>e. fst e \<noteq> k)"
  by (simp add: sorted_wrt_map sorted_wrt_filter)

definition chas :: "('k::linorder, 'v) coll \<Rightarrow> 'k \<Rightarrow> bool" where
  "chas m k = (cget m k \<noteq> None)"

text \<open>\<open>Walk\<close> over \<open>NewPrefixedPairRange(a)\<close>: the entries whose key has first component \<open>a\<close>.\<close>

definition cprefix :: "'a::linorder \<Rightarrow> ('a \<times> 'b::linorder, 'v) coll \<Rightarrow> (('a \<times> 'b) \<times> 'v) list" where
  "cprefix a m = filter (\<lambda>e. fst (fst e) = a) (centries m)"

text \<open>\<open>Get\<close> on a map and on an item: \<open>collections.ErrNotFound\<close> when there is no value.\<close>

definition coll_Get :: "('k::linorder, 'v) coll \<Rightarrow> 'k \<Rightarrow> 'v result" where
  "coll_Get m k = (case cget m k of None \<Rightarrow> Inl ErrCollNotFound | Some v \<Rightarrow> Inr v)"

definition item_Get :: "'v option \<Rightarrow> 'v result" where
  "item_Get i = (case i of None \<Rightarrow> Inl ErrCollNotFound | Some v \<Rightarrow> Inr v)"

lemma centries_cempty [simp]: "centries cempty = []"
  by transfer simp

lemma centries_cset [simp]: "centries (cset k v m) = place k v (centries m)"
  by transfer simp

lemma centries_cremove [simp]: "centries (cremove k m) = filter (\<lambda>e. fst e \<noteq> k) (centries m)"
  by transfer simp

lemma cget_cempty [simp]: "cget cempty k = None"
  by transfer simp

lemma cget_cset [simp]: "cget (cset k v m) k' = (if k' = k then Some v else cget m k')"
  by transfer (simp add: map_of_place)

lemma cget_cremove [simp]: "cget (cremove k m) k' = (if k' = k then None else cget m k')"
proof (transfer, goal_cases)
  case (1 k m k')
  then show ?case
    by (induction m) auto
qed

lemma centries_sorted: "sorted_wrt (<) (map fst (centries m))"
  by transfer simp

lemma cget_centries: "cget m k = map_of (centries m) k"
  by transfer simp

interpretation kv: kv_collection cempty cget cset cremove centries
  by unfold_locales (simp_all add: centries_sorted cget_centries [symmetric])

lemma coll_eqI:
  assumes "\<And>k. cget m k = cget m' k"
  shows "m = m'"
proof -
  have "centries m = centries m'"
    using assms by (rule kv.entries_eq_if_get_eq)
  then show ?thesis by (simp add: centries_inject)
qed

text \<open>Equality of collections, with keys compared by their order.\<close>

instantiation coll :: (linorder, equal) equal
begin

definition equal_coll :: "('a, 'b) coll \<Rightarrow> ('a, 'b) coll \<Rightarrow> bool" where
  "equal_coll m m' = list_all2 (\<lambda>e e'. fst e \<le> fst e' \<and> fst e' \<le> fst e \<and> snd e = snd e') (centries m) (centries m')"

instance
proof
  fix m m' :: "('a, 'b) coll"
  have "(\<lambda>e e' :: 'a \<times> 'b. fst e \<le> fst e' \<and> fst e' \<le> fst e \<and> snd e = snd e') = (=)"
    by (auto simp: fun_eq_iff prod_eq_iff)
  then show "equal_class.equal m m' = (m = m')"
    by (simp add: equal_coll_def list.rel_eq centries_inject)
qed

end

lemma chas_cset [simp]: "chas (cset k v m) k' \<longleftrightarrow> k' = k \<or> chas m k'"
  by (simp add: chas_def)

lemma chas_cremove [simp]: "chas (cremove k m) k' \<longleftrightarrow> k' \<noteq> k \<and> chas m k'"
  by (simp add: chas_def)

lemma chas_cempty [simp]: "\<not> chas cempty k"
  by (simp add: chas_def)

lemma chas_iff: "chas m k \<longleftrightarrow> (\<exists>v. cget m k = Some v)"
  by (simp add: chas_def)

lemma chasI: "cget m k = Some v \<Longrightarrow> chas m k"
  by (simp add: chas_def)

lemma coll_Get_Inr_iff [simp]: "coll_Get m k = Inr v \<longleftrightarrow> cget m k = Some v"
  by (simp add: coll_Get_def split: option.splits)

lemma item_Get_Inr_iff [simp]: "item_Get i = Inr v \<longleftrightarrow> i = Some v"
  by (simp add: item_Get_def split: option.splits)

lemma cset_same: "cget m k = Some v \<Longrightarrow> cset k v m = m"
  by (rule coll_eqI) simp

lemma cset_cset_same [simp]: "cset k v (cset k w m) = cset k v m"
  by (rule coll_eqI) simp

lemma cset_commute: "k \<noteq> k' \<Longrightarrow> cset k v (cset k' v' m) = cset k' v' (cset k v m)"
  by (rule coll_eqI) simp

lemma mem_cprefix_iff: "(k, v) \<in> set (cprefix a m) \<longleftrightarrow> fst k = a \<and> cget m k = Some v"
  by (auto simp: cprefix_def kv.mem_entries_iff)

lemma distinct_cprefix: "distinct (map fst (cprefix a m))"
  using kv.entries_distinct [of m] by (auto simp: cprefix_def distinct_map inj_on_def)

lemma sorted_cprefix: "sorted_wrt (<) (map fst (cprefix a m))"
  using centries_sorted [of m] by (simp add: cprefix_def sorted_wrt_map sorted_wrt_filter)

end
