(* ===== verification/Anchoring_Types.thy ===== *)
theory Anchoring_Types
  imports Kv_Store
begin

text \<open>
  \<open>x/anchoring/types\<close>: the data of the module (\<open>document.pb.go\<close>, \<open>params.pb.go\<close>,
  \<open>tx.pb.go\<close>, \<open>genesis.pb.go\<close>), the checks of \<open>registry_validation.go\<close>,
  \<open>record_validation.go\<close>, \<open>params.go\<close> and \<open>genesis.go\<close>, and the \<open>ValidateBasic\<close> methods
  of the messages. The record \<open>env\<close> collects the library functions the module calls and
  whose code is not in the repository.
\<close>

section \<open>Library functions the module calls\<close>

text \<open>
  \<open>AccAddressFromBech32\<close> and \<open>AccString\<close> are \<open>sdk.AccAddressFromBech32\<close> and
  \<open>sdk.AccAddress.String\<close>; \<open>StringToBytes\<close> and \<open>BytesToString\<close> are the methods of the
  keeper's \<open>addressCodec\<close>; \<open>Keccak256\<close> is \<open>crypto.Keccak256\<close>; \<open>BytesToHash\<close> and \<open>HashHex\<close>
  are \<open>common.BytesToHash\<close> and \<open>common.Hash.Hex\<close>; \<open>BytesKeyEncode\<close>, \<open>BytesKeyDecode\<close>,
  \<open>AddrKeyEncode\<close> and \<open>AddrKeyDecode\<close> are the key codecs \<open>collections.BytesKey\<close> and
  \<open>sdk.AccAddressKey\<close>, and \<open>PairEncode\<close> and \<open>PairDecode\<close> those of \<open>collections.PairKeyCodec\<close>,
  applied to the codecs of the two parts. An encoder is the function from the key to the
  bytes it writes into a buffer of the size the codec asks for; a decoder returns the
  number of bytes it read and the key. \<open>key_ok\<close> says whether \<open>collections.StringKey\<close> can encode a string
  in front of another key part (its \<open>EncodeNonTerminal\<close> returns \<open>ErrEncoding\<close> otherwise).
\<close>

record env =
  AccAddressFromBech32 :: "string \<Rightarrow> addr result"
  AccString :: "addr \<Rightarrow> string"
  StringToBytes :: "string \<Rightarrow> addr result"
  BytesToString :: "addr \<Rightarrow> string result"
  Keccak256 :: "bytes \<Rightarrow> bytes"
  BytesToHash :: "bytes \<Rightarrow> bytes"
  HashHex :: "bytes \<Rightarrow> string"
  BytesKeyEncode :: "bytes \<Rightarrow> bytes"
  BytesKeyDecode :: "bytes \<Rightarrow> (nat \<times> bytes) result"
  AddrKeyEncode :: "addr \<Rightarrow> bytes"
  AddrKeyDecode :: "bytes \<Rightarrow> (nat \<times> addr) result"
  PairEncode :: "(bytes \<Rightarrow> bytes) \<Rightarrow> (addr \<Rightarrow> bytes) \<Rightarrow> bytes \<times> addr \<Rightarrow> bytes"
  PairDecode :: "(bytes \<Rightarrow> (nat \<times> bytes) result) \<Rightarrow> (bytes \<Rightarrow> (nat \<times> addr) result) \<Rightarrow>
    bytes \<Rightarrow> (nat \<times> bytes \<times> addr) result"
  key_ok :: "string \<Rightarrow> bool"

text \<open>What a handler reads of \<open>sdk.Context\<close>: \<open>BlockTime().String()\<close>, the height, \<open>IsCheckTx()\<close>.\<close>

record ctx =
  BlockTime :: string
  BlockHeight :: int
  IsCheckTx :: bool

text \<open>\<open>sdk.NewEvent\<close>: a type and its attributes.\<close>

type_synonym event = "string \<times> (string \<times> string) list"

section \<open>Data\<close>

record Params =
  par_Admin :: string

record Registry =
  reg_Id :: u64
  reg_Name :: string
  reg_Description :: string
  reg_Creator :: string
  reg_CreatedAt :: string
  reg_Metadata :: string

record Record =
  rec_Uri :: string
  rec_Checksum :: string
  rec_ChecksumAlgo :: string
  rec_Metadata :: string
  rec_Timestamp :: string
  rec_Status :: string
  rec_RecordId :: u64
  rec_Index :: u64
  rec_IsLatest :: bool
  rec_RegistryId :: u64

text \<open>
  The maps of a \<open>GenesisState\<close> are lists of entries with distinct keys, in the order in
  which the Go runtime happens to iterate over them.
\<close>

record GenesisState =
  gs_Params :: Params
  gs_Registries :: "(u64 \<times> Registry) list"
  gs_Records :: "Record list"
  gs_RoleAdmins :: "(string \<times> bytes) list"
  gs_RoleMembers :: "(string \<times> bytes) list"

record MsgUpdateParams =
  mup_Authority :: string
  mup_Admin :: string

record MsgAddRegistry =
  mar_Sender :: string
  mar_Name :: string
  mar_Description :: string
  mar_Metadata :: string

record MsgAddRecord =
  mrc_Sender :: string
  mrc_Record :: "Record option"

record MsgUpdateRecordStatus =
  mus_Editor :: string
  mus_RegistryId :: u64
  mus_RecordId :: u64
  mus_Index :: u64
  mus_Status :: string

text \<open>\<open>MsgGrantRole\<close> and \<open>MsgRevokeRole\<close> have the same fields.\<close>

record MsgGrantRole =
  mgr_Admin :: string
  mgr_Address :: string
  mgr_RegistryId :: u64
  mgr_Checksum :: string
  mgr_Role :: string

record MsgRevokeRole =
  mrr_Admin :: string
  mrr_Address :: string
  mrr_RegistryId :: u64
  mrr_Checksum :: string
  mrr_Role :: string

section \<open>Field checks\<close>

definition MaxRecordChecksumLen :: nat where "MaxRecordChecksumLen = 64"
definition MaxRecordChecksumAlgoLen :: nat where "MaxRecordChecksumAlgoLen = 128"
definition MaxRecordURILen :: nat where "MaxRecordURILen = 2048"
definition MaxRecordMetadataLen :: nat where "MaxRecordMetadataLen = 2048"
definition MaxRecordStatusLen :: nat where "MaxRecordStatusLen = 64"
definition MaxRegistryNameLen :: nat where "MaxRegistryNameLen = 128"
definition MaxRegistryDescriptionLen :: nat where "MaxRegistryDescriptionLen = 2048"
definition MaxRegistryMetadataLen :: nat where "MaxRegistryMetadataLen = 2048"

definition ErrMsgRegistryIDZero :: string where
  "ErrMsgRegistryIDZero = ''registry ID cannot be zero''"

lemmas limit_defs =
  MaxRecordChecksumLen_def MaxRecordChecksumAlgoLen_def MaxRecordURILen_def
  MaxRecordMetadataLen_def MaxRecordStatusLen_def MaxRegistryNameLen_def
  MaxRegistryDescriptionLen_def MaxRegistryMetadataLen_def

definition validateMaxLen :: "string \<Rightarrow> string \<Rightarrow> nat \<Rightarrow> unit result" where
  "validateMaxLen field value mx =
     (if mx \<le> 0 then Inl (ErrMsg (''invalid max length for '' @ field))
      else if length value > mx
      then Inl (ErrMsg (field @ '' exceeds max length: got='' @ dec_string (length value)
                          @ '' max='' @ dec_string mx))
      else Inr ())"

definition ValidateRecordStatus :: "string \<Rightarrow> unit result" where
  "ValidateRecordStatus status =
     (if status = '''' then Inl (ErrMsg ''status cannot be empty'')
      else validateMaxLen ''status'' status MaxRecordStatusLen)"

definition ValidateRegistryForCreate :: "string \<Rightarrow> string \<Rightarrow> string \<Rightarrow> unit result" where
  "ValidateRegistryForCreate name description metadata =
     (if name = '''' then Inl (ErrMsg ''name cannot be empty'')
      else res_bind (validateMaxLen ''name'' name MaxRegistryNameLen) (\<lambda>_.
           res_bind (validateMaxLen ''description'' description MaxRegistryDescriptionLen) (\<lambda>_.
           res_bind (validateMaxLen ''metadata'' metadata MaxRegistryMetadataLen) (\<lambda>_.
           Inr ()))))"

definition ValidateRegistry :: "env \<Rightarrow> Registry \<Rightarrow> unit result" where
  "ValidateRegistry E r =
     (if reg_Id r \<le> 0 then Inl (ErrMsg ''id cannot be <= 0'')
      else if reg_Creator r = '''' then Inl (ErrMsg ''creator cannot be empty'')
      else res_bind (res_map_err (ErrWrap ''invalid creator address'')
                       (AccAddressFromBech32 E (reg_Creator r))) (\<lambda>_.
           ValidateRegistryForCreate (reg_Name r) (reg_Description r) (reg_Metadata r)))"

definition ValidateRecordForCreate :: "Record \<Rightarrow> unit result" where
  "ValidateRecordForCreate record =
     (if rec_Checksum record = '''' then Inl (ErrMsg ''checksum cannot be empty'')
      else if rec_ChecksumAlgo record = '''' then Inl (ErrMsg ''checksum algorithm cannot be empty'')
      else if rec_Uri record = '''' then Inl (ErrMsg ''uri cannot be empty'')
      else if rec_Metadata record = '''' \<or> rec_Metadata record = ''{}''
      then Inl (ErrMsg ''metadata cannot be empty'')
      else if rec_RegistryId record = 0 then Inl (ErrMsg ErrMsgRegistryIDZero)
      else
        res_bind (validateMaxLen ''checksum'' (rec_Checksum record) MaxRecordChecksumLen) (\<lambda>_.
        res_bind (validateMaxLen ''checksum algorithm'' (rec_ChecksumAlgo record) MaxRecordChecksumAlgoLen) (\<lambda>_.
        res_bind (validateMaxLen ''uri'' (rec_Uri record) MaxRecordURILen) (\<lambda>_.
        res_bind (validateMaxLen ''metadata'' (rec_Metadata record) MaxRecordMetadataLen) (\<lambda>_.
        ValidateRecordStatus (rec_Status record))))))"

definition ValidateRecord :: "Record \<Rightarrow> unit result" where
  "ValidateRecord r =
     (if rec_RecordId r \<le> 0 then Inl (ErrMsg ''record_id cannot be <= 0'')
      else if rec_Index r \<le> 0 then Inl (ErrMsg ''index cannot be <= 0'')
      else ValidateRecordForCreate r)"

section \<open>Version groups\<close>

record RecordVersionGroup =
  MaxIndex :: u64
  LatestIndex :: u64
  LatestCount :: nat

definition empty_group :: RecordVersionGroup where
  "empty_group = \<lparr>MaxIndex = 0, LatestIndex = 0, LatestCount = 0\<rparr>"

definition RecordVersionGroup_Add :: "Record \<Rightarrow> RecordVersionGroup \<Rightarrow> RecordVersionGroup" where
  "RecordVersionGroup_Add r g =
     (let g1 = (if rec_Index r > MaxIndex g then g\<lparr>MaxIndex := rec_Index r\<rparr> else g)
      in if rec_IsLatest r
         then g1\<lparr>LatestIndex := rec_Index r, LatestCount := LatestCount g1 + 1\<rparr>
         else g1)"

definition ValidateIsLatest :: "string \<Rightarrow> RecordVersionGroup \<Rightarrow> unit result" where
  "ValidateIsLatest label g =
     (if LatestCount g = 0 then Inl (ErrMsg (label @ '' has no record with is_latest=true''))
      else if LatestCount g > 1
      then Inl (ErrMsg (label @ '' has '' @ dec_string (LatestCount g)
                          @ '' records with is_latest=true, expected 1''))
      else if LatestIndex g \<noteq> MaxIndex g
      then Inl (ErrMsg (label @ '' is_latest=true is on index '' @ sprint_u64 (LatestIndex g)
                          @ '' but max index is '' @ sprint_u64 (MaxIndex g)))
      else Inr ())"

section \<open>Parameters\<close>

definition DefaultAdminAddress :: string where
  "DefaultAdminAddress = ''nvnm15m77x4pe6w9vtpuqm22qxu0ds7vn4ehzxt8qca''"

definition NewParams :: "string \<Rightarrow> Params" where
  "NewParams admin = \<lparr>par_Admin = admin\<rparr>"

definition DefaultParams :: Params where
  "DefaultParams = NewParams DefaultAdminAddress"

definition ValidateAdminAddress :: "env \<Rightarrow> string \<Rightarrow> unit result" where
  "ValidateAdminAddress E address =
     (if address = '''' then Inl (ErrMsg ''admin address cannot be empty'')
      else res_bind (res_map_err (ErrWrap ''invalid admin address'') (AccAddressFromBech32 E address)) (\<lambda>_.
           Inr ()))"

definition Params_Validate :: "env \<Rightarrow> Params \<Rightarrow> unit result" where
  "Params_Validate E p = ValidateAdminAddress E (par_Admin p)"

definition DefaultGenesis :: GenesisState where
  "DefaultGenesis = \<lparr>gs_Params = DefaultParams, gs_Registries = [], gs_Records = [],
     gs_RoleAdmins = [], gs_RoleMembers = []\<rparr>"

section \<open>ValidateBasic\<close>

definition MsgAddRegistry_ValidateBasic :: "env \<Rightarrow> MsgAddRegistry \<Rightarrow> unit result" where
  "MsgAddRegistry_ValidateBasic E msg =
     (if mar_Sender msg = '''' then Inl (ErrMsg ''sender address cannot be empty'')
      else res_bind (res_map_err (ErrWrap ''invalid sender address'')
                       (AccAddressFromBech32 E (mar_Sender msg))) (\<lambda>_.
           ValidateRegistryForCreate (mar_Name msg) (mar_Description msg) (mar_Metadata msg)))"

definition MsgAddRecord_ValidateBasic :: "env \<Rightarrow> MsgAddRecord \<Rightarrow> unit result" where
  "MsgAddRecord_ValidateBasic E msg =
     (if mrc_Sender msg = '''' then Inl (ErrMsg ''sender address cannot be empty'')
      else res_bind (res_map_err (ErrWrap ''invalid sender address'')
                       (AccAddressFromBech32 E (mrc_Sender msg))) (\<lambda>_.
           case mrc_Record msg of
             None \<Rightarrow> Inl (ErrMsg ''record cannot be nil'')
           | Some record \<Rightarrow> ValidateRecordForCreate record))"

definition MsgUpdateRecordStatus_ValidateBasic :: "env \<Rightarrow> MsgUpdateRecordStatus \<Rightarrow> unit result" where
  "MsgUpdateRecordStatus_ValidateBasic E msg =
     (if mus_Editor msg = '''' then Inl (ErrMsg ''Editor address cannot be empty'')
      else res_bind (res_map_err (ErrWrap ''invalid Editor address'')
                       (AccAddressFromBech32 E (mus_Editor msg))) (\<lambda>_.
           if mus_RecordId msg = 0 then Inl (ErrMsg ''record ID cannot be zero'')
           else res_bind (ValidateRecordStatus (mus_Status msg)) (\<lambda>_.
             if mus_RegistryId msg = 0 then Inl (ErrMsg ErrMsgRegistryIDZero)
             else if mus_Index msg = 0 then Inl (ErrMsg ''index cannot be zero'')
             else Inr ())))"

text \<open>The two role messages are checked by the same sequence of tests.\<close>

definition role_msg_check :: "env \<Rightarrow> string \<Rightarrow> string \<Rightarrow> u64 \<Rightarrow> string \<Rightarrow> string \<Rightarrow> unit result" where
  "role_msg_check E admin address registryId checksum role =
     (if admin = '''' then Inl (ErrMsg ''admin address cannot be empty'')
      else res_bind (res_map_err (ErrWrap ''invalid admin address'') (AccAddressFromBech32 E admin)) (\<lambda>_.
        if address = '''' then Inl (ErrMsg ''grantee address cannot be empty'')
        else res_bind (res_map_err (ErrWrap ''invalid grantee address'')
                         (AccAddressFromBech32 E address)) (\<lambda>_.
          if registryId = 0 then Inl (ErrMsg ErrMsgRegistryIDZero)
          else res_bind (validateMaxLen ''checksum'' checksum MaxRecordChecksumLen) (\<lambda>_.
            if role = '''' then Inl (ErrMsg ''role cannot be empty'') else Inr ()))))"

definition MsgGrantRole_ValidateBasic :: "env \<Rightarrow> MsgGrantRole \<Rightarrow> unit result" where
  "MsgGrantRole_ValidateBasic E msg =
     role_msg_check E (mgr_Admin msg) (mgr_Address msg) (mgr_RegistryId msg) (mgr_Checksum msg) (mgr_Role msg)"

definition MsgRevokeRole_ValidateBasic :: "env \<Rightarrow> MsgRevokeRole \<Rightarrow> unit result" where
  "MsgRevokeRole_ValidateBasic E msg =
     role_msg_check E (mrr_Admin msg) (mrr_Address msg) (mrr_RegistryId msg) (mrr_Checksum msg) (mrr_Role msg)"

definition MsgUpdateParams_ValidateBasic :: "env \<Rightarrow> MsgUpdateParams \<Rightarrow> unit result" where
  "MsgUpdateParams_ValidateBasic E msg =
     (if mup_Authority msg = '''' then Inl (ErrMsg ''Authority address cannot be empty'')
      else res_bind (res_map_err (ErrWrap ''invalid Authority address'')
                       (AccAddressFromBech32 E (mup_Authority msg))) (\<lambda>_.
        if mup_Admin msg \<noteq> ''''
        then res_bind (res_map_err (ErrWrap ''invalid admin address'')
                         (AccAddressFromBech32 E (mup_Admin msg))) (\<lambda>_. Inr ())
        else Inr ()))"

section \<open>What the checks accept\<close>

text \<open>The field conditions in one place; the Go functions test them one after the other.\<close>

definition registry_fields_ok :: "string \<Rightarrow> string \<Rightarrow> string \<Rightarrow> bool" where
  "registry_fields_ok name description metadata \<longleftrightarrow>
     name \<noteq> '''' \<and> length name \<le> MaxRegistryNameLen \<and>
     length description \<le> MaxRegistryDescriptionLen \<and> length metadata \<le> MaxRegistryMetadataLen"

definition status_ok :: "string \<Rightarrow> bool" where
  "status_ok status \<longleftrightarrow> status \<noteq> '''' \<and> length status \<le> MaxRecordStatusLen"

definition record_fields_ok :: "Record \<Rightarrow> bool" where
  "record_fields_ok r \<longleftrightarrow>
     rec_Checksum r \<noteq> '''' \<and> length (rec_Checksum r) \<le> MaxRecordChecksumLen \<and>
     rec_ChecksumAlgo r \<noteq> '''' \<and> length (rec_ChecksumAlgo r) \<le> MaxRecordChecksumAlgoLen \<and>
     rec_Uri r \<noteq> '''' \<and> length (rec_Uri r) \<le> MaxRecordURILen \<and>
     rec_Metadata r \<noteq> '''' \<and> rec_Metadata r \<noteq> ''{}'' \<and> length (rec_Metadata r) \<le> MaxRecordMetadataLen \<and>
     rec_RegistryId r \<noteq> 0 \<and> status_ok (rec_Status r)"

lemma validateMaxLen_iff: "validateMaxLen f v mx = Inr u \<longleftrightarrow> 0 < mx \<and> length v \<le> mx"
  by (auto simp: validateMaxLen_def)

lemma ValidateRecordStatus_iff: "ValidateRecordStatus st = Inr u \<longleftrightarrow> status_ok st"
  by (auto simp: ValidateRecordStatus_def status_ok_def validateMaxLen_iff limit_defs)

lemma ValidateRegistryForCreate_iff:
  "ValidateRegistryForCreate n d m = Inr u \<longleftrightarrow> registry_fields_ok n d m"
  by (auto simp: ValidateRegistryForCreate_def registry_fields_ok_def validateMaxLen_iff
      res_bind_Inr_iff limit_defs)

lemma ValidateRecordForCreate_iff: "ValidateRecordForCreate r = Inr u \<longleftrightarrow> record_fields_ok r"
  by (auto simp: ValidateRecordForCreate_def record_fields_ok_def validateMaxLen_iff
      ValidateRecordStatus_iff res_bind_Inr_iff limit_defs)

lemma ValidateRecord_iff:
  "ValidateRecord r = Inr u \<longleftrightarrow> rec_RecordId r \<noteq> 0 \<and> rec_Index r \<noteq> 0 \<and> record_fields_ok r"
  by (auto simp: ValidateRecord_def ValidateRecordForCreate_iff)

lemma ValidateRegistry_iff:
  "ValidateRegistry E r = Inr u \<longleftrightarrow>
     reg_Id r \<noteq> 0 \<and> reg_Creator r \<noteq> '''' \<and> res_ok (AccAddressFromBech32 E (reg_Creator r)) \<and>
     registry_fields_ok (reg_Name r) (reg_Description r) (reg_Metadata r)"
  by (auto simp: ValidateRegistry_def ValidateRegistryForCreate_iff res_bind_Inr_iff res_ok_iff)

lemma role_msg_check_iff:
  "role_msg_check E admin address rid checksum role = Inr u \<longleftrightarrow>
     admin \<noteq> '''' \<and> res_ok (AccAddressFromBech32 E admin) \<and>
     address \<noteq> '''' \<and> res_ok (AccAddressFromBech32 E address) \<and>
     rid \<noteq> 0 \<and> length checksum \<le> MaxRecordChecksumLen \<and> role \<noteq> ''''"
  by (auto simp: role_msg_check_def validateMaxLen_iff res_bind_Inr_iff res_ok_iff limit_defs)

lemma MsgAddRegistry_ValidateBasic_iff:
  "MsgAddRegistry_ValidateBasic E msg = Inr u \<longleftrightarrow>
     mar_Sender msg \<noteq> '''' \<and> res_ok (AccAddressFromBech32 E (mar_Sender msg)) \<and>
     registry_fields_ok (mar_Name msg) (mar_Description msg) (mar_Metadata msg)"
  by (auto simp: MsgAddRegistry_ValidateBasic_def ValidateRegistryForCreate_iff res_bind_Inr_iff res_ok_iff)

lemma MsgAddRecord_ValidateBasic_iff:
  "MsgAddRecord_ValidateBasic E msg = Inr u \<longleftrightarrow>
     mrc_Sender msg \<noteq> '''' \<and> res_ok (AccAddressFromBech32 E (mrc_Sender msg)) \<and>
     (\<exists>r. mrc_Record msg = Some r \<and> record_fields_ok r)"
  by (auto simp: MsgAddRecord_ValidateBasic_def ValidateRecordForCreate_iff res_bind_Inr_iff res_ok_iff
      split: option.splits)

lemma MsgUpdateRecordStatus_ValidateBasic_iff:
  "MsgUpdateRecordStatus_ValidateBasic E msg = Inr u \<longleftrightarrow>
     mus_Editor msg \<noteq> '''' \<and> res_ok (AccAddressFromBech32 E (mus_Editor msg)) \<and>
     mus_RecordId msg \<noteq> 0 \<and> status_ok (mus_Status msg) \<and> mus_RegistryId msg \<noteq> 0 \<and> mus_Index msg \<noteq> 0"
  by (auto simp: MsgUpdateRecordStatus_ValidateBasic_def ValidateRecordStatus_iff res_bind_Inr_iff res_ok_iff)

lemma Params_Validate_iff:
  "Params_Validate E p = Inr u \<longleftrightarrow> par_Admin p \<noteq> '''' \<and> res_ok (AccAddressFromBech32 E (par_Admin p))"
  by (auto simp: Params_Validate_def ValidateAdminAddress_def res_bind_Inr_iff res_ok_iff)

lemmas validate_iffs =
  ValidateRecordStatus_iff ValidateRegistryForCreate_iff ValidateRecordForCreate_iff
  ValidateRecord_iff ValidateRegistry_iff role_msg_check_iff MsgAddRegistry_ValidateBasic_iff
  MsgAddRecord_ValidateBasic_iff MsgUpdateRecordStatus_ValidateBasic_iff Params_Validate_iff

end
