(* ===== verification/Rbac.thy ===== *)
theory Rbac
  imports Anchoring_Types
begin

text \<open>
  \<open>x/anchoring/rbac\<close>: roles (\<open>role.go\<close>) and the role keeper (\<open>keeper.go\<close>). The state is
  a record that the anchoring keeper extends, so every operation here also runs on the
  whole keeper; the events an operation emits go to the event list of the same state.
\<close>

section \<open>Roles\<close>

type_synonym role = bytes

definition RoleSize :: nat where
  "RoleSize = 32"

definition NewRole :: "env \<Rightarrow> bytes \<Rightarrow> role" where
  "NewRole E bz = BytesToHash E bz"

definition NewRoleHash :: "env \<Rightarrow> string \<Rightarrow> role" where
  "NewRoleHash E ident = Keccak256 E (bytes_of_string ident)"

definition Role_Bytes :: "role \<Rightarrow> bytes" where
  "Role_Bytes role = role"

definition RoleCodec_Encode :: "env \<Rightarrow> role \<Rightarrow> bytes" where
  "RoleCodec_Encode E key = BytesKeyEncode E (Role_Bytes key)"

definition RoleCodec_Decode :: "env \<Rightarrow> bytes \<Rightarrow> (nat \<times> role) result" where
  "RoleCodec_Decode E buffer = res_bind (BytesKeyDecode E buffer) (\<lambda>(n, bz). Inr (n, NewRole E bz))"

definition RoleCodec_EncodeNonTerminal :: "env \<Rightarrow> role \<Rightarrow> bytes" where
  "RoleCodec_EncodeNonTerminal E key = RoleCodec_Encode E key"

definition RoleCodec_DecodeNonTerminal :: "env \<Rightarrow> bytes \<Rightarrow> (nat \<times> role) result" where
  "RoleCodec_DecodeNonTerminal E buffer =
     (if length buffer < RoleSize
      then Inl (ErrMsg (''buffer too small for non-terminal role decode: need '' @ dec_string RoleSize
                          @ '', got '' @ dec_string (length buffer)))
      else RoleCodec_Decode E (take RoleSize buffer))"

section \<open>The role keeper\<close>

record rbac_state =
  RoleAdmins :: "(role, bytes) coll"
  RoleMembers :: "(role \<times> addr, bytes) coll"
  Events :: "event list"

definition EmitEvent :: "event \<Rightarrow> ('z rbac_state_scheme, unit) act" where
  "EmitEvent ev = act_put (\<lambda>s. s\<lparr>Events := Events s @ [ev]\<rparr>)"

definition HasRole :: "role \<Rightarrow> addr \<Rightarrow> 'z rbac_state_scheme \<Rightarrow> bool result" where
  "HasRole role ad s = Inr (chas (RoleMembers s) (role, ad))"

text \<open>The walk counts the members it sees in \<open>seen\<close> and stops at the second.\<close>

definition IsSoleAdmin :: "role \<Rightarrow> 'z rbac_state_scheme \<Rightarrow> bool result" where
  "IsSoleAdmin adminRole s =
     (case walk (\<lambda>_ seen. (Inr (2 \<le> seen + 1), seen + 1)) (cprefix adminRole (RoleMembers s)) (0 :: u64) of
        (Inl e, _) \<Rightarrow> Inl e
      | (Inr _, seen) \<Rightarrow> Inr (seen = 1))"

definition GetRoleAdmin :: "env \<Rightarrow> role \<Rightarrow> 'z rbac_state_scheme \<Rightarrow> role result" where
  "GetRoleAdmin E role s =
     (case cget (RoleAdmins s) role of
        None \<Rightarrow> Inl (ErrRoleAdminNotConfigured role)
      | Some bz \<Rightarrow> Inr (NewRole E bz))"

definition SetRoleAdmin :: "role \<Rightarrow> role \<Rightarrow> ('z rbac_state_scheme, unit) act" where
  "SetRoleAdmin role adminRole =
     act_put (\<lambda>s. s\<lparr>RoleAdmins := cset role (Role_Bytes adminRole) (RoleAdmins s)\<rparr>)"

definition GrantRoleUnchecked :: "env \<Rightarrow> role \<Rightarrow> addr \<Rightarrow> addr \<Rightarrow> ('z rbac_state_scheme, unit) act" where
  "GrantRoleUnchecked E role ad granter =
     act_bind (EmitEvent (''grant_role'',
                 [(''grantee'', AccString E ad), (''granter'', AccString E granter), (''role'', HashHex E role)])) (\<lambda>_.
     act_put (\<lambda>s. s\<lparr>RoleMembers := cset (role, ad) [] (RoleMembers s)\<rparr>))"

definition RevokeRoleUnchecked :: "env \<Rightarrow> role \<Rightarrow> addr \<Rightarrow> addr \<Rightarrow> ('z rbac_state_scheme, unit) act" where
  "RevokeRoleUnchecked E role ad revoker =
     act_bind (EmitEvent (''revoke_role'',
                 [(''revokee'', AccString E ad), (''revoker'', AccString E revoker), (''role'', HashHex E role)])) (\<lambda>_.
     act_put (\<lambda>s. s\<lparr>RoleMembers := cremove (role, ad) (RoleMembers s)\<rparr>))"

definition GrantRole :: "env \<Rightarrow> role \<Rightarrow> addr \<Rightarrow> addr \<Rightarrow> ('z rbac_state_scheme, unit) act" where
  "GrantRole E role ad granter =
     act_bind (act_get (GetRoleAdmin E role)) (\<lambda>adminRole.
     act_bind (act_get (HasRole adminRole granter)) (\<lambda>hasAdminRole.
     if \<not> hasAdminRole then act_fail (ErrMissingRole granter adminRole)
     else GrantRoleUnchecked E role ad granter))"

definition RevokeRole :: "env \<Rightarrow> role \<Rightarrow> addr \<Rightarrow> addr \<Rightarrow> ('z rbac_state_scheme, unit) act" where
  "RevokeRole E role ad revoker =
     act_bind (act_get (GetRoleAdmin E role)) (\<lambda>adminRole.
     act_bind (act_get (HasRole adminRole revoker)) (\<lambda>hasAdminRole.
     if \<not> hasAdminRole then act_fail (ErrMissingRole revoker adminRole)
     else RevokeRoleUnchecked E role ad revoker))"

section \<open>Role identifiers\<close>

text \<open>The strings whose hashes are the roles of a record and of a registry (\<open>keeper.go\<close>).\<close>

definition RoleAdmin :: string where "RoleAdmin = ''admin''"
definition RoleEditor :: string where "RoleEditor = ''editor''"

definition record_role_id :: "u64 \<Rightarrow> string \<Rightarrow> string \<Rightarrow> string" where
  "record_role_id registryId checksum role =
     ''record:'' @ sprint_u64 registryId @ '':'' @ hex_string checksum @ '':'' @ hex_string role"

definition registry_role_id :: "u64 \<Rightarrow> string \<Rightarrow> string" where
  "registry_role_id registryId role = ''registry:'' @ sprint_u64 registryId @ '':'' @ role"

definition RecordRole :: "env \<Rightarrow> u64 \<Rightarrow> string \<Rightarrow> string \<Rightarrow> role" where
  "RecordRole E registryId checksum role = NewRoleHash E (record_role_id registryId checksum role)"

definition RegistryRole :: "env \<Rightarrow> u64 \<Rightarrow> string \<Rightarrow> role" where
  "RegistryRole E registryId role = NewRoleHash E (registry_role_id registryId role)"

text \<open>
  The identifiers separate the roles: a registry id prints without a colon and the
  user-controlled parts of a record role are hex, so no choice of checksum or role name
  makes two identifiers coincide.
\<close>

lemma registry_role_id_inj:
  "registry_role_id r a = registry_role_id r' a' \<longleftrightarrow> r = r' \<and> a = a'"
  using append_sep_eq [OF sprint_u64_no_colon [of r] sprint_u64_no_colon [of r'], of a a']
  by (auto simp: registry_role_id_def sprint_u64_inj)

lemma record_role_id_inj:
  "record_role_id r c a = record_role_id r' c' a' \<longleftrightarrow> r = r' \<and> c = c' \<and> a = a'"
  using append_sep_eq [OF sprint_u64_no_colon [of r] sprint_u64_no_colon [of r'],
      of "hex_string c @ '':'' @ hex_string a" "hex_string c' @ '':'' @ hex_string a'"]
    append_sep_eq [OF hex_string_no_colon [of c] hex_string_no_colon [of c'],
      of "hex_string a" "hex_string a'"]
  by (auto simp: record_role_id_def sprint_u64_inj hex_string_inj)

lemma record_registry_role_id_neq:
  "record_role_id r c a \<noteq> registry_role_id r' a'"
  "registry_role_id r' a' \<noteq> record_role_id r c a"
  by (auto simp: record_role_id_def registry_role_id_def)

lemmas role_id_eqs = registry_role_id_inj record_role_id_inj record_registry_role_id_neq

section \<open>Members of a role\<close>

definition is_member :: "'z rbac_state_scheme \<Rightarrow> role \<Rightarrow> addr \<Rightarrow> bool" where
  "is_member s role ad = chas (RoleMembers s) (role, ad)"

definition admin_role_of :: "env \<Rightarrow> 'z rbac_state_scheme \<Rightarrow> role \<Rightarrow> role option" where
  "admin_role_of E s role = map_option (NewRole E) (cget (RoleAdmins s) role)"

lemma HasRole_iff [simp]: "HasRole role ad s = Inr b \<longleftrightarrow> b = is_member s role ad"
  by (auto simp: HasRole_def is_member_def)

lemma GetRoleAdmin_iff: "GetRoleAdmin E role s = Inr r \<longleftrightarrow> admin_role_of E s role = Some r"
  by (auto simp: GetRoleAdmin_def admin_role_of_def split: option.splits)

lemma members_of_cprefix:
  "ad \<in> snd ` fst ` set (cprefix role (RoleMembers s)) \<longleftrightarrow> is_member s role ad"
proof
  assume "ad \<in> snd ` fst ` set (cprefix role (RoleMembers s))"
  then show "is_member s role ad"
    by (auto simp: is_member_def chas_iff mem_cprefix_iff)
next
  assume "is_member s role ad"
  then obtain v where "((role, ad), v) \<in> set (cprefix role (RoleMembers s))"
    by (auto simp: is_member_def chas_iff mem_cprefix_iff)
  then show "ad \<in> snd ` fst ` set (cprefix role (RoleMembers s))"
    by (force simp: image_iff)
qed

text \<open>Stopping at the second member does not change the answer.\<close>

lemma walk_two:
  "walk (\<lambda>_ seen. (Inr (2 \<le> seen + 1), seen + 1)) xs (0 :: u64)
     = (Inr (), of_nat (min 2 (length xs)))"
proof (cases xs)
  case (Cons x ys)
  have "\<not> (2 :: u64) \<le> 1" by (simp add: word_le_nat_alt)
  with Cons show ?thesis by (cases ys) auto
qed simp

lemma IsSoleAdmin_length: "IsSoleAdmin role s = Inr (length (cprefix role (RoleMembers s)) = 1)"
proof -
  let ?n = "length (cprefix role (RoleMembers s))"
  have "(of_nat (min 2 ?n) = (1 :: u64)) = (?n = 1)"
    by (cases "cprefix role (RoleMembers s)"; cases "tl (cprefix role (RoleMembers s))") auto
  then show ?thesis
    by (simp add: IsSoleAdmin_def walk_two)
qed

lemma card_members: "card {ad. is_member s role ad} = length (cprefix role (RoleMembers s))"
proof -
  let ?es = "cprefix role (RoleMembers s)"
  have "{ad. is_member s role ad} = set (map snd (map fst ?es))"
    using members_of_cprefix [of _ role s] by auto
  moreover have "distinct (map snd (map fst ?es))"
    using distinct_cprefix [of role "RoleMembers s"]
    by (auto simp: distinct_map inj_on_def mem_cprefix_iff)
  ultimately show ?thesis
    by (metis distinct_card length_map)
qed

lemma IsSoleAdmin_card: "IsSoleAdmin role s = Inr (card {ad. is_member s role ad} = 1)"
  by (simp add: IsSoleAdmin_length card_members)

lemma finite_members: "finite {ad. is_member s role ad}"
proof -
  have "{ad. is_member s role ad} \<subseteq> snd ` fst ` set (cprefix role (RoleMembers s))"
    using members_of_cprefix [of _ role s] by blast
  then show ?thesis by (rule finite_subset) simp
qed

section \<open>The contract of the role keeper\<close>

text \<open>
  What the message server relies on: a grant or revocation that succeeds was made by a
  member of the role's admin role, changes the membership of exactly that account in
  exactly that role and touches no admin role; one that fails changes nothing.
\<close>

locale access_control =
  fixes member :: "'s \<Rightarrow> 'r \<Rightarrow> 'a \<Rightarrow> bool"
    and admin_of :: "'s \<Rightarrow> 'r \<Rightarrow> 'r option"
    and grant :: "'r \<Rightarrow> 'a \<Rightarrow> 'a \<Rightarrow> 's \<Rightarrow> unit result \<times> 's"
    and revoke :: "'r \<Rightarrow> 'a \<Rightarrow> 'a \<Rightarrow> 's \<Rightarrow> unit result \<times> 's"
  assumes grant_auth: "grant r a g s = (Inr u, s') \<Longrightarrow> \<exists>ar. admin_of s r = Some ar \<and> member s ar g"
    and grant_effect: "grant r a g s = (Inr u, s') \<Longrightarrow>
      member s' r' a' \<longleftrightarrow> (r' = r \<and> a' = a) \<or> member s r' a'"
    and grant_admins: "grant r a g s = (res, s') \<Longrightarrow> admin_of s' = admin_of s"
    and grant_fail: "grant r a g s = (Inl e, s') \<Longrightarrow> s' = s"
    and revoke_auth: "revoke r a g s = (Inr u, s') \<Longrightarrow> \<exists>ar. admin_of s r = Some ar \<and> member s ar g"
    and revoke_effect: "revoke r a g s = (Inr u, s') \<Longrightarrow>
      member s' r' a' \<longleftrightarrow> \<not> (r' = r \<and> a' = a) \<and> member s r' a'"
    and revoke_admins: "revoke r a g s = (res, s') \<Longrightarrow> admin_of s' = admin_of s"
    and revoke_fail: "revoke r a g s = (Inl e, s') \<Longrightarrow> s' = s"
begin

text \<open>An account that administers no role cannot change any membership.\<close>

lemma outsider_changes_nothing:
  assumes outsider: "\<And>r ar. admin_of s r = Some ar \<Longrightarrow> \<not> member s ar g"
  shows "snd (grant r a g s) = s" "snd (revoke r a g s) = s"
proof -
  have "s' = s" if "grant r a g s = (res, s')" for res s'
    using that outsider grant_auth [of r a g s] grant_fail [of r a g s] by (cases res) blast+
  then show "snd (grant r a g s) = s" by (cases "grant r a g s") auto
  have "s' = s" if "revoke r a g s = (res, s')" for res s'
    using that outsider revoke_auth [of r a g s] revoke_fail [of r a g s] by (cases res) blast+
  then show "snd (revoke r a g s) = s" by (cases "revoke r a g s") auto
qed

text \<open>A set of accounts that administer no role cannot change any membership by any sequence of calls.\<close>

lemma outsiders_sequence:
  assumes outsiders: "\<And>g r ar. g \<in> G \<Longrightarrow> admin_of s r = Some ar \<Longrightarrow> \<not> member s ar g"
    and calls: "\<forall>(is_grant, r, a, g) \<in> set calls. g \<in> G"
  shows "fold (\<lambda>(is_grant, r, a, g) t. snd (if is_grant then grant r a g t else revoke r a g t)) calls s = s"
  using calls
proof (induction calls)
  case Nil
  then show ?case by simp
next
  case (Cons c cs)
  obtain is_grant r a g where c: "c = (is_grant, r, a, g)" by (cases c) auto
  with Cons.prems have "g \<in> G" by auto
  then have "snd (if is_grant then grant r a g s else revoke r a g s) = s"
    using outsiders by (auto intro: outsider_changes_nothing)
  with Cons c show ?case by simp
qed

end

lemma GrantRoleUnchecked_run:
  "GrantRoleUnchecked E role ad granter s =
     (Inr (), s\<lparr>Events := Events s @ [(''grant_role'', [(''grantee'', AccString E ad),
                  (''granter'', AccString E granter), (''role'', HashHex E role)])],
               RoleMembers := cset (role, ad) [] (RoleMembers s)\<rparr>)"
  by (simp add: GrantRoleUnchecked_def EmitEvent_def act_defs)

lemma RevokeRoleUnchecked_run:
  "RevokeRoleUnchecked E role ad revoker s =
     (Inr (), s\<lparr>Events := Events s @ [(''revoke_role'', [(''revokee'', AccString E ad),
                  (''revoker'', AccString E revoker), (''role'', HashHex E role)])],
               RoleMembers := cremove (role, ad) (RoleMembers s)\<rparr>)"
  by (simp add: RevokeRoleUnchecked_def EmitEvent_def act_defs)

lemma GrantRole_run:
  "GrantRole E role ad granter s =
     (case admin_role_of E s role of
        None \<Rightarrow> (Inl (ErrRoleAdminNotConfigured role), s)
      | Some ar \<Rightarrow> if is_member s ar granter then GrantRoleUnchecked E role ad granter s
                   else (Inl (ErrMissingRole granter ar), s))"
  by (simp add: GrantRole_def act_defs GetRoleAdmin_def admin_role_of_def HasRole_def is_member_def
      split: option.splits)

lemma RevokeRole_run:
  "RevokeRole E role ad revoker s =
     (case admin_role_of E s role of
        None \<Rightarrow> (Inl (ErrRoleAdminNotConfigured role), s)
      | Some ar \<Rightarrow> if is_member s ar revoker then RevokeRoleUnchecked E role ad revoker s
                   else (Inl (ErrMissingRole revoker ar), s))"
  by (simp add: RevokeRole_def act_defs GetRoleAdmin_def admin_role_of_def HasRole_def is_member_def
      split: option.splits)

interpretation rb: access_control is_member "admin_role_of E" "GrantRole E" "RevokeRole E"
  for E :: env
  by unfold_locales
    (auto simp: GrantRole_run RevokeRole_run GrantRoleUnchecked_run RevokeRoleUnchecked_run
      is_member_def admin_role_of_def split: option.splits if_splits)

end
