(* ===== verification/Anchoring_Keeper.thy ===== *)
theory Anchoring_Keeper
  imports Rbac
begin

text \<open>
  \<open>x/anchoring/keeper\<close>: the state of the keeper (\<open>keeper.go\<close>) and its three write
  operations \<open>AddRegistry\<close>, \<open>AddRecord\<close> and \<open>UpdateRecordStatus\<close> (\<open>anchoring.go\<close>), with the
  permission checks they make. Every \<open>Get\<close>, \<open>Set\<close> and early return of the Go functions is
  a step of the model, in the same order.
\<close>

section \<open>State\<close>

text \<open>
  One field per collection of the \<open>Keeper\<close> struct; the role keeper's collections and the
  emitted events are the fields of \<open>rbac_state\<close>.
\<close>

record keeper = rbac_state +
  ParamsItem :: "Params option"
  Registries :: "(u64, Registry) coll"
  RegistryCount :: "u64 option"
  Records :: "(u64 \<times> u64 \<times> u64, Record) coll"
  RecordIdByRegistryAndChecksum :: "(u64 \<times> string, u64) coll"
  RecordsCountByRegistry :: "(u64, u64) coll"
  RecordIndices :: "(u64 \<times> u64, u64) coll"
  RecordIdByChecksumAndRegistry :: "(string \<times> u64, u64) coll"

text \<open>The state \<open>NewKeeper\<close> builds over an empty store.\<close>

definition NewKeeper :: keeper where
  "NewKeeper = \<lparr>RoleAdmins = cempty, RoleMembers = cempty, Events = [], ParamsItem = None,
     Registries = cempty, RegistryCount = None, Records = cempty,
     RecordIdByRegistryAndChecksum = cempty, RecordsCountByRegistry = cempty,
     RecordIndices = cempty, RecordIdByChecksumAndRegistry = cempty\<rparr>"

section \<open>Permissions\<close>

fun record_roles_loop :: "env \<Rightarrow> addr \<Rightarrow> u64 \<Rightarrow> string \<Rightarrow> string list \<Rightarrow> 'z keeper_scheme \<Rightarrow> bool result" where
  "record_roles_loop E sender registryId checksum [] k = Inr False"
| "record_roles_loop E sender registryId checksum (roleStr # roles) k =
     res_bind (HasRole (RecordRole E registryId checksum roleStr) sender k) (\<lambda>hasRole.
     if hasRole then Inr True else record_roles_loop E sender registryId checksum roles k)"

definition checkRecordRoles :: "env \<Rightarrow> addr \<Rightarrow> u64 \<Rightarrow> string \<Rightarrow> string list \<Rightarrow> 'z keeper_scheme \<Rightarrow> bool result" where
  "checkRecordRoles E sender registryId checksum roles k =
     (if checksum = '''' \<or> roles = [] then Inr False
      else record_roles_loop E sender registryId checksum roles k)"

fun registry_roles_loop :: "env \<Rightarrow> addr \<Rightarrow> u64 \<Rightarrow> string list \<Rightarrow> 'z keeper_scheme \<Rightarrow> bool result" where
  "registry_roles_loop E sender registryId [] k = Inr False"
| "registry_roles_loop E sender registryId (roleStr # roles) k =
     res_bind (HasRole (RegistryRole E registryId roleStr) sender k) (\<lambda>hasRole.
     if hasRole then Inr True else registry_roles_loop E sender registryId roles k)"

definition checkRegistryRoles :: "env \<Rightarrow> addr \<Rightarrow> u64 \<Rightarrow> string list \<Rightarrow> 'z keeper_scheme \<Rightarrow> bool result" where
  "checkRegistryRoles E sender registryId roles k =
     (if roles = [] then Inr False else registry_roles_loop E sender registryId roles k)"

definition checkPermission :: "env \<Rightarrow> addr \<Rightarrow> u64 \<Rightarrow> string \<Rightarrow> string list \<Rightarrow> 'z keeper_scheme \<Rightarrow> unit result" where
  "checkPermission E sender registryId checksum requiredRoles k =
     res_bind (checkRecordRoles E sender registryId checksum requiredRoles k) (\<lambda>hasRecordRole.
     if hasRecordRole then Inr ()
     else res_bind (checkRegistryRoles E sender registryId requiredRoles k) (\<lambda>hasRegRole.
     if hasRegRole then Inr ()
     else Inl ErrUnauthorized))"

section \<open>AddRegistry\<close>

definition initializeRegistryRecordCounter :: "u64 \<Rightarrow> ('z keeper_scheme, unit) act" where
  "initializeRegistryRecordCounter registryId =
     act_put (\<lambda>k. k\<lparr>RecordsCountByRegistry := cset registryId 0 (RecordsCountByRegistry k)\<rparr>)"

definition AddRegistry :: "env \<Rightarrow> ctx \<Rightarrow> addr \<Rightarrow> string \<Rightarrow> string \<Rightarrow> string \<Rightarrow> ('z keeper_scheme, u64) act" where
  "AddRegistry E cx sender name description metadata =
     act_bind (act_try (res_map_err ErrInvalidRequest (ValidateRegistryForCreate name description metadata))) (\<lambda>_.
     act_bind (act_get (\<lambda>k. item_Get (RegistryCount k))) (\<lambda>registryCount.
     let registryId = registryCount + 1;
         registry = \<lparr>reg_Id = registryId, reg_Name = name, reg_Description = description,
                     reg_Creator = AccString E sender, reg_CreatedAt = BlockTime cx,
                     reg_Metadata = metadata\<rparr>;
         adminRole = RegistryRole E registryId RoleAdmin
     in
     act_bind (act_put (\<lambda>k. k\<lparr>Registries := cset registryId registry (Registries k)\<rparr>)) (\<lambda>_.
     act_bind (SetRoleAdmin adminRole adminRole) (\<lambda>_.
     act_bind (act_try (StringToBytes E (AccString E sender))) (\<lambda>creator.
     act_bind (act_put (\<lambda>k. k\<lparr>RoleMembers := cset (adminRole, creator) [] (RoleMembers k)\<rparr>)) (\<lambda>_.
     act_bind (initializeRegistryRecordCounter registryId) (\<lambda>_.
     act_bind (act_put (\<lambda>k. k\<lparr>RegistryCount := Some registryId\<rparr>)) (\<lambda>_.
     act_bind (EmitEvent (''add_registry'',
                 [(''registry_id'', sprint_u64 registryId), (''registry_name'', name)])) (\<lambda>_.
     act_return registryId)))))))))"

section \<open>AddRecord\<close>

text \<open>The record id of a checksum in a registry: the one it has, or the next one, which is stored.\<close>

definition assign_record_id :: "env \<Rightarrow> u64 \<Rightarrow> string \<Rightarrow> ('z keeper_scheme, u64) act" where
  "assign_record_id E registryId checksum =
     (\<lambda>k. case coll_Get (RecordIdByRegistryAndChecksum k) (registryId, checksum) of
        Inr recordId \<Rightarrow> (Inr recordId, k)
      | Inl e \<Rightarrow>
          if e \<noteq> ErrCollNotFound then (Inl e, k)
          else
            act_bind (act_get (\<lambda>k. coll_Get (RecordsCountByRegistry k) registryId)) (\<lambda>recordCount.
            let recordId = recordCount + 1 in
            act_bind (act_put (\<lambda>k. k\<lparr>RecordsCountByRegistry :=
                         cset registryId recordId (RecordsCountByRegistry k)\<rparr>)) (\<lambda>_.
            act_bind (act_try (res_guard (key_ok E checksum) ErrCollEncoding)) (\<lambda>_.
            act_bind (act_put (\<lambda>k. k\<lparr>RecordIdByChecksumAndRegistry :=
                         cset (checksum, registryId) recordId (RecordIdByChecksumAndRegistry k)\<rparr>)) (\<lambda>_.
            act_bind (act_put (\<lambda>k. k\<lparr>RecordIdByRegistryAndChecksum :=
                         cset (registryId, checksum) recordId (RecordIdByRegistryAndChecksum k)\<rparr>)) (\<lambda>_.
            act_return recordId))))) k)"

text \<open>The index of the next version of a record: 1 for the first, else one more than the latest.\<close>

definition next_record_index :: "u64 \<Rightarrow> u64 \<Rightarrow> 'z keeper_scheme \<Rightarrow> u64 result" where
  "next_record_index registryId recordId k =
     (case coll_Get (RecordIndices k) (registryId, recordId) of
        Inr index \<Rightarrow> Inr (index + 1)
      | Inl e \<Rightarrow> if e = ErrCollNotFound then Inr 1 else Inl e)"

text \<open>The previous version stops being the latest one.\<close>

definition mark_previous :: "u64 \<Rightarrow> u64 \<Rightarrow> u64 \<Rightarrow> ('z keeper_scheme, unit) act" where
  "mark_previous registryId recordId index =
     (if index > 1
      then act_bind (act_get (\<lambda>k. coll_Get (Records k) (registryId, recordId, index - 1))) (\<lambda>prevRecord.
           act_put (\<lambda>k. k\<lparr>Records := cset (registryId, recordId, index - 1)
                                   (prevRecord\<lparr>rec_IsLatest := False\<rparr>) (Records k)\<rparr>))
      else act_return ())"

definition AddRecord :: "env \<Rightarrow> ctx \<Rightarrow> addr \<Rightarrow> Record \<Rightarrow> ('z keeper_scheme, u64) act" where
  "AddRecord E cx sender record =
     act_bind (act_try (res_map_err ErrInvalidRequest (ValidateRecordForCreate record))) (\<lambda>_.
     let registryId = rec_RegistryId record; checksum = rec_Checksum record in
     act_bind (act_get (\<lambda>k. coll_Get (Registries k) registryId)) (\<lambda>_.
     act_bind (act_get (checkPermission E sender registryId checksum [RoleAdmin, RoleEditor])) (\<lambda>_.
     act_bind (assign_record_id E registryId checksum) (\<lambda>recordId.
     act_bind (act_get (next_record_index registryId recordId)) (\<lambda>index.
     act_bind (act_put (\<lambda>k. k\<lparr>RecordIndices := cset (registryId, recordId) index (RecordIndices k)\<rparr>)) (\<lambda>_.
     let newRecord = record\<lparr>rec_RecordId := recordId, rec_Index := index,
                            rec_Timestamp := BlockTime cx, rec_IsLatest := True\<rparr> in
     act_bind (act_put (\<lambda>k. k\<lparr>Records := cset (registryId, recordId, index) newRecord (Records k)\<rparr>)) (\<lambda>_.
     act_bind (mark_previous registryId recordId index) (\<lambda>_.
     act_bind (EmitEvent (''add_record'',
                 [(''registry_id'', sprint_u64 registryId), (''record_id'', sprint_u64 recordId),
                  (''record_index'', sprint_u64 index), (''record_checksum'', checksum)])) (\<lambda>_.
     act_return recordId)))))))))"

section \<open>UpdateRecordStatus\<close>

definition UpdateRecordStatus ::
  "env \<Rightarrow> ctx \<Rightarrow> addr \<Rightarrow> u64 \<Rightarrow> u64 \<Rightarrow> u64 \<Rightarrow> string \<Rightarrow> ('z keeper_scheme, unit) act" where
  "UpdateRecordStatus E cx sender registryId recordId index newStatus =
     act_bind (act_try (res_map_err ErrInvalidRequest (ValidateRecordStatus newStatus))) (\<lambda>_.
     act_bind (act_get (\<lambda>k. coll_Get (Records k) (registryId, recordId, index))) (\<lambda>record.
     act_bind (act_get (checkPermission E sender registryId (rec_Checksum record) [RoleAdmin, RoleEditor])) (\<lambda>_.
     act_bind (act_put (\<lambda>k. k\<lparr>Records := cset (registryId, recordId, index)
                               (record\<lparr>rec_Status := newStatus\<rparr>) (Records k)\<rparr>)) (\<lambda>_.
     EmitEvent (''update_record_status'',
       [(''registry_id'', sprint_u64 registryId), (''record_id'', sprint_u64 recordId),
        (''record_index'', sprint_u64 index), (''record_status'', newStatus),
        (''record_checksum'', rec_Checksum record)])))))"

section \<open>What the permission check decides\<close>

definition has_permission :: "env \<Rightarrow> 'z rbac_state_scheme \<Rightarrow> addr \<Rightarrow> u64 \<Rightarrow> string \<Rightarrow> string list \<Rightarrow> bool" where
  "has_permission E k sender registryId checksum roles \<longleftrightarrow>
     (checksum \<noteq> '''' \<and> (\<exists>x \<in> set roles. is_member k (RecordRole E registryId checksum x) sender)) \<or>
     (\<exists>x \<in> set roles. is_member k (RegistryRole E registryId x) sender)"

text \<open>May this account write records of this checksum: an admin or editor of the record or of the registry.\<close>

definition can_write :: "env \<Rightarrow> 'z rbac_state_scheme \<Rightarrow> addr \<Rightarrow> u64 \<Rightarrow> string \<Rightarrow> bool" where
  "can_write E k sender registryId checksum =
     has_permission E k sender registryId checksum [RoleAdmin, RoleEditor]"

lemma record_roles_loop_eq:
  "record_roles_loop E sender r c roles k = Inr (\<exists>x \<in> set roles. is_member k (RecordRole E r c x) sender)"
  by (induction roles) (auto simp: HasRole_def is_member_def res_bind_def)

lemma registry_roles_loop_eq:
  "registry_roles_loop E sender r roles k = Inr (\<exists>x \<in> set roles. is_member k (RegistryRole E r x) sender)"
  by (induction roles) (auto simp: HasRole_def is_member_def res_bind_def)

lemma checkPermission_eq:
  "checkPermission E sender r c roles k
     = (if has_permission E k sender r c roles then Inr () else Inl ErrUnauthorized)"
  by (auto simp: checkPermission_def checkRecordRoles_def checkRegistryRoles_def has_permission_def
      record_roles_loop_eq registry_roles_loop_eq res_bind_def)

section \<open>Runs of the operations\<close>

text \<open>The state after a successful \<open>AddRegistry\<close>.\<close>

definition registry_added ::
  "env \<Rightarrow> ctx \<Rightarrow> addr \<Rightarrow> addr \<Rightarrow> string \<Rightarrow> string \<Rightarrow> string \<Rightarrow> u64 \<Rightarrow> 'z keeper_scheme \<Rightarrow> 'z keeper_scheme" where
  "registry_added E cx sender creator name description metadata rid k =
     (let role = RegistryRole E rid RoleAdmin in
      k\<lparr>Registries := cset rid \<lparr>reg_Id = rid, reg_Name = name, reg_Description = description,
            reg_Creator = AccString E sender, reg_CreatedAt = BlockTime cx, reg_Metadata = metadata\<rparr> (Registries k),
         RoleAdmins := cset role role (RoleAdmins k),
         RoleMembers := cset (role, creator) [] (RoleMembers k),
         RecordsCountByRegistry := cset rid 0 (RecordsCountByRegistry k),
         RegistryCount := Some rid,
         Events := Events k @ [(''add_registry'', [(''registry_id'', sprint_u64 rid), (''registry_name'', name)])]\<rparr>)"

lemma AddRegistry_Inr_iff:
  "AddRegistry E cx sender n d m k = (Inr rid, k') \<longleftrightarrow>
     registry_fields_ok n d m \<and>
     (\<exists>count creator. RegistryCount k = Some count \<and> StringToBytes E (AccString E sender) = Inr creator \<and>
        rid = count + 1 \<and> k' = registry_added E cx sender creator n d m rid k)"
  by (auto simp: AddRegistry_def act_success Let_def SetRoleAdmin_def Role_Bytes_def EmitEvent_def
      initializeRegistryRecordCounter_def registry_added_def validate_iffs)

text \<open>The record as \<open>AddRecord\<close> stores it, and the state after the version has been written.\<close>

definition stored_record :: "ctx \<Rightarrow> Record \<Rightarrow> u64 \<Rightarrow> u64 \<Rightarrow> Record" where
  "stored_record cx record i x =
     record\<lparr>rec_RecordId := i, rec_Index := x, rec_Timestamp := BlockTime cx, rec_IsLatest := True\<rparr>"

definition unlatest :: "Record option \<Rightarrow> (u64 \<times> u64 \<times> u64) \<Rightarrow> (u64 \<times> u64 \<times> u64, Record) coll \<Rightarrow> (u64 \<times> u64 \<times> u64, Record) coll" where
  "unlatest old key m = (case old of None \<Rightarrow> m | Some p \<Rightarrow> cset key (p\<lparr>rec_IsLatest := False\<rparr>) m)"

definition version_added :: "ctx \<Rightarrow> Record \<Rightarrow> u64 \<Rightarrow> u64 \<Rightarrow> 'z keeper_scheme \<Rightarrow> 'z keeper_scheme" where
  "version_added cx record i x k =
     (let r = rec_RegistryId record in
      k\<lparr>RecordIndices := cset (r, i) x (RecordIndices k),
         Records := unlatest (if 1 < x then cget (Records k) (r, i, x - 1) else None) (r, i, x - 1)
                      (cset (r, i, x) (stored_record cx record i x) (Records k)),
         Events := Events k @ [(''add_record'', [(''registry_id'', sprint_u64 r), (''record_id'', sprint_u64 i),
                      (''record_index'', sprint_u64 x), (''record_checksum'', rec_Checksum record)])]\<rparr>)"

definition id_assigned :: "u64 \<Rightarrow> string \<Rightarrow> u64 \<Rightarrow> 'z keeper_scheme \<Rightarrow> 'z keeper_scheme" where
  "id_assigned r c i k =
     k\<lparr>RecordsCountByRegistry := cset r i (RecordsCountByRegistry k),
       RecordIdByChecksumAndRegistry := cset (c, r) i (RecordIdByChecksumAndRegistry k),
       RecordIdByRegistryAndChecksum := cset (r, c) i (RecordIdByRegistryAndChecksum k)\<rparr>"

lemma assign_record_id_Inr_iff:
  "assign_record_id E r c k = (Inr i, k') \<longleftrightarrow>
     (cget (RecordIdByRegistryAndChecksum k) (r, c) = Some i \<and> k' = k) \<or>
     (cget (RecordIdByRegistryAndChecksum k) (r, c) = None \<and> key_ok E c \<and>
      (\<exists>count. cget (RecordsCountByRegistry k) r = Some count \<and> i = count + 1 \<and> k' = id_assigned r c i k))"
  by (auto simp: assign_record_id_def coll_Get_def id_assigned_def act_success Let_def
      split: option.splits)

definition next_index :: "'z keeper_scheme \<Rightarrow> u64 \<Rightarrow> u64 \<Rightarrow> u64" where
  "next_index k r i = (case cget (RecordIndices k) (r, i) of None \<Rightarrow> 1 | Some x \<Rightarrow> x + 1)"

lemma next_record_index_eq: "next_record_index r i k = Inr (next_index k r i)"
  by (simp add: next_record_index_def next_index_def coll_Get_def split: option.splits)

lemma AddRecord_Inr_iff:
  "AddRecord E cx sender record k = (Inr i, k') \<longleftrightarrow>
     (let r = rec_RegistryId record; c = rec_Checksum record in
      record_fields_ok record \<and> chas (Registries k) r \<and> can_write E k sender r c \<and>
      (\<exists>k1. assign_record_id E r c k = (Inr i, k1) \<and>
         (1 < next_index k1 r i \<longrightarrow> chas (Records k1) (r, i, next_index k1 r i - 1)) \<and>
         k' = version_added cx record i (next_index k1 r i) k1))"
proof -
  have run: "act_bind (act_put (\<lambda>k. k\<lparr>RecordIndices := cset (r, i) x (RecordIndices k)\<rparr>)) (\<lambda>_.
     act_bind (act_put (\<lambda>k. k\<lparr>Records := cset (r, i, x) new (Records k)\<rparr>)) (\<lambda>_.
     act_bind (mark_previous r i x) (\<lambda>_.
     act_bind (EmitEvent ev) (\<lambda>_. act_return i)))) k1 = (Inr j, k2) \<longleftrightarrow>
       j = i \<and> (1 < x \<longrightarrow> chas (Records k1) (r, i, x - 1)) \<and>
       k2 = k1\<lparr>RecordIndices := cset (r, i) x (RecordIndices k1),
               Records := unlatest (if 1 < x then cget (Records k1) (r, i, x - 1) else None) (r, i, x - 1)
                            (cset (r, i, x) new (Records k1)),
               Events := Events k1 @ [ev]\<rparr>"
    for r i x new ev j k2 and k1 :: "'z keeper_scheme"
    by (cases "1 < x"; cases "cget (Records k1) (r, i, x - 1)")
      (auto simp: act_defs mark_previous_def EmitEvent_def unlatest_def chas_def coll_Get_def)
  show ?thesis
    by (auto simp: AddRecord_def Let_def act_bind_Inr_iff [of "act_try _"] act_bind_Inr_iff [of "act_get _"]
        act_bind_Inr_iff [of "assign_record_id _ _ _"] run checkPermission_eq next_record_index_eq
        validate_iffs chas_iff can_write_def version_added_def stored_record_def split: if_splits)
qed

lemma UpdateRecordStatus_Inr_iff:
  "UpdateRecordStatus E cx sender r i x st k = (Inr u, k') \<longleftrightarrow>
     status_ok st \<and>
     (\<exists>record. cget (Records k) (r, i, x) = Some record \<and> can_write E k sender r (rec_Checksum record) \<and>
        k' = k\<lparr>Records := cset (r, i, x) (record\<lparr>rec_Status := st\<rparr>) (Records k),
               Events := Events k @ [(''update_record_status'',
                 [(''registry_id'', sprint_u64 r), (''record_id'', sprint_u64 i), (''record_index'', sprint_u64 x),
                  (''record_status'', st), (''record_checksum'', rec_Checksum record)])]\<rparr>)"
  by (auto simp: UpdateRecordStatus_def act_success checkPermission_eq can_write_def validate_iffs
      EmitEvent_def split: if_splits)

end
