(* ===== verification/Keeper_Invariant.thy ===== *)
theory Keeper_Invariant
  imports Anchoring_Keeper
begin

text \<open>
  The invariant of the keeper's collections and its preservation by the three write
  operations. \<open>keeper_wf\<close> is what every accepted genesis establishes; \<open>checksums_wf\<close> adds
  that a record id stands for one checksum; \<open>dense_wf\<close> adds that registry ids, record ids
  and version indexes run from 1 without gaps.
\<close>

section \<open>The invariant\<close>

definition registries_wf :: "'z keeper_scheme \<Rightarrow> bool" where
  "registries_wf k \<longleftrightarrow>
     (\<exists>n. RegistryCount k = Some n \<and>
        (\<forall>r g. cget (Registries k) r = Some g \<longrightarrow> reg_Id g = r \<and> r \<noteq> 0 \<and> r \<le> n)) \<and>
     (\<forall>r. chas (RecordsCountByRegistry k) r = chas (Registries k) r)"

definition lookup_wf :: "'z keeper_scheme \<Rightarrow> bool" where
  "lookup_wf k \<longleftrightarrow>
     (\<forall>r c. cget (RecordIdByChecksumAndRegistry k) (c, r) = cget (RecordIdByRegistryAndChecksum k) (r, c)) \<and>
     (\<forall>r c i. cget (RecordIdByRegistryAndChecksum k) (r, c) = Some i \<longrightarrow>
        (\<exists>x rc. cget (Records k) (r, i, x) = Some rc \<and> rec_Checksum rc = c))"

text \<open>The key of a stored record is in the record, and exactly the newest version is marked latest.\<close>

definition version_ok :: "'z keeper_scheme \<Rightarrow> u64 \<Rightarrow> u64 \<Rightarrow> u64 \<Rightarrow> Record \<Rightarrow> bool" where
  "version_ok k r i x rc \<longleftrightarrow>
     rec_RegistryId rc = r \<and> rec_RecordId rc = i \<and> rec_Index rc = x \<and> i \<noteq> 0 \<and> x \<noteq> 0 \<and>
     record_fields_ok rc \<and> chas (Registries k) r \<and>
     chas (RecordIdByRegistryAndChecksum k) (r, rec_Checksum rc) \<and>
     (\<exists>n. cget (RecordsCountByRegistry k) r = Some n \<and> i \<le> n) \<and>
     (\<exists>n. cget (RecordIndices k) (r, i) = Some n \<and> x \<le> n \<and> (rec_IsLatest rc \<longleftrightarrow> x = n))"

definition versions_wf :: "'z keeper_scheme \<Rightarrow> bool" where
  "versions_wf k \<longleftrightarrow>
     (\<forall>r i x rc. cget (Records k) (r, i, x) = Some rc \<longrightarrow> version_ok k r i x rc) \<and>
     (\<forall>r i n. cget (RecordIndices k) (r, i) = Some n \<longrightarrow> chas (Records k) (r, i, n))"

definition keeper_wf :: "'z keeper_scheme \<Rightarrow> bool" where
  "keeper_wf k \<longleftrightarrow> registries_wf k \<and> lookup_wf k \<and> versions_wf k"

definition checksums_wf :: "'z keeper_scheme \<Rightarrow> bool" where
  "checksums_wf k \<longleftrightarrow>
     (\<forall>r i x rc. cget (Records k) (r, i, x) = Some rc \<longrightarrow>
        cget (RecordIdByRegistryAndChecksum k) (r, rec_Checksum rc) = Some i) \<and>
     (\<forall>r c c' i. cget (RecordIdByRegistryAndChecksum k) (r, c) = Some i \<longrightarrow>
        cget (RecordIdByRegistryAndChecksum k) (r, c') = Some i \<longrightarrow> c' = c)"

definition registries_dense :: "'z keeper_scheme \<Rightarrow> bool" where
  "registries_dense k \<longleftrightarrow>
     (\<forall>n r. RegistryCount k = Some n \<longrightarrow> r \<noteq> 0 \<longrightarrow> r \<le> n \<longrightarrow> chas (Registries k) r)"

definition ids_dense :: "'z keeper_scheme \<Rightarrow> bool" where
  "ids_dense k \<longleftrightarrow>
     (\<forall>r n i. cget (RecordsCountByRegistry k) r = Some n \<longrightarrow> i \<noteq> 0 \<longrightarrow> i \<le> n \<longrightarrow>
        chas (RecordIndices k) (r, i))"

definition versions_dense :: "'z keeper_scheme \<Rightarrow> bool" where
  "versions_dense k \<longleftrightarrow>
     (\<forall>r i n x. cget (RecordIndices k) (r, i) = Some n \<longrightarrow> x \<noteq> 0 \<longrightarrow> x \<le> n \<longrightarrow> chas (Records k) (r, i, x))"

definition dense_wf :: "'z keeper_scheme \<Rightarrow> bool" where
  "dense_wf k \<longleftrightarrow> registries_dense k \<and> ids_dense k \<and> versions_dense k"

lemma versions_wfD: "versions_wf k \<Longrightarrow> cget (Records k) (r, i, x) = Some rc \<Longrightarrow> version_ok k r i x rc"
  by (simp add: versions_wf_def)

lemma versions_wf_latest: "versions_wf k \<Longrightarrow> cget (RecordIndices k) (r, i) = Some n \<Longrightarrow> chas (Records k) (r, i, n)"
  by (simp add: versions_wf_def)

lemma versions_wf_index_pos:
  "versions_wf k \<Longrightarrow> cget (RecordIndices k) (r, i) = Some n \<Longrightarrow> n \<noteq> 0"
  using versions_wf_latest [of k r i n] versions_wfD [of k r i n]
  by (auto simp: chas_iff version_ok_def)

lemma keeper_wf_parts: "keeper_wf k \<Longrightarrow> registries_wf k" "keeper_wf k \<Longrightarrow> lookup_wf k" "keeper_wf k \<Longrightarrow> versions_wf k"
  by (simp_all add: keeper_wf_def)

lemma lookup_wf_record:
  assumes "lookup_wf k" "cget (RecordIdByRegistryAndChecksum k) (r, c) = Some i"
  obtains x rc where "cget (Records k) (r, i, x) = Some rc" "rec_Checksum rc = c"
  using assms unfolding lookup_wf_def by blast

lemma registries_wf_counters: "registries_wf k \<Longrightarrow> chas (RecordsCountByRegistry k) r = chas (Registries k) r"
  by (simp add: registries_wf_def)

text \<open>The counters have room for one more value.\<close>

definition registry_room :: "'z keeper_scheme \<Rightarrow> bool" where
  "registry_room k \<longleftrightarrow> (\<forall>n. RegistryCount k = Some n \<longrightarrow> n + 1 \<noteq> 0)"

definition record_room :: "'z keeper_scheme \<Rightarrow> u64 \<Rightarrow> bool" where
  "record_room k r \<longleftrightarrow>
     (\<forall>n. cget (RecordsCountByRegistry k) r = Some n \<longrightarrow> n + 1 \<noteq> 0) \<and>
     (\<forall>i n. cget (RecordIndices k) (r, i) = Some n \<longrightarrow> n + 1 \<noteq> 0)"

section \<open>AddRegistry\<close>

lemma registry_added_fields [simp]:
  "Records (registry_added E cx sender creator n d m rid k) = Records k"
  "RecordIndices (registry_added E cx sender creator n d m rid k) = RecordIndices k"
  "RecordIdByRegistryAndChecksum (registry_added E cx sender creator n d m rid k) = RecordIdByRegistryAndChecksum k"
  "RecordIdByChecksumAndRegistry (registry_added E cx sender creator n d m rid k) = RecordIdByChecksumAndRegistry k"
  "RegistryCount (registry_added E cx sender creator n d m rid k) = Some rid"
  "RecordsCountByRegistry (registry_added E cx sender creator n d m rid k) = cset rid 0 (RecordsCountByRegistry k)"
  "ParamsItem (registry_added E cx sender creator n d m rid k) = ParamsItem k"
  by (simp_all add: registry_added_def Let_def)

lemma chas_registry_added [simp]:
  "chas (Registries (registry_added E cx sender creator n d m rid k)) r \<longleftrightarrow> r = rid \<or> chas (Registries k) r"
  by (simp add: registry_added_def Let_def)

lemma new_registry_unused:
  assumes "registries_wf k" "RegistryCount k = Some n" "n + 1 \<noteq> 0"
  shows "\<not> chas (Registries k) (n + 1)" "cget (RecordsCountByRegistry k) (n + 1) = None"
proof -
  show "\<not> chas (Registries k) (n + 1)"
    using assms u64_succ_not_le [of n] by (fastforce simp: registries_wf_def chas_iff)
  then show "cget (RecordsCountByRegistry k) (n + 1) = None"
    using registries_wf_counters [OF assms(1), of "n + 1"] by (simp add: chas_def)
qed

lemma registry_added_wf:
  assumes wf: "keeper_wf k" and count: "RegistryCount k = Some n" and room: "n + 1 \<noteq> 0"
  shows "keeper_wf (registry_added E cx sender creator nm d m (n + 1) k)" (is "keeper_wf ?k'")
  unfolding keeper_wf_def
proof (intro conjI)
  note parts = keeper_wf_parts [OF wf]
  note new = new_registry_unused [OF parts(1) count room]
  show "registries_wf ?k'"
    using parts(1) count u64_le_succ [OF room] room
    by (fastforce simp: registries_wf_def registry_added_def Let_def)
  show "lookup_wf ?k'"
    using parts(2) by (simp add: lookup_wf_def)
  have "version_ok ?k' r i x rc" if "version_ok k r i x rc" for r i x rc
    using that new by (auto simp: version_ok_def)
  then show "versions_wf ?k'"
    using parts(3) by (simp add: versions_wf_def)
qed

section \<open>AddRecord\<close>

lemma version_added_fields [simp]:
  "Registries (version_added cx rc i x k) = Registries k"
  "RegistryCount (version_added cx rc i x k) = RegistryCount k"
  "RecordsCountByRegistry (version_added cx rc i x k) = RecordsCountByRegistry k"
  "RecordIdByRegistryAndChecksum (version_added cx rc i x k) = RecordIdByRegistryAndChecksum k"
  "RecordIdByChecksumAndRegistry (version_added cx rc i x k) = RecordIdByChecksumAndRegistry k"
  "RecordIndices (version_added cx rc i x k) = cset (rec_RegistryId rc, i) x (RecordIndices k)"
  "ParamsItem (version_added cx rc i x k) = ParamsItem k"
  "RoleAdmins (version_added cx rc i x k) = RoleAdmins k"
  "RoleMembers (version_added cx rc i x k) = RoleMembers k"
  by (simp_all add: version_added_def Let_def)

lemma id_assigned_fields [simp]:
  "Registries (id_assigned r c i k) = Registries k"
  "RegistryCount (id_assigned r c i k) = RegistryCount k"
  "Records (id_assigned r c i k) = Records k"
  "RecordIndices (id_assigned r c i k) = RecordIndices k"
  "RecordsCountByRegistry (id_assigned r c i k) = cset r i (RecordsCountByRegistry k)"
  "RecordIdByChecksumAndRegistry (id_assigned r c i k) = cset (c, r) i (RecordIdByChecksumAndRegistry k)"
  "RecordIdByRegistryAndChecksum (id_assigned r c i k) = cset (r, c) i (RecordIdByRegistryAndChecksum k)"
  "ParamsItem (id_assigned r c i k) = ParamsItem k"
  "RoleAdmins (id_assigned r c i k) = RoleAdmins k"
  "RoleMembers (id_assigned r c i k) = RoleMembers k"
  by (simp_all add: id_assigned_def)

lemma stored_record_fields [simp]:
  "rec_Uri (stored_record cx rc i x) = rec_Uri rc"
  "rec_Checksum (stored_record cx rc i x) = rec_Checksum rc"
  "rec_ChecksumAlgo (stored_record cx rc i x) = rec_ChecksumAlgo rc"
  "rec_Metadata (stored_record cx rc i x) = rec_Metadata rc"
  "rec_Timestamp (stored_record cx rc i x) = BlockTime cx"
  "rec_Status (stored_record cx rc i x) = rec_Status rc"
  "rec_RecordId (stored_record cx rc i x) = i"
  "rec_Index (stored_record cx rc i x) = x"
  "rec_IsLatest (stored_record cx rc i x)"
  "rec_RegistryId (stored_record cx rc i x) = rec_RegistryId rc"
  by (simp_all add: stored_record_def)

lemma record_fields_ok_stored [simp]: "record_fields_ok (stored_record cx rc i x) = record_fields_ok rc"
  by (simp add: record_fields_ok_def)

lemma record_fields_ok_IsLatest [simp]: "record_fields_ok (rc\<lparr>rec_IsLatest := b\<rparr>) = record_fields_ok rc"
  by (simp add: record_fields_ok_def)

text \<open>What is stored after a version was added.\<close>

lemma get_Records_version_added:
  "cget (Records (version_added cx rc i x k)) key =
     (if key = (rec_RegistryId rc, i, x) then Some (stored_record cx rc i x)
      else if 1 < x \<and> key = (rec_RegistryId rc, i, x - 1)
      then map_option (\<lambda>p. p\<lparr>rec_IsLatest := False\<rparr>) (cget (Records k) key)
      else cget (Records k) key)"
  by (auto simp: version_added_def Let_def unlatest_def split: option.splits)

lemma chas_Records_version_added [simp]:
  "chas (Records (version_added cx rc i x k)) key \<longleftrightarrow>
     key = (rec_RegistryId rc, i, x) \<or> chas (Records k) key"
  by (auto simp: chas_def get_Records_version_added)

lemma AddRecord_cases:
  assumes "AddRecord E cx sender rc k = (Inr i, k')"
  obtains (existing) "cget (RecordIdByRegistryAndChecksum k) (rec_RegistryId rc, rec_Checksum rc) = Some i"
      "k' = version_added cx rc i (next_index k (rec_RegistryId rc) i) k"
  | (new) n where "cget (RecordIdByRegistryAndChecksum k) (rec_RegistryId rc, rec_Checksum rc) = None"
      "key_ok E (rec_Checksum rc)" "cget (RecordsCountByRegistry k) (rec_RegistryId rc) = Some n" "i = n + 1"
      "k' = version_added cx rc i (next_index k (rec_RegistryId rc) i)
              (id_assigned (rec_RegistryId rc) (rec_Checksum rc) i k)"
  using assms
  by (auto simp: AddRecord_Inr_iff Let_def assign_record_id_Inr_iff next_index_def)

lemma AddRecord_guards:
  assumes "AddRecord E cx sender rc k = (Inr i, k')"
  shows "record_fields_ok rc" "chas (Registries k) (rec_RegistryId rc)"
    "can_write E k sender (rec_RegistryId rc) (rec_Checksum rc)"
  using assms by (auto simp: AddRecord_Inr_iff Let_def)

lemma new_record_unused:
  assumes wf: "keeper_wf k" and count: "cget (RecordsCountByRegistry k) r = Some n" and room: "n + 1 \<noteq> 0"
  shows "cget (Records k) (r, n + 1, x) = None" "cget (RecordIndices k) (r, n + 1) = None"
    "cget (RecordIdByRegistryAndChecksum k) (r, c) \<noteq> Some (n + 1)"
proof -
  have no: "cget (Records k) (r, n + 1, x) = None" for x
  proof (rule ccontr)
    assume "cget (Records k) (r, n + 1, x) \<noteq> None"
    then obtain rc where "cget (Records k) (r, n + 1, x) = Some rc" by auto
    from versions_wfD [OF keeper_wf_parts(3) [OF wf] this] have "n + 1 \<le> n"
      using count by (auto simp: version_ok_def)
    with room show False using u64_succ_not_le by blast
  qed
  show "cget (Records k) (r, n + 1, x) = None" by (rule no)
  show "cget (RecordIndices k) (r, n + 1) = None"
    using versions_wf_latest [OF keeper_wf_parts(3) [OF wf], of r "n + 1"] no
    by (cases "cget (RecordIndices k) (r, n + 1)") (auto simp: chas_def)
  show "cget (RecordIdByRegistryAndChecksum k) (r, c) \<noteq> Some (n + 1)"
    using keeper_wf_parts(2) [OF wf] no unfolding lookup_wf_def by (metis option.distinct(1))
qed

lemma version_added_versions:
  assumes wf: "versions_wf k" and x: "x = next_index k (rec_RegistryId rc) i" "x \<noteq> 0"
    and rc: "record_fields_ok rc" "chas (Registries k) (rec_RegistryId rc)" and i: "i \<noteq> 0"
    and count: "cget (RecordsCountByRegistry k) (rec_RegistryId rc) = Some n" "i \<le> n"
    and look: "chas (RecordIdByRegistryAndChecksum k) (rec_RegistryId rc, rec_Checksum rc)"
  shows "versions_wf (version_added cx rc i x k)" (is "versions_wf ?k'")
  unfolding versions_wf_def
proof (intro conjI allI impI)
  let ?r = "rec_RegistryId rc"
  fix r' i' x' rc'
  assume get: "cget (Records ?k') (r', i', x') = Some rc'"
  show "version_ok ?k' r' i' x' rc'"
  proof (cases "(r', i', x') = (?r, i, x)")
    case True
    with get have "rc' = stored_record cx rc i x"
      by (simp add: get_Records_version_added)
    with True rc i count look x(2) show ?thesis
      by (simp add: version_ok_def)
  next
    case other: False
    from get other obtain old where old: "cget (Records k) (r', i', x') = Some old"
      and rc': "rc' = (if 1 < x \<and> (r', i', x') = (?r, i, x - 1) then old\<lparr>rec_IsLatest := False\<rparr> else old)"
      by (auto simp: get_Records_version_added split: if_splits)
    from versions_wfD [OF wf old] have ok: "version_ok k r' i' x' old" .
    show ?thesis
    proof (cases "(r', i') = (?r, i)")
      case False
      with ok rc' show ?thesis by (auto simp: version_ok_def)
    next
      case True
      from ok True obtain m where m: "cget (RecordIndices k) (?r, i) = Some m" "x' \<le> m"
        "rec_IsLatest old \<longleftrightarrow> x' = m"
        by (auto simp: version_ok_def)
      from m(1) x have xm: "x = m + 1" "m + 1 \<noteq> 0" by (auto simp: next_index_def)
      have mpos: "m \<noteq> 0" using versions_wf_index_pos [OF wf m(1)] .
      have "x' \<le> x" "x' \<noteq> x"
        using m(2) xm u64_le_succ [OF xm(2)] u64_succ_not_le [OF xm(2)] by auto
      moreover have "\<not> rec_IsLatest rc'"
        using rc' True m(3) xm u64_one_less_succ [OF xm(2) mpos] by auto
      ultimately show ?thesis
        using ok True rc' by (auto simp: version_ok_def)
    qed
  qed
next
  fix r' i' m
  assume "cget (RecordIndices ?k') (r', i') = Some m"
  then show "chas (Records ?k') (r', i', m)"
    using versions_wf_latest [OF wf, of r' i' m] by (auto split: if_splits)
qed

text \<open>A record of a checksum stays a record of that checksum.\<close>

lemma version_added_keeps_checksum:
  assumes "cget (Records k) key = Some rc0" and "key \<noteq> (rec_RegistryId rc, i, x)"
  shows "\<exists>rc1. cget (Records (version_added cx rc i x k)) key = Some rc1 \<and> rec_Checksum rc1 = rec_Checksum rc0"
  using assms by (auto simp: get_Records_version_added)

lemma version_added_lookup:
  assumes mirror: "\<And>r c. cget (RecordIdByChecksumAndRegistry k) (c, r) = cget (RecordIdByRegistryAndChecksum k) (r, c)"
    and here: "cget (RecordIdByRegistryAndChecksum k) (rec_RegistryId rc, rec_Checksum rc) = Some i"
    and others: "\<And>r c j. (r, c) \<noteq> (rec_RegistryId rc, rec_Checksum rc) \<Longrightarrow>
        cget (RecordIdByRegistryAndChecksum k) (r, c) = Some j \<Longrightarrow>
        \<exists>y rc0. (r, j, y) \<noteq> (rec_RegistryId rc, i, x) \<and> cget (Records k) (r, j, y) = Some rc0 \<and> rec_Checksum rc0 = c"
  shows "lookup_wf (version_added cx rc i x k)"
  unfolding lookup_wf_def
proof (intro conjI allI impI)
  fix r c
  show "cget (RecordIdByChecksumAndRegistry (version_added cx rc i x k)) (c, r) =
      cget (RecordIdByRegistryAndChecksum (version_added cx rc i x k)) (r, c)"
    by (simp add: mirror)
  fix j
  assume *: "cget (RecordIdByRegistryAndChecksum (version_added cx rc i x k)) (r, c) = Some j"
  show "\<exists>y rc0. cget (Records (version_added cx rc i x k)) (r, j, y) = Some rc0 \<and> rec_Checksum rc0 = c"
  proof (cases "(r, c) = (rec_RegistryId rc, rec_Checksum rc)")
    case True
    with * here have "cget (Records (version_added cx rc i x k)) (r, j, x) = Some (stored_record cx rc i x)"
      by (simp add: get_Records_version_added)
    with True show ?thesis by (intro exI [of _ x] exI) (auto intro: stored_record_fields(2))
  next
    case False
    with * others [of r c j] obtain y rc0 where "(r, j, y) \<noteq> (rec_RegistryId rc, i, x)"
      "cget (Records k) (r, j, y) = Some rc0" "rec_Checksum rc0 = c" by auto
    then show ?thesis using version_added_keeps_checksum [of k "(r, j, y)" rc0 rc i x cx] by metis
  qed
qed

lemma next_index_new:
  assumes "keeper_wf k" "cget (RecordsCountByRegistry k) r = Some n" "n + 1 \<noteq> 0"
  shows "next_index k r (n + 1) = 1"
  using new_record_unused(2) [OF assms] by (simp add: next_index_def)

lemma existing_id_bounds:
  assumes wf: "keeper_wf k" and look: "cget (RecordIdByRegistryAndChecksum k) (r, c) = Some i"
  obtains n x where "i \<noteq> 0" "cget (RecordsCountByRegistry k) r = Some n" "i \<le> n"
    "cget (RecordIndices k) (r, i) = Some x"
proof -
  from keeper_wf_parts(2) [OF wf] look obtain x rc where "cget (Records k) (r, i, x) = Some rc"
    by (rule lookup_wf_record)
  from versions_wfD [OF keeper_wf_parts(3) [OF wf] this] show thesis
    by (auto simp: version_ok_def intro: that)
qed

text \<open>The versions of a record never reach the next index, so the new version has a new key.\<close>

lemma next_index_fresh:
  assumes wf: "versions_wf k" and x: "x = next_index k r i" "x \<noteq> 0"
  shows "cget (Records k) (r, i, x) = None"
proof (rule ccontr)
  assume "cget (Records k) (r, i, x) \<noteq> None"
  then obtain rc where "cget (Records k) (r, i, x) = Some rc" by auto
  from versions_wfD [OF wf this] obtain n where n: "cget (RecordIndices k) (r, i) = Some n" "x \<le> n"
    by (auto simp: version_ok_def)
  with x show False using u64_succ_not_le [of n x] by (auto simp: next_index_def)
qed

lemma id_assigned_versions:
  assumes wf: "keeper_wf k" and count: "cget (RecordsCountByRegistry k) r = Some n" and room: "n + 1 \<noteq> 0"
  shows "versions_wf (id_assigned r c (n + 1) k)"
proof -
  have "version_ok (id_assigned r c (n + 1) k) r' i x rc" if "version_ok k r' i x rc" for r' i x rc
    using that count by (auto simp: version_ok_def intro: u64_le_succI [OF room])
  then show ?thesis
    using keeper_wf_parts(3) [OF wf] by (simp add: versions_wf_def)
qed

lemma record_room_next_index:
  "record_room k r \<Longrightarrow> next_index k r i \<noteq> 0"
  by (auto simp: record_room_def next_index_def split: option.splits)

lemma AddRecord_wf:
  assumes wf: "keeper_wf k" and run: "AddRecord E cx sender rc k = (Inr i, k')"
    and room: "record_room k (rec_RegistryId rc)"
  shows "keeper_wf k'"
proof -
  let ?r = "rec_RegistryId rc" and ?c = "rec_Checksum rc"
  let ?x = "next_index k ?r i"
  note guards = AddRecord_guards [OF run]
  note parts = keeper_wf_parts [OF wf]
  have x: "?x \<noteq> 0" using record_room_next_index [OF room] .
  from run show ?thesis
  proof (cases rule: AddRecord_cases)
    case existing
    from existing_id_bounds [OF wf existing(1)] obtain n where
      n: "i \<noteq> 0" "cget (RecordsCountByRegistry k) ?r = Some n" "i \<le> n" by metis
    have "versions_wf k'"
      using version_added_versions [OF parts(3) refl x guards(1,2) n] existing
      by (simp add: chas_def)
    moreover have "lookup_wf k'"
      unfolding existing(2)
    proof (rule version_added_lookup [OF _ existing(1)])
      fix r c j
      assume "cget (RecordIdByRegistryAndChecksum k) (r, c) = Some j"
      then show "\<exists>y rc0. (r, j, y) \<noteq> (?r, i, ?x) \<and> cget (Records k) (r, j, y) = Some rc0 \<and> rec_Checksum rc0 = c"
        using parts(2) next_index_fresh [OF parts(3) refl x] unfolding lookup_wf_def
        by (metis option.distinct(1))
    qed (use parts(2) in \<open>simp add: lookup_wf_def\<close>)
    moreover have "registries_wf k'"
      using parts(1) existing(2) by (simp add: registries_wf_def)
    ultimately show ?thesis by (simp add: keeper_wf_def)
  next
    case (new n)
    have rm: "n + 1 \<noteq> 0" using room new(3) by (simp add: record_room_def)
    let ?k1 = "id_assigned ?r ?c i k"
    note unused = new_record_unused [OF wf new(3) rm]
    have x1: "?x = next_index ?k1 ?r i" by (simp add: next_index_def)
    have "versions_wf k'"
      unfolding new(5)
      by (rule version_added_versions [OF _ x1 x guards(1)])
        (use id_assigned_versions [OF wf new(3) rm] guards(2) rm new(4) in auto)
    moreover have "lookup_wf k'"
      unfolding new(5)
    proof (rule version_added_lookup)
      fix r c j
      assume "(r, c) \<noteq> (?r, ?c)" "cget (RecordIdByRegistryAndChecksum ?k1) (r, c) = Some j"
      then have "cget (RecordIdByRegistryAndChecksum k) (r, c) = Some j" by auto
      with parts(2) obtain y rc0 where "cget (Records k) (r, j, y) = Some rc0" "rec_Checksum rc0 = c"
        by (rule lookup_wf_record)
      then show "\<exists>y rc0. (r, j, y) \<noteq> (?r, i, ?x) \<and> cget (Records ?k1) (r, j, y) = Some rc0 \<and> rec_Checksum rc0 = c"
        using unused(1) new(4) by (metis id_assigned_fields(3) option.distinct(1) prod.inject)
    qed (use parts(2) in \<open>auto simp: lookup_wf_def\<close>)
    moreover have "registries_wf k'"
      using parts(1) new guards(2) by (auto simp: registries_wf_def)
    ultimately show ?thesis by (simp add: keeper_wf_def)
  qed
qed

section \<open>UpdateRecordStatus\<close>

lemma UpdateRecordStatus_wf:
  assumes wf: "keeper_wf k" and run: "UpdateRecordStatus E cx sender r i x st k = (Inr u, k')"
  shows "keeper_wf k'"
proof -
  note parts = keeper_wf_parts [OF wf]
  from run obtain rc where rc: "cget (Records k) (r, i, x) = Some rc" and st: "status_ok st"
    and k': "Records k' = cset (r, i, x) (rc\<lparr>rec_Status := st\<rparr>) (Records k)"
      "Registries k' = Registries k" "RegistryCount k' = RegistryCount k"
      "RecordsCountByRegistry k' = RecordsCountByRegistry k" "RecordIndices k' = RecordIndices k"
      "RecordIdByRegistryAndChecksum k' = RecordIdByRegistryAndChecksum k"
      "RecordIdByChecksumAndRegistry k' = RecordIdByChecksumAndRegistry k"
    by (auto simp: UpdateRecordStatus_Inr_iff)
  have fields: "record_fields_ok (rc\<lparr>rec_Status := st\<rparr>)"
    using versions_wfD [OF parts(3) rc] st by (auto simp: version_ok_def record_fields_ok_def)
  have "version_ok k' r' i' x' rc'" if get: "cget (Records k') (r', i', x') = Some rc'" for r' i' x' rc'
  proof (cases "(r', i', x') = (r, i, x)")
    case True
    with get k'(1) have "rc' = rc\<lparr>rec_Status := st\<rparr>" by simp
    with True versions_wfD [OF parts(3) rc] fields k' show ?thesis by (simp add: version_ok_def)
  next
    case False
    with get k'(1) have "cget (Records k) (r', i', x') = Some rc'" by (simp split: if_splits)
    from versions_wfD [OF parts(3) this] k' show ?thesis by (simp add: version_ok_def)
  qed
  moreover have "chas (Records k') (r', i', n)" if "cget (RecordIndices k') (r', i') = Some n" for r' i' n
    using that versions_wf_latest [OF parts(3)] k' by simp
  ultimately have "versions_wf k'" by (simp add: versions_wf_def)
  moreover have "lookup_wf k'"
  proof -
    have "\<exists>x rc0. cget (Records k') (r', i', x) = Some rc0 \<and> rec_Checksum rc0 = c"
      if "cget (RecordIdByRegistryAndChecksum k) (r', c) = Some i'" for r' c i'
    proof -
      from parts(2) that obtain y rc0 where "cget (Records k) (r', i', y) = Some rc0" "rec_Checksum rc0 = c"
        by (rule lookup_wf_record)
      then show ?thesis using rc k'(1)
        by (cases "(r', i', y) = (r, i, x)") (auto intro!: exI [of _ y])
    qed
    then show ?thesis using parts(2) k' by (simp add: lookup_wf_def)
  qed
  moreover have "registries_wf k'" using parts(1) k' by (simp add: registries_wf_def)
  ultimately show ?thesis by (simp add: keeper_wf_def)
qed

section \<open>One checksum per record id, no gaps\<close>

lemma registry_added_checksums:
  "checksums_wf (registry_added E cx sender creator nm d m rid k) = checksums_wf k"
  by (simp add: checksums_wf_def)

lemma version_added_checksums:
  assumes wf: "checksums_wf k"
    and here: "cget (RecordIdByRegistryAndChecksum k) (rec_RegistryId rc, rec_Checksum rc) = Some i"
  shows "checksums_wf (version_added cx rc i x k)"
proof -
  have "cget (RecordIdByRegistryAndChecksum k) (r, rec_Checksum rc') = Some j"
    if "cget (Records (version_added cx rc i x k)) (r, j, y) = Some rc'" for r j y rc'
    using that wf here by (auto simp: get_Records_version_added checksums_wf_def split: if_splits)
  then show ?thesis using wf by (simp add: checksums_wf_def)
qed

lemma AddRecord_checksums:
  assumes wf: "keeper_wf k" "checksums_wf k" and run: "AddRecord E cx sender rc k = (Inr i, k')"
    and room: "record_room k (rec_RegistryId rc)"
  shows "checksums_wf k'"
  using run
proof (cases rule: AddRecord_cases)
  case existing
  with wf(2) show ?thesis by (simp add: version_added_checksums)
next
  case (new n)
  let ?r = "rec_RegistryId rc" and ?c = "rec_Checksum rc"
  have rm: "n + 1 \<noteq> 0" using room new(3) by (simp add: record_room_def)
  have "cget (RecordIdByRegistryAndChecksum k) (?r, c) \<noteq> Some i" for c
    using new_record_unused(3) [OF wf(1) new(3) rm] new(4) by simp
  moreover have "(r, rec_Checksum rc') \<noteq> (?r, ?c)" if "cget (Records k) (r, j, y) = Some rc'" for r j y rc'
    using that wf(2) new(1) unfolding checksums_wf_def by (metis option.distinct(1) prod.inject)
  ultimately have "checksums_wf (id_assigned ?r ?c i k)"
    using wf(2) by (auto simp: checksums_wf_def)
  then show ?thesis using new(5) by (simp add: version_added_checksums)
qed

lemma UpdateRecordStatus_checksums:
  assumes wf: "checksums_wf k" and run: "UpdateRecordStatus E cx sender r i x st k = (Inr u, k')"
  shows "checksums_wf k'"
  using assms by (auto simp: UpdateRecordStatus_Inr_iff checksums_wf_def split: if_splits)

lemma registry_added_dense:
  assumes dense: "dense_wf k" and count: "RegistryCount k = Some n" and room: "n + 1 \<noteq> 0"
    and wf: "registries_wf k"
  shows "dense_wf (registry_added E cx sender creator nm d m (n + 1) k)" (is "dense_wf ?k'")
  unfolding dense_wf_def
proof (intro conjI)
  show "registries_dense ?k'"
    using dense count u64_le_succ [OF room] by (simp add: dense_wf_def registries_dense_def)
  show "ids_dense ?k'"
    using dense by (auto simp: dense_wf_def ids_dense_def)
  show "versions_dense ?k'"
    using dense by (simp add: dense_wf_def versions_dense_def)
qed

lemma version_added_dense_versions:
  assumes dense: "versions_dense k" and x: "x = next_index k (rec_RegistryId rc) i" "x \<noteq> 0"
  shows "versions_dense (version_added cx rc i x k)"
proof -
  let ?r = "rec_RegistryId rc"
  have "y = x \<or> chas (Records k) (?r, i, y)" if "y \<noteq> 0" "y \<le> x" for y
  proof (cases "cget (RecordIndices k) (?r, i)")
    case None
    with x have "x = 1" by (simp add: next_index_def)
    with that show ?thesis by (simp add: word_le_nat_alt word_unat_eq_iff le_Suc_eq)
  next
    case (Some m)
    with x have xm: "x = m + 1" "m + 1 \<noteq> 0" by (simp_all add: next_index_def)
    with that(2) have "y \<le> m \<or> y = x" using u64_le_succ [OF xm(2)] by simp
    with Some that(1) dense show ?thesis by (auto simp: versions_dense_def)
  qed
  then show ?thesis using dense by (auto simp: versions_dense_def split: if_splits)
qed

lemma AddRecord_dense:
  assumes wf: "keeper_wf k" "dense_wf k" and run: "AddRecord E cx sender rc k = (Inr i, k')"
    and room: "record_room k (rec_RegistryId rc)"
  shows "dense_wf k'"
proof -
  let ?r = "rec_RegistryId rc"
  let ?x = "next_index k ?r i"
  have x: "?x \<noteq> 0" using record_room_next_index [OF room] .
  have dense: "registries_dense k" "ids_dense k" "versions_dense k"
    using wf(2) by (simp_all add: dense_wf_def)
  from run show ?thesis
  proof (cases rule: AddRecord_cases)
    case existing
    have "ids_dense k'"
      using dense(2) unfolding existing(2) ids_dense_def by simp
    moreover have "registries_dense k'"
      using dense(1) unfolding existing(2) registries_dense_def by simp
    ultimately show ?thesis
      using version_added_dense_versions [OF dense(3) refl x] existing(2) by (simp add: dense_wf_def)
  next
    case (new n)
    let ?k1 = "id_assigned ?r (rec_Checksum rc) i k"
    have rm: "n + 1 \<noteq> 0" using room new(3) by (simp add: record_room_def)
    have "ids_dense k'"
      using dense(2) new(3,4) u64_le_succ [OF rm] unfolding new(5) ids_dense_def
      by (auto split: if_splits)
    moreover have "registries_dense k'"
      using dense(1) unfolding new(5) registries_dense_def by simp
    moreover have "versions_dense k'"
      unfolding new(5)
      by (rule version_added_dense_versions)
        (use dense(3) x in \<open>simp_all add: versions_dense_def next_index_def\<close>)
    ultimately show ?thesis by (simp add: dense_wf_def)
  qed
qed

lemma UpdateRecordStatus_dense:
  assumes dense: "dense_wf k" and run: "UpdateRecordStatus E cx sender r i x st k = (Inr u, k')"
  shows "dense_wf k'"
  using assms
  by (auto simp: UpdateRecordStatus_Inr_iff dense_wf_def registries_dense_def ids_dense_def versions_dense_def)

section \<open>When AddRecord succeeds\<close>

text \<open>
  On a well-formed store \<open>AddRecord\<close> never trips over its own bookkeeping: it succeeds
  exactly when the fields are valid, the registry exists, the sender may write and the
  checksum is known or can be encoded.
\<close>

lemma AddRecord_succeeds:
  assumes wf: "keeper_wf k" and room: "record_room k (rec_RegistryId rc)"
    and guards: "record_fields_ok rc" "chas (Registries k) (rec_RegistryId rc)"
      "can_write E k sender (rec_RegistryId rc) (rec_Checksum rc)"
    and enc: "chas (RecordIdByRegistryAndChecksum k) (rec_RegistryId rc, rec_Checksum rc) \<or> key_ok E (rec_Checksum rc)"
  shows "\<exists>i k'. AddRecord E cx sender rc k = (Inr i, k')"
proof -
  let ?r = "rec_RegistryId rc" and ?c = "rec_Checksum rc"
  note parts = keeper_wf_parts [OF wf]
  have "\<exists>i k1. assign_record_id E ?r ?c k = (Inr i, k1) \<and> RecordIndices k1 = RecordIndices k \<and> Records k1 = Records k"
  proof (cases "cget (RecordIdByRegistryAndChecksum k) (?r, ?c)")
    case (Some i)
    then show ?thesis by (auto simp: assign_record_id_Inr_iff)
  next
    case None
    from registries_wf_counters [OF parts(1), of ?r] guards(2) obtain n where
      "cget (RecordsCountByRegistry k) ?r = Some n" by (auto simp: chas_iff)
    with None enc show ?thesis by (auto simp: assign_record_id_Inr_iff chas_def)
  qed
  then obtain i k1 where k1: "assign_record_id E ?r ?c k = (Inr i, k1)"
    "RecordIndices k1 = RecordIndices k" "Records k1 = Records k" by blast
  have "chas (Records k1) (?r, i, next_index k1 ?r i - 1)" if "1 < next_index k1 ?r i"
  proof (cases "cget (RecordIndices k) (?r, i)")
    case None
    with that k1(2) show ?thesis by (simp add: next_index_def)
  next
    case (Some m)
    with versions_wf_latest [OF parts(3) Some] k1 show ?thesis by (simp add: next_index_def)
  qed
  with k1 guards show ?thesis by (auto simp: AddRecord_Inr_iff Let_def)
qed

end
