(* ===== verification/Tx_Run.thy ===== *)
theory Tx_Run
  imports Nvnm_Prelude
begin

text \<open>
  Sequences of transactions over any state. \<open>commit\<close> is what the transaction runner does
  with the outcome of a handler: its writes are kept only if it returned no error. The
  locales are the two contracts a module proves once per transaction and gets for every
  sequence: an invariant that may use up a budget (the room left in the counters), and a
  preorder that relates the state before to the state after.
\<close>

definition commit :: "('s, 'a) act \<Rightarrow> 's \<Rightarrow> 's" where
  "commit h s = (case h s of (Inr _, s') \<Rightarrow> s' | (Inl _, _) \<Rightarrow> s)"

lemma commit_error: "h s = (Inl e, s') \<Longrightarrow> commit h s = s"
  by (simp add: commit_def)

lemma commit_cases:
  obtains (rejected) "commit h s = s" | (accepted) x where "h s = (Inr x, commit h s)"
  by (cases "h s"; cases "fst (h s)") (auto simp: commit_def)

locale tx_invariant =
  fixes exec :: "'t \<Rightarrow> 's \<Rightarrow> 's"
    and I :: "nat \<Rightarrow> 's \<Rightarrow> bool"
  assumes exec_step: "I (Suc n) s \<Longrightarrow> I n (exec t s)"
begin

lemma run_invariant: "I (length ts + n) s \<Longrightarrow> I n (fold exec ts s)"
  by (induction ts arbitrary: s) (auto dest: exec_step)

end

locale tx_preorder = tx_invariant exec I
  for exec :: "'t \<Rightarrow> 's \<Rightarrow> 's" and I :: "nat \<Rightarrow> 's \<Rightarrow> bool" +
  fixes R :: "'s \<Rightarrow> 's \<Rightarrow> bool"
  assumes rel_refl: "R s s"
    and rel_trans: "R s s1 \<Longrightarrow> R s1 s2 \<Longrightarrow> R s s2"
    and rel_step: "I (Suc n) s \<Longrightarrow> R s (exec t s)"
begin

lemma run_related: "I (length ts + n) s \<Longrightarrow> R s (fold exec ts s)"
proof (induction ts arbitrary: s)
  case Nil
  then show ?case by (simp add: rel_refl)
next
  case (Cons t ts)
  then have "R s (exec t s)" and "I (length ts + n) (exec t s)"
    by (auto intro: rel_step exec_step)
  with Cons.IH show ?case by (auto intro: rel_trans)
qed

end

end
