(* ===== verification/Anchoring_Msg.thy ===== *)
theory Anchoring_Msg
  imports Keeper_Invariant Tx_Run
begin

text \<open>
  The message server of \<open>x/anchoring\<close> (\<open>keeper/msg_server.go\<close>, \<open>keeper/msg_update_params.go\<close>):
  one action per message, and sequences of messages as a block executes them. A request
  pointer is an \<open>option\<close>, \<open>None\<close> for nil.
\<close>

section \<open>Helpers of the role messages\<close>

definition isRecordRole :: "u64 \<Rightarrow> string \<Rightarrow> bool" where
  "isRecordRole registryId checksum \<longleftrightarrow> registryId \<noteq> 0 \<and> checksum \<noteq> ''''"

definition isModuleAdmin :: "string \<Rightarrow> 'z keeper_scheme \<Rightarrow> bool result" where
  "isModuleAdmin ad k = res_bind (item_Get (ParamsItem k)) (\<lambda>params. Inr (par_Admin params = ad))"

definition ensureRoleScopeExists :: "env \<Rightarrow> u64 \<Rightarrow> string \<Rightarrow> 'z keeper_scheme \<Rightarrow> unit result" where
  "ensureRoleScopeExists E registryId checksum k =
     (if \<not> chas (Registries k) registryId
      then Inl (ErrSdkNotFound (''registry '' @ sprint_u64 registryId @ '' does not exist''))
      else if isRecordRole registryId checksum
      then res_bind (res_guard (key_ok E checksum) ErrCollEncoding) (\<lambda>_.
           if \<not> chas (RecordIdByChecksumAndRegistry k) (checksum, registryId)
           then Inl (ErrSdkNotFound (''record with checksum '' @ checksum
                       @ '' does not exist in registry '' @ sprint_u64 registryId))
           else Inr ())
      else Inr ())"

definition scopedRole :: "env \<Rightarrow> u64 \<Rightarrow> string \<Rightarrow> string \<Rightarrow> role" where
  "scopedRole E registryId checksum role =
     (if isRecordRole registryId checksum then RecordRole E registryId checksum role
      else RegistryRole E registryId role)"

definition nil_request :: error where
  "nil_request = ErrInvalidRequest (ErrMsg ''empty request'')"

section \<open>The messages\<close>

definition Msg_AddRegistry :: "env \<Rightarrow> ctx \<Rightarrow> MsgAddRegistry option \<Rightarrow> ('z keeper_scheme, u64) act" where
  "Msg_AddRegistry E cx request =
     (case request of
        None \<Rightarrow> act_fail nil_request
      | Some req \<Rightarrow>
          act_bind (act_try (res_map_err ErrInvalidRequest (MsgAddRegistry_ValidateBasic E req))) (\<lambda>_.
          act_bind (act_try (StringToBytes E (mar_Sender req))) (\<lambda>sender.
          AddRegistry E cx sender (mar_Name req) (mar_Description req) (mar_Metadata req))))"

definition Msg_AddRecord :: "env \<Rightarrow> ctx \<Rightarrow> MsgAddRecord option \<Rightarrow> ('z keeper_scheme, u64) act" where
  "Msg_AddRecord E cx request =
     (case request of
        None \<Rightarrow> act_fail nil_request
      | Some req \<Rightarrow>
          act_bind (act_try (res_map_err ErrInvalidRequest (MsgAddRecord_ValidateBasic E req))) (\<lambda>_.
          act_bind (act_try (StringToBytes E (mrc_Sender req))) (\<lambda>sender.
          case mrc_Record req of
            None \<Rightarrow> act_fail GoPanic
          | Some record \<Rightarrow> AddRecord E cx sender record)))"

definition Msg_UpdateRecordStatus :: "env \<Rightarrow> ctx \<Rightarrow> MsgUpdateRecordStatus option \<Rightarrow> ('z keeper_scheme, unit) act" where
  "Msg_UpdateRecordStatus E cx request =
     (case request of
        None \<Rightarrow> act_fail nil_request
      | Some req \<Rightarrow>
          act_bind (act_try (res_map_err ErrInvalidRequest (MsgUpdateRecordStatus_ValidateBasic E req))) (\<lambda>_.
          act_bind (act_try (StringToBytes E (mus_Editor req))) (\<lambda>sender.
          UpdateRecordStatus E cx sender (mus_RegistryId req) (mus_RecordId req) (mus_Index req) (mus_Status req))))"

definition Msg_GrantRole :: "env \<Rightarrow> MsgGrantRole option \<Rightarrow> ('z keeper_scheme, unit) act" where
  "Msg_GrantRole E request =
     (case request of
        None \<Rightarrow> act_fail nil_request
      | Some req \<Rightarrow>
          act_bind (act_try (res_map_err ErrInvalidRequest (MsgGrantRole_ValidateBasic E req))) (\<lambda>_.
          act_bind (act_try (StringToBytes E (mgr_Admin req))) (\<lambda>granter.
          act_bind (act_try (StringToBytes E (mgr_Address req))) (\<lambda>grantee.
          let isRecordScoped = isRecordRole (mgr_RegistryId req) (mgr_Checksum req) in
          act_bind (act_get (ensureRoleScopeExists E (mgr_RegistryId req) (mgr_Checksum req))) (\<lambda>_.
          let role = scopedRole E (mgr_RegistryId req) (mgr_Checksum req) (mgr_Role req);
              adminRole = RegistryRole E (mgr_RegistryId req) RoleAdmin in
          act_bind (SetRoleAdmin role adminRole) (\<lambda>_.
          if \<not> isRecordScoped \<and> mgr_Role req = RoleAdmin
          then act_bind (act_get (isModuleAdmin (mgr_Admin req))) (\<lambda>moduleAdmin.
               if moduleAdmin then GrantRoleUnchecked E role grantee granter
               else GrantRole E role grantee granter)
          else GrantRole E role grantee granter))))))"

definition Msg_RevokeRole :: "env \<Rightarrow> MsgRevokeRole option \<Rightarrow> ('z keeper_scheme, unit) act" where
  "Msg_RevokeRole E request =
     (case request of
        None \<Rightarrow> act_fail nil_request
      | Some req \<Rightarrow>
          act_bind (act_try (res_map_err ErrInvalidRequest (MsgRevokeRole_ValidateBasic E req))) (\<lambda>_.
          act_bind (act_try (StringToBytes E (mrr_Admin req))) (\<lambda>revoker.
          act_bind (act_try (StringToBytes E (mrr_Address req))) (\<lambda>revokee.
          act_bind (act_get (ensureRoleScopeExists E (mrr_RegistryId req) (mrr_Checksum req))) (\<lambda>_.
          let isRecordScoped = isRecordRole (mrr_RegistryId req) (mrr_Checksum req);
              role = scopedRole E (mrr_RegistryId req) (mrr_Checksum req) (mrr_Role req) in
          act_bind (act_get (HasRole role revokee)) (\<lambda>hasRole.
          if \<not> hasRole
          then act_fail (ErrInvalidRequest (ErrMsg ''address does not have the specified role''))
          else if \<not> isRecordScoped \<and> mrr_Role req = RoleAdmin
          then act_bind (act_get (IsSoleAdmin (RegistryRole E (mrr_RegistryId req) RoleAdmin))) (\<lambda>isSoleAdmin.
               if isSoleAdmin
               then act_fail (ErrInvalidRequest (ErrMsg ''cannot revoke the last registry admin''))
               else RevokeRole E role revokee revoker)
          else RevokeRole E role revokee revoker))))))"

text \<open>\<open>UpdateParams\<close> neither tests for a nil request nor calls \<open>ValidateBasic\<close>.\<close>

definition Msg_UpdateParams :: "env \<Rightarrow> MsgUpdateParams option \<Rightarrow> ('z keeper_scheme, unit) act" where
  "Msg_UpdateParams E request =
     (case request of
        None \<Rightarrow> act_fail GoPanic
      | Some req \<Rightarrow>
          act_bind (act_try (res_map_err (ErrWrap ''invalid authority address'') (StringToBytes E (mup_Authority req)))) (\<lambda>_.
          act_bind (act_get (\<lambda>k. item_Get (ParamsItem k))) (\<lambda>params.
          if mup_Authority req \<noteq> par_Admin params then act_fail ErrUnauthorized
          else
            act_bind (act_get (\<lambda>k. item_Get (ParamsItem k))) (\<lambda>updateParams.
            let updated = (if mup_Admin req \<noteq> '''' then updateParams\<lparr>par_Admin := mup_Admin req\<rparr> else updateParams) in
            act_bind (act_try (Params_Validate E updated)) (\<lambda>_.
            act_put (\<lambda>k. k\<lparr>ParamsItem := Some updated\<rparr>))))))"

section \<open>Sequences of messages\<close>

datatype msg =
    AddRegistryMsg MsgAddRegistry
  | AddRecordMsg MsgAddRecord
  | UpdateRecordStatusMsg MsgUpdateRecordStatus
  | GrantRoleMsg MsgGrantRole
  | RevokeRoleMsg MsgRevokeRole
  | UpdateParamsMsg MsgUpdateParams

fun msg_signer :: "msg \<Rightarrow> string" where
  "msg_signer (AddRegistryMsg m) = mar_Sender m"
| "msg_signer (AddRecordMsg m) = mrc_Sender m"
| "msg_signer (UpdateRecordStatusMsg m) = mus_Editor m"
| "msg_signer (GrantRoleMsg m) = mgr_Admin m"
| "msg_signer (RevokeRoleMsg m) = mrr_Admin m"
| "msg_signer (UpdateParamsMsg m) = mup_Authority m"

text \<open>The message router; the number a handler returns is dropped.\<close>

fun handle :: "env \<Rightarrow> ctx \<Rightarrow> msg \<Rightarrow> ('z keeper_scheme, unit) act" where
  "handle E cx (AddRegistryMsg m) = act_bind (Msg_AddRegistry E cx (Some m)) (\<lambda>_. act_return ())"
| "handle E cx (AddRecordMsg m) = act_bind (Msg_AddRecord E cx (Some m)) (\<lambda>_. act_return ())"
| "handle E cx (UpdateRecordStatusMsg m) = Msg_UpdateRecordStatus E cx (Some m)"
| "handle E cx (GrantRoleMsg m) = Msg_GrantRole E (Some m)"
| "handle E cx (RevokeRoleMsg m) = Msg_RevokeRole E (Some m)"
| "handle E cx (UpdateParamsMsg m) = Msg_UpdateParams E (Some m)"

text \<open>A block: the messages of its transactions one after the other, a rejected one without effect.\<close>

definition deliver :: "env \<Rightarrow> ctx \<times> msg \<Rightarrow> 'z keeper_scheme \<Rightarrow> 'z keeper_scheme" where
  "deliver E tx = commit (handle E (fst tx) (snd tx))"

definition run_txs :: "env \<Rightarrow> (ctx \<times> msg) list \<Rightarrow> 'z keeper_scheme \<Rightarrow> 'z keeper_scheme" where
  "run_txs E txs = fold (deliver E) txs"

text \<open>The same as a step relation: one successful message.\<close>

inductive msg_step :: "env \<Rightarrow> 'z keeper_scheme \<Rightarrow> msg \<Rightarrow> 'z keeper_scheme \<Rightarrow> bool" for E where
  "handle E cx m k = (Inr (), k') \<Longrightarrow> msg_step E k m k'"

inductive_cases msg_stepE: "msg_step E k m k'"

section \<open>Runs of the messages\<close>

text \<open>The scope a role message names: an existing registry, and an existing record of it if there is a checksum.\<close>

definition scope_exists :: "env \<Rightarrow> 'z keeper_scheme \<Rightarrow> u64 \<Rightarrow> string \<Rightarrow> bool" where
  "scope_exists E k r c \<longleftrightarrow> chas (Registries k) r \<and>
     (isRecordRole r c \<longrightarrow> key_ok E c \<and> chas (RecordIdByChecksumAndRegistry k) (c, r))"

lemma ensureRoleScopeExists_iff: "ensureRoleScopeExists E r c k = Inr u \<longleftrightarrow> scope_exists E k r c"
  by (auto simp: ensureRoleScopeExists_def scope_exists_def res_bind_Inr_iff)

lemma isModuleAdmin_iff:
  "isModuleAdmin ad k = Inr b \<longleftrightarrow> (\<exists>p. ParamsItem k = Some p \<and> b = (par_Admin p = ad))"
  by (auto simp: isModuleAdmin_def res_bind_Inr_iff item_Get_def split: option.splits)

text \<open>Who may grant: the module admin for a registry's admin role, else a member of the registry's admin role.\<close>

definition may_grant :: "env \<Rightarrow> 'z keeper_scheme \<Rightarrow> MsgGrantRole \<Rightarrow> addr \<Rightarrow> bool" where
  "may_grant E k m granter \<longleftrightarrow>
     (let admin = is_member k (NewRole E (RegistryRole E (mgr_RegistryId m) RoleAdmin)) granter in
      if \<not> isRecordRole (mgr_RegistryId m) (mgr_Checksum m) \<and> mgr_Role m = RoleAdmin
      then (\<exists>p. ParamsItem k = Some p \<and> (par_Admin p = mgr_Admin m \<or> admin))
      else admin)"

definition granted :: "env \<Rightarrow> MsgGrantRole \<Rightarrow> addr \<Rightarrow> addr \<Rightarrow> 'z keeper_scheme \<Rightarrow> 'z keeper_scheme" where
  "granted E m granter grantee k =
     (let role = scopedRole E (mgr_RegistryId m) (mgr_Checksum m) (mgr_Role m) in
      k\<lparr>RoleAdmins := cset role (RegistryRole E (mgr_RegistryId m) RoleAdmin) (RoleAdmins k),
        RoleMembers := cset (role, grantee) [] (RoleMembers k),
        Events := Events k @ [(''grant_role'', [(''grantee'', AccString E grantee),
                    (''granter'', AccString E granter), (''role'', HashHex E role)])]\<rparr>)"

definition revoked :: "env \<Rightarrow> MsgRevokeRole \<Rightarrow> addr \<Rightarrow> addr \<Rightarrow> 'z keeper_scheme \<Rightarrow> 'z keeper_scheme" where
  "revoked E m revoker revokee k =
     (let role = scopedRole E (mrr_RegistryId m) (mrr_Checksum m) (mrr_Role m) in
      k\<lparr>RoleMembers := cremove (role, revokee) (RoleMembers k),
        Events := Events k @ [(''revoke_role'', [(''revokee'', AccString E revokee),
                    (''revoker'', AccString E revoker), (''role'', HashHex E role)])]\<rparr>)"

lemma Msg_AddRegistry_Inr_iff:
  "Msg_AddRegistry E cx (Some m) k = (Inr rid, k') \<longleftrightarrow>
     MsgAddRegistry_ValidateBasic E m = Inr () \<and>
     (\<exists>sender. StringToBytes E (mar_Sender m) = Inr sender \<and>
        AddRegistry E cx sender (mar_Name m) (mar_Description m) (mar_Metadata m) k = (Inr rid, k'))"
  by (auto simp: Msg_AddRegistry_def act_bind_Inr_iff)

lemma Msg_AddRecord_Inr_iff:
  "Msg_AddRecord E cx (Some m) k = (Inr i, k') \<longleftrightarrow>
     MsgAddRecord_ValidateBasic E m = Inr () \<and>
     (\<exists>sender rc. StringToBytes E (mrc_Sender m) = Inr sender \<and> mrc_Record m = Some rc \<and>
        AddRecord E cx sender rc k = (Inr i, k'))"
  by (auto simp: Msg_AddRecord_def act_bind_Inr_iff split: option.splits)

lemma Msg_UpdateRecordStatus_Inr_iff:
  "Msg_UpdateRecordStatus E cx (Some m) k = (Inr u, k') \<longleftrightarrow>
     MsgUpdateRecordStatus_ValidateBasic E m = Inr () \<and>
     (\<exists>sender. StringToBytes E (mus_Editor m) = Inr sender \<and>
        UpdateRecordStatus E cx sender (mus_RegistryId m) (mus_RecordId m) (mus_Index m) (mus_Status m) k = (Inr u, k'))"
  by (auto simp: Msg_UpdateRecordStatus_def act_bind_Inr_iff)

text \<open>The last part of \<open>GrantRole\<close>: set the admin role, then grant with or without the check.\<close>

lemma grant_tail_Inr_iff:
  "act_bind (SetRoleAdmin role ar) (\<lambda>_.
     if b then act_bind (act_get (isModuleAdmin ad)) (\<lambda>moduleAdmin.
                 if moduleAdmin then GrantRoleUnchecked E role grantee granter
                 else GrantRole E role grantee granter)
     else GrantRole E role grantee granter) k = (Inr u, k') \<longleftrightarrow>
   (if b then (\<exists>p. ParamsItem k = Some p \<and> (par_Admin p = ad \<or> is_member k (NewRole E ar) granter))
    else is_member k (NewRole E ar) granter) \<and>
   k' = k\<lparr>RoleAdmins := cset role ar (RoleAdmins k),
          RoleMembers := cset (role, grantee) [] (RoleMembers k),
          Events := Events k @ [(''grant_role'', [(''grantee'', AccString E grantee),
                    (''granter'', AccString E granter), (''role'', HashHex E role)])]\<rparr>"
  by (cases "is_member k (NewRole E ar) granter"; cases "ParamsItem k")
    (auto simp: SetRoleAdmin_def Role_Bytes_def isModuleAdmin_def item_Get_def act_defs
      GrantRole_run GrantRoleUnchecked_run admin_role_of_def is_member_def)

lemma Msg_GrantRole_Inr_iff:
  "Msg_GrantRole E (Some m) k = (Inr u, k') \<longleftrightarrow>
     MsgGrantRole_ValidateBasic E m = Inr () \<and>
     (\<exists>granter grantee. StringToBytes E (mgr_Admin m) = Inr granter \<and> StringToBytes E (mgr_Address m) = Inr grantee \<and>
        scope_exists E k (mgr_RegistryId m) (mgr_Checksum m) \<and> may_grant E k m granter \<and>
        k' = granted E m granter grantee k)"
  unfolding Msg_GrantRole_def option.case Let_def act_reads grant_tail_Inr_iff may_grant_def granted_def
    res_map_err_Inr_iff ensureRoleScopeExists_iff
  by simp

lemma RevokeRole_Inr_iff:
  "RevokeRole E role ad revoker k = (Inr u, k') \<longleftrightarrow>
     (\<exists>ar. admin_role_of E k role = Some ar \<and> is_member k ar revoker) \<and>
     k' = k\<lparr>RoleMembers := cremove (role, ad) (RoleMembers k),
            Events := Events k @ [(''revoke_role'', [(''revokee'', AccString E ad),
                  (''revoker'', AccString E revoker), (''role'', HashHex E role)])]\<rparr>"
  by (auto simp: RevokeRole_run RevokeRoleUnchecked_run split: option.splits)

text \<open>The last part of \<open>RevokeRole\<close>: the account must have the role, and the last admin stays.\<close>

lemma revoke_tail_Inr_iff:
  "act_bind (act_get (HasRole role revokee)) (\<lambda>hasRole.
     if \<not> hasRole then act_fail e
     else if b then act_bind (act_get (IsSoleAdmin ar)) (\<lambda>sole. if sole then act_fail e' else act)
     else act) k = (Inr u, k') \<longleftrightarrow>
   is_member k role revokee \<and> (b \<longrightarrow> card {ad. is_member k ar ad} \<noteq> 1) \<and> act k = (Inr u, k')"
  by (simp add: act_reads IsSoleAdmin_card)

lemma Msg_RevokeRole_Inr_iff:
  "Msg_RevokeRole E (Some m) k = (Inr u, k') \<longleftrightarrow>
     MsgRevokeRole_ValidateBasic E m = Inr () \<and>
     (\<exists>revoker revokee. StringToBytes E (mrr_Admin m) = Inr revoker \<and> StringToBytes E (mrr_Address m) = Inr revokee \<and>
        scope_exists E k (mrr_RegistryId m) (mrr_Checksum m) \<and>
        is_member k (scopedRole E (mrr_RegistryId m) (mrr_Checksum m) (mrr_Role m)) revokee \<and>
        (\<not> isRecordRole (mrr_RegistryId m) (mrr_Checksum m) \<and> mrr_Role m = RoleAdmin \<longrightarrow>
           card {ad. is_member k (RegistryRole E (mrr_RegistryId m) RoleAdmin) ad} \<noteq> 1) \<and>
        (\<exists>ar. admin_role_of E k (scopedRole E (mrr_RegistryId m) (mrr_Checksum m) (mrr_Role m)) = Some ar \<and>
           is_member k ar revoker) \<and>
        k' = revoked E m revoker revokee k)"
  unfolding Msg_RevokeRole_def option.case Let_def revoke_tail_Inr_iff
    act_bind_try_Inr_iff act_bind_get_Inr_iff [of "ensureRoleScopeExists _ _ _"]
    RevokeRole_Inr_iff revoked_def res_map_err_Inr_iff ensureRoleScopeExists_iff
  by simp

lemma Msg_UpdateParams_Inr_iff:
  "Msg_UpdateParams E (Some m) k = (Inr u, k') \<longleftrightarrow>
     (\<exists>p p'. res_ok (StringToBytes E (mup_Authority m)) \<and> ParamsItem k = Some p \<and> par_Admin p = mup_Authority m \<and>
        p' = (if mup_Admin m = '''' then p else p\<lparr>par_Admin := mup_Admin m\<rparr>) \<and>
        Params_Validate E p' = Inr () \<and> k' = k\<lparr>ParamsItem := Some p'\<rparr>)"
  by (cases "ParamsItem k"; cases "mup_Admin m = []")
    (auto simp: Msg_UpdateParams_def act_reads Let_def item_Get_def res_ok_iff act_bind_Inr_iff [of "act_try _"])

lemmas msg_runs =
  Msg_AddRegistry_Inr_iff Msg_AddRecord_Inr_iff Msg_UpdateRecordStatus_Inr_iff
  Msg_GrantRole_Inr_iff Msg_RevokeRole_Inr_iff Msg_UpdateParams_Inr_iff

end
