(* ===== verification/Msg_Safety.thy ===== *)
theory Msg_Safety
  imports Anchoring_Msg
begin

text \<open>
  What holds after any sequence of messages: the invariants of the keeper, the history of
  a record (only its status and its latest mark ever change), and the authority a message
  needs. The counters are 64 bit wide, so the statements about sequences carry the number
  of messages the counters have room for.
\<close>

section \<open>Kinds of messages\<close>

text \<open>The role and parameter messages leave the collections of registries and records alone.\<close>

definition same_data :: "'z keeper_scheme \<Rightarrow> 'z keeper_scheme \<Rightarrow> bool" where
  "same_data k k' \<longleftrightarrow>
     Registries k' = Registries k \<and> RegistryCount k' = RegistryCount k \<and> Records k' = Records k \<and>
     RecordIdByRegistryAndChecksum k' = RecordIdByRegistryAndChecksum k \<and>
     RecordsCountByRegistry k' = RecordsCountByRegistry k \<and> RecordIndices k' = RecordIndices k \<and>
     RecordIdByChecksumAndRegistry k' = RecordIdByChecksumAndRegistry k"

lemma same_data_wf:
  assumes "same_data k k'"
  shows "keeper_wf k' = keeper_wf k" "checksums_wf k' = checksums_wf k" "dense_wf k' = dense_wf k"
  using assms
  by (simp_all add: same_data_def keeper_wf_def registries_wf_def lookup_wf_def versions_wf_def version_ok_def
      checksums_wf_def dense_wf_def registries_dense_def ids_dense_def versions_dense_def)

lemma granted_same_data [simp]: "same_data k (granted E m granter grantee k)"
  by (simp add: same_data_def granted_def Let_def)

lemma revoked_same_data [simp]: "same_data k (revoked E m revoker revokee k)"
  by (simp add: same_data_def revoked_def Let_def)

lemma handle_cases:
  assumes "handle E cx m k = (Inr u, k')"
  obtains
    (registry) m' sender creator n where "m = AddRegistryMsg m'" "StringToBytes E (mar_Sender m') = Inr sender"
      "RegistryCount k = Some n" "StringToBytes E (AccString E sender) = Inr creator"
      "k' = registry_added E cx sender creator (mar_Name m') (mar_Description m') (mar_Metadata m') (n + 1) k"
  | (anchor) m' sender rc i where "m = AddRecordMsg m'" "StringToBytes E (mrc_Sender m') = Inr sender"
      "mrc_Record m' = Some rc" "AddRecord E cx sender rc k = (Inr i, k')"
  | (status) m' sender where "m = UpdateRecordStatusMsg m'" "StringToBytes E (mus_Editor m') = Inr sender"
      "UpdateRecordStatus E cx sender (mus_RegistryId m') (mus_RecordId m') (mus_Index m') (mus_Status m') k = (Inr (), k')"
  | (grant) m' granter grantee where "m = GrantRoleMsg m'" "StringToBytes E (mgr_Admin m') = Inr granter"
      "StringToBytes E (mgr_Address m') = Inr grantee" "Msg_GrantRole E (Some m') k = (Inr (), k')"
      "k' = granted E m' granter grantee k"
  | (revoke) m' revoker revokee where "m = RevokeRoleMsg m'" "StringToBytes E (mrr_Admin m') = Inr revoker"
      "StringToBytes E (mrr_Address m') = Inr revokee" "Msg_RevokeRole E (Some m') k = (Inr (), k')"
      "k' = revoked E m' revoker revokee k"
  | (params) m' p where "m = UpdateParamsMsg m'" "Msg_UpdateParams E (Some m') k = (Inr (), k')"
      "k' = k\<lparr>ParamsItem := Some p\<rparr>"
proof (cases m)
  case (AddRegistryMsg m')
  then show ?thesis
    using assms registry by (auto simp: act_bind_Inr_iff Msg_AddRegistry_Inr_iff AddRegistry_Inr_iff)
next
  case (AddRecordMsg m')
  then show ?thesis
    using assms anchor by (auto simp: act_bind_Inr_iff Msg_AddRecord_Inr_iff)
next
  case (UpdateRecordStatusMsg m')
  then show ?thesis
    using assms status by (auto simp: Msg_UpdateRecordStatus_Inr_iff)
next
  case (GrantRoleMsg m')
  with assms have run: "Msg_GrantRole E (Some m') k = (Inr (), k')" by simp
  then show ?thesis
    using GrantRoleMsg grant unfolding Msg_GrantRole_Inr_iff by blast
next
  case (RevokeRoleMsg m')
  with assms have run: "Msg_RevokeRole E (Some m') k = (Inr (), k')" by simp
  then show ?thesis
    using RevokeRoleMsg revoke unfolding Msg_RevokeRole_Inr_iff by blast
next
  case (UpdateParamsMsg m')
  with assms have run: "Msg_UpdateParams E (Some m') k = (Inr (), k')" by simp
  then show ?thesis
    using UpdateParamsMsg params unfolding Msg_UpdateParams_Inr_iff by blast
qed

lemma deliver_cases:
  obtains (rejected) "deliver E tx k = k"
  | (accepted) "handle E (fst tx) (snd tx) k = (Inr (), deliver E tx k)"
  using commit_cases [of "handle E (fst tx) (snd tx)" k] by (auto simp: deliver_def)

section \<open>Room in the counters\<close>

text \<open>Every counter can be increased \<open>n\<close> more times without wrapping around.\<close>

definition room :: "nat \<Rightarrow> 'z keeper_scheme \<Rightarrow> bool" where
  "room n k \<longleftrightarrow>
     (\<forall>c. RegistryCount k = Some c \<longrightarrow> unat c + n < 2 ^ 64) \<and>
     (\<forall>r c. cget (RecordsCountByRegistry k) r = Some c \<longrightarrow> unat c + n < 2 ^ 64) \<and>
     (\<forall>key c. cget (RecordIndices k) key = Some c \<longrightarrow> unat c + n < 2 ^ 64)"

lemma unat_succ_room:
  assumes "unat (c :: u64) + Suc n < 2 ^ 64"
  shows "c + 1 \<noteq> 0 \<and> unat (c + 1) + n < 2 ^ 64"
proof -
  have "unat (c + 1) = Suc (unat c)"
    using assms by (simp add: unat_word_ariths)
  then show ?thesis using assms by auto
qed

lemma room_registry: "room (Suc n) k \<Longrightarrow> registry_room k"
  using unat_succ_room by (auto simp: room_def registry_room_def)

lemma room_record: "room (Suc n) k \<Longrightarrow> record_room k r"
  using unat_succ_room by (fastforce simp: room_def record_room_def)

lemma room_mono: "room (Suc n) k \<Longrightarrow> room n k"
  by (fastforce simp: room_def)

lemma room_same_data: "same_data k k' \<Longrightarrow> room n k' = room n k"
  by (simp add: room_def same_data_def)

lemma room_pos: "registries_wf k \<Longrightarrow> room n k \<Longrightarrow> n < 2 ^ 64"
  by (auto simp: registries_wf_def room_def)

lemma room_registry_added:
  assumes wf: "registries_wf k" and room: "room (Suc n) k" and count: "RegistryCount k = Some c"
  shows "room n (registry_added E cx sender creator nm d m (c + 1) k)"
  using room_mono [OF room] room_pos [OF wf room_mono [OF room]] unat_succ_room [of c n] room count
  by (auto simp: room_def)

lemma room_next_index:
  assumes wf: "registries_wf k" and room: "room (Suc n) k"
  shows "unat (next_index k r i) + n < 2 ^ 64"
  using room_pos [OF wf room] unat_succ_room [of _ n] room
  by (auto simp: room_def next_index_def split: option.splits)

lemma room_AddRecord:
  assumes wf: "registries_wf k" and room: "room (Suc n) k" and run: "AddRecord E cx sender rc k = (Inr i, k')"
  shows "room n k'"
  using run
proof (cases rule: AddRecord_cases)
  case existing
  then show ?thesis
    using room_mono [OF room] room_next_index [OF wf room] by (auto simp: room_def)
next
  case (new c)
  have "unat (c + 1) + n < 2 ^ 64"
    using room new(3) unat_succ_room [of c n] by (auto simp: room_def)
  then show ?thesis
    using new room_mono [OF room] room_next_index [OF wf room] by (auto simp: room_def)
qed

lemma room_UpdateRecordStatus:
  "UpdateRecordStatus E cx sender r i x st k = (Inr u, k') \<Longrightarrow> room n k' = room n k"
  by (auto simp: UpdateRecordStatus_Inr_iff room_def)

section \<open>Invariants over sequences of messages\<close>

definition wf_room :: "nat \<Rightarrow> 'z keeper_scheme \<Rightarrow> bool" where
  "wf_room n k \<longleftrightarrow> keeper_wf k \<and> room n k"

lemma same_data_params [simp]: "same_data k (k\<lparr>ParamsItem := p\<rparr>)"
  by (simp add: same_data_def)

lemma same_data_wf_room: "same_data k k' \<Longrightarrow> wf_room n k' = wf_room n k"
  by (simp add: wf_room_def same_data_wf room_same_data)

lemma handle_wf_room:
  assumes inv: "wf_room (Suc n) k" and run: "handle E cx m k = (Inr u, k')"
  shows "wf_room n k'"
proof -
  from inv have wf: "keeper_wf k" and room: "room (Suc n) k" by (simp_all add: wf_room_def)
  note reg = keeper_wf_parts(1) [OF wf]
  have keep: "wf_room n k'" if "same_data k k'"
    using same_data_wf_room [OF that, of n] wf room_mono [OF room] by (simp add: wf_room_def)
  from run show ?thesis
  proof (cases rule: handle_cases)
    case (registry m' sender creator c)
    then have "c + 1 \<noteq> 0" using room_registry [OF room] by (simp add: registry_room_def)
    with registry show ?thesis
      using registry_added_wf [OF wf] room_registry_added [OF reg room] by (simp add: wf_room_def)
  next
    case (anchor m' sender rc i)
    then show ?thesis
      using AddRecord_wf [OF wf _ room_record [OF room]] room_AddRecord [OF reg room] by (auto simp: wf_room_def)
  next
    case (status m' sender)
    then show ?thesis
      using UpdateRecordStatus_wf [OF wf status(3)] room_UpdateRecordStatus [OF status(3)] room_mono [OF room]
      by (simp add: wf_room_def)
  next
    case (grant m' granter grantee)
    show ?thesis by (rule keep) (simp add: grant(5))
  next
    case (revoke m' revoker revokee)
    show ?thesis by (rule keep) (simp add: revoke(5))
  next
    case (params m' p)
    show ?thesis by (rule keep) (simp add: params(3))
  qed
qed

text \<open>With the two stronger invariants, which hold from a genesis whose record ids are consistent and dense.\<close>

definition strong_room :: "nat \<Rightarrow> 'z keeper_scheme \<Rightarrow> bool" where
  "strong_room n k \<longleftrightarrow> wf_room n k \<and> checksums_wf k \<and> dense_wf k"

lemma handle_strong_room:
  assumes inv: "strong_room (Suc n) k" and run: "handle E cx m k = (Inr u, k')"
  shows "strong_room n k'"
proof -
  from inv have wr: "wf_room (Suc n) k" and wf: "keeper_wf k" and room: "room (Suc n) k"
    and cs: "checksums_wf k" and de: "dense_wf k" by (simp_all add: strong_room_def wf_room_def)
  have keep: "checksums_wf k' \<and> dense_wf k'" if "same_data k k'"
    using same_data_wf [OF that] cs de by simp
  from run have "checksums_wf k' \<and> dense_wf k'"
  proof (cases rule: handle_cases)
    case (registry m' sender creator c)
    then have "c + 1 \<noteq> 0" using room_registry [OF room] by (simp add: registry_room_def)
    with registry show ?thesis
      using registry_added_dense [OF de _ _ keeper_wf_parts(1) [OF wf]] cs by (simp add: registry_added_checksums)
  next
    case (anchor m' sender rc i)
    then show ?thesis
      using AddRecord_checksums [OF wf cs anchor(4) room_record [OF room]]
        AddRecord_dense [OF wf de anchor(4) room_record [OF room]] by simp
  next
    case (status m' sender)
    then show ?thesis
      using UpdateRecordStatus_checksums [OF cs status(3)] UpdateRecordStatus_dense [OF de status(3)] by simp
  next
    case (grant m' granter grantee)
    show ?thesis by (rule keep) (simp add: grant(5))
  next
    case (revoke m' revoker revokee)
    show ?thesis by (rule keep) (simp add: revoke(5))
  next
    case (params m' p)
    show ?thesis by (rule keep) (simp add: params(3))
  qed
  with handle_wf_room [OF wr run] show ?thesis by (simp add: strong_room_def)
qed

section \<open>History\<close>

text \<open>Two versions of a record agree but for the status, and a version that lost its latest mark does not get it back.\<close>

definition same_content :: "Record \<Rightarrow> Record \<Rightarrow> bool" where
  "same_content rc rc' \<longleftrightarrow>
     rc' = rc\<lparr>rec_Status := rec_Status rc', rec_IsLatest := rec_IsLatest rc'\<rparr> \<and>
     (rec_IsLatest rc' \<longrightarrow> rec_IsLatest rc)"

text \<open>Nothing anchored is lost or rewritten, and no checksum is bound to another record id.\<close>

definition history_kept :: "'z keeper_scheme \<Rightarrow> 'z keeper_scheme \<Rightarrow> bool" where
  "history_kept k k' \<longleftrightarrow>
     (\<forall>r g. cget (Registries k) r = Some g \<longrightarrow> cget (Registries k') r = Some g) \<and>
     (\<forall>key rc. cget (Records k) key = Some rc \<longrightarrow>
        (\<exists>rc'. cget (Records k') key = Some rc' \<and> same_content rc rc')) \<and>
     (\<forall>key i. cget (RecordIdByRegistryAndChecksum k) key = Some i \<longrightarrow>
        cget (RecordIdByRegistryAndChecksum k') key = Some i)"

lemma same_content_refl [simp]: "same_content rc rc"
  by (simp add: same_content_def)

lemma same_content_trans: "same_content a b \<Longrightarrow> same_content b c \<Longrightarrow> same_content a c"
  by (cases a; cases b; cases c) (simp add: same_content_def)

lemma history_kept_refl: "history_kept k k"
  by (simp add: history_kept_def)

lemma history_kept_trans: "history_kept k1 k2 \<Longrightarrow> history_kept k2 k3 \<Longrightarrow> history_kept k1 k3"
  unfolding history_kept_def by (meson same_content_trans)

lemma same_data_history: "same_data k k' \<Longrightarrow> history_kept k k'"
  by (simp add: same_data_def history_kept_def)

lemma version_added_history:
  assumes "cget (Records k) (rec_RegistryId rc, i, x) = None"
  shows "history_kept k (version_added cx rc i x k)"
  using assms by (auto simp: history_kept_def get_Records_version_added same_content_def)

lemma AddRecord_history:
  assumes wf: "keeper_wf k" and room: "record_room k (rec_RegistryId rc)"
    and run: "AddRecord E cx sender rc k = (Inr i, k')"
  shows "history_kept k k'"
  using run
proof (cases rule: AddRecord_cases)
  case existing
  let ?r = "rec_RegistryId rc"
  have "cget (Records k) (?r, i, next_index k ?r i) = None"
    using next_index_fresh [OF keeper_wf_parts(3) [OF wf]] record_room_next_index [OF room] by simp
  with existing show ?thesis by (simp add: version_added_history)
next
  case (new n)
  let ?r = "rec_RegistryId rc"
  have "n + 1 \<noteq> 0" using room new(3) by (simp add: record_room_def)
  then have "cget (Records k) (?r, i, x) = None" for x
    using new_record_unused(1) [OF wf new(3)] new(4) by simp
  moreover have "history_kept k (id_assigned ?r (rec_Checksum rc) i k)"
    using new(1) by (auto simp: history_kept_def)
  ultimately show ?thesis
    unfolding new(5) by (intro history_kept_trans [OF _ version_added_history]) simp_all
qed

lemma UpdateRecordStatus_history:
  "UpdateRecordStatus E cx sender r i x st k = (Inr u, k') \<Longrightarrow> history_kept k k'"
  by (auto simp: UpdateRecordStatus_Inr_iff history_kept_def same_content_def)

lemma registry_added_history:
  assumes wf: "registries_wf k" and count: "RegistryCount k = Some n" and room: "n + 1 \<noteq> 0"
  shows "history_kept k (registry_added E cx sender creator nm d m (n + 1) k)"
  using new_registry_unused [OF assms]
  by (auto simp: history_kept_def registry_added_def Let_def chas_iff)

lemma handle_history:
  assumes inv: "wf_room (Suc n) k" and run: "handle E cx m k = (Inr u, k')"
  shows "history_kept k k'"
proof -
  from inv have wf: "keeper_wf k" and room: "room (Suc n) k" by (simp_all add: wf_room_def)
  note keep = same_data_history
  from run show ?thesis
  proof (cases rule: handle_cases)
    case (registry m' sender creator c)
    then have "c + 1 \<noteq> 0" using room_registry [OF room] by (simp add: registry_room_def)
    with registry show ?thesis
      using registry_added_history [OF keeper_wf_parts(1) [OF wf]] by simp
  next
    case (anchor m' sender rc i)
    then show ?thesis using AddRecord_history [OF wf room_record [OF room]] by blast
  next
    case (status m' sender)
    then show ?thesis using UpdateRecordStatus_history [OF status(3)] by simp
  next
    case (grant m' granter grantee)
    show ?thesis by (rule keep) (simp add: grant(5))
  next
    case (revoke m' revoker revokee)
    show ?thesis by (rule keep) (simp add: revoke(5))
  next
    case (params m' p)
    show ?thesis by (rule keep) (simp add: params(3))
  qed
qed

lemma deliver_wf_room: "wf_room (Suc n) k \<Longrightarrow> wf_room n (deliver E tx k)"
  by (cases rule: deliver_cases [of E tx k]) (auto simp: wf_room_def dest: room_mono handle_wf_room [unfolded wf_room_def, rotated])

lemma deliver_strong_room:
  assumes "strong_room (Suc n) k"
  shows "strong_room n (deliver E tx k)"
proof (cases rule: deliver_cases [of E tx k])
  case rejected
  with assms show ?thesis by (auto simp: strong_room_def wf_room_def dest: room_mono)
next
  case accepted
  with assms show ?thesis by (blast intro: handle_strong_room)
qed

lemma deliver_history:
  assumes "wf_room (Suc n) k"
  shows "history_kept k (deliver E tx k)"
proof (cases rule: deliver_cases [of E tx k])
  case rejected
  then show ?thesis by (simp add: history_kept_refl)
next
  case accepted
  with assms show ?thesis by (blast intro: handle_history)
qed

interpretation anchor_run: tx_preorder "deliver E" wf_room history_kept
  for E :: env
  by unfold_locales (auto intro: deliver_wf_room history_kept_refl history_kept_trans deliver_history)

interpretation strong_run: tx_invariant "deliver E" strong_room
  for E :: env
  by unfold_locales (rule deliver_strong_room)

end
