(* ===== verification/Role_Safety.thy ===== *)
theory Role_Safety
  imports Msg_Safety
begin

text \<open>
  What the role messages guarantee: a registry always keeps an admin, the admin role
  configured for a role is the admin role of its registry, and every change of the members
  of a role was made by somebody entitled to it. Roles are hashes of identifiers; the
  statements assume that the hash has no collision on the identifiers in use, a set that
  each statement names.
\<close>

section \<open>Identifiers in use\<close>

text \<open>What \<open>crypto.Keccak256\<close> and \<open>common.BytesToHash\<close> document: 32 bytes, and no change to 32 bytes.\<close>

definition hash_ok :: "env \<Rightarrow> bool" where
  "hash_ok E \<longleftrightarrow> (\<forall>bz. length (Keccak256 E bz) = 32) \<and> (\<forall>bz. length bz = 32 \<longrightarrow> BytesToHash E bz = bz)"

lemma hash_ok_NewRole [simp]: "hash_ok E \<Longrightarrow> NewRole E (NewRoleHash E ident) = NewRoleHash E ident"
  by (simp add: hash_ok_def NewRole_def NewRoleHash_def)

lemma hash_ok_RegistryRole [simp]: "hash_ok E \<Longrightarrow> NewRole E (RegistryRole E r x) = RegistryRole E r x"
  by (simp add: RegistryRole_def)

definition scoped_role_id :: "u64 \<Rightarrow> string \<Rightarrow> string \<Rightarrow> string" where
  "scoped_role_id r c x = (if isRecordRole r c then record_role_id r c x else registry_role_id r x)"

lemma scopedRole_hash: "scopedRole E r c x = NewRoleHash E (scoped_role_id r c x)"
  by (simp add: scopedRole_def scoped_role_id_def RecordRole_def RegistryRole_def)

lemma scoped_role_id_eq:
  "scoped_role_id r c x = scoped_role_id r' c' x' \<longleftrightarrow>
     r = r' \<and> x = x' \<and> isRecordRole r c = isRecordRole r' c' \<and> (isRecordRole r c \<longrightarrow> c = c')"
  by (auto simp: scoped_role_id_def role_id_eqs)

lemma scoped_role_id_registry:
  "scoped_role_id r c x = registry_role_id r' x' \<longleftrightarrow> \<not> isRecordRole r c \<and> r = r' \<and> x = x'"
  by (auto simp: scoped_role_id_def role_id_eqs)

lemma scoped_role_id_admin: "scoped_role_id r '''' x = registry_role_id r x"
  by (simp add: scoped_role_id_def isRecordRole_def)

text \<open>The identifiers a message hashes to write under, and the admin identifiers of the registries.\<close>

fun msg_role_ids :: "msg \<Rightarrow> string set" where
  "msg_role_ids (GrantRoleMsg m) = {scoped_role_id (mgr_RegistryId m) (mgr_Checksum m) (mgr_Role m)}"
| "msg_role_ids (RevokeRoleMsg m) = {scoped_role_id (mrr_RegistryId m) (mrr_Checksum m) (mrr_Role m)}"
| "msg_role_ids _ = {}"

definition admin_ids :: "'z keeper_scheme \<Rightarrow> string set" where
  "admin_ids k = (\<lambda>r. registry_role_id r RoleAdmin) ` {r. chas (Registries k) r}"

definition ids_in_use :: "env \<Rightarrow> (ctx \<times> msg) list \<Rightarrow> 'z keeper_scheme \<Rightarrow> string set" where
  "ids_in_use E txs k = admin_ids (run_txs E txs k) \<union> (\<Union>tx \<in> set txs. msg_role_ids (snd tx))"

lemma handle_registries_mono:
  assumes "handle E cx m k = (Inr u, k')" "chas (Registries k) r"
  shows "chas (Registries k') r"
  using assms(1)
proof (cases rule: handle_cases)
  case (registry m' sender creator n)
  with assms(2) show ?thesis by simp
next
  case (anchor m' sender rc i)
  from anchor(4) show ?thesis using assms(2) by (cases rule: AddRecord_cases) simp_all
next
  case (status m' sender)
  with assms(2) show ?thesis by (auto simp: UpdateRecordStatus_Inr_iff)
qed (use assms(2) in \<open>simp_all add: granted_def revoked_def Let_def\<close>)

lemma deliver_admin_ids: "admin_ids k \<subseteq> admin_ids (deliver E tx k)"
  by (cases rule: deliver_cases [of E tx k]) (auto simp: admin_ids_def dest: handle_registries_mono)

lemma run_txs_simps [simp]:
  "run_txs E [] k = k" "run_txs E (tx # txs) k = run_txs E txs (deliver E tx k)"
  by (simp_all add: run_txs_def)

lemma run_admin_ids: "admin_ids k \<subseteq> admin_ids (run_txs E txs k)"
proof (induction txs arbitrary: k)
  case (Cons tx txs)
  show ?case using deliver_admin_ids [of k E tx] Cons.IH [of "deliver E tx k"] by simp
qed simp

lemma ids_in_use_Cons:
  "ids_in_use E (tx # txs) k = msg_role_ids (snd tx) \<union> ids_in_use E txs (deliver E tx k)"
  by (auto simp: ids_in_use_def)

section \<open>A registry keeps an admin\<close>

definition admins_kept :: "env \<Rightarrow> 'z keeper_scheme \<Rightarrow> bool" where
  "admins_kept E k \<longleftrightarrow>
     (\<forall>r. chas (Registries k) r \<longrightarrow> (\<exists>ad. is_member k (RegistryRole E r RoleAdmin) ad))"

lemma another_member:
  assumes "is_member k role a" "card {ad. is_member k role ad} \<noteq> 1"
  shows "\<exists>b. b \<noteq> a \<and> is_member k role b"
proof (rule ccontr)
  assume "\<not> ?thesis"
  with assms(1) have "{ad. is_member k role ad} = {a}" by auto
  with assms(2) show False by simp
qed

lemma is_member_revoked:
  "is_member (revoked E m revoker revokee k) role ad \<longleftrightarrow>
     (role, ad) \<noteq> (scopedRole E (mrr_RegistryId m) (mrr_Checksum m) (mrr_Role m), revokee) \<and> is_member k role ad"
  by (auto simp: revoked_def Let_def is_member_def)

lemma is_member_granted:
  "is_member (granted E m granter grantee k) role ad \<longleftrightarrow>
     (role, ad) = (scopedRole E (mgr_RegistryId m) (mgr_Checksum m) (mgr_Role m), grantee) \<or> is_member k role ad"
  by (auto simp: granted_def Let_def is_member_def)

lemma is_member_registry_added:
  "is_member (registry_added E cx sender creator nm d m rid k) role ad \<longleftrightarrow>
     (role, ad) = (RegistryRole E rid RoleAdmin, creator) \<or> is_member k role ad"
  by (auto simp: registry_added_def Let_def is_member_def)

lemma AddRecord_roles:
  assumes "AddRecord E cx sender rc k = (Inr i, k')"
  shows "RoleMembers k' = RoleMembers k" "RoleAdmins k' = RoleAdmins k"
  using assms by (cases rule: AddRecord_cases; simp)+

lemma UpdateRecordStatus_roles:
  assumes "UpdateRecordStatus E cx sender r i x st k = (Inr u, k')"
  shows "RoleMembers k' = RoleMembers k" "RoleAdmins k' = RoleAdmins k" "Registries k' = Registries k"
  using assms by (auto simp: UpdateRecordStatus_Inr_iff)

lemma revoked_keeps_admin:
  assumes inj: "inj_on (NewRoleHash E) S" and ids: "registry_role_id r RoleAdmin \<in> S" "msg_role_ids (RevokeRoleMsg m) \<subseteq> S"
    and run: "Msg_RevokeRole E (Some m) k = (Inr (), k')"
    and before: "is_member k (RegistryRole E r RoleAdmin) ad"
  shows "\<exists>ad. is_member k' (RegistryRole E r RoleAdmin) ad"
proof -
  let ?id = "scoped_role_id (mrr_RegistryId m) (mrr_Checksum m) (mrr_Role m)"
  from run obtain revoker revokee where
    has: "is_member k (NewRoleHash E ?id) revokee"
    and last: "\<not> isRecordRole (mrr_RegistryId m) (mrr_Checksum m) \<and> mrr_Role m = RoleAdmin \<longrightarrow>
           card {ad. is_member k (RegistryRole E (mrr_RegistryId m) RoleAdmin) ad} \<noteq> 1"
    and k': "k' = revoked E m revoker revokee k"
    unfolding Msg_RevokeRole_Inr_iff scopedRole_hash by blast
  show ?thesis
  proof (cases "RegistryRole E r RoleAdmin = NewRoleHash E ?id")
    case True
    then have "?id = registry_role_id r RoleAdmin"
      using inj ids by (auto simp: RegistryRole_def dest: inj_onD)
    then have "\<not> isRecordRole (mrr_RegistryId m) (mrr_Checksum m)" "mrr_RegistryId m = r" "mrr_Role m = RoleAdmin"
      by (auto simp: scoped_role_id_registry)
    with last have "card {ad. is_member k (RegistryRole E r RoleAdmin) ad} \<noteq> 1" by simp
    with has True obtain b where "b \<noteq> revokee" "is_member k (RegistryRole E r RoleAdmin) b"
      using another_member by metis
    then show ?thesis by (auto simp: k' is_member_revoked)
  next
    case False
    with before show ?thesis by (auto simp: k' is_member_revoked scopedRole_hash)
  qed
qed

lemma handle_admins_kept:
  assumes inv: "admins_kept E k" and run: "handle E cx m k = (Inr u, k')"
    and inj: "inj_on (NewRoleHash E) S" and ids: "admin_ids k' \<subseteq> S" "msg_role_ids m \<subseteq> S"
  shows "admins_kept E k'"
  unfolding admins_kept_def
proof (intro allI impI)
  fix r assume r: "chas (Registries k') r"
  then have id: "registry_role_id r RoleAdmin \<in> S" using ids(1) by (auto simp: admin_ids_def)
  have old: "\<exists>ad. is_member k (RegistryRole E r RoleAdmin) ad" if "chas (Registries k) r"
    using inv that by (simp add: admins_kept_def)
  from run show "\<exists>ad. is_member k' (RegistryRole E r RoleAdmin) ad"
  proof (cases rule: handle_cases)
    case (registry m' sender creator n)
    with r old show ?thesis by (auto simp: is_member_registry_added)
  next
    case (anchor m' sender rc i)
    from anchor(4) have "Registries k' = Registries k" by (cases rule: AddRecord_cases) simp_all
    with r old AddRecord_roles [OF anchor(4)] show ?thesis by (simp add: is_member_def)
  next
    case (status m' sender)
    with r old UpdateRecordStatus_roles [OF status(3)] show ?thesis by (simp add: is_member_def)
  next
    case (grant m' granter grantee)
    with r old show ?thesis by (auto simp: is_member_granted granted_def Let_def is_member_def)
  next
    case (revoke m' revoker revokee)
    with r have "chas (Registries k) r" by (simp add: revoked_def Let_def)
    with old obtain ad where "is_member k (RegistryRole E r RoleAdmin) ad" by blast
    with revoked_keeps_admin [OF inj id _ revoke(4)] ids(2) revoke(1) show ?thesis by blast
  next
    case (params m' p)
    with r old show ?thesis by (simp add: is_member_def)
  qed
qed

lemma run_admins_kept:
  "admins_kept E k \<Longrightarrow> inj_on (NewRoleHash E) (ids_in_use E txs k) \<Longrightarrow> admins_kept E (run_txs E txs k)"
proof (induction txs arbitrary: k)
  case (Cons tx txs)
  let ?S = "ids_in_use E (tx # txs) k"
  have sub: "admin_ids (deliver E tx k) \<subseteq> ?S" "msg_role_ids (snd tx) \<subseteq> ?S"
    using run_admin_ids [of "deliver E tx k" E txs] by (auto simp: ids_in_use_def)
  have "admins_kept E (deliver E tx k)"
    using Cons.prems sub by (cases rule: deliver_cases [of E tx k]) (auto intro: handle_admins_kept)
  moreover have "inj_on (NewRoleHash E) (ids_in_use E txs (deliver E tx k))"
    using Cons.prems(2) by (rule inj_on_subset) (auto simp: ids_in_use_Cons)
  ultimately show ?case using Cons.IH by simp
qed simp

section \<open>Who administers a role\<close>

text \<open>Every configured role is administered by the admin role of its registry.\<close>

definition admins_configured :: "env \<Rightarrow> string set \<Rightarrow> 'z keeper_scheme \<Rightarrow> bool" where
  "admins_configured E S k \<longleftrightarrow>
     (\<forall>role bz. cget (RoleAdmins k) role = Some bz \<longrightarrow>
        (\<exists>r c x. scoped_role_id r c x \<in> S \<and> role = scopedRole E r c x \<and> bz = RegistryRole E r RoleAdmin))"

lemma handle_admins_configured:
  assumes inv: "admins_configured E S k" and run: "handle E cx m k = (Inr u, k')"
    and ids: "admin_ids k' \<subseteq> S" "msg_role_ids m \<subseteq> S"
  shows "admins_configured E S k'"
  using run
proof (cases rule: handle_cases)
  case (registry m' sender creator n)
  let ?r = "n + 1"
  have "scoped_role_id ?r '''' RoleAdmin \<in> S" "scopedRole E ?r '''' RoleAdmin = RegistryRole E ?r RoleAdmin"
    using ids(1) registry(5)
    by (auto simp: scoped_role_id_admin admin_ids_def scopedRole_hash RegistryRole_def)
  with inv show ?thesis
    unfolding admins_configured_def registry(5)
    by (simp add: registry_added_def Let_def) metis
next
  case (anchor m' sender rc i)
  with inv AddRecord_roles [OF anchor(4)] show ?thesis by (simp add: admins_configured_def)
next
  case (status m' sender)
  with inv UpdateRecordStatus_roles [OF status(3)] show ?thesis by (simp add: admins_configured_def)
next
  case (grant m' granter grantee)
  with ids(2) have "scoped_role_id (mgr_RegistryId m') (mgr_Checksum m') (mgr_Role m') \<in> S" by simp
  with inv show ?thesis
    unfolding admins_configured_def grant(5)
    by (simp add: granted_def Let_def) metis
next
  case (revoke m' revoker revokee)
  with inv show ?thesis by (simp add: admins_configured_def revoked_def Let_def)
next
  case (params m' p)
  with inv show ?thesis by (simp add: admins_configured_def)
qed

lemma run_admins_configured:
  "admins_configured E S k \<Longrightarrow> ids_in_use E txs k \<subseteq> S \<Longrightarrow> admins_configured E S (run_txs E txs k)"
proof (induction txs arbitrary: k)
  case (Cons tx txs)
  have sub: "admin_ids (deliver E tx k) \<subseteq> S" "msg_role_ids (snd tx) \<subseteq> S" "ids_in_use E txs (deliver E tx k) \<subseteq> S"
    using Cons.prems(2) run_admin_ids [of "deliver E tx k" E txs] by (auto simp: ids_in_use_def)
  have "admins_configured E S (deliver E tx k)"
    using Cons.prems(1) sub by (cases rule: deliver_cases [of E tx k]) (auto intro: handle_admins_configured)
  with Cons.IH sub(3) show ?case by simp
qed simp

lemma configured_admin:
  assumes conf: "admins_configured E S k" and inj: "inj_on (NewRoleHash E) S" and hash: "hash_ok E"
    and id: "scoped_role_id r c x \<in> S" and ar: "admin_role_of E k (scopedRole E r c x) = Some ar"
  shows "ar = RegistryRole E r RoleAdmin"
proof -
  from ar obtain bz where bz: "cget (RoleAdmins k) (scopedRole E r c x) = Some bz" "ar = NewRole E bz"
    by (auto simp: admin_role_of_def)
  with conf obtain r' c' x' where w: "scoped_role_id r' c' x' \<in> S" "scopedRole E r c x = scopedRole E r' c' x'"
    "bz = RegistryRole E r' RoleAdmin"
    unfolding admins_configured_def by metis
  with inj id have "scoped_role_id r c x = scoped_role_id r' c' x'"
    by (auto simp: scopedRole_hash dest: inj_onD)
  then have "r = r'" by (simp add: scoped_role_id_eq)
  with w(3) bz(2) hash show ?thesis by simp
qed

section \<open>Every change of members is authorised\<close>

text \<open>
  The signer of a message that changes who has a role of registry \<open>r\<close>: an admin of the
  registry, the module admin where a registry admin is added, or the creator of the registry.
\<close>

definition role_authority :: "env \<Rightarrow> 'z keeper_scheme \<Rightarrow> msg \<Rightarrow> u64 \<Rightarrow> string \<Rightarrow> string \<Rightarrow> bool" where
  "role_authority E k m r c x \<longleftrightarrow>
     (\<exists>a. StringToBytes E (msg_signer m) = Inr a \<and> is_member k (RegistryRole E r RoleAdmin) a) \<or>
     (\<exists>m' p. m = GrantRoleMsg m' \<and> ParamsItem k = Some p \<and> par_Admin p = msg_signer m \<and>
        \<not> isRecordRole r c \<and> x = RoleAdmin) \<or>
     (\<exists>m' n. m = AddRegistryMsg m' \<and> RegistryCount k = Some n \<and> r = n + 1 \<and> \<not> isRecordRole r c \<and> x = RoleAdmin)"

lemma handle_role_authority:
  assumes run: "handle E cx m k = (Inr u, k')" and hash: "hash_ok E"
    and conf: "admins_configured E S k" and inj: "inj_on (NewRoleHash E) S"
    and ids: "admin_ids k' \<subseteq> S" "msg_role_ids m \<subseteq> S" "scoped_role_id r c x \<in> S"
    and change: "is_member k' (scopedRole E r c x) ad \<noteq> is_member k (scopedRole E r c x) ad"
  shows "role_authority E k m r c x"
proof -
  have same: "scoped_role_id r c x = ident" if "ident \<in> S" "scopedRole E r c x = NewRoleHash E ident" for ident
    using that inj ids(3) by (auto simp: scopedRole_hash dest: inj_onD)
  from run show ?thesis
  proof (cases rule: handle_cases)
    case (registry m' sender creator n)
    with change have "scopedRole E r c x = NewRoleHash E (registry_role_id (n + 1) RoleAdmin)"
      by (auto simp: is_member_registry_added RegistryRole_def)
    moreover have "registry_role_id (n + 1) RoleAdmin \<in> S"
      using ids(1) registry(5) by (auto simp: admin_ids_def)
    ultimately have "scoped_role_id r c x = registry_role_id (n + 1) RoleAdmin" using same by blast
    with registry show ?thesis by (auto simp: role_authority_def scoped_role_id_registry)
  next
    case (anchor m' sender rc i)
    with change AddRecord_roles [OF anchor(4)] show ?thesis by (simp add: is_member_def)
  next
    case (status m' sender)
    with change UpdateRecordStatus_roles [OF status(3)] show ?thesis by (simp add: is_member_def)
  next
    case (grant m' granter grantee)
    let ?id = "scoped_role_id (mgr_RegistryId m') (mgr_Checksum m') (mgr_Role m')"
    from grant change have "scopedRole E r c x = NewRoleHash E ?id"
      by (auto simp: is_member_granted scopedRole_hash)
    with same ids(2) grant(1) have "scoped_role_id r c x = ?id" by simp
    then have eq: "r = mgr_RegistryId m'" "x = mgr_Role m'" "isRecordRole r c = isRecordRole (mgr_RegistryId m') (mgr_Checksum m')"
      by (auto simp: scoped_role_id_eq)
    from grant(2,4) have "may_grant E k m' granter" unfolding Msg_GrantRole_Inr_iff by auto
    with hash eq grant(1,2) show ?thesis
      by (auto simp: may_grant_def role_authority_def Let_def split: if_splits)
  next
    case (revoke m' revoker revokee)
    let ?id = "scoped_role_id (mrr_RegistryId m') (mrr_Checksum m') (mrr_Role m')"
    from revoke change have "scopedRole E r c x = NewRoleHash E ?id"
      by (auto simp: is_member_revoked scopedRole_hash)
    with same ids(2) revoke(1) have eq: "scoped_role_id r c x = ?id" by simp
    from revoke(2,4) obtain ar where
      "admin_role_of E k (scopedRole E (mrr_RegistryId m') (mrr_Checksum m') (mrr_Role m')) = Some ar"
      "is_member k ar revoker"
      unfolding Msg_RevokeRole_Inr_iff by auto
    with configured_admin [OF conf inj hash ids(3)] eq have "is_member k (RegistryRole E r RoleAdmin) revoker"
      by (auto simp: scopedRole_hash)
    with revoke(1,2) show ?thesis by (auto simp: role_authority_def)
  next
    case (params m' p)
    with change show ?thesis by (simp add: is_member_def)
  qed
qed

section \<open>Every change of a record is authorised\<close>

lemma AddRecord_changes:
  assumes wf: "keeper_wf k" "checksums_wf k" and room: "record_room k (rec_RegistryId rc)"
    and run: "AddRecord E cx sender rc k = (Inr i, k')"
    and here: "cget (Records k') (r, j, x) = Some rc'" and change: "cget (Records k) (r, j, x) \<noteq> Some rc'"
  shows "r = rec_RegistryId rc \<and> rec_Checksum rc' = rec_Checksum rc"
  using run
proof (cases rule: AddRecord_cases)
  case existing
  have "rec_Checksum p = rec_Checksum rc" if "cget (Records k) (rec_RegistryId rc, i, y) = Some p" for y p
    using wf(2) that existing(1) unfolding checksums_wf_def by metis
  with existing here change show ?thesis
    by (auto simp: get_Records_version_added split: if_splits)
next
  case (new n)
  have "n + 1 \<noteq> 0" using room new(3) by (simp add: record_room_def)
  then have "cget (Records k) (rec_RegistryId rc, i, y) = None" for y
    using new_record_unused(1) [OF wf(1) new(3)] new(4) by simp
  with new here change show ?thesis
    by (auto simp: get_Records_version_added split: if_splits)
qed

lemma handle_record_authority:
  assumes wf: "keeper_wf k" "checksums_wf k" and room: "room (Suc n) k"
    and run: "handle E cx m k = (Inr u, k')"
    and here: "cget (Records k') (r, j, x) = Some rc'" and change: "cget (Records k) (r, j, x) \<noteq> Some rc'"
  shows "\<exists>a. StringToBytes E (msg_signer m) = Inr a \<and> can_write E k a r (rec_Checksum rc')"
proof -
  have same: ?thesis if "same_data k k'"
    using that here change by (simp add: same_data_def)
  from run show ?thesis
  proof (cases rule: handle_cases)
    case (registry m' sender creator c)
    with here change show ?thesis by simp
  next
    case (anchor m' sender rc i)
    with AddRecord_changes [OF wf room_record [OF room] anchor(4) here change] AddRecord_guards(3) [OF anchor(4)]
    show ?thesis by simp
  next
    case (status m' sender)
    with here change show ?thesis by (auto simp: UpdateRecordStatus_Inr_iff split: if_splits)
  next
    case (grant m' granter grantee)
    show ?thesis by (rule same) (simp add: grant(5))
  next
    case (revoke m' revoker revokee)
    show ?thesis by (rule same) (simp add: revoke(5))
  next
    case (params m' p)
    show ?thesis by (rule same) (simp add: params(3))
  qed
qed

end
