(* ===== verification/Sample_State.thy ===== *)
theory Sample_State
  imports Role_Safety
begin

text \<open>
  Concrete inputs on which the theorems are applied: an instance of the library functions
  with the documented properties, an empty module state, and the messages of two accounts
  that work on one registry.
\<close>

definition pad32 :: "bytes \<Rightarrow> bytes" where
  "pad32 bz = take 32 (bz @ replicate 32 0)"

text \<open>What \<open>common.BytesToHash\<close> does: crop or pad on the left to 32 bytes.\<close>

definition left_pad32 :: "bytes \<Rightarrow> bytes" where
  "left_pad32 bz = replicate (32 - length bz) 0 @ drop (length bz - 32) bz"

text \<open>Three accounts with one-byte addresses.\<close>

definition sample_accounts :: "(string \<times> addr) list" where
  "sample_accounts = [(''ann'', [1]), (''bob'', [2]), (''root'', [3])]"

definition sample_address :: "string \<Rightarrow> addr result" where
  "sample_address s = (case map_of sample_accounts s of None \<Rightarrow> Inl (ErrLib ''unknown address'') | Some a \<Rightarrow> Inr a)"

definition sample_name :: "addr \<Rightarrow> string" where
  "sample_name a = (case map_of (map prod.swap sample_accounts) a of None \<Rightarrow> '''' | Some s \<Rightarrow> s)"

definition sample_env :: env where
  "sample_env = \<lparr>
     AccAddressFromBech32 = sample_address,
     AccString = sample_name,
     StringToBytes = sample_address,
     BytesToString = (\<lambda>a. Inr (sample_name a)),
     Keccak256 = pad32,
     BytesToHash = left_pad32,
     HashHex = (\<lambda>_. ''0x''),
     BytesKeyEncode = (\<lambda>bz. bz),
     BytesKeyDecode = (\<lambda>bz. Inr (length bz, bz)),
     AddrKeyEncode = (\<lambda>bz. bz),
     AddrKeyDecode = (\<lambda>bz. Inr (length bz, bz)),
     PairEncode = (\<lambda>f g key. f (fst key) @ g (snd key)),
     PairDecode = (\<lambda>f g bz. res_bind (f bz) (\<lambda>(n, a). res_bind (g (drop n bz)) (\<lambda>(n', b). Inr (n + n', a, b)))),
     key_ok = (\<lambda>s. CHR 0x00 \<notin> set s)\<rparr>"

definition sample_ctx :: ctx where
  "sample_ctx = \<lparr>BlockTime = ''2025-01-01'', BlockHeight = 1, IsCheckTx = False\<rparr>"

definition sample_state :: keeper where
  "sample_state = NewKeeper\<lparr>ParamsItem := Some \<lparr>par_Admin = ''root''\<rparr>, RegistryCount := Some 0\<rparr>"

definition sample_record :: Record where
  "sample_record = \<lparr>rec_Uri = ''u'', rec_Checksum = ''c'', rec_ChecksumAlgo = ''s'', rec_Metadata = ''m'',
     rec_Timestamp = '''', rec_Status = ''new'', rec_RecordId = 0, rec_Index = 0, rec_IsLatest = False,
     rec_RegistryId = 1\<rparr>"

definition add_registry_tx :: "ctx \<times> msg" where
  "add_registry_tx = (sample_ctx, AddRegistryMsg \<lparr>mar_Sender = ''ann'', mar_Name = ''R'', mar_Description = '''', mar_Metadata = ''''\<rparr>)"

definition add_record_tx :: "string \<Rightarrow> ctx \<times> msg" where
  "add_record_tx sender = (sample_ctx, AddRecordMsg \<lparr>mrc_Sender = sender, mrc_Record = Some sample_record\<rparr>)"

definition grant_tx :: "string \<Rightarrow> string \<Rightarrow> string \<Rightarrow> ctx \<times> msg" where
  "grant_tx admin address role = (sample_ctx, GrantRoleMsg \<lparr>mgr_Admin = admin, mgr_Address = address,
     mgr_RegistryId = 1, mgr_Checksum = '''', mgr_Role = role\<rparr>)"

definition revoke_tx :: "string \<Rightarrow> string \<Rightarrow> string \<Rightarrow> ctx \<times> msg" where
  "revoke_tx admin address role = (sample_ctx, RevokeRoleMsg \<lparr>mrr_Admin = admin, mrr_Address = address,
     mrr_RegistryId = 1, mrr_Checksum = '''', mrr_Role = role\<rparr>)"

lemmas sample_defs = sample_env_def sample_ctx_def sample_state_def sample_record_def
  add_registry_tx_def add_record_tx_def grant_tx_def revoke_tx_def

lemma sample_env_hash_ok: "hash_ok sample_env"
  by (auto simp: hash_ok_def sample_env_def pad32_def left_pad32_def)

end
