(* ===== verification/Anchoring_Properties.thy ===== *)
theory Anchoring_Properties
  imports Sample_State
begin

text \<open>
  The properties of the anchoring module: its roles, its three write operations, and what
  any sequence of its messages preserves. Each property with hypotheses is followed by an
  application to the states and messages of \<open>Sample_State\<close>.
\<close>

section \<open>Evaluations of the sample runs\<close>

lemma sample_state_fields [simp]:
  "Registries sample_state = cempty" "Records sample_state = cempty" "RegistryCount sample_state = Some 0"
  "RecordIdByRegistryAndChecksum sample_state = cempty" "RecordIdByChecksumAndRegistry sample_state = cempty"
  "RecordsCountByRegistry sample_state = cempty" "RecordIndices sample_state = cempty"
  "RoleAdmins sample_state = cempty" "RoleMembers sample_state = cempty"
  "ParamsItem sample_state = Some \<lparr>par_Admin = ''root''\<rparr>"
  by (simp_all add: sample_state_def NewKeeper_def)

lemma sample_state_strong: "n < 2 ^ 64 \<Longrightarrow> strong_room n sample_state"
  by (simp add: strong_room_def wf_room_def room_def keeper_wf_def registries_wf_def lookup_wf_def versions_wf_def
      checksums_wf_def dense_wf_def registries_dense_def ids_dense_def versions_dense_def)

definition sample_txs :: "(ctx \<times> msg) list" where
  "sample_txs = [add_registry_tx, grant_tx ''ann'' ''bob'' ''editor'', add_record_tx ''bob'',
     revoke_tx ''ann'' ''ann'' ''admin'', add_record_tx ''ann'']"

definition sample_registry :: Registry where
  "sample_registry = \<lparr>reg_Id = 1, reg_Name = ''R'', reg_Description = '''', reg_Creator = ''ann'',
     reg_CreatedAt = ''2025-01-01'', reg_Metadata = ''''\<rparr>"

definition sample_view :: "keeper \<Rightarrow> (u64, Registry) coll \<times> (u64 \<times> u64 \<times> u64) list" where
  "sample_view k = (Registries k, map fst (centries (Records k)))"

lemma sample_run_view:
  "sample_view (run_txs sample_env sample_txs sample_state) = (cset 1 sample_registry cempty, [(1, 1, 1), (1, 1, 2)])"
  by code_simp

text \<open>The state after one registry, and after one record in it.\<close>

definition sample_k1 :: keeper where
  "sample_k1 = snd (AddRegistry sample_env sample_ctx [1] ''R'' '''' '''' sample_state)"

definition sample_k2 :: keeper where
  "sample_k2 = snd (AddRecord sample_env sample_ctx [1] sample_record sample_k1)"

lemma sample_step1: "AddRegistry sample_env sample_ctx [1] ''R'' '''' '''' sample_state = (Inr 1, sample_k1)"
proof -
  have "fst (AddRegistry sample_env sample_ctx [1] ''R'' '''' '''' sample_state) = Inr 1" by code_simp
  then show ?thesis by (simp add: sample_k1_def prod_eq_iff)
qed

lemma sample_step2: "AddRecord sample_env sample_ctx [1] sample_record sample_k1 = (Inr 1, sample_k2)"
proof -
  have "fst (AddRecord sample_env sample_ctx [1] sample_record sample_k1) = Inr 1" by code_simp
  then show ?thesis by (simp add: sample_k2_def prod_eq_iff)
qed

lemma sample_handle1: "handle sample_env sample_ctx (snd add_registry_tx) sample_state = (Inr (), sample_k1)"
proof -
  have "sample_address ''ann'' = Inr [1]" by code_simp
  then have "Msg_AddRegistry sample_env sample_ctx (Some \<lparr>mar_Sender = ''ann'', mar_Name = ''R'', mar_Description = '''', mar_Metadata = ''''\<rparr>)
      sample_state = (Inr 1, sample_k1)"
    by (simp add: Msg_AddRegistry_Inr_iff validate_iffs registry_fields_ok_def limit_defs sample_step1 [simplified]
        sample_env_def [THEN arg_cong, of StringToBytes] sample_env_def [THEN arg_cong, of AccAddressFromBech32])
  then show ?thesis by (simp add: add_registry_tx_def act_bind_Inr_iff)
qed

lemma sample_env_fields [simp]:
  "StringToBytes sample_env = sample_address" "AccAddressFromBech32 sample_env = sample_address"
  "AccString sample_env = sample_name"
  by (simp_all add: sample_env_def)

lemma sample_addresses [simp]:
  "sample_address ''ann'' = Inr [1]" "sample_address ''bob'' = Inr [2]" "sample_address ''root'' = Inr [3]"
  "sample_name [1] = ''ann''"
  by code_simp+

lemma sample_k1_inv: "n < 2 ^ 64 - 1 \<Longrightarrow> strong_room n sample_k1"
  using handle_strong_room [OF _ sample_handle1] sample_state_strong [of "Suc n"] by simp

lemma sample_k1_wf: "keeper_wf sample_k1" "checksums_wf sample_k1" "room 5 sample_k1" "record_room sample_k1 r"
  using sample_k1_inv [of 5] room_record [of 4 sample_k1] by (simp_all add: strong_room_def wf_room_def)

lemma sample_record_registry [simp]: "rec_RegistryId sample_record = 1" "rec_Checksum sample_record = ''c''"
  by (simp_all add: sample_record_def)

section \<open>Roles\<close>


text \<open>
  \<open>IsSoleAdmin\<close>, which stops its walk at the second member it sees, answers whether the
  role has exactly one member, and never returns an error.
\<close>

theorem IsSoleAdmin_exact: "IsSoleAdmin role s = Inr (card {ad. is_member s role ad} = 1)"
  by (rule IsSoleAdmin_card)

section \<open>Registries and records\<close>

text \<open>
  C8. A successful \<open>AddRegistry\<close> uses an id no registry has, stores exactly the registry it
  was given with the block time and the sender, leaves every other registry alone, makes
  the sender an admin of the new registry and starts its record counter at zero.
\<close>

theorem AddRegistry_creates:
  assumes wf: "registries_wf k" and room: "registry_room k"
    and run: "AddRegistry E cx sender name description metadata k = (Inr rid, k')"
    and codec: "StringToBytes E (AccString E sender) = Inr sender"
  shows "\<not> chas (Registries k) rid \<and>
    Registries k' = cset rid \<lparr>reg_Id = rid, reg_Name = name, reg_Description = description,
       reg_Creator = AccString E sender, reg_CreatedAt = BlockTime cx, reg_Metadata = metadata\<rparr> (Registries k) \<and>
    is_member k' (RegistryRole E rid RoleAdmin) sender \<and>
    cget (RecordsCountByRegistry k') rid = Some 0 \<and> RegistryCount k' = Some rid"
proof -
  from run codec obtain n where n: "RegistryCount k = Some n" "rid = n + 1"
    "k' = registry_added E cx sender sender name description metadata rid k"
    by (auto simp: AddRegistry_Inr_iff)
  have "n + 1 \<noteq> 0" using room n(1) by (simp add: registry_room_def)
  with new_registry_unused [OF wf n(1)] n show ?thesis
    by (simp add: is_member_registry_added) (simp add: registry_added_def Let_def)
qed

theorem AddRegistry_creates_witness:
  "\<not> chas (Registries sample_state) 1 \<and> is_member sample_k1 (RegistryRole sample_env 1 RoleAdmin) [1]"
  using AddRegistry_creates [OF _ _ sample_step1] sample_state_strong [of 1]
  by (simp add: strong_room_def wf_room_def keeper_wf_def registry_room_def)

text \<open>
  C6. On a well-formed state whose counters have room, \<open>AddRecord\<close> succeeds exactly when the
  fields of the record are valid, its registry exists, the sender is an admin or editor of
  the record or of the registry, and the checksum is known already or can be a store key.
\<close>

theorem AddRecord_exact:
  assumes wf: "keeper_wf k" and room: "record_room k (rec_RegistryId rc)"
  shows "(\<exists>i k'. AddRecord E cx sender rc k = (Inr i, k')) =
    (record_fields_ok rc \<and> chas (Registries k) (rec_RegistryId rc) \<and>
     can_write E k sender (rec_RegistryId rc) (rec_Checksum rc) \<and>
     (chas (RecordIdByRegistryAndChecksum k) (rec_RegistryId rc, rec_Checksum rc) \<or> key_ok E (rec_Checksum rc)))"
    (is "?L = ?R")
proof
  assume ?L
  then obtain i k' where run: "AddRecord E cx sender rc k = (Inr i, k')" by blast
  then have "chas (RecordIdByRegistryAndChecksum k) (rec_RegistryId rc, rec_Checksum rc) \<or> key_ok E (rec_Checksum rc)"
    by (cases rule: AddRecord_cases) (auto simp: chas_iff)
  with AddRecord_guards [OF run] show ?R by simp
next
  assume ?R
  then show ?L using AddRecord_succeeds [OF wf room] by blast
qed

theorem AddRecord_exact_witness:
  "can_write sample_env sample_k1 [1] 1 ''c'' \<and> chas (Registries sample_k1) 1"
proof -
  have "\<exists>i k'. AddRecord sample_env sample_ctx [1] sample_record sample_k1 = (Inr i, k')"
    using sample_step2 by blast
  then show ?thesis
    using AddRecord_exact [OF sample_k1_wf(1), of sample_record sample_env sample_ctx "[1]"] sample_k1_wf(4) by simp
qed

text \<open>
  C7. A successful \<open>AddRecord\<close> appends one version: its index is 1 for a new record id and
  one more than the latest index otherwise; the record is stored under it with the block
  time; it is the only version of the record marked latest; and both checksum lookups lead
  to the record id that was returned.
\<close>

theorem AddRecord_appends_version:
  assumes wf: "keeper_wf k" and room: "record_room k (rec_RegistryId rc)"
    and run: "AddRecord E cx sender rc k = (Inr i, k')"
  defines "r \<equiv> rec_RegistryId rc" and "c \<equiv> rec_Checksum rc"
  defines "x \<equiv> (case cget (RecordIndices k) (r, i) of None \<Rightarrow> 1 | Some n \<Rightarrow> n + 1)"
  shows "cget (RecordIndices k') (r, i) = Some x \<and>
    cget (Records k') (r, i, x) =
      Some (rc\<lparr>rec_RecordId := i, rec_Index := x, rec_Timestamp := BlockTime cx, rec_IsLatest := True\<rparr>) \<and>
    {y. \<exists>rc'. cget (Records k') (r, i, y) = Some rc' \<and> rec_IsLatest rc'} = {x} \<and>
    cget (RecordIdByRegistryAndChecksum k') (r, c) = Some i \<and>
    cget (RecordIdByChecksumAndRegistry k') (c, r) = Some i"
proof -
  have wf': "keeper_wf k'" by (rule AddRecord_wf [OF wf run room])
  have stored: "cget (RecordIndices k') (r, i) = Some x"
    "cget (Records k') (r, i, x) = Some (stored_record cx rc i x)"
    "cget (RecordIdByRegistryAndChecksum k') (r, c) = Some i"
    using run unfolding r_def c_def x_def
    by (cases rule: AddRecord_cases; simp add: get_Records_version_added next_index_def)+
  have "y = x" if "cget (Records k') (r, i, y) = Some rc'" "rec_IsLatest rc'" for y rc'
    using versions_wfD [OF keeper_wf_parts(3) [OF wf'] that(1)] that(2) stored(1) by (auto simp: version_ok_def)
  moreover have "rec_IsLatest (stored_record cx rc i x)" by (simp add: stored_record_def)
  ultimately have "{y. \<exists>rc'. cget (Records k') (r, i, y) = Some rc' \<and> rec_IsLatest rc'} = {x}"
    using stored(2) by blast
  moreover have "cget (RecordIdByChecksumAndRegistry k') (c, r) = Some i"
    using keeper_wf_parts(2) [OF wf'] stored(3) by (simp add: lookup_wf_def)
  ultimately show ?thesis using stored by (simp add: stored_record_def)
qed

theorem AddRecord_appends_version_witness:
  "cget (RecordIdByChecksumAndRegistry sample_k2) (''c'', 1) = Some 1"
  using AddRecord_appends_version [OF sample_k1_wf(1) _ sample_step2] sample_k1_wf(4) by simp

text \<open>
  \<open>UpdateRecordStatus\<close> succeeds exactly when the status is valid, the version exists and
  the sender may write it; it then changes the status of that version and nothing else of
  the records, and reports the change in one event.
\<close>

theorem UpdateRecordStatus_exact:
  "UpdateRecordStatus E cx sender r i x st k = (Inr (), k') \<longleftrightarrow>
     status_ok st \<and>
     (\<exists>rc. cget (Records k) (r, i, x) = Some rc \<and> can_write E k sender r (rec_Checksum rc) \<and>
        k' = k\<lparr>Records := cset (r, i, x) (rc\<lparr>rec_Status := st\<rparr>) (Records k),
               Events := Events k @ [(''update_record_status'',
                 [(''registry_id'', sprint_u64 r), (''record_id'', sprint_u64 i), (''record_index'', sprint_u64 x),
                  (''record_status'', st), (''record_checksum'', rec_Checksum rc)])]\<rparr>)"
  by (rule UpdateRecordStatus_Inr_iff)

section \<open>Any sequence of messages\<close>

text \<open>
  C5. As long as the counters have room for the messages, every sequence of messages, from
  whatever senders, accepted or rejected, keeps the state well formed: registries under
  their ids, the two checksum lookups mirror each other, one version of each record marked
  latest, one record id per checksum, and ids and indexes without gaps.
\<close>

theorem run_txs_invariant:
  assumes "strong_room (length txs) k"
  shows "keeper_wf (run_txs E txs k) \<and> checksums_wf (run_txs E txs k) \<and> dense_wf (run_txs E txs k)"
  using strong_run.run_invariant [of txs 0 k E] assms
  by (simp add: run_txs_def strong_room_def wf_room_def)

theorem run_txs_invariant_witness: "keeper_wf (run_txs sample_env sample_txs sample_state)"
  using run_txs_invariant [of sample_txs sample_state sample_env] sample_state_strong
  by (simp add: sample_txs_def)

text \<open>
  C1. What is anchored stays: no sequence of messages removes or changes a registry, removes
  a version of a record, changes anything of it but its status and its latest mark, gives
  the latest mark back, or binds a checksum to another record id.
\<close>

theorem run_txs_history:
  assumes "wf_room (length txs) k"
  shows "history_kept k (run_txs E txs k)"
  using anchor_run.run_related [of txs 0 k E] assms by (simp add: run_txs_def)

theorem run_txs_history_witness: "chas (Registries (run_txs sample_env sample_txs sample_k1)) 1"
proof -
  have "cget (Registries sample_k1) 1 = Some sample_registry" by code_simp
  moreover have "wf_room (length sample_txs) sample_k1"
    using sample_k1_inv [of "length sample_txs"] by (simp add: sample_txs_def strong_room_def)
  ultimately show ?thesis
    using run_txs_history [of sample_txs sample_k1 sample_env] by (auto simp: history_kept_def chas_iff)
qed

text \<open>
  C2. If every registry has an admin, every registry still has one after any sequence of
  messages, provided the hash has no collision among the role identifiers the sequence uses:
  no message and no combination of messages removes the last admin.
\<close>

theorem run_txs_keeps_admins:
  assumes "admins_kept E k" and "inj_on (NewRoleHash E) (ids_in_use E txs k)"
  shows "admins_kept E (run_txs E txs k)"
  using assms by (rule run_admins_kept)

lemma sample_ids: "ids_in_use sample_env sample_txs sample_state = {''registry:1:admin'', ''registry:1:editor''}"
proof -
  have "Registries (run_txs sample_env sample_txs sample_state) = cset 1 sample_registry cempty"
    using sample_run_view by (simp add: sample_view_def)
  then have "admin_ids (run_txs sample_env sample_txs sample_state) = {registry_role_id 1 RoleAdmin}"
    by (auto simp: admin_ids_def)
  moreover have "scoped_role_id 1 '''' ''editor'' = ''registry:1:editor''" "scoped_role_id 1 '''' ''admin'' = ''registry:1:admin''"
    "registry_role_id 1 RoleAdmin = ''registry:1:admin''" by code_simp+
  ultimately show ?thesis
    by (auto simp: ids_in_use_def sample_txs_def add_registry_tx_def add_record_tx_def grant_tx_def revoke_tx_def)
qed

lemma sample_hash_inj: "inj_on (NewRoleHash sample_env) {''registry:1:admin'', ''registry:1:editor''}"
proof -
  have "NewRoleHash sample_env ''registry:1:admin'' \<noteq> NewRoleHash sample_env ''registry:1:editor''" by code_simp
  then show ?thesis by (auto simp: inj_on_def)
qed

theorem run_txs_keeps_admins_witness: "admins_kept sample_env (run_txs sample_env sample_txs sample_state)"
  using run_txs_keeps_admins [of sample_env sample_state sample_txs] sample_hash_inj
  by (simp add: sample_ids admins_kept_def)

text \<open>
  C3. Every message that changes who has a role of a registry, or of a record in it, was
  signed by an admin of that registry, or by the module admin adding a registry admin, or
  is the message that creates the registry. \<open>S\<close> is the set of role identifiers in use.
\<close>

theorem role_changes_authorised:
  assumes "handle E cx m k = (Inr (), k')" and "hash_ok E"
    and "admins_configured E S k" and "inj_on (NewRoleHash E) S"
    and "admin_ids k' \<subseteq> S" and "msg_role_ids m \<subseteq> S" and "scoped_role_id r c x \<in> S"
    and "is_member k' (scopedRole E r c x) ad \<noteq> is_member k (scopedRole E r c x) ad"
  shows "role_authority E k m r c x"
  using assms by (rule handle_role_authority)

lemma sample_k1_registries: "Registries sample_k1 = cset 1 sample_registry cempty"
  by code_simp

lemma sample_k1_admin_ids: "admin_ids sample_k1 = {registry_role_id 1 RoleAdmin}"
  by (auto simp: admin_ids_def sample_k1_registries)

theorem role_changes_authorised_witness:
  "role_authority sample_env sample_state (snd add_registry_tx) 1 '''' RoleAdmin"
proof (rule role_changes_authorised [OF sample_handle1 sample_env_hash_ok, where S = "{registry_role_id 1 RoleAdmin}" and ad = "[1]"])
  show "is_member sample_k1 (scopedRole sample_env 1 '''' RoleAdmin) [1]
      \<noteq> is_member sample_state (scopedRole sample_env 1 '''' RoleAdmin) [1]"
    by code_simp
qed (simp_all add: admins_configured_def sample_k1_admin_ids add_registry_tx_def scoped_role_id_admin)

text \<open>
  C28. The admin role configured for a role is always the admin role of its registry: every
  sequence of messages preserves this.
\<close>

theorem run_txs_admins_configured:
  assumes "admins_configured E S k" and "ids_in_use E txs k \<subseteq> S"
  shows "admins_configured E S (run_txs E txs k)"
  using assms by (rule run_admins_configured)

theorem run_txs_admins_configured_witness:
  "admins_configured sample_env {''registry:1:admin'', ''registry:1:editor''} (run_txs sample_env sample_txs sample_state)"
  using run_txs_admins_configured [of sample_env "{''registry:1:admin'', ''registry:1:editor''}" sample_state sample_txs]
  by (simp add: sample_ids admins_configured_def)


lemma sample_handle2: "handle sample_env sample_ctx (snd (add_record_tx ''ann'')) sample_k1 = (Inr (), sample_k2)"
proof -
  have "record_fields_ok sample_record" by code_simp
  then have "Msg_AddRecord sample_env sample_ctx (Some \<lparr>mrc_Sender = ''ann'', mrc_Record = Some sample_record\<rparr>) sample_k1
      = (Inr 1, sample_k2)"
    by (simp add: Msg_AddRecord_Inr_iff validate_iffs sample_step2)
  then show ?thesis by (simp add: add_record_tx_def act_bind_Inr_iff)
qed



text \<open>
  Only the current module admin changes the parameters, and only to a valid admin
  address: \<open>UpdateParams\<close> succeeds exactly then, and it writes nothing else.
\<close>

theorem UpdateParams_exact:
  "Msg_UpdateParams E (Some m) k = (Inr (), k') \<longleftrightarrow>
     (\<exists>p p'. res_ok (StringToBytes E (mup_Authority m)) \<and> ParamsItem k = Some p \<and> par_Admin p = mup_Authority m \<and>
        p' = (if mup_Admin m = '''' then p else p\<lparr>par_Admin := mup_Admin m\<rparr>) \<and>
        Params_Validate E p' = Inr () \<and> k' = k\<lparr>ParamsItem := Some p'\<rparr>)"
  by (rule Msg_UpdateParams_Inr_iff)

end
