(* ===== verification/Anchoring_Genesis.thy ===== *)
theory Anchoring_Genesis
  imports Role_Safety
begin

text \<open>
  The genesis state of \<open>x/anchoring\<close>: \<open>GenesisState.Validate\<close> (\<open>types/genesis.go\<close>),
  \<open>InitGenesis\<close> and \<open>ExportGenesis\<close> (\<open>keeper/genesis.go\<close>). The maps of a genesis state come
  as lists in the order in which Go iterates over them; \<open>iter\<close> is the order in which Go
  iterates over the local map of version groups.
\<close>

type_synonym groups = "(u64 \<times> u64, RecordVersionGroup) coll"
type_synonym group_iter = "((u64 \<times> u64) \<times> RecordVersionGroup) list \<Rightarrow> ((u64 \<times> u64) \<times> RecordVersionGroup) list"

definition add_to_group :: "Record \<Rightarrow> groups \<Rightarrow> groups" where
  "add_to_group record groups =
     (let gk = (rec_RegistryId record, rec_RecordId record);
          g = (case cget groups gk of None \<Rightarrow> empty_group | Some g \<Rightarrow> g)
      in cset gk (RecordVersionGroup_Add record g) groups)"

definition group_label :: "u64 \<times> u64 \<Rightarrow> string" where
  "group_label gk = ''record group (registry_id='' @ sprint_u64 (fst gk) @ '', record_id='' @ sprint_u64 (snd gk) @ '')''"

definition record_key_text :: "Record \<Rightarrow> string" where
  "record_key_text r = ''registry_id='' @ sprint_u64 (rec_RegistryId r) @ '', record_id='' @ sprint_u64 (rec_RecordId r)
     @ '', index='' @ sprint_u64 (rec_Index r)"

text \<open>\<open>err.Error()\<close> of the errors built with \<open>fmt.Errorf\<close>.\<close>

fun err_text :: "error \<Rightarrow> string" where
  "err_text (ErrMsg t) = t"
| "err_text (ErrWrap t e) = t @ '': '' @ err_text e"
| "err_text _ = ''''"

section \<open>Validate\<close>

fun validate_registries :: "env \<Rightarrow> (u64 \<times> Registry) list \<Rightarrow> (u64, unit) coll \<Rightarrow> (u64, unit) coll result" where
  "validate_registries E [] ids = Inr ids"
| "validate_registries E ((mapKey, registry) # rest) ids =
     (if mapKey \<noteq> reg_Id registry
      then Inl (ErrMsg (''registry map key '' @ sprint_u64 mapKey @ '' does not match registry id '' @ sprint_u64 (reg_Id registry)))
      else res_bind (res_map_err (ErrWrap (''invalid registry '' @ sprint_u64 (reg_Id registry))) (ValidateRegistry E registry)) (\<lambda>_.
           validate_registries E rest (cset (reg_Id registry) () ids)))"

fun validate_records :: "(u64, unit) coll \<Rightarrow> nat \<Rightarrow> Record list \<Rightarrow> (u64 \<times> u64 \<times> u64, unit) coll \<Rightarrow> groups \<Rightarrow> groups result" where
  "validate_records ids i [] seen groups = Inr groups"
| "validate_records ids i (record # rest) seen groups =
     res_bind (res_map_err (ErrWrap (''invalid record at index '' @ dec_string i)) (ValidateRecord record)) (\<lambda>_.
     if \<not> chas ids (rec_RegistryId record)
     then Inl (ErrMsg (''record at index '' @ dec_string i @ '' references unknown registry_id '' @ sprint_u64 (rec_RegistryId record)))
     else
       let rk = (rec_RegistryId record, rec_RecordId record, rec_Index record) in
       if chas seen rk then Inl (ErrMsg (''duplicate record key ('' @ record_key_text record @ '')''))
       else validate_records ids (i + 1) rest (cset rk () seen) (add_to_group record groups))"

fun validate_groups :: "((u64 \<times> u64) \<times> RecordVersionGroup) list \<Rightarrow> unit result" where
  "validate_groups [] = Inr ()"
| "validate_groups ((gk, g) # rest) =
     res_bind (ValidateIsLatest (group_label gk) g) (\<lambda>_. validate_groups rest)"

text \<open>The text of the second error leaves out the quoted key.\<close>

fun validate_role_admins :: "(string \<times> bytes) list \<Rightarrow> unit result" where
  "validate_role_admins [] = Inr ()"
| "validate_role_admins ((key, adminRole) # rest) =
     (if key = '''' then Inl (ErrMsg ''role_admins: key cannot be empty'')
      else if adminRole = [] then Inl (ErrMsg ''role_admins: admin role bytes cannot be empty'')
      else validate_role_admins rest)"

fun validate_role_members :: "(string \<times> bytes) list \<Rightarrow> unit result" where
  "validate_role_members [] = Inr ()"
| "validate_role_members ((key, marker) # rest) =
     (if key = '''' then Inl (ErrMsg ''role_members: key cannot be empty'')
      else validate_role_members rest)"

definition GenesisState_Validate :: "env \<Rightarrow> group_iter \<Rightarrow> GenesisState \<Rightarrow> unit result" where
  "GenesisState_Validate E iter gs =
     res_bind (Params_Validate E (gs_Params gs)) (\<lambda>_.
     res_bind (validate_registries E (gs_Registries gs) cempty) (\<lambda>ids.
     res_bind (validate_records ids 0 (gs_Records gs) cempty cempty) (\<lambda>groups.
     res_bind (validate_groups (iter (centries groups))) (\<lambda>_.
     res_bind (validate_role_admins (gs_RoleAdmins gs)) (\<lambda>_.
     validate_role_members (gs_RoleMembers gs))))))"

section \<open>InitGenesis\<close>

fun init_registries :: "env \<Rightarrow> (u64 \<times> Registry) list \<Rightarrow> u64 \<Rightarrow> ('z keeper_scheme, u64) act" where
  "init_registries E [] registryCount = act_return registryCount"
| "init_registries E ((mapKey, registry) # rest) registryCount =
     (if mapKey \<noteq> reg_Id registry
      then act_fail (ErrInvalidGenesisState (''registry map key '' @ sprint_u64 mapKey @ '' does not match registry id '' @ sprint_u64 (reg_Id registry)))
      else
        act_bind (act_try (res_map_err (ErrWrap (''invalid genesis registry (id='' @ sprint_u64 (reg_Id registry) @ '', name='' @ reg_Name registry @ '')''))
                    (ValidateRegistry E registry))) (\<lambda>_.
        act_bind (act_put (\<lambda>k. k\<lparr>Registries := cset (reg_Id registry) registry (Registries k)\<rparr>)) (\<lambda>_.
        act_bind (initializeRegistryRecordCounter (reg_Id registry)) (\<lambda>_.
        init_registries E rest (if reg_Id registry > registryCount then reg_Id registry else registryCount)))))"

text \<open>The body of the loop over the records, up to the bookkeeping of the version groups.\<close>

definition init_record :: "env \<Rightarrow> nat \<Rightarrow> Record \<Rightarrow> ('z keeper_scheme, unit) act" where
  "init_record E i record =
     act_bind (act_try (res_map_err (ErrWrap (''invalid genesis record ('' @ record_key_text record @ '', checksum='' @ rec_Checksum record
                 @ '', position='' @ dec_string i @ '')'')) (ValidateRecord record))) (\<lambda>_.
     let registryId = rec_RegistryId record; recordKey = (registryId, rec_RecordId record, rec_Index record) in
     act_bind (act_get (\<lambda>k. res_map_err (ErrWrap (''record references unknown registry_id '' @ sprint_u64 registryId))
                              (coll_Get (Registries k) registryId))) (\<lambda>_.
     act_bind (act_get (\<lambda>k. res_guard (\<not> chas (Records k) recordKey)
                              (ErrDuplicateRecordKey registryId (rec_RecordId record) (rec_Index record)))) (\<lambda>_.
     act_bind (act_put (\<lambda>k. case cget (RecordIndices k) (registryId, rec_RecordId record) of
                 None \<Rightarrow> k\<lparr>RecordIndices := cset (registryId, rec_RecordId record) (rec_Index record) (RecordIndices k)\<rparr>
               | Some index \<Rightarrow>
                   if rec_Index record > index
                   then k\<lparr>RecordIndices := cset (registryId, rec_RecordId record) (rec_Index record) (RecordIndices k)\<rparr>
                   else k)) (\<lambda>_.
     act_bind (act_put (\<lambda>k. k\<lparr>Records := cset recordKey record (Records k)\<rparr>)) (\<lambda>_.
     act_bind (act_put (\<lambda>k. k\<lparr>RecordIdByRegistryAndChecksum :=
                 cset (registryId, rec_Checksum record) (rec_RecordId record) (RecordIdByRegistryAndChecksum k)\<rparr>)) (\<lambda>_.
     act_bind (act_try (res_guard (key_ok E (rec_Checksum record)) ErrCollEncoding)) (\<lambda>_.
     act_bind (act_put (\<lambda>k. k\<lparr>RecordIdByChecksumAndRegistry :=
                 cset (rec_Checksum record, registryId) (rec_RecordId record) (RecordIdByChecksumAndRegistry k)\<rparr>)) (\<lambda>_.
     act_bind (act_get (\<lambda>k. coll_Get (RecordsCountByRegistry k) registryId)) (\<lambda>recordsCount.
     if rec_RecordId record > recordsCount
     then act_put (\<lambda>k. k\<lparr>RecordsCountByRegistry := cset registryId (rec_RecordId record) (RecordsCountByRegistry k)\<rparr>)
     else act_return ())))))))))"

fun init_records :: "env \<Rightarrow> nat \<Rightarrow> Record list \<Rightarrow> groups \<Rightarrow> ('z keeper_scheme, groups) act" where
  "init_records E i [] groups = act_return groups"
| "init_records E i (record # rest) groups =
     act_bind (init_record E i record) (\<lambda>_. init_records E (i + 1) rest (add_to_group record groups))"

fun init_groups :: "((u64 \<times> u64) \<times> RecordVersionGroup) list \<Rightarrow> unit result" where
  "init_groups [] = Inr ()"
| "init_groups ((gk, g) # rest) =
     (case ValidateIsLatest (group_label gk) g of
        Inl err \<Rightarrow> Inl (ErrInvalidGenesisState (err_text err))
      | Inr _ \<Rightarrow> init_groups rest)"

fun init_role_admins :: "env \<Rightarrow> (string \<times> bytes) list \<Rightarrow> ('z keeper_scheme, unit) act" where
  "init_role_admins E [] = act_return ()"
| "init_role_admins E ((keyStr, adminRole) # rest) =
     act_bind (act_try (RoleCodec_Decode E (bytes_of_string keyStr))) (\<lambda>(n, key).
     act_bind (act_put (\<lambda>k. k\<lparr>RoleAdmins := cset key adminRole (RoleAdmins k)\<rparr>)) (\<lambda>_.
     init_role_admins E rest))"

definition RoleMembers_Decode :: "env \<Rightarrow> bytes \<Rightarrow> (nat \<times> role \<times> addr) result" where
  "RoleMembers_Decode E = PairDecode E (RoleCodec_DecodeNonTerminal E) (AddrKeyDecode E)"

fun init_role_members :: "env \<Rightarrow> (string \<times> bytes) list \<Rightarrow> ('z keeper_scheme, unit) act" where
  "init_role_members E [] = act_return ()"
| "init_role_members E ((keyStr, marker) # rest) =
     act_bind (act_try (RoleMembers_Decode E (bytes_of_string keyStr))) (\<lambda>(n, key).
     act_bind (act_put (\<lambda>k. k\<lparr>RoleMembers := cset key marker (RoleMembers k)\<rparr>)) (\<lambda>_.
     init_role_members E rest))"

definition InitGenesis :: "env \<Rightarrow> group_iter \<Rightarrow> GenesisState \<Rightarrow> ('z keeper_scheme, unit) act" where
  "InitGenesis E iter genState =
     act_bind (act_put (\<lambda>k. k\<lparr>ParamsItem := Some (gs_Params genState)\<rparr>)) (\<lambda>_.
     act_bind (init_registries E (gs_Registries genState) 0) (\<lambda>registryCount.
     act_bind (act_put (\<lambda>k. k\<lparr>RegistryCount := Some registryCount\<rparr>)) (\<lambda>_.
     act_bind (init_records E 0 (gs_Records genState) cempty) (\<lambda>groups.
     act_bind (act_try (init_groups (iter (centries groups)))) (\<lambda>_.
     act_bind (init_role_admins E (gs_RoleAdmins genState)) (\<lambda>_.
     init_role_members E (gs_RoleMembers genState)))))))"

section \<open>ExportGenesis\<close>

definition string_of_bytes :: "bytes \<Rightarrow> string" where
  "string_of_bytes bz = map (\<lambda>b. char_of (unat b)) bz"

definition encodeRBACRoleAdminKey :: "env \<Rightarrow> role \<Rightarrow> bytes" where
  "encodeRBACRoleAdminKey E key = RoleCodec_Encode E key"

definition encodeRBACRoleMemberKey :: "env \<Rightarrow> role \<times> addr \<Rightarrow> bytes" where
  "encodeRBACRoleMemberKey E key = PairEncode E (RoleCodec_EncodeNonTerminal E) (AddrKeyEncode E) key"

text \<open>Filling a Go map during a walk: a later entry replaces one with the same key.\<close>

definition ExportGenesis :: "env \<Rightarrow> 'z keeper_scheme \<Rightarrow> GenesisState result" where
  "ExportGenesis E k =
     res_bind (item_Get (ParamsItem k)) (\<lambda>params.
     Inr \<lparr>gs_Params = params,
          gs_Registries = centries (Registries k),
          gs_Records = map snd (centries (Records k)),
          gs_RoleAdmins = centries (fold (\<lambda>(key, adminRole). cset (string_of_bytes (encodeRBACRoleAdminKey E key)) adminRole)
                            (centries (RoleAdmins k)) cempty),
          gs_RoleMembers = centries (fold (\<lambda>(key, marker). cset (string_of_bytes (encodeRBACRoleMemberKey E key)) marker)
                            (centries (RoleMembers k)) cempty)\<rparr>)"

section \<open>Loading the registries\<close>

definition valid_registry_entry :: "env \<Rightarrow> u64 \<times> Registry \<Rightarrow> bool" where
  "valid_registry_entry E e \<longleftrightarrow> fst e = reg_Id (snd e) \<and> res_ok (ValidateRegistry E (snd e))"

definition load_registries :: "(u64 \<times> Registry) list \<Rightarrow> 'z keeper_scheme \<Rightarrow> 'z keeper_scheme" where
  "load_registries gs k =
     k\<lparr>Registries := fold (\<lambda>e. cset (fst e) (snd e)) gs (Registries k),
       RecordsCountByRegistry := fold (\<lambda>e. cset (fst e) 0) gs (RecordsCountByRegistry k)\<rparr>"

definition max_id :: "(u64 \<times> Registry) list \<Rightarrow> u64 \<Rightarrow> u64" where
  "max_id gs n = fold (\<lambda>e n. if fst e > n then fst e else n) gs n"

lemma validate_registries_iff:
  "validate_registries E gs ids = Inr ids' \<longleftrightarrow>
     (\<forall>e \<in> set gs. valid_registry_entry E e) \<and> ids' = fold (\<lambda>e. cset (fst e) ()) gs ids"
proof (induction gs arbitrary: ids)
  case (Cons e gs)
  obtain mapKey g where e: "e = (mapKey, g)" by (cases e)
  have "validate_registries E (e # gs) ids = Inr ids' \<longleftrightarrow>
      valid_registry_entry E e \<and> validate_registries E gs (cset mapKey () ids) = Inr ids'"
    by (auto simp: e valid_registry_entry_def res_bind_Inr_iff res_ok_iff)
  then show ?case by (simp add: Cons.IH e)
qed auto

lemma init_registries_Inr_iff:
  "init_registries E gs n k = (Inr n', k') \<longleftrightarrow>
     (\<forall>e \<in> set gs. valid_registry_entry E e) \<and> n' = max_id gs n \<and> k' = load_registries gs k"
proof (induction gs arbitrary: n k)
  case Nil
  show ?case by (auto simp: max_id_def load_registries_def)
next
  case (Cons e gs)
  obtain mapKey g where e: "e = (mapKey, g)" by (cases e)
  show ?case
  proof (cases "valid_registry_entry E e")
    case True
    then show ?thesis
      using Cons.IH
      by (auto simp: e act_bind_try_Inr_iff act_bind_Inr_iff [of "act_put _"] act_bind_Inr_iff [of "initializeRegistryRecordCounter _"]
          initializeRegistryRecordCounter_def valid_registry_entry_def res_ok_iff max_id_def load_registries_def)
  next
    case False
    then show ?thesis
      by (auto simp: e act_bind_try_Inr_iff valid_registry_entry_def res_ok_iff)
  qed
qed

lemma max_id_bounds:
  "n \<le> max_id gs n" "e \<in> set gs \<Longrightarrow> fst e \<le> max_id gs n" "max_id gs n = n \<or> max_id gs n \<in> fst ` set gs"
proof -
  show ge: "n \<le> max_id gs n" for gs n
    unfolding max_id_def by (induction gs arbitrary: n) (auto, meson less_imp_le order_trans)
  show "e \<in> set gs \<Longrightarrow> fst e \<le> max_id gs n" for gs n
  proof (induction gs arbitrary: n)
    case (Cons e' gs)
    then show ?case
      using ge [of "if fst e' > n then fst e' else n" gs] by (auto simp: max_id_def split: if_splits)
  qed simp
  show "max_id gs n = n \<or> max_id gs n \<in> fst ` set gs" for gs n
  proof (induction gs arbitrary: n)
    case (Cons e' gs)
    then show ?case
      using Cons.IH [of "if fst e' > n then fst e' else n"] by (auto simp: max_id_def split: if_splits)
  qed (simp add: max_id_def)
qed

lemma get_fold_zero:
  "cget (fold (\<lambda>e. cset (fst e) v) gs m) r = (if r \<in> fst ` set gs then Some v else cget m r)"
  by (induction gs arbitrary: m) auto

section \<open>Loading the records\<close>

text \<open>
  What the collections hold after the records of the set \<open>D\<close> have been loaded. The
  versions of a record are the members of \<open>D\<close> with its registry and record id.
\<close>

definition rec_key :: "Record \<Rightarrow> u64 \<times> u64 \<times> u64" where
  "rec_key rc = (rec_RegistryId rc, rec_RecordId rc, rec_Index rc)"

definition versions :: "Record set \<Rightarrow> u64 \<Rightarrow> u64 \<Rightarrow> Record set" where
  "versions D r i = {rc \<in> D. rec_RegistryId rc = r \<and> rec_RecordId rc = i}"

definition is_max :: "u64 \<Rightarrow> u64 set \<Rightarrow> bool" where
  "is_max n A \<longleftrightarrow> n \<in> A \<and> (\<forall>a \<in> A. a \<le> n)"

definition loaded_records :: "env \<Rightarrow> Record set \<Rightarrow> 'z keeper_scheme \<Rightarrow> bool" where
  "loaded_records E D k \<longleftrightarrow> finite D \<and>
     (\<forall>key rc. cget (Records k) key = Some rc \<longleftrightarrow> rc \<in> D \<and> rec_key rc = key) \<and>
     (\<forall>rc \<in> D. rec_RecordId rc \<noteq> 0 \<and> rec_Index rc \<noteq> 0 \<and> record_fields_ok rc \<and>
        chas (Registries k) (rec_RegistryId rc) \<and> key_ok E (rec_Checksum rc))"

definition loaded_indices :: "Record set \<Rightarrow> 'z keeper_scheme \<Rightarrow> bool" where
  "loaded_indices D k \<longleftrightarrow>
     (\<forall>r i. case cget (RecordIndices k) (r, i) of
        None \<Rightarrow> versions D r i = {} | Some n \<Rightarrow> is_max n (rec_Index ` versions D r i))"

definition loaded_lookup :: "Record set \<Rightarrow> 'z keeper_scheme \<Rightarrow> bool" where
  "loaded_lookup D k \<longleftrightarrow>
     (\<forall>r c. cget (RecordIdByChecksumAndRegistry k) (c, r) = cget (RecordIdByRegistryAndChecksum k) (r, c)) \<and>
     (\<forall>r c i. cget (RecordIdByRegistryAndChecksum k) (r, c) = Some i \<longrightarrow>
        (\<exists>rc \<in> versions D r i. rec_Checksum rc = c)) \<and>
     (\<forall>rc \<in> D. chas (RecordIdByRegistryAndChecksum k) (rec_RegistryId rc, rec_Checksum rc))"

definition loaded_counts :: "Record set \<Rightarrow> 'z keeper_scheme \<Rightarrow> bool" where
  "loaded_counts D k \<longleftrightarrow>
     (\<forall>r. chas (RecordsCountByRegistry k) r = chas (Registries k) r) \<and>
     (\<forall>r n. cget (RecordsCountByRegistry k) r = Some n \<longrightarrow>
        is_max n (insert 0 (rec_RecordId ` {rc \<in> D. rec_RegistryId rc = r})))"

text \<open>The state after one record.\<close>

definition load_record :: "Record \<Rightarrow> 'z keeper_scheme \<Rightarrow> 'z keeper_scheme" where
  "load_record rc k =
     (let r = rec_RegistryId rc; i = rec_RecordId rc; x = rec_Index rc; c = rec_Checksum rc in
      k\<lparr>RecordIndices := (case cget (RecordIndices k) (r, i) of
            None \<Rightarrow> cset (r, i) x (RecordIndices k)
          | Some n \<Rightarrow> if n < x then cset (r, i) x (RecordIndices k) else RecordIndices k),
        Records := cset (r, i, x) rc (Records k),
        RecordIdByRegistryAndChecksum := cset (r, c) i (RecordIdByRegistryAndChecksum k),
        RecordIdByChecksumAndRegistry := cset (c, r) i (RecordIdByChecksumAndRegistry k),
        RecordsCountByRegistry := (case cget (RecordsCountByRegistry k) r of
            None \<Rightarrow> RecordsCountByRegistry k
          | Some n \<Rightarrow> if n < i then cset r i (RecordsCountByRegistry k) else RecordsCountByRegistry k)\<rparr>)"

definition record_loadable :: "env \<Rightarrow> Record \<Rightarrow> 'z keeper_scheme \<Rightarrow> bool" where
  "record_loadable E rc k \<longleftrightarrow>
     rec_RecordId rc \<noteq> 0 \<and> rec_Index rc \<noteq> 0 \<and> record_fields_ok rc \<and> key_ok E (rec_Checksum rc) \<and>
     chas (Registries k) (rec_RegistryId rc) \<and> chas (RecordsCountByRegistry k) (rec_RegistryId rc) \<and>
     \<not> chas (Records k) (rec_key rc)"

lemma init_record_Inr_iff:
  "init_record E i rc k = (Inr u, k') \<longleftrightarrow> record_loadable E rc k \<and> k' = load_record rc k"
proof -
  have put: "act_bind (act_put g) f s = (Inr y, s') \<longleftrightarrow> f () (g s) = (Inr y, s')"
    for g :: "'z keeper_scheme \<Rightarrow> 'z keeper_scheme" and f s y s'
    by (simp add: act_bind_def act_put_def)
  show ?thesis
    by (cases "cget (RecordIndices k) (rec_RegistryId rc, rec_RecordId rc)";
        cases "cget (RecordsCountByRegistry k) (rec_RegistryId rc)")
      (auto simp: init_record_def Let_def act_reads put validate_iffs chas_iff record_loadable_def
        load_record_def rec_key_def coll_Get_def split: option.splits if_splits)
qed

lemma versions_insert:
  "versions (insert rc D) r i =
     (if rec_RegistryId rc = r \<and> rec_RecordId rc = i then insert rc (versions D r i) else versions D r i)"
  by (auto simp: versions_def)

lemma versions_empty [simp]: "versions {} r i = {}"
  by (simp add: versions_def)

lemma is_max_single [simp]: "is_max n {x} \<longleftrightarrow> n = x"
  by (auto simp: is_max_def)

lemma is_max_insert: "is_max n A \<Longrightarrow> is_max (if n < x then x else n) (insert x A)"
  by (auto simp: is_max_def intro: less_imp_le order_trans)

lemma is_max_unique: "is_max n A \<Longrightarrow> is_max m A \<Longrightarrow> n = m"
  by (auto simp: is_max_def intro: antisym)

lemma load_record_fields [simp]:
  "Registries (load_record rc k) = Registries k" "RegistryCount (load_record rc k) = RegistryCount k"
  "ParamsItem (load_record rc k) = ParamsItem k" "RoleAdmins (load_record rc k) = RoleAdmins k"
  "RoleMembers (load_record rc k) = RoleMembers k" "Events (load_record rc k) = Events k"
  "Records (load_record rc k) = cset (rec_key rc) rc (Records k)"
  "RecordIdByRegistryAndChecksum (load_record rc k) =
     cset (rec_RegistryId rc, rec_Checksum rc) (rec_RecordId rc) (RecordIdByRegistryAndChecksum k)"
  "RecordIdByChecksumAndRegistry (load_record rc k) =
     cset (rec_Checksum rc, rec_RegistryId rc) (rec_RecordId rc) (RecordIdByChecksumAndRegistry k)"
  by (simp_all add: load_record_def Let_def rec_key_def)

lemma get_RecordIndices_load_record:
  "cget (RecordIndices (load_record rc k)) (r, i) =
     (if (r, i) = (rec_RegistryId rc, rec_RecordId rc)
      then Some (case cget (RecordIndices k) (r, i) of None \<Rightarrow> rec_Index rc | Some n \<Rightarrow> if n < rec_Index rc then rec_Index rc else n)
      else cget (RecordIndices k) (r, i))"
  by (auto simp: load_record_def Let_def split: option.splits)

lemma get_counts_load_record:
  "cget (RecordsCountByRegistry (load_record rc k)) r =
     (if r = rec_RegistryId rc
      then map_option (\<lambda>n. if n < rec_RecordId rc then rec_RecordId rc else n) (cget (RecordsCountByRegistry k) r)
      else cget (RecordsCountByRegistry k) r)"
  by (auto simp: load_record_def Let_def split: option.splits)

lemma loaded_recordsD: "loaded_records E D k \<Longrightarrow> cget (Records k) key = Some rc \<longleftrightarrow> rc \<in> D \<and> rec_key rc = key"
  unfolding loaded_records_def by blast

lemma loaded_records_not_in:
  assumes "loaded_records E D k" "record_loadable E rc k"
  shows "rc \<notin> D"
proof
  assume "rc \<in> D"
  with loaded_recordsD [OF assms(1)] have "cget (Records k) (rec_key rc) = Some rc" by blast
  with assms(2) show False by (auto simp: record_loadable_def chas_iff)
qed

lemma loaded_records_step:
  assumes inv: "loaded_records E D k" and ok: "record_loadable E rc k"
  shows "loaded_records E (insert rc D) (load_record rc k)"
proof -
  have none: "cget (Records k) (rec_key rc) = None"
    using ok by (auto simp: record_loadable_def chas_def)
  have iff: "cget (Records k) key = Some rc' \<longleftrightarrow> rc' \<in> D \<and> rec_key rc' = key" for key rc'
    by (rule loaded_recordsD [OF inv])
  have "cget (Records (load_record rc k)) key = Some rc' \<longleftrightarrow> rc' \<in> insert rc D \<and> rec_key rc' = key" for key rc'
    using none iff [of key rc'] iff [of "rec_key rc" rc'] by auto
  moreover have "finite D" "\<forall>rc \<in> D. rec_RecordId rc \<noteq> 0 \<and> rec_Index rc \<noteq> 0 \<and> record_fields_ok rc \<and>
        chas (Registries k) (rec_RegistryId rc) \<and> key_ok E (rec_Checksum rc)"
    using inv unfolding loaded_records_def by blast+
  ultimately show ?thesis
    using ok unfolding loaded_records_def record_loadable_def load_record_fields(1) by simp
qed

lemma loaded_indices_step:
  assumes inv: "loaded_indices D k"
  shows "loaded_indices (insert rc D) (load_record rc k)"
  unfolding loaded_indices_def
proof (intro allI)
  fix r i
  let ?A = "rec_Index ` versions D r i"
  have old: "case cget (RecordIndices k) (r, i) of None \<Rightarrow> versions D r i = {} | Some n \<Rightarrow> is_max n ?A"
    using inv by (simp add: loaded_indices_def)
  show "case cget (RecordIndices (load_record rc k)) (r, i) of None \<Rightarrow> versions (insert rc D) r i = {}
      | Some n \<Rightarrow> is_max n (rec_Index ` versions (insert rc D) r i)"
    using old is_max_insert [of _ ?A "rec_Index rc"]
    unfolding get_RecordIndices_load_record versions_insert
    by (cases "cget (RecordIndices k) (r, i)"; cases "(r, i) = (rec_RegistryId rc, rec_RecordId rc)") auto
qed

lemma loaded_counts_step:
  assumes inv: "loaded_counts D k"
  shows "loaded_counts (insert rc D) (load_record rc k)"
proof -
  have max: "is_max n (insert 0 (rec_RecordId ` {x \<in> insert rc D. rec_RegistryId x = r}))"
    if n: "cget (RecordsCountByRegistry (load_record rc k)) r = Some n" for r n
  proof (cases "r = rec_RegistryId rc")
    case True
    let ?A = "insert 0 (rec_RecordId ` {x \<in> D. rec_RegistryId x = r})"
    from n True obtain m where m: "cget (RecordsCountByRegistry k) r = Some m"
      "n = (if m < rec_RecordId rc then rec_RecordId rc else m)"
      by (auto simp: get_counts_load_record)
    with inv have "is_max m ?A" by (simp add: loaded_counts_def)
    with m(2) have "is_max n (insert (rec_RecordId rc) ?A)" by (simp only: is_max_insert)
    moreover have "insert (rec_RecordId rc) ?A = insert 0 (rec_RecordId ` {x \<in> insert rc D. rec_RegistryId x = r})"
      using True by auto
    ultimately show ?thesis by simp
  next
    case False
    then have "{x \<in> insert rc D. rec_RegistryId x = r} = {x \<in> D. rec_RegistryId x = r}" by auto
    with inv n False show ?thesis by (simp add: loaded_counts_def get_counts_load_record)
  qed
  have "chas (RecordsCountByRegistry (load_record rc k)) r = chas (RecordsCountByRegistry k) r" for r
    by (simp add: chas_def get_counts_load_record)
  with inv max show ?thesis by (simp add: loaded_counts_def)
qed

lemma loaded_lookup_step:
  assumes inv: "loaded_lookup D k"
  shows "loaded_lookup (insert rc D) (load_record rc k)"
  using inv unfolding loaded_lookup_def versions_insert
  by (auto split: if_splits)

text \<open>A group describes the set of versions that were added to it.\<close>

definition group_of :: "RecordVersionGroup \<Rightarrow> Record set \<Rightarrow> bool" where
  "group_of g V \<longleftrightarrow>
     (if V = {} then MaxIndex g = 0 else is_max (MaxIndex g) (rec_Index ` V)) \<and>
     LatestCount g = card {rc \<in> V. rec_IsLatest rc} \<and>
     (0 < LatestCount g \<longrightarrow> LatestIndex g \<in> rec_Index ` {rc \<in> V. rec_IsLatest rc})"

lemma group_of_empty: "group_of empty_group {}"
  by (simp add: group_of_def empty_group_def)

lemma group_of_add:
  assumes g: "group_of g V" and new: "rc \<notin> V" and fin: "finite V"
  shows "group_of (RecordVersionGroup_Add rc g) (insert rc V)"
proof -
  have set: "{x \<in> insert rc V. rec_IsLatest x} =
      (if rec_IsLatest rc then insert rc {x \<in> V. rec_IsLatest x} else {x \<in> V. rec_IsLatest x})"
    by auto
  have max: "MaxIndex (RecordVersionGroup_Add rc g) = (if MaxIndex g < rec_Index rc then rec_Index rc else MaxIndex g)"
    by (simp add: RecordVersionGroup_Add_def Let_def)
  have "is_max (MaxIndex (RecordVersionGroup_Add rc g)) (rec_Index ` insert rc V)"
    using g is_max_insert [of "MaxIndex g" "rec_Index ` V" "rec_Index rc"]
    unfolding max group_of_def by (cases "V = {}") (auto simp: word_gt_0)
  then show ?thesis
    using g new fin unfolding group_of_def set
    by (auto simp: RecordVersionGroup_Add_def Let_def)
qed

lemma get_add_to_group:
  "cget (add_to_group rc gr) key =
     (if key = (rec_RegistryId rc, rec_RecordId rc)
      then Some (RecordVersionGroup_Add rc (case cget gr key of None \<Rightarrow> empty_group | Some g \<Rightarrow> g))
      else cget gr key)"
  by (simp add: add_to_group_def Let_def)

definition loaded_groups :: "Record set \<Rightarrow> groups \<Rightarrow> bool" where
  "loaded_groups D gr \<longleftrightarrow>
     (\<forall>r i. case cget gr (r, i) of None \<Rightarrow> versions D r i = {} | Some g \<Rightarrow> versions D r i \<noteq> {} \<and> group_of g (versions D r i))"

lemma loaded_groups_step:
  assumes inv: "loaded_groups D gr" and new: "rc \<notin> D" and fin: "finite D"
  shows "loaded_groups (insert rc D) (add_to_group rc gr)"
  unfolding loaded_groups_def
proof (intro allI)
  fix r i
  let ?V = "versions D r i"
  have V: "rc \<notin> ?V" "finite ?V" using new fin by (auto simp: versions_def)
  have "group_of (case cget gr (r, i) of None \<Rightarrow> empty_group | Some g \<Rightarrow> g) ?V"
    using inv by (auto simp: loaded_groups_def group_of_empty split: option.splits) (metis group_of_empty option.simps(4) option.simps(5))+
  from group_of_add [OF this V] inv
  show "case cget (add_to_group rc gr) (r, i) of None \<Rightarrow> versions (insert rc D) r i = {}
      | Some g \<Rightarrow> versions (insert rc D) r i \<noteq> {} \<and> group_of g (versions (insert rc D) r i)"
    unfolding get_add_to_group versions_insert
    by (cases "(r, i) = (rec_RegistryId rc, rec_RecordId rc)") (auto simp: loaded_groups_def)
qed

section \<open>The loops as conditions and folds\<close>

definition rec_valid :: "Record \<Rightarrow> bool" where
  "rec_valid rc \<longleftrightarrow> rec_RecordId rc \<noteq> 0 \<and> rec_Index rc \<noteq> 0 \<and> record_fields_ok rc"

definition records_loadable :: "env \<Rightarrow> Record list \<Rightarrow> 'z keeper_scheme \<Rightarrow> bool" where
  "records_loadable E recs k \<longleftrightarrow>
     (\<forall>rc \<in> set recs. rec_valid rc \<and> key_ok E (rec_Checksum rc) \<and> chas (Registries k) (rec_RegistryId rc) \<and>
        chas (RecordsCountByRegistry k) (rec_RegistryId rc) \<and> \<not> chas (Records k) (rec_key rc)) \<and>
     distinct (map rec_key recs)"

lemma chas_counts_load_record [simp]:
  "chas (RecordsCountByRegistry (load_record rc k)) r = chas (RecordsCountByRegistry k) r"
  by (simp add: chas_def get_counts_load_record)

lemma records_loadable_Cons:
  "records_loadable E (rc # recs) k \<longleftrightarrow> record_loadable E rc k \<and> records_loadable E recs (load_record rc k)"
  by (auto simp: records_loadable_def record_loadable_def rec_valid_def image_iff)

lemma init_records_Inr_iff:
  "init_records E i recs gr k = (Inr gr', k') \<longleftrightarrow>
     records_loadable E recs k \<and> k' = fold load_record recs k \<and> gr' = fold add_to_group recs gr"
proof (induction recs arbitrary: i gr k)
  case Nil
  show ?case by (auto simp: records_loadable_def)
next
  case (Cons rc recs)
  show ?case
    by (simp add: act_bind_Inr_iff init_record_Inr_iff Cons.IH records_loadable_Cons)
qed

lemma validate_records_Inr_iff:
  "validate_records ids i recs seen gr = Inr gr' \<longleftrightarrow>
     (\<forall>rc \<in> set recs. rec_valid rc \<and> chas ids (rec_RegistryId rc) \<and> \<not> chas seen (rec_key rc)) \<and>
     distinct (map rec_key recs) \<and> gr' = fold add_to_group recs gr"
proof (induction recs arbitrary: i seen gr)
  case Nil
  show ?case by auto
next
  case (Cons rc recs)
  have "validate_records ids i (rc # recs) seen gr = Inr gr' \<longleftrightarrow>
      rec_valid rc \<and> chas ids (rec_RegistryId rc) \<and> \<not> chas seen (rec_key rc) \<and>
      validate_records ids (i + 1) recs (cset (rec_key rc) () seen) (add_to_group rc gr) = Inr gr'"
    by (auto simp: res_bind_Inr_iff validate_iffs rec_valid_def rec_key_def Let_def)
  then show ?case by (auto simp: Cons.IH image_iff)
qed

definition group_valid :: "RecordVersionGroup \<Rightarrow> bool" where
  "group_valid g \<longleftrightarrow> LatestCount g = 1 \<and> LatestIndex g = MaxIndex g"

lemma ValidateIsLatest_iff: "ValidateIsLatest label g = Inr u \<longleftrightarrow> group_valid g"
  by (auto simp: ValidateIsLatest_def group_valid_def)

lemma validate_groups_iff: "validate_groups xs = Inr u \<longleftrightarrow> (\<forall>g \<in> snd ` set xs. group_valid g)"
  by (induction xs) (auto simp: res_bind_Inr_iff ValidateIsLatest_iff)

lemma init_groups_iff: "init_groups xs = Inr u \<longleftrightarrow> (\<forall>g \<in> snd ` set xs. group_valid g)"
proof (induction xs)
  case (Cons e xs)
  obtain gk g where e: "e = (gk, g)" by (cases e)
  have "init_groups (e # xs) = Inr u \<longleftrightarrow> group_valid g \<and> init_groups xs = Inr u"
    using ValidateIsLatest_iff [of "group_label gk" g] by (auto simp: e split: sum.splits)
  with Cons e show ?case by simp
qed simp

text \<open>Go visits every entry of a map, in some order.\<close>

definition iter_ok :: "group_iter \<Rightarrow> bool" where
  "iter_ok iter \<longleftrightarrow> (\<forall>xs. set (iter xs) = set xs)"

definition groups_valid :: "Record list \<Rightarrow> bool" where
  "groups_valid recs \<longleftrightarrow> (\<forall>key g. cget (fold add_to_group recs cempty) key = Some g \<longrightarrow> group_valid g)"

lemma groups_valid_iter:
  assumes "iter_ok iter"
  shows "(\<forall>g \<in> snd ` set (iter (centries (fold add_to_group recs cempty))). group_valid g) \<longleftrightarrow> groups_valid recs"
proof -
  have "snd ` set (iter (centries m)) = {g. \<exists>key. cget m key = Some g}" for m :: groups
    using assms by (force simp: iter_ok_def kv.mem_entries_iff [symmetric] image_iff)
  then show ?thesis unfolding groups_valid_def by blast
qed

lemma check_groups_iff:
  assumes "iter_ok iter"
  shows "init_groups (iter (centries (fold add_to_group recs cempty))) = Inr u \<longleftrightarrow> groups_valid recs"
    "validate_groups (iter (centries (fold add_to_group recs cempty))) = Inr u \<longleftrightarrow> groups_valid recs"
  by (simp_all only: init_groups_iff validate_groups_iff groups_valid_iter [OF assms])

section \<open>The role entries\<close>

definition load_admins :: "env \<Rightarrow> (string \<times> bytes) list \<Rightarrow> (role, bytes) coll \<Rightarrow> (role, bytes) coll" where
  "load_admins E es m = fold (\<lambda>e. cset (snd (projr (RoleCodec_Decode E (bytes_of_string (fst e))))) (snd e)) es m"

definition load_members :: "env \<Rightarrow> (string \<times> bytes) list \<Rightarrow> (role \<times> addr, bytes) coll \<Rightarrow> (role \<times> addr, bytes) coll" where
  "load_members E es m = fold (\<lambda>e. cset (snd (projr (RoleMembers_Decode E (bytes_of_string (fst e))))) (snd e)) es m"

lemma init_role_admins_Inr_iff:
  "init_role_admins E es k = (Inr u, k') \<longleftrightarrow>
     (\<forall>e \<in> set es. res_ok (RoleCodec_Decode E (bytes_of_string (fst e)))) \<and>
     k' = k\<lparr>RoleAdmins := load_admins E es (RoleAdmins k)\<rparr>"
proof (induction es arbitrary: k)
  case Nil
  show ?case by (auto simp: load_admins_def)
next
  case (Cons e es)
  obtain key v where e: "e = (key, v)" by (cases e)
  show ?case
    using Cons.IH
    by (cases "RoleCodec_Decode E (bytes_of_string key)")
      (auto simp: e act_bind_def act_try_def act_put_def load_admins_def)
qed

lemma init_role_members_Inr_iff:
  "init_role_members E es k = (Inr u, k') \<longleftrightarrow>
     (\<forall>e \<in> set es. res_ok (RoleMembers_Decode E (bytes_of_string (fst e)))) \<and>
     k' = k\<lparr>RoleMembers := load_members E es (RoleMembers k)\<rparr>"
proof (induction es arbitrary: k)
  case Nil
  show ?case by (auto simp: load_members_def)
next
  case (Cons e es)
  obtain key v where e: "e = (key, v)" by (cases e)
  show ?case
    using Cons.IH
    by (cases "RoleMembers_Decode E (bytes_of_string key)")
      (auto simp: e act_bind_def act_try_def act_put_def load_members_def)
qed

section \<open>InitGenesis on an empty store\<close>

definition fresh :: "'z keeper_scheme \<Rightarrow> bool" where
  "fresh k \<longleftrightarrow> Registries k = cempty \<and> Records k = cempty \<and> RecordIdByRegistryAndChecksum k = cempty \<and>
     RecordsCountByRegistry k = cempty \<and> RecordIndices k = cempty \<and> RecordIdByChecksumAndRegistry k = cempty \<and>
     RoleAdmins k = cempty \<and> RoleMembers k = cempty"

lemma NewKeeper_fresh: "fresh NewKeeper"
  by (simp add: fresh_def NewKeeper_def)

definition registries_loaded :: "GenesisState \<Rightarrow> 'z keeper_scheme \<Rightarrow> 'z keeper_scheme" where
  "registries_loaded gs k =
     (load_registries (gs_Registries gs) (k\<lparr>ParamsItem := Some (gs_Params gs)\<rparr>))
       \<lparr>RegistryCount := Some (max_id (gs_Registries gs) 0)\<rparr>"

definition genesis_loaded :: "env \<Rightarrow> GenesisState \<Rightarrow> 'z keeper_scheme \<Rightarrow> 'z keeper_scheme" where
  "genesis_loaded E gs k =
     (fold load_record (gs_Records gs) (registries_loaded gs k))
       \<lparr>RoleAdmins := load_admins E (gs_RoleAdmins gs) (RoleAdmins k),
        RoleMembers := load_members E (gs_RoleMembers gs) (RoleMembers k)\<rparr>"

definition genesis_ok :: "env \<Rightarrow> GenesisState \<Rightarrow> bool" where
  "genesis_ok E gs \<longleftrightarrow>
     (\<forall>e \<in> set (gs_Registries gs). valid_registry_entry E e) \<and>
     (\<forall>rc \<in> set (gs_Records gs). rec_valid rc \<and> rec_RegistryId rc \<in> fst ` set (gs_Registries gs)) \<and>
     distinct (map rec_key (gs_Records gs)) \<and> groups_valid (gs_Records gs)"

text \<open>What the store needs beyond a valid genesis: encodable checksums and decodable role keys.\<close>

definition genesis_encodable :: "env \<Rightarrow> GenesisState \<Rightarrow> bool" where
  "genesis_encodable E gs \<longleftrightarrow>
     (\<forall>rc \<in> set (gs_Records gs). key_ok E (rec_Checksum rc)) \<and>
     (\<forall>e \<in> set (gs_RoleAdmins gs). res_ok (RoleCodec_Decode E (bytes_of_string (fst e)))) \<and>
     (\<forall>e \<in> set (gs_RoleMembers gs). res_ok (RoleMembers_Decode E (bytes_of_string (fst e))))"

lemma fold_load_record_frame [simp]:
  "Registries (fold load_record recs k) = Registries k" "RegistryCount (fold load_record recs k) = RegistryCount k"
  "ParamsItem (fold load_record recs k) = ParamsItem k" "RoleAdmins (fold load_record recs k) = RoleAdmins k"
  "RoleMembers (fold load_record recs k) = RoleMembers k" "Events (fold load_record recs k) = Events k"
  by (induction recs arbitrary: k) simp_all

lemma load_registries_roles [simp]:
  "RoleAdmins (load_registries gs k) = RoleAdmins k" "RoleMembers (load_registries gs k) = RoleMembers k"
  by (simp_all add: load_registries_def)

lemma registries_loaded_fields [simp]:
  "Registries (registries_loaded gs k) = fold (\<lambda>e. cset (fst e) (snd e)) (gs_Registries gs) (Registries k)"
  "RecordsCountByRegistry (registries_loaded gs k) = fold (\<lambda>e. cset (fst e) 0) (gs_Registries gs) (RecordsCountByRegistry k)"
  "RegistryCount (registries_loaded gs k) = Some (max_id (gs_Registries gs) 0)"
  "ParamsItem (registries_loaded gs k) = Some (gs_Params gs)"
  "Records (registries_loaded gs k) = Records k" "RecordIndices (registries_loaded gs k) = RecordIndices k"
  "RecordIdByRegistryAndChecksum (registries_loaded gs k) = RecordIdByRegistryAndChecksum k"
  "RecordIdByChecksumAndRegistry (registries_loaded gs k) = RecordIdByChecksumAndRegistry k"
  "RoleAdmins (registries_loaded gs k) = RoleAdmins k" "RoleMembers (registries_loaded gs k) = RoleMembers k"
  "Events (registries_loaded gs k) = Events k"
  by (simp_all add: registries_loaded_def load_registries_def)

lemma chas_fold_cset: "chas (fold (\<lambda>e. cset (fst e) (f e)) gs m) r \<longleftrightarrow> r \<in> fst ` set gs \<or> chas m r"
  by (induction gs arbitrary: m) auto

lemma records_loadable_fresh:
  assumes "fresh k"
  shows "records_loadable E (gs_Records gs) (registries_loaded gs k) \<longleftrightarrow>
     (\<forall>rc \<in> set (gs_Records gs). rec_valid rc \<and> key_ok E (rec_Checksum rc) \<and> rec_RegistryId rc \<in> fst ` set (gs_Registries gs)) \<and>
     distinct (map rec_key (gs_Records gs))"
  using assms by (auto simp: records_loadable_def chas_fold_cset fresh_def)

lemma InitGenesis_Inr_iff:
  assumes fresh: "fresh k" and iter: "iter_ok iter"
  shows "InitGenesis E iter gs k = (Inr u, k') \<longleftrightarrow>
    genesis_ok E gs \<and> genesis_encodable E gs \<and> k' = genesis_loaded E gs k"
proof -
  have "InitGenesis E iter gs k = (Inr u, k') \<longleftrightarrow>
      (\<forall>e \<in> set (gs_Registries gs). valid_registry_entry E e) \<and>
      records_loadable E (gs_Records gs) (registries_loaded gs k) \<and> groups_valid (gs_Records gs) \<and>
      (\<forall>e \<in> set (gs_RoleAdmins gs). res_ok (RoleCodec_Decode E (bytes_of_string (fst e)))) \<and>
      (\<forall>e \<in> set (gs_RoleMembers gs). res_ok (RoleMembers_Decode E (bytes_of_string (fst e)))) \<and>
      k' = genesis_loaded E gs k"
    unfolding InitGenesis_def act_bind_Inr_iff act_put_iff init_registries_Inr_iff init_records_Inr_iff act_try_iff
      init_role_admins_Inr_iff init_role_members_Inr_iff
    by (auto simp: genesis_loaded_def registries_loaded_def check_groups_iff [OF iter])
  then show ?thesis
    unfolding records_loadable_fresh [OF fresh] genesis_ok_def genesis_encodable_def by blast
qed

lemma GenesisState_Validate_iff:
  assumes iter: "iter_ok iter"
  shows "GenesisState_Validate E iter gs = Inr u \<longleftrightarrow>
    Params_Validate E (gs_Params gs) = Inr () \<and> genesis_ok E gs \<and>
    (\<forall>e \<in> set (gs_RoleAdmins gs). fst e \<noteq> '''' \<and> snd e \<noteq> []) \<and> (\<forall>e \<in> set (gs_RoleMembers gs). fst e \<noteq> '''')"
proof -
  have admins: "validate_role_admins es = Inr u \<longleftrightarrow> (\<forall>e \<in> set es. fst e \<noteq> '''' \<and> snd e \<noteq> [])" for es and u :: unit
    by (induction es rule: validate_role_admins.induct) auto
  have members: "validate_role_members es = Inr u \<longleftrightarrow> (\<forall>e \<in> set es. fst e \<noteq> '''')" for es and u :: unit
    by (induction es rule: validate_role_members.induct) auto
  show ?thesis
    unfolding GenesisState_Validate_def res_bind_Inr_iff validate_registries_iff validate_records_Inr_iff
      admins members genesis_ok_def
    by (auto simp: chas_fold_cset check_groups_iff [OF iter])
qed

section \<open>A loaded genesis is well formed\<close>

definition loaded :: "env \<Rightarrow> Record set \<Rightarrow> 'z keeper_scheme \<Rightarrow> groups \<Rightarrow> bool" where
  "loaded E D k gr \<longleftrightarrow> loaded_records E D k \<and> loaded_indices D k \<and> loaded_lookup D k \<and> loaded_counts D k \<and> loaded_groups D gr"

lemma loaded_step:
  assumes inv: "loaded E D k gr" and ok: "record_loadable E rc k"
  shows "loaded E (insert rc D) (load_record rc k) (add_to_group rc gr)"
proof -
  from inv have parts: "loaded_records E D k" "loaded_indices D k" "loaded_lookup D k" "loaded_counts D k" "loaded_groups D gr"
    by (simp_all add: loaded_def)
  have "finite D" using parts(1) unfolding loaded_records_def by blast
  with parts ok show ?thesis
    by (simp add: loaded_def loaded_records_step loaded_indices_step loaded_lookup_step loaded_counts_step
        loaded_groups_step [OF parts(5) loaded_records_not_in [OF parts(1) ok]])
qed

lemma loaded_fold:
  "records_loadable E recs k \<Longrightarrow> loaded E D k gr \<Longrightarrow>
     loaded E (set recs \<union> D) (fold load_record recs k) (fold add_to_group recs gr)"
proof (induction recs arbitrary: D k gr)
  case (Cons rc recs)
  then have "loaded E (insert rc D) (load_record rc k) (add_to_group rc gr)"
    by (simp add: records_loadable_Cons loaded_step)
  with Cons.IH [of "load_record rc k" "insert rc D" "add_to_group rc gr"] Cons.prems(1)
  show ?case by (simp add: records_loadable_Cons)
qed simp

lemma loaded_fresh: "fresh k \<Longrightarrow> loaded E {} (registries_loaded gs k) cempty"
  by (auto simp: loaded_def loaded_records_def loaded_indices_def loaded_lookup_def loaded_counts_def loaded_groups_def
      fresh_def chas_fold_cset get_fold_zero split: if_splits)

lemma get_loaded_registry:
  "fresh k \<Longrightarrow> cget (Registries (registries_loaded gs k)) r = Some g \<Longrightarrow> (r, g) \<in> set (gs_Registries gs)"
  by (auto simp: fresh_def kv.get_fold_put dest: map_of_SomeD split: option.splits)

lemma genesis_loaded_data:
  "same_data (fold load_record (gs_Records gs) (registries_loaded gs k)) (genesis_loaded E gs k)"
  by (simp add: same_data_def genesis_loaded_def)

lemma loaded_latest:
  assumes ld: "loaded_indices D k" "loaded_groups D gr" and groups: "\<And>key g. cget gr key = Some g \<Longrightarrow> group_valid g"
    and fin: "finite D" and rc: "rc \<in> versions D r i" and n: "cget (RecordIndices k) (r, i) = Some n"
    and inj: "\<And>a. a \<in> versions D r i \<Longrightarrow> rec_Index a = rec_Index rc \<Longrightarrow> a = rc"
  shows "rec_IsLatest rc \<longleftrightarrow> rec_Index rc = n"
proof -
  let ?V = "versions D r i" and ?L = "{a \<in> versions D r i. rec_IsLatest a}"
  from ld(2) rc obtain g where g: "cget gr (r, i) = Some g" "group_of g ?V"
    by (force simp: loaded_groups_def split: option.splits)
  from groups [OF g(1)] have valid: "LatestCount g = 1" "LatestIndex g = MaxIndex g" by (simp_all add: group_valid_def)
  have max: "is_max n (rec_Index ` ?V)" "is_max (MaxIndex g) (rec_Index ` ?V)"
    using ld(1) n g(2) rc by (auto simp: loaded_indices_def group_of_def split: option.splits if_splits)
  from g(2) valid have "card ?L = 1" "MaxIndex g \<in> rec_Index ` ?L" by (simp_all add: group_of_def)
  moreover from this(1) obtain a where L: "?L = {a}" by (rule card_1_singletonE)
  ultimately have a: "?L = {a}" "rec_Index a = MaxIndex g" unfolding L by simp_all
  with is_max_unique [OF max] have n': "rec_Index a = n" by simp
  have "x \<in> ?V \<and> rec_IsLatest x \<longleftrightarrow> x = a" for x using a(1) by blast
  with n' rc inj [of a] show ?thesis by metis
qed

lemma loaded_wf:
  assumes ld: "loaded E D k gr" and groups: "\<And>key g. cget gr key = Some g \<Longrightarrow> group_valid g" and reg: "registries_wf k"
  shows "keeper_wf k"
proof -
  from ld have parts: "loaded_records E D k" "loaded_indices D k" "loaded_lookup D k" "loaded_counts D k" "loaded_groups D gr"
    by (simp_all add: loaded_def)
  note mem = loaded_recordsD [OF parts(1)]
  have fin: "finite D" and valid: "\<And>rc. rc \<in> D \<Longrightarrow> rec_RecordId rc \<noteq> 0 \<and> rec_Index rc \<noteq> 0 \<and> record_fields_ok rc \<and>
        chas (Registries k) (rec_RegistryId rc)"
    using parts(1) unfolding loaded_records_def by blast+
  have "version_ok k r i x rc" if get: "cget (Records k) (r, i, x) = Some rc" for r i x rc
  proof -
    from get mem have D: "rc \<in> D" "rec_RegistryId rc = r" "rec_RecordId rc = i" "rec_Index rc = x"
      by (auto simp: rec_key_def)
    then have V: "rc \<in> versions D r i" by (simp add: versions_def)
    have inj: "a = rc" if "a \<in> versions D r i" "rec_Index a = rec_Index rc" for a
      using that mem [of "(r, i, x)" a] get D by (auto simp: versions_def rec_key_def)
    from parts(2) V obtain n where n: "cget (RecordIndices k) (r, i) = Some n" "is_max n (rec_Index ` versions D r i)"
      by (force simp: loaded_indices_def split: option.splits)
    then have "x \<le> n" using V D(4) by (auto simp: is_max_def)
    moreover have "chas (RecordsCountByRegistry k) r"
      using parts(4) valid [OF D(1)] D(2) by (simp add: loaded_counts_def)
    then obtain c where c: "cget (RecordsCountByRegistry k) r = Some c" by (auto simp: chas_iff)
    then have "is_max c (insert 0 (rec_RecordId ` {a \<in> D. rec_RegistryId a = r}))"
      using parts(4) by (simp add: loaded_counts_def)
    then have "i \<le> c" using D by (auto simp: is_max_def)
    moreover have "chas (RecordIdByRegistryAndChecksum k) (r, rec_Checksum rc)"
      using parts(3) D unfolding loaded_lookup_def by blast
    moreover have "rec_IsLatest rc \<longleftrightarrow> rec_Index rc = n"
      by (rule loaded_latest [OF parts(2,5) _ fin V n(1)]) (auto intro: groups inj)
    ultimately show ?thesis
      using valid [OF D(1)] D n(1) c by (simp add: version_ok_def)
  qed
  moreover have "chas (Records k) (r, i, n)" if n: "cget (RecordIndices k) (r, i) = Some n" for r i n
  proof -
    have "case cget (RecordIndices k) (r, i) of None \<Rightarrow> versions D r i = {} | Some n \<Rightarrow> is_max n (rec_Index ` versions D r i)"
      using parts(2) unfolding loaded_indices_def by blast
    with n obtain rc where rc: "rc \<in> versions D r i" "rec_Index rc = n" by (auto simp: is_max_def)
    then have "rc \<in> D \<and> rec_key rc = (r, i, n)" by (simp add: versions_def rec_key_def)
    with mem show ?thesis unfolding chas_iff by blast
  qed
  ultimately have "versions_wf k" unfolding versions_wf_def by blast
  moreover have "lookup_wf k"
    unfolding lookup_wf_def
  proof (intro conjI allI impI)
    fix r c i
    show "cget (RecordIdByChecksumAndRegistry k) (c, r) = cget (RecordIdByRegistryAndChecksum k) (r, c)"
      using parts(3) by (simp add: loaded_lookup_def)
    assume "cget (RecordIdByRegistryAndChecksum k) (r, c) = Some i"
    with parts(3) obtain rc where rc: "rc \<in> versions D r i" "rec_Checksum rc = c" unfolding loaded_lookup_def by blast
    then have "rc \<in> D \<and> rec_key rc = (r, i, rec_Index rc)" by (simp add: versions_def rec_key_def)
    with mem rc show "\<exists>x rc. cget (Records k) (r, i, x) = Some rc \<and> rec_Checksum rc = c" by blast
  qed
  ultimately show ?thesis using reg by (simp add: keeper_wf_def)
qed

end
