(* ===== verification/Genesis_Safety.thy ===== *)
theory Genesis_Safety
  imports Anchoring_Genesis
begin

text \<open>
  What a genesis gives: the state it loads is well formed, the order in which Go iterates
  over its maps does not matter as long as no two role keys decode to the same role, and
  the export of a running state loads back to that state.
\<close>

section \<open>Well-formedness\<close>

lemma is_max_max_id: "is_max (max_id gs 0) (insert 0 (fst ` set gs))"
  using max_id_bounds [where gs = gs and n = 0] by (auto simp: is_max_def)

lemma loaded_genesis:
  assumes fresh: "fresh k" and ok: "genesis_ok E gs" and enc: "genesis_encodable E gs"
  shows "loaded E (set (gs_Records gs)) (fold load_record (gs_Records gs) (registries_loaded gs k))
           (fold add_to_group (gs_Records gs) cempty)"
proof -
  have "records_loadable E (gs_Records gs) (registries_loaded gs k)"
    unfolding records_loadable_fresh [OF fresh] using ok enc unfolding genesis_ok_def genesis_encodable_def by blast
  from loaded_fold [OF this loaded_fresh [OF fresh]] show ?thesis by simp
qed

lemma genesis_loaded_wf:
  assumes fresh: "fresh k" and ok: "genesis_ok E gs" and enc: "genesis_encodable E gs"
  shows "keeper_wf (genesis_loaded E gs k)"
proof -
  let ?k = "fold load_record (gs_Records gs) (registries_loaded gs k)"
  note ld = loaded_genesis [OF assms]
  have "reg_Id g = r \<and> r \<noteq> 0 \<and> r \<le> max_id (gs_Registries gs) 0" if "cget (Registries ?k) r = Some g" for r g
  proof -
    have mem: "(r, g) \<in> set (gs_Registries gs)"
      using get_loaded_registry [OF fresh, of gs r g] that by simp
    with ok have "valid_registry_entry E (r, g)" unfolding genesis_ok_def by blast
    then have "r = reg_Id g" "reg_Id g \<noteq> 0"
      by (auto simp: valid_registry_entry_def res_ok_iff ValidateRegistry_iff)
    moreover have "r \<le> max_id (gs_Registries gs) 0"
      using max_id_bounds(2) [OF mem, of 0] by simp
    ultimately show ?thesis by simp
  qed
  moreover have "chas (RecordsCountByRegistry ?k) r = chas (Registries ?k) r" for r
    using ld unfolding loaded_def loaded_counts_def by blast
  ultimately have "registries_wf ?k" by (auto simp: registries_wf_def)
  moreover have "group_valid g" if "cget (fold add_to_group (gs_Records gs) cempty) key = Some g" for key g
    using ok that unfolding genesis_ok_def groups_valid_def by blast
  ultimately have "keeper_wf ?k" using loaded_wf [OF ld] by blast
  then show ?thesis using same_data_wf(1) [OF genesis_loaded_data [of gs k E]] by simp
qed

section \<open>Order of iteration\<close>

lemma fold_cset_cong:
  fixes f :: "'e \<Rightarrow> 'k::linorder" and v :: "'e \<Rightarrow> 'v"
  assumes "distinct (map f xs)" "distinct (map f ys)" "set xs = set ys"
  shows "fold (\<lambda>e. cset (f e) (v e)) xs m = fold (\<lambda>e. cset (f e) (v e)) ys m"
proof -
  let ?p = "map (\<lambda>e. (f e, v e))"
  have fold: "fold (\<lambda>e. cset (f e) (v e)) zs m = fold (\<lambda>e. cset (fst e) (snd e)) (?p zs) m" for zs
    by (simp add: fold_map comp_def)
  have d: "distinct (map fst (?p xs))" "distinct (map fst (?p ys))"
    using assms(1,2) by (simp_all add: comp_def)
  have "map_of (?p xs) = map_of (?p ys)"
    using d assms(3) by (simp only: map_of_inject_set) simp
  then show ?thesis
    unfolding fold by (intro coll_eqI) (simp only: kv.get_fold_put_distinct [OF d(1)] kv.get_fold_put_distinct [OF d(2)])
qed

text \<open>Two presentations of the same genesis: the maps may be listed in different orders.\<close>

definition same_genesis :: "GenesisState \<Rightarrow> GenesisState \<Rightarrow> bool" where
  "same_genesis gs gs' \<longleftrightarrow> gs_Params gs = gs_Params gs' \<and> gs_Records gs = gs_Records gs' \<and>
     set (gs_Registries gs) = set (gs_Registries gs') \<and> set (gs_RoleAdmins gs) = set (gs_RoleAdmins gs') \<and>
     set (gs_RoleMembers gs) = set (gs_RoleMembers gs')"

text \<open>The keys of the maps are distinct, and stay distinct when the role keys are decoded.\<close>

definition role_keys_distinct :: "env \<Rightarrow> GenesisState \<Rightarrow> bool" where
  "role_keys_distinct E gs \<longleftrightarrow> distinct (map fst (gs_Registries gs)) \<and>
     distinct (map (\<lambda>e. snd (projr (RoleCodec_Decode E (bytes_of_string (fst e))))) (gs_RoleAdmins gs)) \<and>
     distinct (map (\<lambda>e. snd (projr (RoleMembers_Decode E (bytes_of_string (fst e))))) (gs_RoleMembers gs))"

lemma same_genesis_checks:
  assumes "same_genesis gs gs'"
  shows "genesis_ok E gs = genesis_ok E gs'" "genesis_encodable E gs = genesis_encodable E gs'"
  using assms by (simp_all add: same_genesis_def genesis_ok_def genesis_encodable_def)

lemma same_genesis_loaded:
  assumes same: "same_genesis gs gs'" and d: "role_keys_distinct E gs" "role_keys_distinct E gs'"
  shows "genesis_loaded E gs k = genesis_loaded E gs' k"
proof -
  let ?R = "gs_Registries gs" and ?R' = "gs_Registries gs'"
  from d have dist: "distinct (map fst ?R)" "distinct (map fst ?R')" by (simp_all add: role_keys_distinct_def)
  from same have sets: "set ?R = set ?R'" by (simp add: same_genesis_def)
  have "is_max (max_id ?R 0) (insert 0 (fst ` set ?R'))" using is_max_max_id [of ?R] sets by simp
  then have "max_id ?R 0 = max_id ?R' 0" using is_max_max_id [of ?R'] by (rule is_max_unique)
  moreover have "fold (\<lambda>e. cset (fst e) (snd e)) ?R m = fold (\<lambda>e. cset (fst e) (snd e)) ?R' m"
    and "fold (\<lambda>e. cset (fst e) 0) ?R n = fold (\<lambda>e. cset (fst e) 0) ?R' n"
    for m :: "(u64, Registry) coll" and n :: "(u64, u64) coll"
    by (rule fold_cset_cong [OF dist sets])+
  ultimately have reg: "registries_loaded gs k = registries_loaded gs' k"
    using same by (simp add: registries_loaded_def load_registries_def same_genesis_def)
  have "load_admins E (gs_RoleAdmins gs) m = load_admins E (gs_RoleAdmins gs') m"
    "load_members E (gs_RoleMembers gs) n = load_members E (gs_RoleMembers gs') n" for m n
    unfolding load_admins_def load_members_def
    using d same by (auto simp: role_keys_distinct_def same_genesis_def intro!: fold_cset_cong)
  with reg same show ?thesis by (simp add: genesis_loaded_def same_genesis_def)
qed

lemma InitGenesis_order:
  assumes "fresh k" "iter_ok iter" "iter_ok iter'" "same_genesis gs gs'"
    "role_keys_distinct E gs" "role_keys_distinct E gs'"
    and run: "InitGenesis E iter gs k = (Inr (), k')"
  shows "InitGenesis E iter' gs' k = (Inr (), k')"
  using run same_genesis_loaded [OF assms(4-6), of k] same_genesis_checks [OF assms(4), of E]
  unfolding InitGenesis_Inr_iff [OF assms(1,2)] InitGenesis_Inr_iff [OF assms(1,3)] by simp

section \<open>Export and import\<close>

text \<open>
  What the key codecs of the SDK document: a byte key is written as it is, an address key
  reads back, a pair is one part after the other.
\<close>

definition codecs_ok :: "env \<Rightarrow> bool" where
  "codecs_ok E \<longleftrightarrow>
     (\<forall>bz. BytesKeyEncode E bz = bz) \<and> (\<forall>bz. BytesKeyDecode E bz = Inr (length bz, bz)) \<and>
     (\<forall>a. \<exists>n. AddrKeyDecode E (AddrKeyEncode E a) = Inr (n, a)) \<and>
     (\<forall>f g a b. PairEncode E f g (a, b) = f a @ g b) \<and>
     (\<forall>f g bz. PairDecode E f g bz =
        res_bind (f bz) (\<lambda>(n, a). res_bind (g (drop n bz)) (\<lambda>(n', b). Inr (n + n', a, b))))"

definition roles_sized :: "'z keeper_scheme \<Rightarrow> bool" where
  "roles_sized k \<longleftrightarrow>
     (\<forall>role. chas (RoleAdmins k) role \<longrightarrow> length role = RoleSize) \<and>
     (\<forall>role ad. chas (RoleMembers k) (role, ad) \<longrightarrow> length role = RoleSize)"

lemma bytes_of_string_of_bytes [simp]: "bytes_of_string (string_of_bytes bz) = bz"
proof -
  have "of_nat (of_char (char_of (unat b) :: char)) = b" for b :: byte
    using unsigned_less [of b, where ?'a = nat] by simp
  then show ?thesis by (induction bz) (simp_all add: bytes_of_string_def string_of_bytes_def)
qed

lemma role_key_roundtrip:
  assumes "codecs_ok E" "hash_ok E" "length role = RoleSize"
  shows "RoleCodec_Decode E (RoleCodec_Encode E role) = Inr (RoleSize, role)"
  using assms
  by (simp add: codecs_ok_def hash_ok_def RoleCodec_Decode_def RoleCodec_Encode_def Role_Bytes_def NewRole_def
      RoleSize_def res_bind_def)

lemma member_key_roundtrip:
  assumes ok: "codecs_ok E" "hash_ok E" and len: "length role = RoleSize"
  shows "\<exists>n. RoleMembers_Decode E (encodeRBACRoleMemberKey E (role, ad)) = Inr (n, role, ad)"
proof -
  from ok obtain n where n: "AddrKeyDecode E (AddrKeyEncode E ad) = Inr (n, ad)" unfolding codecs_ok_def by blast
  have enc: "RoleCodec_Encode E role = role"
    using ok(1) by (simp add: codecs_ok_def RoleCodec_Encode_def Role_Bytes_def)
  have "RoleCodec_DecodeNonTerminal E (role @ AddrKeyEncode E ad) = Inr (RoleSize, role)"
    using role_key_roundtrip [OF ok len] len by (simp add: RoleCodec_DecodeNonTerminal_def enc)
  with n len ok(1) show ?thesis
    by (simp add: RoleMembers_Decode_def encodeRBACRoleMemberKey_def RoleCodec_EncodeNonTerminal_def enc
        codecs_ok_def res_bind_def)
qed

text \<open>Renaming the keys of a collection with a function that can be undone, and undoing it.\<close>

lemma rename_roundtrip:
  fixes M :: "('k::linorder, 'v) coll" and enc :: "'k \<Rightarrow> 'e::linorder"
  assumes dec: "\<And>key. chas M key \<Longrightarrow> dec (enc key) = key"
  defines "M' \<equiv> fold (\<lambda>e. cset (enc (fst e)) (snd e)) (centries M) cempty"
  shows "fold (\<lambda>e. cset (dec (fst e)) (snd e)) (centries M') cempty = M"
    and "chas M' x \<Longrightarrow> \<exists>key. chas M key \<and> x = enc key"
proof -
  let ?p = "map (\<lambda>e. (enc (fst e), snd e)) (centries M)"
  have mem: "chas M key \<longleftrightarrow> key \<in> fst ` set (centries M)" for key
    by (force simp: chas_iff kv.mem_entries_iff [symmetric] image_iff)
  have "inj_on enc (fst ` set (centries M))"
    using dec mem by (metis inj_onI)
  then have d: "distinct (map fst ?p)"
    using kv.entries_distinct [of M] by (simp add: comp_def distinct_map inj_on_def)
  have M': "M' = fold (\<lambda>e. cset (fst e) (snd e)) ?p cempty"
    by (simp add: M'_def fold_map comp_def)
  have get: "cget M' x = map_of ?p x" for x
    unfolding M' kv.get_fold_put_distinct [OF d] by (simp split: option.splits)
  have set: "set (centries M') = set ?p"
  proof (rule set_eqI)
    fix e
    have "e \<in> set (centries M') \<longleftrightarrow> map_of ?p (fst e) = Some (snd e)"
      using kv.mem_entries_iff [of "fst e" "snd e" M'] get by simp
    also have "\<dots> \<longleftrightarrow> e \<in> set ?p"
      using map_of_eq_Some_iff [OF d, of "fst e" "snd e"] by (simp only: prod.collapse)
    finally show "e \<in> set (centries M') \<longleftrightarrow> e \<in> set ?p" .
  qed
  show "\<exists>key. chas M key \<and> x = enc key" if "chas M' x"
  proof -
    from that obtain v where "(x, v) \<in> set (centries M')" by (auto simp: chas_iff kv.mem_entries_iff)
    then show ?thesis unfolding set by (force simp: mem)
  qed
  let ?q = "map (\<lambda>e. (dec (fst e), snd e)) (centries M')"
  have setq: "set ?q = set (centries M)"
  proof -
    have "set ?q = (\<lambda>e. (dec (enc (fst e)), snd e)) ` set (centries M)"
      using set by (simp add: image_image)
    also have "\<dots> = (\<lambda>e. e) ` set (centries M)"
      using dec mem by (intro image_cong) auto
    finally show ?thesis by simp
  qed
  have "inj_on dec (fst ` set (centries M'))"
    unfolding set using dec mem by (auto simp: inj_on_def)
  then have dq: "distinct (map fst ?q)"
    using kv.entries_distinct [of M'] by (simp add: comp_def distinct_map inj_on_def)
  have "map_of ?q = map_of (centries M)"
    using dq kv.entries_distinct [of M] setq by (simp only: map_of_inject_set)
  then have "fold (\<lambda>e. cset (fst e) (snd e)) ?q cempty = M"
    by (intro coll_eqI) (simp add: kv.get_fold_put_distinct [OF dq] kv.get_entries [of M] split: option.splits)
  then show "fold (\<lambda>e. cset (dec (fst e)) (snd e)) (centries M') cempty = M"
    by (simp add: fold_map comp_def)
qed

text \<open>What the running state satisfies beyond its invariants: valid registries and encodable checksums.\<close>

definition exportable :: "env \<Rightarrow> 'z keeper_scheme \<Rightarrow> bool" where
  "exportable E k \<longleftrightarrow>
     (\<forall>r g. cget (Registries k) r = Some g \<longrightarrow> res_ok (ValidateRegistry E g)) \<and>
     (\<forall>key rc. cget (Records k) key = Some rc \<longrightarrow> key_ok E (rec_Checksum rc)) \<and> roles_sized k"

lemma exported_records:
  assumes wf: "versions_wf k"
  shows "rc \<in> set (map snd (centries (Records k))) \<longleftrightarrow> cget (Records k) (rec_key rc) = Some rc"
    and "distinct (map rec_key (map snd (centries (Records k))))"
proof -
  have key: "rec_key rc = key" if "(key, rc) \<in> set (centries (Records k))" for key rc
    using that versions_wfD [OF wf, of "fst key" "fst (snd key)" "snd (snd key)" rc]
    by (cases key) (auto simp: kv.mem_entries_iff version_ok_def rec_key_def)
  show "rc \<in> set (map snd (centries (Records k))) \<longleftrightarrow> cget (Records k) (rec_key rc) = Some rc"
    unfolding kv.mem_entries_iff [symmetric] using key by (auto simp: image_iff) force
  have "map rec_key (map snd (centries (Records k))) = map fst (centries (Records k))"
    using key by (auto simp: comp_def)
  then show "distinct (map rec_key (map snd (centries (Records k))))"
    using kv.entries_distinct [of "Records k"] by metis
qed

lemma loaded_groups_valid:
  assumes wf: "versions_wf k" and grp: "loaded_groups D gr" and fin: "finite D"
    and D: "\<And>rc. rc \<in> D \<longleftrightarrow> cget (Records k) (rec_key rc) = Some rc" and g: "cget gr (r, i) = Some g"
  shows "group_valid g"
proof -
  let ?V = "versions D r i" and ?L = "{rc \<in> versions D r i. rec_IsLatest rc}"
  have ok: "version_ok k r i (rec_Index rc) rc" if "rc \<in> ?V" for rc
  proof -
    from that have "cget (Records k) (r, i, rec_Index rc) = Some rc"
      using D [of rc] by (auto simp: versions_def rec_key_def)
    then show ?thesis by (rule versions_wfD [OF wf])
  qed
  from grp g have V: "?V \<noteq> {}" "group_of g ?V" by (auto simp: loaded_groups_def split: option.splits dest!: spec)
  then obtain rc0 where "rc0 \<in> ?V" by blast
  from ok [OF this] obtain n where n: "cget (RecordIndices k) (r, i) = Some n" by (auto simp: version_ok_def)
  from versions_wf_latest [OF wf n] obtain rc where rc: "cget (Records k) (r, i, n) = Some rc" by (auto simp: chas_iff)
  from versions_wfD [OF wf rc] have key: "rec_RegistryId rc = r" "rec_RecordId rc = i" "rec_Index rc = n" "rec_IsLatest rc"
    using n by (auto simp: version_ok_def)
  with rc D [of rc] have inV: "rc \<in> ?V" by (simp add: versions_def rec_key_def)
  have bound: "rec_Index a \<le> n \<and> (rec_IsLatest a \<longleftrightarrow> rec_Index a = n)" if "a \<in> ?V" for a
    using ok [OF that] n by (auto simp: version_ok_def)
  have "a = rc" if "a \<in> ?L" for a
  proof -
    from that bound have "a \<in> ?V" "rec_Index a = n" by blast+
    with D [of a] rc show ?thesis by (auto simp: versions_def rec_key_def)
  qed
  with inV key(4) have L: "?L = {rc}" by blast
  have "is_max n (rec_Index ` ?V)" unfolding is_max_def using bound inV key(3) by blast
  moreover from V have "is_max (MaxIndex g) (rec_Index ` ?V)" by (simp add: group_of_def)
  ultimately have "MaxIndex g = n" using is_max_unique by blast
  with V(2) L key(3) show ?thesis by (simp add: group_of_def group_valid_def)
qed

text \<open>The set of records of a state, and what loading it rebuilds, one collection at a time.\<close>

definition all_records :: "'z keeper_scheme \<Rightarrow> Record set" where
  "all_records k = {rc. cget (Records k) (rec_key rc) = Some rc}"

lemma rec_key_stored: "versions_wf k \<Longrightarrow> cget (Records k) key = Some rc \<Longrightarrow> rec_key rc = key"
  using versions_wfD [of k "fst key" "fst (snd key)" "snd (snd key)" rc]
  by (cases key) (auto simp: version_ok_def rec_key_def)

lemma versions_all_records:
  assumes "versions_wf k"
  shows "rc \<in> versions (all_records k) r i \<longleftrightarrow> cget (Records k) (r, i, rec_Index rc) = Some rc"
  using rec_key_stored [OF assms, of "(r, i, rec_Index rc)" rc] by (auto simp: versions_def all_records_def rec_key_def)

lemma reloaded_records:
  assumes wf: "versions_wf k" and ld: "loaded_records E (all_records k) k2"
  shows "Records k2 = Records k"
proof (rule coll_eqI)
  fix key
  have "cget (Records k2) key = Some rc \<longleftrightarrow> cget (Records k) key = Some rc" for rc
    using loaded_recordsD [OF ld, of key rc] rec_key_stored [OF wf, of key rc] by (auto simp: all_records_def)
  then show "cget (Records k2) key = cget (Records k) key" by (metis option.exhaust)
qed

lemma running_index_max:
  assumes wf: "versions_wf k" and n: "cget (RecordIndices k) (r, i) = Some n"
  shows "is_max n (rec_Index ` versions (all_records k) r i)" "versions (all_records k) r i \<noteq> {}"
proof -
  note V = versions_all_records [OF wf]
  from versions_wf_latest [OF wf n] obtain rc where rc: "cget (Records k) (r, i, n) = Some rc" by (auto simp: chas_iff)
  with versions_wfD [OF wf rc] have "rec_Index rc = n" by (simp add: version_ok_def)
  with rc V [of rc r i] have "rc \<in> versions (all_records k) r i" "rec_Index rc = n" by simp_all
  moreover have "rec_Index a \<le> n" if "a \<in> versions (all_records k) r i" for a
    using versions_wfD [OF wf, of r i "rec_Index a" a] V [of a r i] that n by (auto simp: version_ok_def)
  ultimately show "is_max n (rec_Index ` versions (all_records k) r i)" "versions (all_records k) r i \<noteq> {}"
    unfolding is_max_def by blast+
qed

lemma reloaded_indices:
  assumes wf: "versions_wf k" and ld: "loaded_indices (all_records k) k2"
  shows "RecordIndices k2 = RecordIndices k"
proof -
  have "cget (RecordIndices k2) (r, i) = cget (RecordIndices k) (r, i)" for r i
  proof -
    let ?V = "versions (all_records k) r i"
    have l: "case cget (RecordIndices k2) (r, i) of None \<Rightarrow> ?V = {} | Some n \<Rightarrow> is_max n (rec_Index ` ?V)"
      using ld unfolding loaded_indices_def by blast
    show ?thesis
    proof (cases "cget (RecordIndices k) (r, i)")
      case None
      have "a \<notin> ?V" for a
        using None versions_all_records [OF wf, of a r i] versions_wfD [OF wf, of r i "rec_Index a" a] by (auto simp: version_ok_def)
      then have "?V = {}" by blast
      with l None show ?thesis by (auto simp: is_max_def split: option.splits)
    next
      case (Some n)
      with l running_index_max [OF wf Some] show ?thesis by (auto split: option.splits dest: is_max_unique)
    qed
  qed
  then show ?thesis by (intro coll_eqI) auto
qed

lemma reloaded_lookup:
  assumes wf: "keeper_wf k" "checksums_wf k" and ld: "loaded_lookup (all_records k) k2"
  shows "RecordIdByRegistryAndChecksum k2 = RecordIdByRegistryAndChecksum k"
    "RecordIdByChecksumAndRegistry k2 = RecordIdByChecksumAndRegistry k"
proof -
  note parts = keeper_wf_parts [OF wf(1)]
  have look: "cget (RecordIdByRegistryAndChecksum k2) (r, c) = cget (RecordIdByRegistryAndChecksum k) (r, c)" for r c
  proof -
    have fwd: "cget (RecordIdByRegistryAndChecksum k) (r, c) = Some i" if "cget (RecordIdByRegistryAndChecksum k2) (r, c) = Some i" for i
    proof -
      from ld that obtain rc where "rc \<in> versions (all_records k) r i" "rec_Checksum rc = c" unfolding loaded_lookup_def by blast
      then show ?thesis
        using wf(2) versions_all_records [OF parts(3), of rc r i] unfolding checksums_wf_def by blast
    qed
    have "chas (RecordIdByRegistryAndChecksum k2) (r, c)" if i: "cget (RecordIdByRegistryAndChecksum k) (r, c) = Some i" for i
    proof -
      obtain x rc where rc: "cget (Records k) (r, i, x) = Some rc" "rec_Checksum rc = c"
        using lookup_wf_record [OF parts(2) i] by blast
      with rec_key_stored [OF parts(3) rc(1)] have "rc \<in> all_records k" "rec_RegistryId rc = r"
        by (auto simp: rec_key_def all_records_def)
      with rc(2) ld show ?thesis unfolding loaded_lookup_def by blast
    qed
    with fwd show ?thesis by (metis chas_iff option.exhaust)
  qed
  then show "RecordIdByRegistryAndChecksum k2 = RecordIdByRegistryAndChecksum k"
    by (intro coll_eqI) auto
  have "cget (RecordIdByChecksumAndRegistry k2) (c, r) = cget (RecordIdByChecksumAndRegistry k) (c, r)" for c r
    using ld parts(2) look by (simp add: loaded_lookup_def lookup_wf_def)
  then show "RecordIdByChecksumAndRegistry k2 = RecordIdByChecksumAndRegistry k"
    by (intro coll_eqI) auto
qed

lemma running_count_max:
  assumes wf: "versions_wf k" "ids_dense k" and m: "cget (RecordsCountByRegistry k) r = Some m"
  shows "is_max m (insert 0 (rec_RecordId ` {rc \<in> all_records k. rec_RegistryId rc = r}))"
proof -
  have "rec_RecordId rc \<le> m" if "rc \<in> all_records k" "rec_RegistryId rc = r" for rc
    using that versions_wfD [OF wf(1), of r "rec_RecordId rc" "rec_Index rc" rc] m
    by (auto simp: all_records_def rec_key_def version_ok_def)
  moreover have "m \<in> rec_RecordId ` {rc \<in> all_records k. rec_RegistryId rc = r}" if "m \<noteq> 0"
  proof -
    have "chas (RecordIndices k) (r, m)" using wf(2) m that unfolding ids_dense_def by blast
    then obtain n where "cget (RecordIndices k) (r, m) = Some n" by (auto simp: chas_iff)
    from running_index_max(2) [OF wf(1) this] obtain rc where "rc \<in> versions (all_records k) r m" by blast
    then show ?thesis by (auto simp: versions_def)
  qed
  ultimately show ?thesis by (auto simp: is_max_def)
qed

lemma reloaded_counts:
  assumes wf: "keeper_wf k" "ids_dense k" and ld: "loaded_counts (all_records k) k2" and reg: "Registries k2 = Registries k"
  shows "RecordsCountByRegistry k2 = RecordsCountByRegistry k"
proof (rule coll_eqI)
  fix r
  note parts = keeper_wf_parts [OF wf(1)]
  have dom: "chas (RecordsCountByRegistry k2) r = chas (RecordsCountByRegistry k) r"
    using ld parts(1) reg by (simp add: loaded_counts_def registries_wf_def)
  have "m = m'" if "cget (RecordsCountByRegistry k2) r = Some m" "cget (RecordsCountByRegistry k) r = Some m'" for m m'
    using ld that(1) running_count_max [OF parts(3) wf(2) that(2)] by (auto simp: loaded_counts_def intro: is_max_unique)
  with dom show "cget (RecordsCountByRegistry k2) r = cget (RecordsCountByRegistry k) r"
    unfolding chas_iff by (metis option.exhaust)
qed

lemma exported_genesis_loads:
  assumes wf: "keeper_wf k" "checksums_wf k" "dense_wf k" and ex: "exportable E k" and fresh: "fresh k0"
    and gs: "gs_Registries gs = centries (Registries k)" "gs_Records gs = map snd (centries (Records k))"
  defines "k2 \<equiv> fold load_record (gs_Records gs) (registries_loaded gs k0)"
  shows "genesis_ok E gs" "\<forall>rc \<in> set (gs_Records gs). key_ok E (rec_Checksum rc)" "Registries k2 = Registries k"
    "RegistryCount k2 = RegistryCount k"
    "Records k2 = Records k" "RecordIndices k2 = RecordIndices k"
    "RecordIdByRegistryAndChecksum k2 = RecordIdByRegistryAndChecksum k"
    "RecordIdByChecksumAndRegistry k2 = RecordIdByChecksumAndRegistry k"
    "RecordsCountByRegistry k2 = RecordsCountByRegistry k"
proof -
  note parts = keeper_wf_parts [OF wf(1)]
  have D: "set (gs_Records gs) = all_records k"
    using exported_records(1) [OF parts(3)] gs(2) by (auto simp: all_records_def)
  have entry: "valid_registry_entry E (r, g)" "r \<noteq> 0" if "(r, g) \<in> set (gs_Registries gs)" for r g
    using that parts(1) ex by (auto simp: gs kv.mem_entries_iff registries_wf_def exportable_def valid_registry_entry_def)
  have regs: "fst ` set (gs_Registries gs) = {r. chas (Registries k) r}"
    by (force simp: gs(1) chas_iff kv.mem_entries_iff [symmetric] image_iff)
  have rec: "rec_valid rc \<and> key_ok E (rec_Checksum rc) \<and> rec_RegistryId rc \<in> fst ` set (gs_Registries gs)"
    if "rc \<in> set (gs_Records gs)" for rc
  proof -
    from that D have get: "cget (Records k) (rec_RegistryId rc, rec_RecordId rc, rec_Index rc) = Some rc"
      by (simp add: all_records_def rec_key_def)
    with versions_wfD [OF parts(3) this] ex show ?thesis
      unfolding regs by (auto simp: version_ok_def rec_valid_def exportable_def)
  qed
  show enc: "\<forall>rc \<in> set (gs_Records gs). key_ok E (rec_Checksum rc)" using rec by blast
  have dist: "distinct (map rec_key (gs_Records gs))" using exported_records(2) [OF parts(3)] gs(2) by simp
  have "records_loadable E (gs_Records gs) (registries_loaded gs k0)"
    unfolding records_loadable_fresh [OF fresh] using rec dist by blast
  from loaded_fold [OF this loaded_fresh [OF fresh]]
  have ld: "loaded E (all_records k) k2 (fold add_to_group (gs_Records gs) cempty)" by (simp add: k2_def D [symmetric])
  then have fin: "finite (all_records k)" unfolding loaded_def loaded_records_def by blast
  have "group_valid g" if "cget (fold add_to_group (gs_Records gs) cempty) key = Some g" for key g
    using loaded_groups_valid [OF parts(3) _ fin, of "fold add_to_group (gs_Records gs) cempty" "fst key" "snd key" g] ld that
    by (simp add: loaded_def all_records_def)
  then have "groups_valid (gs_Records gs)" unfolding groups_valid_def by blast
  with rec dist entry(1) show "genesis_ok E gs" unfolding genesis_ok_def by auto
  have "cget (Registries k2) r = cget (Registries k) r" for r
    using kv.rebuild_get [of "Registries k" r] fresh by (simp add: k2_def gs(1) fresh_def)
  then show reg: "Registries k2 = Registries k" by (rule coll_eqI)
  from parts(1) obtain n where n: "RegistryCount k = Some n" "\<And>r g. cget (Registries k) r = Some g \<Longrightarrow> r \<le> n"
    unfolding registries_wf_def by blast
  have "is_max n (insert 0 {r. chas (Registries k) r})"
    using n wf(3) by (auto simp: is_max_def chas_iff dense_wf_def registries_dense_def)
  then have "max_id (gs_Registries gs) 0 = n" using is_max_max_id [of "gs_Registries gs"] regs by (simp add: is_max_unique)
  with n(1) show "RegistryCount k2 = RegistryCount k" by (simp add: k2_def)
  from ld wf(3) reloaded_records [OF parts(3)] reloaded_indices [OF parts(3)] reloaded_lookup [OF wf(1,2)] reloaded_counts [OF wf(1) _ _ reg]
  show "Records k2 = Records k" "RecordIndices k2 = RecordIndices k"
    "RecordIdByRegistryAndChecksum k2 = RecordIdByRegistryAndChecksum k"
    "RecordIdByChecksumAndRegistry k2 = RecordIdByChecksumAndRegistry k"
    "RecordsCountByRegistry k2 = RecordsCountByRegistry k"
    by (auto simp: loaded_def dense_wf_def)
qed

lemma entry_chas: "e \<in> set (centries m) \<Longrightarrow> chas m (fst e)"
  using kv.mem_entries_iff [of "fst e" "snd e" m] by (simp add: chas_iff)

lemma exported_roles_load:
  assumes ok: "codecs_ok E" "hash_ok E" and sized: "roles_sized k"
    and gs: "ExportGenesis E k = Inr gs"
  shows "load_admins E (gs_RoleAdmins gs) cempty = RoleAdmins k"
    "load_members E (gs_RoleMembers gs) cempty = RoleMembers k"
    "\<forall>e \<in> set (gs_RoleAdmins gs). res_ok (RoleCodec_Decode E (bytes_of_string (fst e)))"
    "\<forall>e \<in> set (gs_RoleMembers gs). res_ok (RoleMembers_Decode E (bytes_of_string (fst e)))"
proof -
  let ?encA = "\<lambda>key. string_of_bytes (encodeRBACRoleAdminKey E key)" and ?encM = "\<lambda>key. string_of_bytes (encodeRBACRoleMemberKey E key)"
  let ?decA = "\<lambda>s. RoleCodec_Decode E (bytes_of_string s)" and ?decM = "\<lambda>s. RoleMembers_Decode E (bytes_of_string s)"
  from gs have admins: "gs_RoleAdmins gs = centries (fold (\<lambda>e. cset (?encA (fst e)) (snd e)) (centries (RoleAdmins k)) cempty)"
    and members: "gs_RoleMembers gs = centries (fold (\<lambda>e. cset (?encM (fst e)) (snd e)) (centries (RoleMembers k)) cempty)"
    by (auto simp: ExportGenesis_def res_bind_Inr_iff case_prod_unfold)
  have A: "?decA (?encA key) = Inr (RoleSize, key)" if "chas (RoleAdmins k) key" for key
    using role_key_roundtrip [OF ok, of key] sized that by (simp add: roles_sized_def encodeRBACRoleAdminKey_def)
  have M: "\<exists>n. ?decM (?encM key) = Inr (n, key)" if "chas (RoleMembers k) key" for key
    using member_key_roundtrip [OF ok, of "fst key" "snd key"] sized that unfolding roles_sized_def by (cases key) auto
  have decA: "snd (projr (?decA (?encA key))) = key" if "chas (RoleAdmins k) key" for key using A [OF that] by simp
  have decM: "snd (projr (?decM (?encM key))) = key" if "chas (RoleMembers k) key" for key using M [OF that] by auto
  note rA = rename_roundtrip [where M = "RoleAdmins k" and enc = ?encA and dec = "\<lambda>s. snd (projr (?decA s))", OF decA]
  note rM = rename_roundtrip [where M = "RoleMembers k" and enc = ?encM and dec = "\<lambda>s. snd (projr (?decM s))", OF decM]
  show "load_admins E (gs_RoleAdmins gs) cempty = RoleAdmins k"
    unfolding load_admins_def admins by (rule rA(1))
  show "load_members E (gs_RoleMembers gs) cempty = RoleMembers k"
    unfolding load_members_def members by (rule rM(1))
  show "\<forall>e \<in> set (gs_RoleAdmins gs). res_ok (?decA (fst e))"
  proof
    fix e assume "e \<in> set (gs_RoleAdmins gs)"
    then have "chas (fold (\<lambda>e. cset (?encA (fst e)) (snd e)) (centries (RoleAdmins k)) cempty) (fst e)"
      unfolding admins by (rule entry_chas)
    from rA(2) [OF _ this] A show "res_ok (?decA (fst e))" by auto
  qed
  show "\<forall>e \<in> set (gs_RoleMembers gs). res_ok (?decM (fst e))"
  proof
    fix e assume "e \<in> set (gs_RoleMembers gs)"
    then have "chas (fold (\<lambda>e. cset (?encM (fst e)) (snd e)) (centries (RoleMembers k)) cempty) (fst e)"
      unfolding members by (rule entry_chas)
    from rM(2) [OF _ this] M show "res_ok (?decM (fst e))" by (metis res_ok_Inr)
  qed
qed

lemma export_import_eq:
  fixes k k0 :: keeper
  assumes wf: "keeper_wf k" "checksums_wf k" "dense_wf k" and ex: "exportable E k"
    and ok: "codecs_ok E" "hash_ok E" and fresh: "fresh k0" and iter: "iter_ok iter"
    and gs: "ExportGenesis E k = Inr gs"
  shows "InitGenesis E iter gs k0 = (Inr (), k\<lparr>Events := Events k0\<rparr>)"
proof -
  from gs have fields: "gs_Registries gs = centries (Registries k)" "gs_Records gs = map snd (centries (Records k))"
    "ParamsItem k = Some (gs_Params gs)"
    by (auto simp: ExportGenesis_def res_bind_Inr_iff)
  have sized: "roles_sized k" using ex by (simp add: exportable_def)
  note data = exported_genesis_loads [OF wf ex fresh fields(1,2)]
  note roles = exported_roles_load [OF ok sized gs]
  have enc: "genesis_encodable E gs" using data(2) roles(3,4) by (simp add: genesis_encodable_def)
  have "genesis_loaded E gs k0 = k\<lparr>Events := Events k0\<rparr>"
    using data(3-) roles(1,2) fields(3) fresh
    by (intro keeper.equality) (simp_all add: genesis_loaded_def fresh_def)
  with data(1) enc show ?thesis by (simp add: InitGenesis_Inr_iff [OF fresh iter])
qed

end
