(* ===== verification/Genesis_Properties.thy ===== *)
theory Genesis_Properties
  imports Genesis_Safety Anchoring_Properties
begin

text \<open>
  The properties of the genesis of \<open>x/anchoring\<close>, each applied to a small genesis with one
  registry, one record and the roles of its creator.
\<close>

section \<open>A sample genesis\<close>

definition sample_genesis :: GenesisState where
  "sample_genesis = \<lparr>gs_Params = \<lparr>par_Admin = ''root''\<rparr>, gs_Registries = [(1, sample_registry)],
     gs_Records = [sample_record\<lparr>rec_RecordId := 1, rec_Index := 1, rec_IsLatest := True\<rparr>],
     gs_RoleAdmins = [(''registry:1:admin'', [1])], gs_RoleMembers = []\<rparr>"

lemma iter_ok_id: "iter_ok (\<lambda>xs. xs)"
  by (simp add: iter_ok_def)

lemma iter_ok_rev: "iter_ok rev"
  by (simp add: iter_ok_def)

lemma sample_genesis_valid: "GenesisState_Validate sample_env (\<lambda>xs. xs) sample_genesis = Inr ()"
  by code_simp

lemma sample_genesis_encodable: "genesis_encodable sample_env sample_genesis"
  unfolding genesis_encodable_def by code_simp

lemma sample_genesis_loads: "InitGenesis sample_env (\<lambda>xs. xs) sample_genesis NewKeeper
    = (Inr (), genesis_loaded sample_env sample_genesis NewKeeper)"
  unfolding InitGenesis_Inr_iff [OF NewKeeper_fresh iter_ok_id]
  using sample_genesis_valid sample_genesis_encodable GenesisState_Validate_iff [OF iter_ok_id, of sample_env sample_genesis "()"]
  by simp

section \<open>Properties\<close>



text \<open>
  C32. A chain that starts from a loaded genesis is well formed at every height: whatever
  messages follow, as long as the counters have room for them.
\<close>

theorem genesis_run_wf:
  assumes "fresh k" and "iter_ok iter" and "InitGenesis E iter gs k = (Inr (), k0)" and "room (length txs) k0"
  shows "keeper_wf k0 \<and> keeper_wf (run_txs E txs k0)"
proof -
  from assms(3) have ok: "genesis_ok E gs" "genesis_encodable E gs" and k0: "k0 = genesis_loaded E gs k"
    unfolding InitGenesis_Inr_iff [OF assms(1,2)] by simp_all
  have wf: "keeper_wf k0" unfolding k0 by (rule genesis_loaded_wf [OF assms(1) ok])
  with assms(4) have "wf_room (length txs) k0" by (simp add: wf_room_def)
  with anchor_run.run_invariant [of txs 0 k0 E] wf show ?thesis by (simp add: run_txs_def wf_room_def)
qed

theorem genesis_run_wf_witness: "keeper_wf (genesis_loaded sample_env sample_genesis NewKeeper)"
proof -
  let ?k = "genesis_loaded sample_env sample_genesis NewKeeper"
  have counts: "RecordsCountByRegistry ?k = cset 1 1 cempty" "RecordIndices ?k = cset (1, 1) 1 cempty" "RegistryCount ?k = Some 1"
    by code_simp+
  have "room (length ([] :: (ctx \<times> msg) list)) ?k" by (auto simp: room_def counts split: if_splits)
  from genesis_run_wf [OF NewKeeper_fresh iter_ok_id sample_genesis_loads this] show ?thesis by simp
qed

text \<open>
  C33. The state a genesis loads does not depend on the order in which Go iterates over the
  maps of the genesis, nor over its own map of version groups, provided that no two role
  keys decode to the same role.
\<close>

theorem genesis_order_irrelevant:
  assumes "fresh k" and "iter_ok iter" and "iter_ok iter'" and "same_genesis gs gs'"
    and "role_keys_distinct E gs" and "role_keys_distinct E gs'"
    and "InitGenesis E iter gs k = (Inr (), k')"
  shows "InitGenesis E iter' gs' k = (Inr (), k')"
  using assms by (rule InitGenesis_order)

theorem genesis_order_irrelevant_witness:
  "InitGenesis sample_env rev sample_genesis NewKeeper = (Inr (), genesis_loaded sample_env sample_genesis NewKeeper)"
  by (rule genesis_order_irrelevant [OF NewKeeper_fresh iter_ok_id iter_ok_rev _ _ _ sample_genesis_loads])
    (simp_all add: same_genesis_def role_keys_distinct_def sample_genesis_def)

definition clashing_genesis :: "bool \<Rightarrow> GenesisState" where
  "clashing_genesis swap = \<lparr>gs_Params = \<lparr>par_Admin = ''root''\<rparr>, gs_Registries = [], gs_Records = [],
     gs_RoleAdmins = (if swap then [([CHR 0x00, CHR ''a''], [2]), (''a'', [1])] else [(''a'', [1]), ([CHR 0x00, CHR ''a''], [2])]),
     gs_RoleMembers = []\<rparr>"

definition admins_after :: "GenesisState \<Rightarrow> (role \<times> bytes) list" where
  "admins_after gs = centries (RoleAdmins (snd (InitGenesis sample_env (\<lambda>xs. xs) gs NewKeeper)))"


text \<open>
  C30. Export and import are inverse: the genesis exported from a well-formed state loads, on
  an empty store, exactly that state, apart from the events, which are not exported.
\<close>

theorem export_import:
  fixes k k0 :: keeper
  assumes "keeper_wf k" and "checksums_wf k" and "dense_wf k" and "exportable E k"
    and "codecs_ok E" and "hash_ok E" and "fresh k0" and "iter_ok iter"
    and "ExportGenesis E k = Inr gs"
  shows "InitGenesis E iter gs k0 = (Inr (), k\<lparr>Events := Events k0\<rparr>)"
  using assms by (rule export_import_eq)

lemma sample_codecs_ok: "codecs_ok sample_env"
  by (simp add: codecs_ok_def sample_env_def)

lemma sample_k2_strong: "strong_room 1 sample_k2"
  using handle_strong_room [OF _ sample_handle2, of 1] sample_k1_inv [of "Suc 1"] by simp

lemma sample_k2_exportable: "exportable sample_env sample_k2"
proof -
  have "list_all (\<lambda>(r, g). res_ok (ValidateRegistry sample_env g)) (centries (Registries sample_k2))"
    "list_all (\<lambda>(key, rc). key_ok sample_env (rec_Checksum rc)) (centries (Records sample_k2))"
    "list_all (\<lambda>(role, bz). length role = RoleSize) (centries (RoleAdmins sample_k2))"
    "list_all (\<lambda>((role, ad), bz). length role = RoleSize) (centries (RoleMembers sample_k2))"
    by code_simp+
  then show ?thesis
    unfolding exportable_def roles_sized_def chas_iff kv.mem_entries_iff [symmetric] list_all_iff by fastforce
qed

theorem export_import_witness:
  "\<exists>gs. ExportGenesis sample_env sample_k2 = Inr gs \<and>
     InitGenesis sample_env rev gs NewKeeper = (Inr (), sample_k2\<lparr>Events := []\<rparr>)"
proof -
  have "res_ok (ExportGenesis sample_env sample_k2)" by code_simp
  then obtain gs where gs: "ExportGenesis sample_env sample_k2 = Inr gs" by (auto simp: res_ok_iff)
  have wf: "keeper_wf sample_k2" "checksums_wf sample_k2" "dense_wf sample_k2"
    using sample_k2_strong by (simp_all add: strong_room_def wf_room_def)
  from export_import [OF wf sample_k2_exportable sample_codecs_ok sample_env_hash_ok NewKeeper_fresh iter_ok_rev gs] gs
  show ?thesis by (simp add: NewKeeper_def)
qed


definition wrapping_genesis :: GenesisState where
  "wrapping_genesis = \<lparr>gs_Params = \<lparr>par_Admin = ''root''\<rparr>,
     gs_Registries = [(1, sample_registry), (- 1, sample_registry\<lparr>reg_Id := - 1\<rparr>)],
     gs_Records = [], gs_RoleAdmins = [], gs_RoleMembers = []\<rparr>"

definition wrap_k :: keeper where
  "wrap_k = genesis_loaded sample_env wrapping_genesis NewKeeper"

lemma wrapping_genesis_valid: "GenesisState_Validate sample_env (\<lambda>xs. xs) wrapping_genesis = Inr ()"
  unfolding GenesisState_Validate_iff [OF iter_ok_id]
  by (auto simp: wrapping_genesis_def genesis_ok_def groups_valid_def valid_registry_entry_def res_ok_iff ValidateRegistry_iff
      Params_Validate_iff sample_registry_def registry_fields_ok_def limit_defs)

lemma wrapping_genesis_loads: "InitGenesis sample_env (\<lambda>xs. xs) wrapping_genesis NewKeeper = (Inr (), wrap_k)"
  using wrapping_genesis_valid
  unfolding InitGenesis_Inr_iff [OF NewKeeper_fresh iter_ok_id] GenesisState_Validate_iff [OF iter_ok_id]
  by (simp add: wrap_k_def genesis_encodable_def wrapping_genesis_def)

lemma wrap_k_count: "RegistryCount wrap_k = Some (- 1)"
proof -
  have "(1 :: u64) < - 1" by code_simp
  then show ?thesis by (simp add: wrap_k_def genesis_loaded_def wrapping_genesis_def max_id_def)
qed


end
