(* ===== verification/Big_Endian.thy ===== *)
theory Big_Endian
  imports Nvnm_Prelude
begin

text \<open>
  The big-endian byte order of \<open>encoding/binary\<close>: the \<open>n\<close> low bytes of a word, most
  significant byte first, and the word that a byte string stands for.
\<close>

unbundle bit_operations_syntax

definition to_be :: "nat \<Rightarrow> 'a :: len word \<Rightarrow> bytes" where
  "to_be n w = map (\<lambda>i. ucast (drop_bit (8 * i) w)) (rev [0..<n])"

definition from_be :: "bytes \<Rightarrow> 'a :: len word" where
  "from_be bz = foldl (\<lambda>a b. push_bit 8 a OR ucast b) 0 bz"

lemma length_to_be [simp]: "length (to_be n w) = n"
  by (simp add: to_be_def)

lemma to_be_Suc: "to_be (Suc n) w = to_be n (drop_bit 8 w) @ [ucast w]"
proof -
  have "[0..<Suc n] = 0 # map Suc [0..<n]"
    by (simp add: upt_conv_Cons map_Suc_upt)
  then show ?thesis
    by (simp add: to_be_def rev_map del: upt_Suc) (simp add: add.commute)
qed

lemma from_be_snoc [simp]: "from_be (bz @ [b]) = push_bit 8 (from_be bz) OR ucast b"
  by (simp add: from_be_def)

lemma from_be_Nil [simp]: "from_be [] = 0"
  by (simp add: from_be_def)

lemma take_bit_8_step:
  "push_bit 8 (take_bit n (drop_bit 8 w)) OR ucast (ucast w :: byte) = (take_bit (n + 8) w :: 'a :: len word)"
  by (rule bit_word_eqI) (auto simp: bit_simps)

text \<open>Reading back the \<open>n\<close> low bytes gives the word cut to them.\<close>

lemma from_be_to_be: "(from_be (to_be n w) :: 'a :: len word) = take_bit (8 * n) w"
proof (induction n arbitrary: w)
  case 0
  then show ?case by (simp add: to_be_def)
next
  case (Suc n)
  then show ?case by (simp add: to_be_Suc take_bit_8_step add.commute)
qed

lemma from_be_to_be_id: "LENGTH('a) \<le> 8 * n \<Longrightarrow> from_be (to_be n w) = (w :: 'a :: len word)"
  by (simp add: from_be_to_be take_bit_word_eq_self)

text \<open>Bytes that fit into a word are the bytes of the word they stand for.\<close>

lemma bit_from_be:
  "8 * length bz \<le> LENGTH('a) \<Longrightarrow> bit (from_be bz :: 'a :: len word) i \<Longrightarrow> i < 8 * length bz"
proof (induction bz arbitrary: i rule: rev_induct)
  case (snoc b bz)
  from snoc.prems(2) have "8 \<le> i \<and> bit (from_be bz :: 'a word) (i - 8) \<or> i < 8"
    by (auto simp: bit_simps dest: bit_imp_le_length)
  then show ?case using snoc.IH [of "i - 8"] snoc.prems(1) by auto
qed simp

lemma drop_bit_from_be_snoc:
  assumes "8 * length (bz @ [b]) \<le> LENGTH('a)"
  shows "drop_bit 8 (from_be (bz @ [b]) :: 'a :: len word) = from_be bz"
proof (rule bit_word_eqI)
  fix i
  assume "i < LENGTH('a)"
  have "i < 8 * length bz" if "bit (from_be bz :: 'a word) i"
    using bit_from_be [OF _ that] assms by simp
  then have "8 + i < LENGTH('a)" if "bit (from_be bz :: 'a word) i"
    using that assms by fastforce
  then show "bit (drop_bit 8 (from_be (bz @ [b]) :: 'a word)) i = bit (from_be bz :: 'a word) i"
    by (auto simp: bit_simps dest: bit_imp_le_length)
qed

lemma to_be_from_be:
  assumes "8 * length bz \<le> LENGTH('a)"
  shows "to_be (length bz) (from_be bz :: 'a :: len word) = bz"
  using assms
proof (induction bz rule: rev_induct)
  case (snoc b bz)
  have "(ucast (from_be (bz @ [b]) :: 'a word) :: byte) = b"
    by (rule bit_word_eqI) (use snoc.prems in \<open>auto simp: bit_simps\<close>)
  then show ?case
    using snoc drop_bit_from_be_snoc [OF snoc.prems] by (simp add: to_be_Suc del: from_be_snoc)
qed (simp add: to_be_def)

end
