(* ===== verification/Abi_Codec.thy ===== *)
theory Abi_Codec
  imports Big_Endian
begin

text \<open>
  The Ethereum ABI codec as the generated code uses it. A tuple is encoded into a buffer: its
  static fields and the offsets of its dynamic fields in a head of fixed size, the dynamic
  fields one after another behind it. The functions of the package \<open>go-abi\<close> are fields of the
  record \<open>abi\<close>; \<open>abi_ok\<close> and \<open>abi_safe\<close> state what the generated code relies on. The locale
  \<open>abi_tuple\<close> is the contract of a generated tuple: every one of them interprets it.

  A buffer is a byte list. An encoder returns how many bytes it wrote, and the buffer it
  leaves; what it leaves when it fails is not returned, since every caller drops the buffer
  then. Buffers come from \<open>make\<close>, so that their capacity is their length. Sizes and offsets
  are natural numbers: they are bounded by the length of a slice in memory.
\<close>

section \<open>Buffers\<close>

type_synonym encoder = "bytes \<Rightarrow> (nat \<times> bytes) result"
type_synonym 'a decoder = "bytes \<Rightarrow> ('a \<times> nat) result"

text \<open>\<open>common.Address\<close>, a big-endian number of 20 bytes.\<close>

type_synonym Address = "160 word"
type_synonym uint256 = "256 word"

definition be64 :: "u64 \<Rightarrow> bytes" where
  "be64 w = to_be 8 w"

text \<open>\<open>binary.BigEndian.PutUint64(buf[p:p+8], w)\<close>.\<close>

definition put_uint64 :: "nat \<Rightarrow> u64 \<Rightarrow> bytes \<Rightarrow> bytes result" where
  "put_uint64 p w buf = (if p + 8 \<le> length buf then Inr (take p buf @ be64 w @ drop (p + 8) buf) else Inl GoPanic)"

text \<open>Encoding into \<open>buf[off:]\<close>, and decoding from \<open>data[off:]\<close>.\<close>

definition enc_at :: "nat \<Rightarrow> encoder \<Rightarrow> encoder" where
  "enc_at off f buf =
     (if off \<le> length buf then res_bind (f (drop off buf)) (\<lambda>(n, b). Inr (n, take off buf @ b)) else Inl GoPanic)"

definition dec_at :: "nat \<Rightarrow> (bytes \<Rightarrow> 'a result) \<Rightarrow> bytes \<Rightarrow> 'a result" where
  "dec_at off d data = (if off \<le> length data then d (drop off data) else Inl GoPanic)"

section \<open>The functions of the package go-abi\<close>

record abi =
  EncodeString :: "string \<Rightarrow> encoder"
  SizeString :: "string \<Rightarrow> nat"
  DecodeString :: "string decoder"
  EncodeBytes :: "bytes \<Rightarrow> encoder"
  SizeBytes :: "bytes \<Rightarrow> nat"
  DecodeBytes :: "bytes decoder"
  EncodeStringSlice :: "string list \<Rightarrow> encoder"
  SizeStringSlice :: "string list \<Rightarrow> nat"
  DecodeStringSlice :: "string list decoder"
  EncodeUint64 :: "u64 \<Rightarrow> encoder"
  DecodeUint64 :: "u64 decoder"
  EncodeUint8 :: "byte \<Rightarrow> encoder"
  DecodeUint8 :: "byte decoder"
  EncodeUint256 :: "uint256 \<Rightarrow> encoder"
  DecodeUint256 :: "uint256 decoder"
  EncodeBool :: "bool \<Rightarrow> encoder"
  DecodeBool :: "bool decoder"
  EncodeAddress :: "Address \<Rightarrow> encoder"
  DecodeAddress :: "Address decoder"
  DecodeSize :: "bytes \<Rightarrow> nat result"
  PackedEncodeUint64 :: "u64 \<Rightarrow> encoder"
  PackedDecodeUint64 :: "u64 decoder"
  PackedEncodeUint8 :: "byte \<Rightarrow> encoder"
  PackedDecodeUint8 :: "byte decoder"
  PackedEncodeUint256 :: "uint256 \<Rightarrow> encoder"
  PackedDecodeUint256 :: "uint256 decoder"
  EmptyTuple_Encode :: "bytes result"
  EncodeEvent :: "bytes list result \<Rightarrow> bytes result \<Rightarrow> (bytes list \<times> bytes) result"

text \<open>
  \<open>EmptyTuple_Encode\<close> encodes the tuple without fields; \<open>EncodeEvent\<close> combines what the methods
  \<open>EncodeTopics\<close> and \<open>Encode\<close> of an event return.

  An encoder writes \<open>bz\<close> at the front of a zeroed buffer and nothing behind it; a decoder
  reads a value from the front of its input and says how long it was.
\<close>

definition encodes :: "encoder \<Rightarrow> bytes \<Rightarrow> bool" where
  "encodes f bz \<longleftrightarrow> (\<forall>rest. f (replicate (length bz) 0 @ rest) = Inr (length bz, bz @ rest))"

definition decodes :: "'a decoder \<Rightarrow> 'a \<Rightarrow> bytes \<Rightarrow> bool" where
  "decodes d v bz \<longleftrightarrow> (\<forall>rest. d (bz @ rest) = Inr (v, length bz))"

text \<open>The law of a type: what the encoder writes has the announced size, and is read back.\<close>

definition coder :: "('a \<Rightarrow> encoder) \<Rightarrow> ('a \<Rightarrow> nat) \<Rightarrow> 'a decoder \<Rightarrow> bool" where
  "coder enc sz dec \<longleftrightarrow>
     (\<forall>v. sz v < 2 ^ 31 \<longrightarrow> (\<exists>bz. length bz = sz v \<and> encodes (enc v) bz \<and> decodes dec v bz))"

text \<open>The offset or length \<open>n\<close> as a 32-byte word.\<close>

definition size_word :: "nat \<Rightarrow> bytes" where
  "size_word n = replicate 24 0 @ be64 (of_nat n)"

definition size_ok :: "abi \<Rightarrow> bool" where
  "size_ok A \<longleftrightarrow> (\<forall>n rest. n < 2 ^ 31 \<longrightarrow> DecodeSize A (size_word n @ rest) = Inr n)"

definition abi_ok :: "abi \<Rightarrow> bool" where
  "abi_ok A \<longleftrightarrow>
     coder (EncodeString A) (SizeString A) (DecodeString A) \<and>
     coder (EncodeBytes A) (SizeBytes A) (DecodeBytes A) \<and>
     coder (EncodeStringSlice A) (SizeStringSlice A) (DecodeStringSlice A) \<and>
     coder (EncodeUint64 A) (\<lambda>_. 32) (DecodeUint64 A) \<and>
     coder (EncodeUint8 A) (\<lambda>_. 32) (DecodeUint8 A) \<and>
     coder (EncodeUint256 A) (\<lambda>_. 32) (DecodeUint256 A) \<and>
     coder (EncodeBool A) (\<lambda>_. 32) (DecodeBool A) \<and>
     coder (EncodeAddress A) (\<lambda>_. 32) (DecodeAddress A) \<and>
     coder (PackedEncodeUint64 A) (\<lambda>_. 8) (PackedDecodeUint64 A) \<and>
     coder (PackedEncodeUint8 A) (\<lambda>_. 1) (PackedDecodeUint8 A) \<and>
     coder (PackedEncodeUint256 A) (\<lambda>_. 32) (PackedDecodeUint256 A) \<and>
     size_ok A \<and>
     EmptyTuple_Encode A = Inr [] \<and> (\<forall>topics bz. EncodeEvent A (Inr topics) (Inr bz) = Inr (topics, bz))"

text \<open>A result that is no panic, and whose value satisfies \<open>P\<close>.\<close>

definition safe_res :: "('a \<Rightarrow> bool) \<Rightarrow> 'a result \<Rightarrow> bool" where
  "safe_res P r \<longleftrightarrow> (case r of Inl e \<Rightarrow> e \<noteq> GoPanic | Inr x \<Rightarrow> P x)"

text \<open>A decoder that never panics and never reads more than it was given.\<close>

definition safe_dec :: "'a decoder \<Rightarrow> bool" where
  "safe_dec d \<longleftrightarrow> (\<forall>data. safe_res (\<lambda>(v, n). n \<le> length data) (d data))"

definition size_safe :: "abi \<Rightarrow> bool" where
  "size_safe A \<longleftrightarrow> (\<forall>data. DecodeSize A data \<noteq> Inl GoPanic)"

definition abi_safe :: "abi \<Rightarrow> bool" where
  "abi_safe A \<longleftrightarrow> safe_dec (DecodeString A) \<and> safe_dec (DecodeBytes A) \<and> safe_dec (DecodeStringSlice A) \<and>
     safe_dec (DecodeUint64 A) \<and> safe_dec (DecodeUint8 A) \<and> safe_dec (DecodeUint256 A) \<and> safe_dec (DecodeBool A) \<and>
     safe_dec (DecodeAddress A) \<and> safe_dec (PackedDecodeUint64 A) \<and> safe_dec (PackedDecodeUint8 A) \<and>
     safe_dec (PackedDecodeUint256 A) \<and> size_safe A"

section \<open>The blocks of the generated code\<close>

text \<open>
  One block per field in \<open>EncodeTo\<close>, on the buffer and \<open>dynamicOffset\<close>; \<open>encode_tuple\<close> runs
  them from the static size on and returns \<open>dynamicOffset\<close>.
\<close>

type_synonym enc_step = "bytes \<times> nat \<Rightarrow> (bytes \<times> nat) result"

definition static_field :: "nat \<Rightarrow> encoder \<Rightarrow> enc_step" where
  "static_field p f = (\<lambda>(buf, dyn). res_bind (enc_at p f buf) (\<lambda>(n, buf). Inr (buf, dyn)))"

definition dyn_field :: "nat \<Rightarrow> encoder \<Rightarrow> enc_step" where
  "dyn_field p f = (\<lambda>(buf, dyn).
     res_bind (put_uint64 (p + 24) (of_nat dyn) buf) (\<lambda>buf.
     res_bind (enc_at dyn f buf) (\<lambda>(n, buf). Inr (buf, dyn + n))))"

fun encode_steps :: "enc_step list \<Rightarrow> enc_step" where
  "encode_steps [] s = Inr s"
| "encode_steps (f # fs) s = res_bind (f s) (encode_steps fs)"

definition encode_tuple :: "nat \<Rightarrow> enc_step list \<Rightarrow> encoder" where
  "encode_tuple staticSize fs buf = res_bind (encode_steps fs (buf, staticSize)) (\<lambda>(buf, dyn). Inr (dyn, buf))"

text \<open>\<open>Encode\<close> and \<open>EncodeWithSelector\<close>.\<close>

definition encode_new :: "nat \<Rightarrow> encoder \<Rightarrow> bytes result" where
  "encode_new sz f = res_bind (f (replicate sz 0)) (\<lambda>(n, buf). Inr buf)"

definition encode_selector :: "bytes \<Rightarrow> nat \<Rightarrow> encoder \<Rightarrow> bytes result" where
  "encode_selector sel sz f = res_bind (enc_at 4 f (sel @ replicate sz 0)) (\<lambda>(n, buf). Inr buf)"

text \<open>The block of a field in \<open>PackedEncodeTo\<close>, on the buffer and \<open>offset\<close>.\<close>

definition packed_field :: "encoder \<Rightarrow> enc_step" where
  "packed_field f = (\<lambda>(buf, offset). res_bind (enc_at offset f buf) (\<lambda>(n, buf). Inr (buf, offset + n)))"

text \<open>One block per field in \<open>Decode\<close>; \<open>dyn\<close> is \<open>dynamicOffset\<close>.\<close>

definition static_at :: "nat \<Rightarrow> 'a decoder \<Rightarrow> bytes \<Rightarrow> 'a result" where
  "static_at p d data = res_bind (dec_at p d data) (\<lambda>(v, n). Inr v)"

definition dyn_elem :: "error \<Rightarrow> abi \<Rightarrow> nat \<Rightarrow> 'a decoder \<Rightarrow> bytes \<Rightarrow> nat \<Rightarrow> ('a \<times> nat) result" where
  "dyn_elem err A p d data dyn =
     res_bind (dec_at p (DecodeSize A) data) (\<lambda>offset.
     if offset \<noteq> dyn then Inl err
     else res_bind (dec_at dyn d data) (\<lambda>(v, n). Inr (v, dyn + n)))"

definition dyn_at :: "abi \<Rightarrow> nat \<Rightarrow> 'a decoder \<Rightarrow> bytes \<Rightarrow> nat \<Rightarrow> ('a \<times> nat) result" where
  "dyn_at = dyn_elem ErrInvalidOffsetForDynamicField"

text \<open>
  The generated functions for slices of dynamic tuples, which differ in the type of the
  element only.
\<close>

fun encode_elems :: "('a \<Rightarrow> encoder) \<Rightarrow> 'a list \<Rightarrow> nat \<Rightarrow> enc_step" where
  "encode_elems enc [] offset s = Inr s"
| "encode_elems enc (elem # value) offset s =
     res_bind (dyn_field offset (enc elem) s) (encode_elems enc value (offset + 32))"

definition encode_slice :: "('a \<Rightarrow> encoder) \<Rightarrow> 'a list \<Rightarrow> encoder" where
  "encode_slice enc value buf =
     res_bind (put_uint64 24 (of_nat (length value)) buf) (\<lambda>buf.
     enc_at 32 (\<lambda>buf. res_bind (encode_elems enc value 0 (buf, length value * 32)) (\<lambda>(buf, dyn). Inr (dyn + 32, buf))) buf)"

definition size_slice :: "('a \<Rightarrow> nat) \<Rightarrow> 'a list \<Rightarrow> nat" where
  "size_slice sz value = foldl (\<lambda>n elem. n + sz elem) (32 + 32 * length value) value"

fun decode_elems :: "abi \<Rightarrow> 'a decoder \<Rightarrow> nat \<Rightarrow> bytes \<Rightarrow> nat \<Rightarrow> nat \<Rightarrow> ('a list \<times> nat) result" where
  "decode_elems A dec 0 data offset dyn = Inr ([], dyn)"
| "decode_elems A dec (Suc n) data offset dyn =
     res_bind (dyn_elem ErrInvalidOffsetForSliceElement A offset dec data dyn) (\<lambda>(v, dyn).
     res_bind (decode_elems A dec n data (offset + 32) dyn) (\<lambda>(vs, dyn). Inr (v # vs, dyn)))"

definition decode_slice :: "abi \<Rightarrow> 'a decoder \<Rightarrow> 'a list decoder" where
  "decode_slice A dec data =
     (if length data < 32 then Inl ErrUnexpectedEOF else
      res_bind (DecodeSize A data) (\<lambda>len.
      let data = drop 32 data in
      if len > length data \<or> len * 32 > length data then Inl ErrUnexpectedEOF
      else res_bind (decode_elems A dec len data 0 (len * 32)) (\<lambda>(result, dyn). Inr (result, dyn + 32))))"

section \<open>The layout of a tuple\<close>

text \<open>
  The specification of the format: a tuple is a list of parts, the bytes of a static field or
  those of a dynamic one; the head holds the static fields and the offsets of the others.
\<close>

datatype part = Static bytes | Dynamic bytes

fun head_len :: "part \<Rightarrow> nat" where
  "head_len (Static w) = length w"
| "head_len (Dynamic d) = 32"

fun heads_len :: "part list \<Rightarrow> nat" where
  "heads_len [] = 0"
| "heads_len (q # qs) = head_len q + heads_len qs"

fun heads :: "nat \<Rightarrow> part list \<Rightarrow> bytes" where
  "heads dyn [] = []"
| "heads dyn (Static w # qs) = w @ heads dyn qs"
| "heads dyn (Dynamic d # qs) = size_word dyn @ heads (dyn + length d) qs"

fun tails :: "part list \<Rightarrow> bytes" where
  "tails [] = []"
| "tails (Static w # qs) = tails qs"
| "tails (Dynamic d # qs) = d @ tails qs"

definition layout :: "part list \<Rightarrow> bytes" where
  "layout qs = heads (heads_len qs) qs @ tails qs"

named_theorems abi_simps "what is written and read for the values of each type"

lemma length_be64 [simp]: "length (be64 w) = 8"
  by (simp add: be64_def)

lemma length_size_word [simp]: "length (size_word n) = 32"
  by (simp add: size_word_def)

lemma length_heads [simp]: "length (heads dyn qs) = heads_len qs"
  by (induction dyn qs rule: heads.induct) auto

lemma length_layout: "length (layout qs) = heads_len qs + length (tails qs)"
  by (simp add: layout_def)

subsection \<open>Encoding\<close>

fun emits :: "nat \<Rightarrow> enc_step \<Rightarrow> part \<Rightarrow> bool" where
  "emits p f (Static w) \<longleftrightarrow>
     (\<forall>pre rest dyn. length pre = p \<longrightarrow> f (pre @ replicate (length w) 0 @ rest, dyn) = Inr (pre @ w @ rest, dyn))"
| "emits p f (Dynamic d) \<longleftrightarrow>
     (\<forall>pre mid rest. length pre = p \<longrightarrow>
        f (pre @ replicate 32 0 @ mid @ replicate (length d) 0 @ rest, p + 32 + length mid) =
        Inr (pre @ size_word (p + 32 + length mid) @ mid @ d @ rest, p + 32 + length mid + length d))"

declare emits.simps [simp del]

fun emits_all :: "nat \<Rightarrow> enc_step list \<Rightarrow> part list \<Rightarrow> bool" where
  "emits_all p [] [] = True"
| "emits_all p (f # fs) (q # qs) = (emits p f q \<and> emits_all (p + head_len q) fs qs)"
| "emits_all p _ _ = False"

lemma emits_static [abi_simps]: "encodes f w \<Longrightarrow> emits p (static_field p f) (Static w)"
  by (auto simp: emits.simps static_field_def enc_at_def encodes_def res_bind_def)

lemma put_uint64_append:
  assumes "length pre = p"
  shows "put_uint64 (p + 24) w (pre @ replicate 32 0 @ rest) = Inr (pre @ replicate 24 0 @ be64 w @ rest)"
proof -
  have "replicate 32 (0 :: byte) = replicate 24 0 @ replicate 8 0"
    by (simp flip: replicate_add)
  then show ?thesis
    using assms by (simp add: put_uint64_def)
qed

lemma emits_dyn [abi_simps]:
  assumes "encodes f d"
  shows "emits p (dyn_field p f) (Dynamic d)"
  unfolding emits.simps
proof (intro allI impI)
  fix pre mid rest :: bytes
  assume p: "length pre = p"
  let ?dyn = "p + 32 + length mid"
  let ?front = "pre @ size_word ?dyn @ mid"
  have "enc_at ?dyn f (?front @ replicate (length d) 0 @ rest) = Inr (length d, ?front @ d @ rest)"
    using assms p by (simp add: enc_at_def encodes_def res_bind_def)
  then show "dyn_field p f (pre @ replicate 32 0 @ mid @ replicate (length d) 0 @ rest, ?dyn) =
      Inr (pre @ size_word ?dyn @ mid @ d @ rest, ?dyn + length d)"
    by (simp add: dyn_field_def put_uint64_append [OF p] res_bind_def size_word_def)
qed

lemma emits_dynD:
  "emits (length pre) f (Dynamic d) \<Longrightarrow>
     f (pre @ replicate 32 0 @ mid @ replicate (length d) 0 @ rest, length pre + 32 + length mid) =
     Inr (pre @ size_word (length pre + 32 + length mid) @ mid @ d @ rest, length pre + 32 + length mid + length d)"
  by (simp only: emits.simps)

lemma encode_steps_layout:
  assumes "emits_all (length pre) fs qs"
  shows "encode_steps fs (pre @ replicate (heads_len qs) 0 @ mid @ replicate (length (tails qs)) 0 @ rest,
            length pre + heads_len qs + length mid) =
         Inr (pre @ heads (length pre + heads_len qs + length mid) qs @ mid @ tails qs @ rest,
            length pre + heads_len qs + length mid + length (tails qs))"
  using assms
proof (induction qs arbitrary: pre mid fs)
  case Nil
  then show ?case by (cases fs) auto
next
  case (Cons q qs)
  then obtain f fs' where fs: "fs = f # fs'" "emits (length pre) f q" "emits_all (length pre + head_len q) fs' qs"
    by (cases fs) auto
  show ?case
  proof (cases q)
    case (Static w)
    then show ?thesis
      using Cons.IH [of "pre @ w" fs' mid] fs
      by (simp add: emits.simps replicate_add res_bind_def add.assoc)
  next
    case (Dynamic d)
    note run = emits_dynD [OF fs(2) [unfolded Dynamic],
        of "replicate (heads_len qs) 0 @ mid" "replicate (length (tails qs)) 0 @ rest"]
    show ?thesis
      using run Cons.IH [of "pre @ size_word (length pre + 32 + (heads_len qs + length mid))" fs' "mid @ d"] fs Dynamic
      by (simp add: replicate_add res_bind_def add.assoc)
  qed
qed

lemma encode_tuple_encodes:
  assumes "emits_all 0 fs qs"
  shows "encodes (encode_tuple (heads_len qs) fs) (layout qs)"
  using encode_steps_layout [of "[]" fs qs "[]"] assms
  by (simp add: encodes_def encode_tuple_def res_bind_def layout_def replicate_add)

subsection \<open>Decoding\<close>

text \<open>The bytes \<open>bz\<close> are in \<open>data\<close> at \<open>p\<close>; the head and the tails of \<open>qs\<close> are at \<open>p\<close> and \<open>dyn\<close>.\<close>

definition has :: "bytes \<Rightarrow> nat \<Rightarrow> bytes \<Rightarrow> bool" where
  "has data p bz \<longleftrightarrow> (\<exists>pre rest. data = pre @ bz @ rest \<and> length pre = p)"

fun placed :: "bytes \<Rightarrow> nat \<Rightarrow> nat \<Rightarrow> part list \<Rightarrow> bool" where
  "placed data p dyn [] = True"
| "placed data p dyn (Static w # qs) \<longleftrightarrow> has data p w \<and> placed data (p + length w) dyn qs"
| "placed data p dyn (Dynamic d # qs) \<longleftrightarrow>
     has data p (size_word dyn) \<and> has data dyn d \<and> placed data (p + 32) (dyn + length d) qs"

lemma placed_layout:
  "placed (pre @ heads dyn qs @ mid @ tails qs @ rest) (length pre) (length pre + heads_len qs + length mid) qs"
  if "dyn = length pre + heads_len qs + length mid"
  using that
proof (induction qs arbitrary: pre mid dyn)
  case (Cons q qs)
  show ?case
  proof (cases q)
    case (Static w)
    then show ?thesis
      using Cons.IH [of dyn "pre @ w" mid] Cons.prems by (auto simp: has_def add.assoc)
  next
    case (Dynamic d)
    have "has (pre @ size_word dyn @ heads (dyn + length d) qs @ mid @ d @ tails qs @ rest) dyn d"
      unfolding has_def
      by (rule exI [of _ "pre @ size_word dyn @ heads (dyn + length d) qs @ mid"]) (simp add: Cons.prems Dynamic)
    moreover have "has (pre @ size_word dyn @ heads (dyn + length d) qs @ mid @ d @ tails qs @ rest) (length pre) (size_word dyn)"
      by (auto simp: has_def)
    ultimately show ?thesis
      using Cons.IH [of "dyn + length d" "pre @ size_word dyn" "mid @ d"] Cons.prems Dynamic
      by (simp add: add.assoc)
  qed
qed simp

lemma has_drop: "has data p bz \<Longrightarrow> p \<le> length data \<and> (\<exists>rest. drop p data = bz @ rest)"
  by (auto simp: has_def)

lemma static_at_has: "has data p w \<Longrightarrow> decodes d v w \<Longrightarrow> static_at p d data = Inr v"
  by (auto simp: static_at_def dec_at_def decodes_def res_bind_def dest!: has_drop)

lemma abi_ok_size: "abi_ok A \<Longrightarrow> size_ok A"
  by (simp add: abi_ok_def)

lemma abi_safe_size: "abi_safe A \<Longrightarrow> size_safe A"
  by (simp add: abi_safe_def)

lemma dyn_elem_has:
  assumes "size_ok A" and "has data p (size_word dyn)" and "dyn < 2 ^ 31" and "has data dyn bz" and "decodes d v bz"
  shows "dyn_elem err A p d data dyn = Inr (v, dyn + length bz)"
  using assms by (auto simp: dyn_elem_def dec_at_def decodes_def size_ok_def res_bind_def dest!: has_drop)

lemma dyn_at_has:
  assumes "has data p (size_word dyn)" and "has data dyn bz" and "decodes d v bz" and "abi_ok A" and "dyn < 2 ^ 31"
  shows "dyn_at A p d data dyn = Inr (v, dyn + length bz)"
  using dyn_elem_has [OF abi_ok_size] assms by (auto simp: dyn_at_def)

section \<open>Laws of tuples\<close>

text \<open>The bytes an encoder writes for a value.\<close>

definition written :: "('a \<Rightarrow> encoder) \<Rightarrow> ('a \<Rightarrow> nat) \<Rightarrow> 'a \<Rightarrow> bytes" where
  "written enc sz v = (case enc v (replicate (sz v) 0) of Inl _ \<Rightarrow> [] | Inr (n, bz) \<Rightarrow> bz)"

lemma static_at_written [abi_simps]:
  "has data p (written enc sz v) \<Longrightarrow> decodes d v (written enc sz v) \<Longrightarrow> static_at p d data = Inr v"
  by (rule static_at_has)

lemma dyn_at_written [abi_simps]:
  "has data dyn (written enc sz v) \<Longrightarrow> decodes d v (written enc sz v) \<Longrightarrow> has data p (size_word dyn) \<Longrightarrow> abi_ok A \<Longrightarrow>
     dyn < 2 ^ 31 \<Longrightarrow> dyn_at A p d data dyn = Inr (v, dyn + length (written enc sz v))"
  by (rule dyn_at_has)

lemma coder_written:
  assumes "coder enc sz dec" and "sz v < 2 ^ 31"
  shows "length (written enc sz v) = sz v" and "encodes (enc v) (written enc sz v)"
    and "decodes dec v (written enc sz v)"
proof -
  from assms obtain bz where bz: "length bz = sz v" "encodes (enc v) bz" "decodes dec v bz"
    by (auto simp: coder_def)
  from bz(2) have "enc v (replicate (length bz) 0 @ []) = Inr (length bz, bz @ [])"
    unfolding encodes_def by blast
  then have "written enc sz v = bz" by (simp add: written_def bz(1))
  with bz show "length (written enc sz v) = sz v" "encodes (enc v) (written enc sz v)"
    "decodes dec v (written enc sz v)" by simp_all
qed

lemma abi_ok_coders:
  assumes "abi_ok A"
  shows "coder (EncodeString A) (SizeString A) (DecodeString A)"
    and "coder (EncodeBytes A) (SizeBytes A) (DecodeBytes A)"
    and "coder (EncodeStringSlice A) (SizeStringSlice A) (DecodeStringSlice A)"
    and "coder (EncodeUint64 A) (\<lambda>_. 32) (DecodeUint64 A)"
    and "coder (EncodeUint8 A) (\<lambda>_. 32) (DecodeUint8 A)"
    and "coder (EncodeUint256 A) (\<lambda>_. 32) (DecodeUint256 A)"
    and "coder (EncodeBool A) (\<lambda>_. 32) (DecodeBool A)"
    and "coder (EncodeAddress A) (\<lambda>_. 32) (DecodeAddress A)"
    and "coder (PackedEncodeUint64 A) (\<lambda>_. 8) (PackedDecodeUint64 A)"
    and "coder (PackedEncodeUint8 A) (\<lambda>_. 1) (PackedDecodeUint8 A)"
    and "coder (PackedEncodeUint256 A) (\<lambda>_. 32) (PackedDecodeUint256 A)"
  using assms by (simp_all add: abi_ok_def)

lemmas abi_ok_written [abi_simps] = abi_ok_coders [THEN coder_written(1)] abi_ok_coders [THEN coder_written(2)]
  abi_ok_coders [THEN coder_written(3)]

text \<open>
  A tuple whose blocks emit the parts \<open>qs v\<close>, and whose decoder reads \<open>v\<close> wherever these parts
  are placed, has the law of a type.
\<close>

lemma tuple_coder:
  assumes "\<And>v. enc v = encode_tuple n (fs v)"
    and "\<And>v. sz v < 2 ^ 31 \<Longrightarrow> heads_len (qs v) = n \<and> n + length (tails (qs v)) = sz v \<and> emits_all 0 (fs v) (qs v)"
    and "\<And>v data. sz v < 2 ^ 31 \<Longrightarrow> placed data 0 n (qs v) \<Longrightarrow> n \<le> length data \<Longrightarrow> dec data = Inr (v, sz v)"
  shows "coder enc sz dec"
  unfolding coder_def
proof (intro allI impI exI conjI)
  fix v
  assume v: "sz v < 2 ^ 31"
  note shape = assms(2) [OF v]
  then show len: "length (layout (qs v)) = sz v" by (simp add: length_layout)
  from shape show "encodes (enc v) (layout (qs v))"
    using encode_tuple_encodes [of "fs v" "qs v"] by (simp add: assms(1))
  show "decodes dec v (layout (qs v))"
    unfolding decodes_def
  proof
    fix rest
    from shape have "placed (layout (qs v) @ rest) 0 n (qs v)"
      using placed_layout [of "heads_len (qs v)" "[]" "qs v" "[]" rest] by (simp add: layout_def)
    then show "dec (layout (qs v) @ rest) = Inr (v, length (layout (qs v)))"
      using assms(3) [OF v, of "layout (qs v) @ rest"] shape len by simp
  qed
qed

text \<open>The same for packed tuples, whose fields follow one another without a head.\<close>

lemma packed_steps:
  assumes "list_all2 encodes fs ws"
  shows "encode_steps (map packed_field fs) (pre @ replicate (length (concat ws)) 0 @ rest, length pre) =
    Inr (pre @ concat ws @ rest, length pre + length (concat ws))"
  using assms
proof (induction fs ws arbitrary: pre rule: list_all2_induct)
  case (Cons f fs w ws)
  have "packed_field f (pre @ replicate (length w) 0 @ replicate (length (concat ws)) 0 @ rest, length pre) =
      Inr ((pre @ w) @ replicate (length (concat ws)) 0 @ rest, length (pre @ w))"
    using Cons.hyps by (simp add: packed_field_def enc_at_def encodes_def res_bind_def)
  then show ?case
    using Cons.IH [of "pre @ w"] by (simp add: replicate_add res_bind_def add.assoc)
qed simp

lemma heads_static [simp]: "heads dyn (map Static ws) = concat ws" "tails (map Static ws) = []"
  "heads_len (map Static ws) = length (concat ws)"
  by (induction ws) auto

lemma packed_coder:
  assumes "\<And>v. enc v = encode_tuple 0 (map packed_field (fs v))"
    and "\<And>v. list_all2 encodes (fs v) (ws v) \<and> length (concat (ws v)) = sz v"
    and "\<And>v data. placed data 0 0 (map Static (ws v)) \<Longrightarrow> sz v \<le> length data \<Longrightarrow> dec data = Inr (v, sz v)"
  shows "coder enc sz dec"
  unfolding coder_def
proof (intro allI impI exI conjI)
  fix v
  from assms(2) have ws: "list_all2 encodes (fs v) (ws v)" and len: "length (concat (ws v)) = sz v"
    by blast+
  from len show "length (concat (ws v)) = sz v" .
  show "encodes (enc v) (concat (ws v))"
    using packed_steps [OF ws, of "[]"] by (simp add: encodes_def assms(1) encode_tuple_def res_bind_def)
  have placed: "placed (concat ws @ rest) 0 0 (map Static ws)" for ws :: "bytes list" and rest
  proof -
    have "placed (pre @ concat ws @ rest) (length pre) 0 (map Static ws)" for pre
    proof (induction ws arbitrary: pre)
      case (Cons w ws)
      then show ?case using Cons [of "pre @ w"] by (auto simp: has_def)
    qed simp
    from this [of "[]"] show ?thesis by simp
  qed
  show "decodes dec v (concat (ws v))"
    using assms(3) [OF placed, of v] len by (simp add: decodes_def)
qed

subsection \<open>Panics\<close>

named_theorems safe_intros "results that are no panic"

lemma safe_res_Inr [safe_intros]: "P x \<Longrightarrow> safe_res P (Inr x)"
  by (simp add: safe_res_def)

lemma safe_res_Inl [safe_intros]: "e \<noteq> GoPanic \<Longrightarrow> safe_res P (Inl e)"
  by (simp add: safe_res_def)

lemma safe_res_bind: "safe_res P r \<Longrightarrow> (\<And>x. P x \<Longrightarrow> safe_res Q (f x)) \<Longrightarrow> safe_res Q (res_bind r f)"
  by (cases r) (auto simp: safe_res_def res_bind_def)

lemma safe_static_at:
  assumes "safe_dec d" and "p \<le> length data" and "\<And>v. safe_res Q (f v)"
  shows "safe_res Q (res_bind (static_at p d data) f)"
proof (rule safe_res_bind [where P = "\<lambda>_. True"])
  from assms(1) have "safe_res (\<lambda>(v, n). n \<le> length (drop p data)) (d (drop p data))"
    unfolding safe_dec_def by blast
  with assms(2) show "safe_res (\<lambda>_. True) (static_at p d data)"
    by (auto simp: static_at_def dec_at_def res_bind_def safe_res_def split: sum.splits)
qed (use assms(3) in auto)

lemma safe_dyn_elem:
  assumes "size_safe A" and "err \<noteq> GoPanic" and "safe_dec d" and "p \<le> length data" and "dyn \<le> length data"
    and "\<And>v dyn'. dyn' \<le> length data \<Longrightarrow> safe_res Q (f (v, dyn'))"
  shows "safe_res Q (res_bind (dyn_elem err A p d data dyn) f)"
proof (rule safe_res_bind [where P = "\<lambda>(v, dyn'). dyn' \<le> length data"])
  from assms(3) have "safe_res (\<lambda>(v, n). n \<le> length (drop dyn data)) (d (drop dyn data))"
    unfolding safe_dec_def by blast
  with assms show "safe_res (\<lambda>(v, dyn'). dyn' \<le> length data) (dyn_elem err A p d data dyn)"
    by (auto simp: dyn_elem_def dec_at_def res_bind_def safe_res_def size_safe_def split: sum.splits)
qed (use assms(6) in auto)

lemma safe_dyn_at:
  "abi_safe A \<Longrightarrow> safe_dec d \<Longrightarrow> p \<le> length data \<Longrightarrow> dyn \<le> length data \<Longrightarrow>
     (\<And>v dyn'. dyn' \<le> length data \<Longrightarrow> safe_res Q (f (v, dyn'))) \<Longrightarrow> safe_res Q (res_bind (dyn_at A p d data dyn) f)"
  unfolding dyn_at_def by (rule safe_dyn_elem [OF abi_safe_size]) auto

lemma safe_decI: "(\<And>data. safe_res (\<lambda>(v, n). n \<le> length data) (d data)) \<Longrightarrow> safe_dec d"
  by (simp add: safe_dec_def)

lemma abi_safe_decoders [safe_intros]:
  "abi_safe A \<Longrightarrow> safe_dec (DecodeString A)" "abi_safe A \<Longrightarrow> safe_dec (DecodeBytes A)"
  "abi_safe A \<Longrightarrow> safe_dec (DecodeStringSlice A)" "abi_safe A \<Longrightarrow> safe_dec (DecodeUint64 A)"
  "abi_safe A \<Longrightarrow> safe_dec (DecodeUint8 A)" "abi_safe A \<Longrightarrow> safe_dec (DecodeUint256 A)"
  "abi_safe A \<Longrightarrow> safe_dec (DecodeBool A)" "abi_safe A \<Longrightarrow> safe_dec (DecodeAddress A)"
  "abi_safe A \<Longrightarrow> safe_dec (PackedDecodeUint64 A)" "abi_safe A \<Longrightarrow> safe_dec (PackedDecodeUint8 A)"
  "abi_safe A \<Longrightarrow> safe_dec (PackedDecodeUint256 A)"
  by (simp_all add: abi_safe_def)

subsection \<open>Slices\<close>

fun elem_fields :: "('a \<Rightarrow> encoder) \<Rightarrow> nat \<Rightarrow> 'a list \<Rightarrow> enc_step list" where
  "elem_fields enc p [] = []"
| "elem_fields enc p (v # vs) = dyn_field p (enc v) # elem_fields enc (p + 32) vs"

lemma emits_all_elems:
  "\<forall>v \<in> set vs. encodes (enc v) (bz v) \<Longrightarrow> emits_all p (elem_fields enc p vs) (map (Dynamic \<circ> bz) vs)"
  by (induction vs arbitrary: p) (auto simp: emits_dyn)

lemma encode_elems_steps: "encode_elems enc vs p s = encode_steps (elem_fields enc p vs) s"
  by (induction vs arbitrary: p s) (auto simp: res_bind_def split: sum.splits)

lemma heads_len_elems: "heads_len (map (Dynamic \<circ> bz) vs) = 32 * length vs"
  by (induction vs) auto

lemma size_slice_sum: "size_slice sz vs = 32 + 32 * length vs + sum_list (map sz vs)"
proof -
  have "foldl (\<lambda>n v. n + sz v) m vs = m + sum_list (map sz vs)" for m
    by (induction vs arbitrary: m) auto
  then show ?thesis by (simp add: size_slice_def)
qed

lemma length_tails_elems: "\<forall>v \<in> set vs. length (bz v) = sz v \<Longrightarrow> length (tails (map (Dynamic \<circ> bz) vs)) = sum_list (map sz vs)"
  by (induction vs) auto

lemma decode_elems_placed:
  assumes "size_ok A" and "placed data p dyn (map (Dynamic \<circ> bz) vs)"
    and "\<forall>v \<in> set vs. length (bz v) = sz v \<and> decodes dec v (bz v)" and "dyn + sum_list (map sz vs) < 2 ^ 31"
  shows "decode_elems A dec (length vs) data p dyn = Inr (vs, dyn + sum_list (map sz vs))"
  using assms
proof (induction vs arbitrary: p dyn)
  case (Cons v vs)
  from Cons.prems have "dyn_elem ErrInvalidOffsetForSliceElement A p dec data dyn = Inr (v, dyn + sz v)"
    using dyn_elem_has [of A data p dyn "bz v" dec v] by simp
  moreover have "decode_elems A dec (length vs) data (p + 32) (dyn + sz v) = Inr (vs, dyn + sz v + sum_list (map sz vs))"
    by (rule Cons.IH) (use Cons.prems in auto)
  ultimately show ?case by (simp add: res_bind_def add.assoc)
qed simp


text \<open>The slice functions have the law of a type if those of the element do.\<close>

lemma encode_slice_encodes:
  assumes "\<forall>v \<in> set vs. encodes (enc v) (bz v)"
  shows "encodes (encode_slice enc vs) (size_word (length vs) @ layout (map (Dynamic \<circ> bz) vs))"
  unfolding encodes_def
proof
  fix rest
  let ?qs = "map (Dynamic \<circ> bz) vs"
  let ?n = "length (layout ?qs)"
  have "encodes (encode_tuple (heads_len ?qs) (elem_fields enc 0 vs)) (layout ?qs)"
    by (rule encode_tuple_encodes) (rule emits_all_elems [OF assms])
  then have run: "encode_tuple (length vs * 32) (elem_fields enc 0 vs) (replicate ?n 0 @ rest) = Inr (?n, layout ?qs @ rest)"
    by (simp add: encodes_def heads_len_elems mult.commute)
  have put: "put_uint64 24 w (replicate (32 + ?n) 0 @ rest) = Inr (replicate 24 0 @ be64 w @ replicate ?n 0 @ rest)" for w
    using put_uint64_append [of "[]" 0 w "replicate ?n 0 @ rest"] by (simp add: replicate_add)
  from run show "encode_slice enc vs (replicate (length (size_word (length vs) @ layout ?qs)) 0 @ rest) =
      Inr (length (size_word (length vs) @ layout ?qs), (size_word (length vs) @ layout ?qs) @ rest)"
    by (auto simp: encode_slice_def put encode_elems_steps encode_tuple_def enc_at_def res_bind_def size_word_def
        split: sum.splits prod.splits)
qed

lemma decode_slice_decodes:
  assumes "size_ok A" and "\<forall>v \<in> set vs. length (bz v) = sz v \<and> decodes dec v (bz v)" and "size_slice sz vs < 2 ^ 31"
  shows "decodes (decode_slice A dec) vs (size_word (length vs) @ layout (map (Dynamic \<circ> bz) vs))"
  unfolding decodes_def
proof
  fix rest
  let ?qs = "map (Dynamic \<circ> bz) vs"
  let ?data = "layout ?qs @ rest"
  have len: "length (tails ?qs) = sum_list (map sz vs)" "heads_len ?qs = length vs * 32"
    using assms(2) length_tails_elems [of vs bz sz] by (auto simp: heads_len_elems)
  have placed: "placed ?data 0 (length vs * 32) ?qs"
    using placed_layout [of "heads_len ?qs" "[]" ?qs "[]" rest] by (simp add: layout_def len)
  have "decode_elems A dec (length vs) ?data 0 (length vs * 32) = Inr (vs, length vs * 32 + sum_list (map sz vs))"
    by (rule decode_elems_placed [OF assms(1) placed assms(2)]) (use assms(3) in \<open>simp add: size_slice_sum\<close>)
  moreover have "DecodeSize A (size_word (length vs) @ ?data) = Inr (length vs)"
    using assms(1,3) by (simp add: size_ok_def size_slice_sum)
  ultimately show "decode_slice A dec ((size_word (length vs) @ layout ?qs) @ rest) =
      Inr (vs, length (size_word (length vs) @ layout ?qs))"
    by (simp add: decode_slice_def Let_def res_bind_def length_layout len)
qed

lemma slice_coder:
  assumes "size_ok A" and "coder enc sz dec"
  shows "coder (encode_slice enc) (size_slice sz) (decode_slice A dec)"
  unfolding coder_def
proof (intro allI impI exI conjI)
  fix vs
  assume small: "size_slice sz vs < 2 ^ 31"
  have "sz v < 2 ^ 31" if "v \<in> set vs" for v
    using member_le_sum_list [of "sz v" "map sz vs"] that small by (simp add: size_slice_sum)
  note laws = coder_written [OF assms(2) this]
  let ?bz = "written enc sz"
  show "length (size_word (length vs) @ layout (map (Dynamic \<circ> ?bz) vs)) = size_slice sz vs"
    using laws(1) length_tails_elems [of vs ?bz sz] by (simp add: length_layout heads_len_elems size_slice_sum)
  show "encodes (encode_slice enc vs) (size_word (length vs) @ layout (map (Dynamic \<circ> ?bz) vs))"
    by (rule encode_slice_encodes) (use laws(2) in blast)
  show "decodes (decode_slice A dec) vs (size_word (length vs) @ layout (map (Dynamic \<circ> ?bz) vs))"
    by (rule decode_slice_decodes [OF assms(1) _ small]) (use laws in blast)
qed

lemma safe_decode_elems:
  assumes "size_safe A" and "safe_dec dec"
  shows "p + 32 * n \<le> length data \<Longrightarrow> dyn \<le> length data \<Longrightarrow>
    safe_res (\<lambda>(vs, dyn'). dyn' \<le> length data) (decode_elems A dec n data p dyn)"
proof (induction n arbitrary: p dyn)
  case (Suc n)
  show ?case
    using Suc.prems
    by (auto intro!: safe_dyn_elem [OF assms(1) _ assms(2)] safe_res_bind [OF Suc.IH] safe_intros)
qed (simp add: safe_res_def)

lemma safe_decode_slice:
  assumes "size_safe A" and "safe_dec dec"
  shows "safe_dec (decode_slice A dec)"
proof (rule safe_decI)
  fix data
  have "safe_res (\<lambda>_. True) (DecodeSize A data)"
    using assms(1) by (auto simp: size_safe_def safe_res_def split: sum.splits)
  moreover have "safe_res (\<lambda>(v, n). n \<le> length data)
      (res_bind (decode_elems A dec n (drop 32 data) 0 (n * 32)) (\<lambda>(result, dyn). Inr (result, dyn + 32)))"
    if "32 \<le> length data" "n * 32 \<le> length data - 32" for n
    by (rule safe_res_bind [OF safe_decode_elems [OF assms]]) (use that in \<open>auto intro!: safe_intros\<close>)
  ultimately show "safe_res (\<lambda>(v, n). n \<le> length data) (decode_slice A dec data)"
    unfolding decode_slice_def Let_def
    by (auto intro!: safe_res_bind [where P = "\<lambda>_. True"] safe_intros)
qed

section \<open>The contract of a generated tuple\<close>

text \<open>
  The methods of a generated tuple, and what its clients rely on: encoding a value succeeds
  with the announced size, decoding the bytes gives the value back whatever follows them,
  and decoding arbitrary bytes does not panic.
\<close>

locale abi_tuple =
  fixes EncodedSize :: "abi \<Rightarrow> 'a \<Rightarrow> nat" and EncodeTo :: "abi \<Rightarrow> 'a \<Rightarrow> encoder" and Decode :: "abi \<Rightarrow> 'a decoder"
  assumes law: "abi_ok A \<Longrightarrow> coder (EncodeTo A) (EncodedSize A) (Decode A)"
    and safe: "abi_safe A \<Longrightarrow> safe_dec (Decode A)"
begin

lemma written_laws:
  assumes "abi_ok A" and "EncodedSize A v < 2 ^ 31"
  shows "length (written (EncodeTo A) (EncodedSize A) v) = EncodedSize A v"
    and "encodes (EncodeTo A v) (written (EncodeTo A) (EncodedSize A) v)"
    and "decodes (Decode A) v (written (EncodeTo A) (EncodedSize A) v)"
  using coder_written [OF law [OF assms(1)] assms(2)] by simp_all

lemma encode_decode:
  assumes "abi_ok A" and "EncodedSize A v < 2 ^ 31"
  shows "\<exists>bz. encode_new (EncodedSize A v) (EncodeTo A v) = Inr bz \<and> length bz = EncodedSize A v \<and>
    (\<forall>rest. Decode A (bz @ rest) = Inr (v, length bz))"
proof -
  note laws = written_laws [OF assms]
  from laws(2) have "EncodeTo A v (replicate (EncodedSize A v) 0 @ []) =
      Inr (EncodedSize A v, written (EncodeTo A) (EncodedSize A) v @ [])"
    unfolding encodes_def laws(1) by blast
  with laws(1,3) show ?thesis by (simp add: encode_new_def res_bind_def decodes_def)
qed

lemma encode_selector_decode:
  assumes "abi_ok A" and "EncodedSize A v < 2 ^ 31" and "length sel = 4"
  shows "\<exists>bz. encode_selector sel (EncodedSize A v) (EncodeTo A v) = Inr (sel @ bz) \<and> length bz = EncodedSize A v \<and>
    (\<forall>rest. Decode A (bz @ rest) = Inr (v, length bz))"
proof -
  note laws = written_laws [OF assms(1,2)]
  from laws(2) have "EncodeTo A v (replicate (EncodedSize A v) 0 @ []) =
      Inr (EncodedSize A v, written (EncodeTo A) (EncodedSize A) v @ [])"
    unfolding encodes_def laws(1) by blast
  with laws(1,3) assms(3) show ?thesis by (simp add: encode_selector_def enc_at_def res_bind_def decodes_def)
qed

lemma slice_law: "abi_ok A \<Longrightarrow> coder (encode_slice (EncodeTo A)) (size_slice (EncodedSize A)) (decode_slice A (Decode A))"
  by (rule slice_coder [OF abi_ok_size law])

lemma slice_safe: "abi_safe A \<Longrightarrow> safe_dec (decode_slice A (Decode A))"
  by (rule safe_decode_slice [OF abi_safe_size safe])

lemma no_panic: "abi_safe A \<Longrightarrow> Decode A data \<noteq> Inl GoPanic"
  using safe [of A] by (auto simp: safe_dec_def safe_res_def dest!: spec [of _ data])

end

end
