(* ===== verification/Abi_Common.thy ===== *)
theory Abi_Common
  imports Abi_Codec
begin

text \<open>
  The generated file \<open>precompiles/common.abi.go\<close>: the tuples shared by the precompiles. For
  each tuple, its struct, \<open>EncodedSize\<close>, \<open>EncodeTo\<close>, \<open>Encode\<close> and \<open>Decode\<close>; then its layout
  (\<open>_parts\<close>), which is what the encoder writes, and the interpretation of the contract.
  The amounts, which are pointers in Go, are taken to be non-nil.
\<close>

section \<open>Selectors\<close>

definition DummySelector :: bytes where
  "DummySelector = [0x59, 0xd4, 0xfe, 0x1a]"

definition DummyID :: "32 word" where
  "DummyID = 1507130906"

lemmas selector_defs = DummySelector_def

section \<open>Tuples\<close>

subsection \<open>\<open>Coin\<close>\<close>

record Coin =
  Coin_Denom :: string
  Coin_Amount :: uint256

definition CoinStaticSize :: nat where
  "CoinStaticSize = 64"

definition Coin_EncodedSize :: "abi \<Rightarrow> Coin \<Rightarrow> nat" where
  "Coin_EncodedSize A t = CoinStaticSize + SizeString A (Coin_Denom t)"

definition Coin_EncodeTo :: "abi \<Rightarrow> Coin \<Rightarrow> encoder" where
  "Coin_EncodeTo A value = encode_tuple CoinStaticSize
    [dyn_field 0 (EncodeString A (Coin_Denom value)),
     static_field 32 (EncodeUint256 A (Coin_Amount value))]"

definition Coin_Encode :: "abi \<Rightarrow> Coin \<Rightarrow> bytes result" where
  "Coin_Encode A value = encode_new (Coin_EncodedSize A value) (Coin_EncodeTo A value)"

definition Coin_Decode :: "abi \<Rightarrow> Coin decoder" where
  "Coin_Decode A data =
     (if length data < 64 then Inl ErrUnexpectedEOF else
      res_bind (dyn_at A 0 (DecodeString A) data 64) (\<lambda>(denom, dynamicOffset).
      res_bind (static_at 32 (DecodeUint256 A) data) (\<lambda>amount.
      Inr (\<lparr>Coin_Denom = denom, Coin_Amount = amount\<rparr>, dynamicOffset))))"

definition Coin_parts :: "abi \<Rightarrow> Coin \<Rightarrow> part list" where
  "Coin_parts A v =
    [Dynamic (written (EncodeString A) (SizeString A) (Coin_Denom v)),
     Static (written (EncodeUint256 A) (\<lambda>_. 32) (Coin_Amount v))]"

lemma Coin_coder: "abi_ok A \<Longrightarrow> coder (Coin_EncodeTo A) (Coin_EncodedSize A) (Coin_Decode A)"
  by (rule tuple_coder [OF Coin_EncodeTo_def, where qs = "Coin_parts A"])
    (auto simp: Coin_parts_def Coin_EncodedSize_def Coin_Decode_def CoinStaticSize_def res_bind_def abi_simps)

lemma Coin_safe [safe_intros]: "abi_safe A \<Longrightarrow> safe_dec (Coin_Decode A)"
  by (rule safe_decI, unfold Coin_Decode_def) (auto intro!: safe_static_at safe_dyn_at safe_intros)

interpretation Coin_abi: abi_tuple Coin_EncodedSize Coin_EncodeTo Coin_Decode
  by unfold_locales (simp_all add: Coin_coder Coin_safe)

lemmas Coin_laws [abi_simps] = Coin_abi.written_laws

subsection \<open>\<open>Dec\<close>\<close>

record Dec =
  Dec_Value :: uint256
  Dec_Precision :: byte

definition DecStaticSize :: nat where
  "DecStaticSize = 64"

definition Dec_EncodedSize :: "abi \<Rightarrow> Dec \<Rightarrow> nat" where
  "Dec_EncodedSize A t = DecStaticSize"

definition Dec_EncodeTo :: "abi \<Rightarrow> Dec \<Rightarrow> encoder" where
  "Dec_EncodeTo A value = encode_tuple DecStaticSize
    [static_field 0 (EncodeUint256 A (Dec_Value value)),
     static_field 32 (EncodeUint8 A (Dec_Precision value))]"

definition Dec_Encode :: "abi \<Rightarrow> Dec \<Rightarrow> bytes result" where
  "Dec_Encode A value = encode_new (Dec_EncodedSize A value) (Dec_EncodeTo A value)"

definition Dec_Decode :: "abi \<Rightarrow> Dec decoder" where
  "Dec_Decode A data =
     (if length data < 64 then Inl ErrUnexpectedEOF else
      res_bind (static_at 0 (DecodeUint256 A) data) (\<lambda>value.
      res_bind (static_at 32 (DecodeUint8 A) data) (\<lambda>precision.
      Inr (\<lparr>Dec_Value = value, Dec_Precision = precision\<rparr>, 64))))"

definition Dec_parts :: "abi \<Rightarrow> Dec \<Rightarrow> part list" where
  "Dec_parts A v =
    [Static (written (EncodeUint256 A) (\<lambda>_. 32) (Dec_Value v)),
     Static (written (EncodeUint8 A) (\<lambda>_. 32) (Dec_Precision v))]"

lemma Dec_size [simp]: "Dec_EncodedSize A v = 64"
  by (simp add: Dec_EncodedSize_def DecStaticSize_def)

lemma Dec_coder: "abi_ok A \<Longrightarrow> coder (Dec_EncodeTo A) (Dec_EncodedSize A) (Dec_Decode A)"
  by (rule tuple_coder [OF Dec_EncodeTo_def, where qs = "Dec_parts A"])
    (auto simp: Dec_parts_def Dec_EncodedSize_def Dec_Decode_def DecStaticSize_def res_bind_def abi_simps)

lemma Dec_safe [safe_intros]: "abi_safe A \<Longrightarrow> safe_dec (Dec_Decode A)"
  by (rule safe_decI, unfold Dec_Decode_def) (auto intro!: safe_static_at safe_dyn_at safe_intros)

interpretation Dec_abi: abi_tuple Dec_EncodedSize Dec_EncodeTo Dec_Decode
  by unfold_locales (simp_all add: Dec_coder Dec_safe)

lemmas Dec_laws [abi_simps] = Dec_abi.written_laws

definition Dec_PackedEncodedSize :: "Dec \<Rightarrow> nat" where
  "Dec_PackedEncodedSize t = 33"

definition Dec_PackedEncodeTo :: "abi \<Rightarrow> Dec \<Rightarrow> encoder" where
  "Dec_PackedEncodeTo A value = encode_tuple 0 (map packed_field
    [PackedEncodeUint256 A (Dec_Value value), PackedEncodeUint8 A (Dec_Precision value)])"

definition Dec_PackedEncode :: "abi \<Rightarrow> Dec \<Rightarrow> bytes result" where
  "Dec_PackedEncode A value = encode_new (Dec_PackedEncodedSize value) (Dec_PackedEncodeTo A value)"

definition Dec_PackedDecode :: "abi \<Rightarrow> Dec decoder" where
  "Dec_PackedDecode A data =
     (if length data < 33 then Inl ErrUnexpectedEOF else
      res_bind (static_at 0 (PackedDecodeUint256 A) data) (\<lambda>value.
      res_bind (static_at 32 (PackedDecodeUint8 A) data) (\<lambda>precision.
      Inr (\<lparr>Dec_Value = value, Dec_Precision = precision\<rparr>, 33))))"

lemma Dec_packed_coder: "abi_ok A \<Longrightarrow> coder (Dec_PackedEncodeTo A) Dec_PackedEncodedSize (Dec_PackedDecode A)"
  by (rule packed_coder [OF Dec_PackedEncodeTo_def, where ws = "\<lambda>v. [written (PackedEncodeUint256 A) (\<lambda>_. 32) (Dec_Value v), written (PackedEncodeUint8 A) (\<lambda>_. 1) (Dec_Precision v)]"])
    (auto simp: Dec_PackedEncodedSize_def Dec_PackedDecode_def res_bind_def abi_simps simp del: One_nat_def)

lemma Dec_packed_safe: "abi_safe A \<Longrightarrow> safe_dec (Dec_PackedDecode A)"
  by (rule safe_decI, unfold Dec_PackedDecode_def) (auto intro!: safe_static_at safe_intros)

interpretation Dec_packed: abi_tuple "\<lambda>_. Dec_PackedEncodedSize" Dec_PackedEncodeTo Dec_PackedDecode
  by unfold_locales (simp_all add: Dec_packed_coder Dec_packed_safe)

subsection \<open>\<open>DecCoin\<close>\<close>

record DecCoin =
  DecCoin_Denom :: string
  DecCoin_Amount :: uint256
  DecCoin_Precision :: byte

definition DecCoinStaticSize :: nat where
  "DecCoinStaticSize = 96"

definition DecCoin_EncodedSize :: "abi \<Rightarrow> DecCoin \<Rightarrow> nat" where
  "DecCoin_EncodedSize A t = DecCoinStaticSize + SizeString A (DecCoin_Denom t)"

definition DecCoin_EncodeTo :: "abi \<Rightarrow> DecCoin \<Rightarrow> encoder" where
  "DecCoin_EncodeTo A value = encode_tuple DecCoinStaticSize
    [dyn_field 0 (EncodeString A (DecCoin_Denom value)),
     static_field 32 (EncodeUint256 A (DecCoin_Amount value)),
     static_field 64 (EncodeUint8 A (DecCoin_Precision value))]"

definition DecCoin_Encode :: "abi \<Rightarrow> DecCoin \<Rightarrow> bytes result" where
  "DecCoin_Encode A value = encode_new (DecCoin_EncodedSize A value) (DecCoin_EncodeTo A value)"

definition DecCoin_Decode :: "abi \<Rightarrow> DecCoin decoder" where
  "DecCoin_Decode A data =
     (if length data < 96 then Inl ErrUnexpectedEOF else
      res_bind (dyn_at A 0 (DecodeString A) data 96) (\<lambda>(denom, dynamicOffset).
      res_bind (static_at 32 (DecodeUint256 A) data) (\<lambda>amount.
      res_bind (static_at 64 (DecodeUint8 A) data) (\<lambda>precision.
      Inr (\<lparr>DecCoin_Denom = denom, DecCoin_Amount = amount, DecCoin_Precision = precision\<rparr>, dynamicOffset)))))"

definition DecCoin_parts :: "abi \<Rightarrow> DecCoin \<Rightarrow> part list" where
  "DecCoin_parts A v =
    [Dynamic (written (EncodeString A) (SizeString A) (DecCoin_Denom v)),
     Static (written (EncodeUint256 A) (\<lambda>_. 32) (DecCoin_Amount v)),
     Static (written (EncodeUint8 A) (\<lambda>_. 32) (DecCoin_Precision v))]"

lemma DecCoin_coder: "abi_ok A \<Longrightarrow> coder (DecCoin_EncodeTo A) (DecCoin_EncodedSize A) (DecCoin_Decode A)"
  by (rule tuple_coder [OF DecCoin_EncodeTo_def, where qs = "DecCoin_parts A"])
    (auto simp: DecCoin_parts_def DecCoin_EncodedSize_def DecCoin_Decode_def DecCoinStaticSize_def res_bind_def abi_simps)

lemma DecCoin_safe [safe_intros]: "abi_safe A \<Longrightarrow> safe_dec (DecCoin_Decode A)"
  by (rule safe_decI, unfold DecCoin_Decode_def) (auto intro!: safe_static_at safe_dyn_at safe_intros)

interpretation DecCoin_abi: abi_tuple DecCoin_EncodedSize DecCoin_EncodeTo DecCoin_Decode
  by unfold_locales (simp_all add: DecCoin_coder DecCoin_safe)

lemmas DecCoin_laws [abi_simps] = DecCoin_abi.written_laws

subsection \<open>\<open>Height\<close>\<close>

record Height =
  Height_RevisionNumber :: u64
  Height_RevisionHeight :: u64

definition HeightStaticSize :: nat where
  "HeightStaticSize = 64"

definition Height_EncodedSize :: "abi \<Rightarrow> Height \<Rightarrow> nat" where
  "Height_EncodedSize A t = HeightStaticSize"

definition Height_EncodeTo :: "abi \<Rightarrow> Height \<Rightarrow> encoder" where
  "Height_EncodeTo A value = encode_tuple HeightStaticSize
    [static_field 0 (EncodeUint64 A (Height_RevisionNumber value)),
     static_field 32 (EncodeUint64 A (Height_RevisionHeight value))]"

definition Height_Encode :: "abi \<Rightarrow> Height \<Rightarrow> bytes result" where
  "Height_Encode A value = encode_new (Height_EncodedSize A value) (Height_EncodeTo A value)"

definition Height_Decode :: "abi \<Rightarrow> Height decoder" where
  "Height_Decode A data =
     (if length data < 64 then Inl ErrUnexpectedEOF else
      res_bind (static_at 0 (DecodeUint64 A) data) (\<lambda>revisionNumber.
      res_bind (static_at 32 (DecodeUint64 A) data) (\<lambda>revisionHeight.
      Inr (\<lparr>Height_RevisionNumber = revisionNumber, Height_RevisionHeight = revisionHeight\<rparr>, 64))))"

definition Height_parts :: "abi \<Rightarrow> Height \<Rightarrow> part list" where
  "Height_parts A v =
    [Static (written (EncodeUint64 A) (\<lambda>_. 32) (Height_RevisionNumber v)),
     Static (written (EncodeUint64 A) (\<lambda>_. 32) (Height_RevisionHeight v))]"

lemma Height_size [simp]: "Height_EncodedSize A v = 64"
  by (simp add: Height_EncodedSize_def HeightStaticSize_def)

lemma Height_coder: "abi_ok A \<Longrightarrow> coder (Height_EncodeTo A) (Height_EncodedSize A) (Height_Decode A)"
  by (rule tuple_coder [OF Height_EncodeTo_def, where qs = "Height_parts A"])
    (auto simp: Height_parts_def Height_EncodedSize_def Height_Decode_def HeightStaticSize_def res_bind_def abi_simps)

lemma Height_safe [safe_intros]: "abi_safe A \<Longrightarrow> safe_dec (Height_Decode A)"
  by (rule safe_decI, unfold Height_Decode_def) (auto intro!: safe_static_at safe_dyn_at safe_intros)

interpretation Height_abi: abi_tuple Height_EncodedSize Height_EncodeTo Height_Decode
  by unfold_locales (simp_all add: Height_coder Height_safe)

lemmas Height_laws [abi_simps] = Height_abi.written_laws

definition Height_PackedEncodedSize :: "Height \<Rightarrow> nat" where
  "Height_PackedEncodedSize t = 16"

definition Height_PackedEncodeTo :: "abi \<Rightarrow> Height \<Rightarrow> encoder" where
  "Height_PackedEncodeTo A value = encode_tuple 0 (map packed_field
    [PackedEncodeUint64 A (Height_RevisionNumber value), PackedEncodeUint64 A (Height_RevisionHeight value)])"

definition Height_PackedEncode :: "abi \<Rightarrow> Height \<Rightarrow> bytes result" where
  "Height_PackedEncode A value = encode_new (Height_PackedEncodedSize value) (Height_PackedEncodeTo A value)"

definition Height_PackedDecode :: "abi \<Rightarrow> Height decoder" where
  "Height_PackedDecode A data =
     (if length data < 16 then Inl ErrUnexpectedEOF else
      res_bind (static_at 0 (PackedDecodeUint64 A) data) (\<lambda>revisionNumber.
      res_bind (static_at 8 (PackedDecodeUint64 A) data) (\<lambda>revisionHeight.
      Inr (\<lparr>Height_RevisionNumber = revisionNumber, Height_RevisionHeight = revisionHeight\<rparr>, 16))))"

lemma Height_packed_coder: "abi_ok A \<Longrightarrow> coder (Height_PackedEncodeTo A) Height_PackedEncodedSize (Height_PackedDecode A)"
  by (rule packed_coder [OF Height_PackedEncodeTo_def, where ws = "\<lambda>v. [written (PackedEncodeUint64 A) (\<lambda>_. 8) (Height_RevisionNumber v), written (PackedEncodeUint64 A) (\<lambda>_. 8) (Height_RevisionHeight v)]"])
    (auto simp: Height_PackedEncodedSize_def Height_PackedDecode_def res_bind_def abi_simps simp del: One_nat_def)

lemma Height_packed_safe: "abi_safe A \<Longrightarrow> safe_dec (Height_PackedDecode A)"
  by (rule safe_decI, unfold Height_PackedDecode_def) (auto intro!: safe_static_at safe_intros)

interpretation Height_packed: abi_tuple "\<lambda>_. Height_PackedEncodedSize" Height_PackedEncodeTo Height_PackedDecode
  by unfold_locales (simp_all add: Height_packed_coder Height_packed_safe)

subsection \<open>\<open>[]Coin\<close>\<close>

definition EncodeCoinSlice :: "abi \<Rightarrow> Coin list \<Rightarrow> encoder" where
  "EncodeCoinSlice A = encode_slice (Coin_EncodeTo A)"

definition SizeCoinSlice :: "abi \<Rightarrow> Coin list \<Rightarrow> nat" where
  "SizeCoinSlice A = size_slice (Coin_EncodedSize A)"

definition DecodeCoinSlice :: "abi \<Rightarrow> Coin list decoder" where
  "DecodeCoinSlice A = decode_slice A (Coin_Decode A)"

interpretation CoinSlice_abi: abi_tuple SizeCoinSlice EncodeCoinSlice DecodeCoinSlice
  by unfold_locales (simp_all add: EncodeCoinSlice_def SizeCoinSlice_def DecodeCoinSlice_def Coin_abi.slice_law Coin_abi.slice_safe)

lemmas CoinSlice_laws [abi_simps] = CoinSlice_abi.written_laws

lemmas CoinSlice_safe [safe_intros] = CoinSlice_abi.safe

subsection \<open>\<open>ICS20Allocation\<close>\<close>

record ICS20Allocation =
  ICS20Allocation_SourcePort :: string
  ICS20Allocation_SourceChannel :: string
  ICS20Allocation_SpendLimit :: "Coin list"
  ICS20Allocation_AllowList :: "string list"
  ICS20Allocation_AllowedPacketData :: "string list"

definition ICS20AllocationStaticSize :: nat where
  "ICS20AllocationStaticSize = 160"

definition ICS20Allocation_EncodedSize :: "abi \<Rightarrow> ICS20Allocation \<Rightarrow> nat" where
  "ICS20Allocation_EncodedSize A t = ICS20AllocationStaticSize + (SizeString A (ICS20Allocation_SourcePort t) + SizeString A (ICS20Allocation_SourceChannel t) + SizeCoinSlice A (ICS20Allocation_SpendLimit t) + SizeStringSlice A (ICS20Allocation_AllowList t) + SizeStringSlice A (ICS20Allocation_AllowedPacketData t))"

definition ICS20Allocation_EncodeTo :: "abi \<Rightarrow> ICS20Allocation \<Rightarrow> encoder" where
  "ICS20Allocation_EncodeTo A value = encode_tuple ICS20AllocationStaticSize
    [dyn_field 0 (EncodeString A (ICS20Allocation_SourcePort value)),
     dyn_field 32 (EncodeString A (ICS20Allocation_SourceChannel value)),
     dyn_field 64 (EncodeCoinSlice A (ICS20Allocation_SpendLimit value)),
     dyn_field 96 (EncodeStringSlice A (ICS20Allocation_AllowList value)),
     dyn_field 128 (EncodeStringSlice A (ICS20Allocation_AllowedPacketData value))]"

definition ICS20Allocation_Encode :: "abi \<Rightarrow> ICS20Allocation \<Rightarrow> bytes result" where
  "ICS20Allocation_Encode A value = encode_new (ICS20Allocation_EncodedSize A value) (ICS20Allocation_EncodeTo A value)"

definition ICS20Allocation_Decode :: "abi \<Rightarrow> ICS20Allocation decoder" where
  "ICS20Allocation_Decode A data =
     (if length data < 160 then Inl ErrUnexpectedEOF else
      res_bind (dyn_at A 0 (DecodeString A) data 160) (\<lambda>(sourcePort, dynamicOffset).
      res_bind (dyn_at A 32 (DecodeString A) data dynamicOffset) (\<lambda>(sourceChannel, dynamicOffset).
      res_bind (dyn_at A 64 (DecodeCoinSlice A) data dynamicOffset) (\<lambda>(spendLimit, dynamicOffset).
      res_bind (dyn_at A 96 (DecodeStringSlice A) data dynamicOffset) (\<lambda>(allowList, dynamicOffset).
      res_bind (dyn_at A 128 (DecodeStringSlice A) data dynamicOffset) (\<lambda>(allowedPacketData, dynamicOffset).
      Inr (\<lparr>ICS20Allocation_SourcePort = sourcePort, ICS20Allocation_SourceChannel = sourceChannel, ICS20Allocation_SpendLimit = spendLimit, ICS20Allocation_AllowList = allowList, ICS20Allocation_AllowedPacketData = allowedPacketData\<rparr>, dynamicOffset)))))))"

definition ICS20Allocation_parts :: "abi \<Rightarrow> ICS20Allocation \<Rightarrow> part list" where
  "ICS20Allocation_parts A v =
    [Dynamic (written (EncodeString A) (SizeString A) (ICS20Allocation_SourcePort v)),
     Dynamic (written (EncodeString A) (SizeString A) (ICS20Allocation_SourceChannel v)),
     Dynamic (written (EncodeCoinSlice A) (SizeCoinSlice A) (ICS20Allocation_SpendLimit v)),
     Dynamic (written (EncodeStringSlice A) (SizeStringSlice A) (ICS20Allocation_AllowList v)),
     Dynamic (written (EncodeStringSlice A) (SizeStringSlice A) (ICS20Allocation_AllowedPacketData v))]"

lemma ICS20Allocation_coder: "abi_ok A \<Longrightarrow> coder (ICS20Allocation_EncodeTo A) (ICS20Allocation_EncodedSize A) (ICS20Allocation_Decode A)"
  by (rule tuple_coder [OF ICS20Allocation_EncodeTo_def, where qs = "ICS20Allocation_parts A"])
    (auto simp: ICS20Allocation_parts_def ICS20Allocation_EncodedSize_def ICS20Allocation_Decode_def ICS20AllocationStaticSize_def res_bind_def abi_simps)

lemma ICS20Allocation_safe [safe_intros]: "abi_safe A \<Longrightarrow> safe_dec (ICS20Allocation_Decode A)"
  by (rule safe_decI, unfold ICS20Allocation_Decode_def) (auto intro!: safe_static_at safe_dyn_at safe_intros)

interpretation ICS20Allocation_abi: abi_tuple ICS20Allocation_EncodedSize ICS20Allocation_EncodeTo ICS20Allocation_Decode
  by unfold_locales (simp_all add: ICS20Allocation_coder ICS20Allocation_safe)

lemmas ICS20Allocation_laws [abi_simps] = ICS20Allocation_abi.written_laws

subsection \<open>\<open>PageRequest\<close>\<close>

record PageRequest =
  PageRequest_Key :: bytes
  PageRequest_Offset :: u64
  PageRequest_Limit :: u64
  PageRequest_CountTotal :: bool
  PageRequest_Reverse :: bool

definition PageRequestStaticSize :: nat where
  "PageRequestStaticSize = 160"

definition PageRequest_EncodedSize :: "abi \<Rightarrow> PageRequest \<Rightarrow> nat" where
  "PageRequest_EncodedSize A t = PageRequestStaticSize + SizeBytes A (PageRequest_Key t)"

definition PageRequest_EncodeTo :: "abi \<Rightarrow> PageRequest \<Rightarrow> encoder" where
  "PageRequest_EncodeTo A value = encode_tuple PageRequestStaticSize
    [dyn_field 0 (EncodeBytes A (PageRequest_Key value)),
     static_field 32 (EncodeUint64 A (PageRequest_Offset value)),
     static_field 64 (EncodeUint64 A (PageRequest_Limit value)),
     static_field 96 (EncodeBool A (PageRequest_CountTotal value)),
     static_field 128 (EncodeBool A (PageRequest_Reverse value))]"

definition PageRequest_Encode :: "abi \<Rightarrow> PageRequest \<Rightarrow> bytes result" where
  "PageRequest_Encode A value = encode_new (PageRequest_EncodedSize A value) (PageRequest_EncodeTo A value)"

definition PageRequest_Decode :: "abi \<Rightarrow> PageRequest decoder" where
  "PageRequest_Decode A data =
     (if length data < 160 then Inl ErrUnexpectedEOF else
      res_bind (dyn_at A 0 (DecodeBytes A) data 160) (\<lambda>(key, dynamicOffset).
      res_bind (static_at 32 (DecodeUint64 A) data) (\<lambda>offset.
      res_bind (static_at 64 (DecodeUint64 A) data) (\<lambda>limit.
      res_bind (static_at 96 (DecodeBool A) data) (\<lambda>countTotal.
      res_bind (static_at 128 (DecodeBool A) data) (\<lambda>reverse.
      Inr (\<lparr>PageRequest_Key = key, PageRequest_Offset = offset, PageRequest_Limit = limit, PageRequest_CountTotal = countTotal, PageRequest_Reverse = reverse\<rparr>, dynamicOffset)))))))"

definition PageRequest_parts :: "abi \<Rightarrow> PageRequest \<Rightarrow> part list" where
  "PageRequest_parts A v =
    [Dynamic (written (EncodeBytes A) (SizeBytes A) (PageRequest_Key v)),
     Static (written (EncodeUint64 A) (\<lambda>_. 32) (PageRequest_Offset v)),
     Static (written (EncodeUint64 A) (\<lambda>_. 32) (PageRequest_Limit v)),
     Static (written (EncodeBool A) (\<lambda>_. 32) (PageRequest_CountTotal v)),
     Static (written (EncodeBool A) (\<lambda>_. 32) (PageRequest_Reverse v))]"

lemma PageRequest_coder: "abi_ok A \<Longrightarrow> coder (PageRequest_EncodeTo A) (PageRequest_EncodedSize A) (PageRequest_Decode A)"
  by (rule tuple_coder [OF PageRequest_EncodeTo_def, where qs = "PageRequest_parts A"])
    (auto simp: PageRequest_parts_def PageRequest_EncodedSize_def PageRequest_Decode_def PageRequestStaticSize_def res_bind_def abi_simps)

lemma PageRequest_safe [safe_intros]: "abi_safe A \<Longrightarrow> safe_dec (PageRequest_Decode A)"
  by (rule safe_decI, unfold PageRequest_Decode_def) (auto intro!: safe_static_at safe_dyn_at safe_intros)

interpretation PageRequest_abi: abi_tuple PageRequest_EncodedSize PageRequest_EncodeTo PageRequest_Decode
  by unfold_locales (simp_all add: PageRequest_coder PageRequest_safe)

lemmas PageRequest_laws [abi_simps] = PageRequest_abi.written_laws

subsection \<open>\<open>PageResponse\<close>\<close>

record PageResponse =
  PageResponse_NextKey :: bytes
  PageResponse_Total :: u64

definition PageResponseStaticSize :: nat where
  "PageResponseStaticSize = 64"

definition PageResponse_EncodedSize :: "abi \<Rightarrow> PageResponse \<Rightarrow> nat" where
  "PageResponse_EncodedSize A t = PageResponseStaticSize + SizeBytes A (PageResponse_NextKey t)"

definition PageResponse_EncodeTo :: "abi \<Rightarrow> PageResponse \<Rightarrow> encoder" where
  "PageResponse_EncodeTo A value = encode_tuple PageResponseStaticSize
    [dyn_field 0 (EncodeBytes A (PageResponse_NextKey value)),
     static_field 32 (EncodeUint64 A (PageResponse_Total value))]"

definition PageResponse_Encode :: "abi \<Rightarrow> PageResponse \<Rightarrow> bytes result" where
  "PageResponse_Encode A value = encode_new (PageResponse_EncodedSize A value) (PageResponse_EncodeTo A value)"

definition PageResponse_Decode :: "abi \<Rightarrow> PageResponse decoder" where
  "PageResponse_Decode A data =
     (if length data < 64 then Inl ErrUnexpectedEOF else
      res_bind (dyn_at A 0 (DecodeBytes A) data 64) (\<lambda>(nextKey, dynamicOffset).
      res_bind (static_at 32 (DecodeUint64 A) data) (\<lambda>total.
      Inr (\<lparr>PageResponse_NextKey = nextKey, PageResponse_Total = total\<rparr>, dynamicOffset))))"

definition PageResponse_parts :: "abi \<Rightarrow> PageResponse \<Rightarrow> part list" where
  "PageResponse_parts A v =
    [Dynamic (written (EncodeBytes A) (SizeBytes A) (PageResponse_NextKey v)),
     Static (written (EncodeUint64 A) (\<lambda>_. 32) (PageResponse_Total v))]"

lemma PageResponse_coder: "abi_ok A \<Longrightarrow> coder (PageResponse_EncodeTo A) (PageResponse_EncodedSize A) (PageResponse_Decode A)"
  by (rule tuple_coder [OF PageResponse_EncodeTo_def, where qs = "PageResponse_parts A"])
    (auto simp: PageResponse_parts_def PageResponse_EncodedSize_def PageResponse_Decode_def PageResponseStaticSize_def res_bind_def abi_simps)

lemma PageResponse_safe [safe_intros]: "abi_safe A \<Longrightarrow> safe_dec (PageResponse_Decode A)"
  by (rule safe_decI, unfold PageResponse_Decode_def) (auto intro!: safe_static_at safe_dyn_at safe_intros)

interpretation PageResponse_abi: abi_tuple PageResponse_EncodedSize PageResponse_EncodeTo PageResponse_Decode
  by unfold_locales (simp_all add: PageResponse_coder PageResponse_safe)

lemmas PageResponse_laws [abi_simps] = PageResponse_abi.written_laws

subsection \<open>\<open>DummyCall\<close>\<close>

record DummyCall =
  DummyCall_A :: Coin
  DummyCall_B :: DecCoin
  DummyCall_C :: Dec
  DummyCall_D :: Height
  DummyCall_E :: PageRequest
  DummyCall_F :: PageResponse
  DummyCall_G :: ICS20Allocation

definition DummyCallStaticSize :: nat where
  "DummyCallStaticSize = 288"

definition DummyCall_EncodedSize :: "abi \<Rightarrow> DummyCall \<Rightarrow> nat" where
  "DummyCall_EncodedSize A t = DummyCallStaticSize + (Coin_EncodedSize A (DummyCall_A t) + DecCoin_EncodedSize A (DummyCall_B t) + PageRequest_EncodedSize A (DummyCall_E t) + PageResponse_EncodedSize A (DummyCall_F t) + ICS20Allocation_EncodedSize A (DummyCall_G t))"

definition DummyCall_EncodeTo :: "abi \<Rightarrow> DummyCall \<Rightarrow> encoder" where
  "DummyCall_EncodeTo A value = encode_tuple DummyCallStaticSize
    [dyn_field 0 (Coin_EncodeTo A (DummyCall_A value)),
     dyn_field 32 (DecCoin_EncodeTo A (DummyCall_B value)),
     static_field 64 (Dec_EncodeTo A (DummyCall_C value)),
     static_field 128 (Height_EncodeTo A (DummyCall_D value)),
     dyn_field 192 (PageRequest_EncodeTo A (DummyCall_E value)),
     dyn_field 224 (PageResponse_EncodeTo A (DummyCall_F value)),
     dyn_field 256 (ICS20Allocation_EncodeTo A (DummyCall_G value))]"

definition DummyCall_Encode :: "abi \<Rightarrow> DummyCall \<Rightarrow> bytes result" where
  "DummyCall_Encode A value = encode_new (DummyCall_EncodedSize A value) (DummyCall_EncodeTo A value)"

definition DummyCall_Decode :: "abi \<Rightarrow> DummyCall decoder" where
  "DummyCall_Decode A data =
     (if length data < 288 then Inl ErrUnexpectedEOF else
      res_bind (dyn_at A 0 (Coin_Decode A) data 288) (\<lambda>(a, dynamicOffset).
      res_bind (dyn_at A 32 (DecCoin_Decode A) data dynamicOffset) (\<lambda>(b, dynamicOffset).
      res_bind (static_at 64 (Dec_Decode A) data) (\<lambda>c.
      res_bind (static_at 128 (Height_Decode A) data) (\<lambda>d.
      res_bind (dyn_at A 192 (PageRequest_Decode A) data dynamicOffset) (\<lambda>(e, dynamicOffset).
      res_bind (dyn_at A 224 (PageResponse_Decode A) data dynamicOffset) (\<lambda>(f, dynamicOffset).
      res_bind (dyn_at A 256 (ICS20Allocation_Decode A) data dynamicOffset) (\<lambda>(g, dynamicOffset).
      Inr (\<lparr>DummyCall_A = a, DummyCall_B = b, DummyCall_C = c, DummyCall_D = d, DummyCall_E = e, DummyCall_F = f, DummyCall_G = g\<rparr>, dynamicOffset)))))))))"

definition DummyCall_parts :: "abi \<Rightarrow> DummyCall \<Rightarrow> part list" where
  "DummyCall_parts A v =
    [Dynamic (written (Coin_EncodeTo A) (Coin_EncodedSize A) (DummyCall_A v)),
     Dynamic (written (DecCoin_EncodeTo A) (DecCoin_EncodedSize A) (DummyCall_B v)),
     Static (written (Dec_EncodeTo A) (Dec_EncodedSize A) (DummyCall_C v)),
     Static (written (Height_EncodeTo A) (Height_EncodedSize A) (DummyCall_D v)),
     Dynamic (written (PageRequest_EncodeTo A) (PageRequest_EncodedSize A) (DummyCall_E v)),
     Dynamic (written (PageResponse_EncodeTo A) (PageResponse_EncodedSize A) (DummyCall_F v)),
     Dynamic (written (ICS20Allocation_EncodeTo A) (ICS20Allocation_EncodedSize A) (DummyCall_G v))]"

lemma DummyCall_coder: "abi_ok A \<Longrightarrow> coder (DummyCall_EncodeTo A) (DummyCall_EncodedSize A) (DummyCall_Decode A)"
  by (rule tuple_coder [OF DummyCall_EncodeTo_def, where qs = "DummyCall_parts A"])
    (auto simp: DummyCall_parts_def DummyCall_EncodedSize_def DummyCall_Decode_def DummyCallStaticSize_def res_bind_def abi_simps)

lemma DummyCall_safe [safe_intros]: "abi_safe A \<Longrightarrow> safe_dec (DummyCall_Decode A)"
  by (rule safe_decI, unfold DummyCall_Decode_def) (auto intro!: safe_static_at safe_dyn_at safe_intros)

interpretation DummyCall_abi: abi_tuple DummyCall_EncodedSize DummyCall_EncodeTo DummyCall_Decode
  by unfold_locales (simp_all add: DummyCall_coder DummyCall_safe)

lemmas DummyCall_laws [abi_simps] = DummyCall_abi.written_laws

definition DummyCall_GetMethodName :: "DummyCall \<Rightarrow> string" where
  "DummyCall_GetMethodName t = ''dummy''"

definition DummyCall_GetMethodID :: "DummyCall \<Rightarrow> 32 word" where
  "DummyCall_GetMethodID t = DummyID"

definition DummyCall_GetMethodSelector :: "DummyCall \<Rightarrow> bytes" where
  "DummyCall_GetMethodSelector t = DummySelector"

definition DummyCall_EncodeWithSelector :: "abi \<Rightarrow> DummyCall \<Rightarrow> bytes result" where
  "DummyCall_EncodeWithSelector A t = encode_selector DummySelector (DummyCall_EncodedSize A t) (DummyCall_EncodeTo A t)"

definition NewDummyCall :: "Coin \<Rightarrow> DecCoin \<Rightarrow> Dec \<Rightarrow> Height \<Rightarrow> PageRequest \<Rightarrow> PageResponse \<Rightarrow> ICS20Allocation \<Rightarrow> DummyCall" where
  "NewDummyCall a b c d e f g = \<lparr>DummyCall_A = a, DummyCall_B = b, DummyCall_C = c, DummyCall_D = d, DummyCall_E = e, DummyCall_F = f, DummyCall_G = g\<rparr>"

end
