(* ===== verification/Abi_Anchoring.thy ===== *)
theory Abi_Anchoring
  imports Abi_Common
begin

text \<open>
  The generated file \<open>x/anchoring/precompile/anchoring.abi.go\<close>: the tuples \<open>Record\<close> and
  \<open>Registry\<close> (\<open>RecordTuple\<close> and \<open>RegistryTuple\<close> here), and the arguments and results of the
  methods of the precompile.
\<close>

section \<open>Selectors\<close>

definition AddRecordSelector :: bytes where
  "AddRecordSelector = [0x64, 0xd2, 0x52, 0x95]"

definition AddRegistrySelector :: bytes where
  "AddRegistrySelector = [0x31, 0x8b, 0x38, 0xb1]"

definition GrantRoleSelector :: bytes where
  "GrantRoleSelector = [0xb8, 0xfd, 0xd1, 0xa7]"

definition RecordsSelector :: bytes where
  "RecordsSelector = [0xc7, 0xbe, 0x5e, 0x37]"

definition RegistriesSelector :: bytes where
  "RegistriesSelector = [0x17, 0xbd, 0x3e, 0x65]"

definition RegistriesByNameSelector :: bytes where
  "RegistriesByNameSelector = [0x55, 0x22, 0xe6, 0xc6]"

definition RevokeRoleSelector :: bytes where
  "RevokeRoleSelector = [0xac, 0xd5, 0x8b, 0xc7]"

definition UpdateRecordStatusSelector :: bytes where
  "UpdateRecordStatusSelector = [0x97, 0xb4, 0x0c, 0x25]"

definition AddRecordID :: "32 word" where
  "AddRecordID = 1691505301"

definition AddRegistryID :: "32 word" where
  "AddRegistryID = 831207601"

definition GrantRoleID :: "32 word" where
  "GrantRoleID = 3103642023"

definition RecordsID :: "32 word" where
  "RecordsID = 3351141943"

definition RegistriesID :: "32 word" where
  "RegistriesID = 398278245"

definition RegistriesByNameID :: "32 word" where
  "RegistriesByNameID = 1428350662"

definition RevokeRoleID :: "32 word" where
  "RevokeRoleID = 2899676103"

definition UpdateRecordStatusID :: "32 word" where
  "UpdateRecordStatusID = 2545159205"

lemmas selector_defs_anchoring = AddRecordSelector_def AddRegistrySelector_def GrantRoleSelector_def RecordsSelector_def RegistriesSelector_def RegistriesByNameSelector_def RevokeRoleSelector_def UpdateRecordStatusSelector_def

section \<open>Tuples\<close>

subsection \<open>\<open>Record\<close>\<close>

record RecordTuple =
  RecordTuple_Uri :: string
  RecordTuple_Checksum :: string
  RecordTuple_ChecksumAlgo :: string
  RecordTuple_Metadata :: string
  RecordTuple_Timestamp :: string
  RecordTuple_Status :: string
  RecordTuple_RecordId :: u64
  RecordTuple_Index :: u64
  RecordTuple_IsLatest :: bool
  RecordTuple_RegistryId :: u64

definition RecordStaticSize :: nat where
  "RecordStaticSize = 320"

definition RecordTuple_EncodedSize :: "abi \<Rightarrow> RecordTuple \<Rightarrow> nat" where
  "RecordTuple_EncodedSize A t = RecordStaticSize + (SizeString A (RecordTuple_Uri t) + SizeString A (RecordTuple_Checksum t) + SizeString A (RecordTuple_ChecksumAlgo t) + SizeString A (RecordTuple_Metadata t) + SizeString A (RecordTuple_Timestamp t) + SizeString A (RecordTuple_Status t))"

definition RecordTuple_EncodeTo :: "abi \<Rightarrow> RecordTuple \<Rightarrow> encoder" where
  "RecordTuple_EncodeTo A value = encode_tuple RecordStaticSize
    [dyn_field 0 (EncodeString A (RecordTuple_Uri value)),
     dyn_field 32 (EncodeString A (RecordTuple_Checksum value)),
     dyn_field 64 (EncodeString A (RecordTuple_ChecksumAlgo value)),
     dyn_field 96 (EncodeString A (RecordTuple_Metadata value)),
     dyn_field 128 (EncodeString A (RecordTuple_Timestamp value)),
     dyn_field 160 (EncodeString A (RecordTuple_Status value)),
     static_field 192 (EncodeUint64 A (RecordTuple_RecordId value)),
     static_field 224 (EncodeUint64 A (RecordTuple_Index value)),
     static_field 256 (EncodeBool A (RecordTuple_IsLatest value)),
     static_field 288 (EncodeUint64 A (RecordTuple_RegistryId value))]"

definition RecordTuple_Encode :: "abi \<Rightarrow> RecordTuple \<Rightarrow> bytes result" where
  "RecordTuple_Encode A value = encode_new (RecordTuple_EncodedSize A value) (RecordTuple_EncodeTo A value)"

definition RecordTuple_Decode :: "abi \<Rightarrow> RecordTuple decoder" where
  "RecordTuple_Decode A data =
     (if length data < 320 then Inl ErrUnexpectedEOF else
      res_bind (dyn_at A 0 (DecodeString A) data 320) (\<lambda>(uri, dynamicOffset).
      res_bind (dyn_at A 32 (DecodeString A) data dynamicOffset) (\<lambda>(checksum, dynamicOffset).
      res_bind (dyn_at A 64 (DecodeString A) data dynamicOffset) (\<lambda>(checksumAlgo, dynamicOffset).
      res_bind (dyn_at A 96 (DecodeString A) data dynamicOffset) (\<lambda>(metadata, dynamicOffset).
      res_bind (dyn_at A 128 (DecodeString A) data dynamicOffset) (\<lambda>(timestamp, dynamicOffset).
      res_bind (dyn_at A 160 (DecodeString A) data dynamicOffset) (\<lambda>(status, dynamicOffset).
      res_bind (static_at 192 (DecodeUint64 A) data) (\<lambda>recordId.
      res_bind (static_at 224 (DecodeUint64 A) data) (\<lambda>index.
      res_bind (static_at 256 (DecodeBool A) data) (\<lambda>isLatest.
      res_bind (static_at 288 (DecodeUint64 A) data) (\<lambda>registryId.
      Inr (\<lparr>RecordTuple_Uri = uri, RecordTuple_Checksum = checksum, RecordTuple_ChecksumAlgo = checksumAlgo, RecordTuple_Metadata = metadata, RecordTuple_Timestamp = timestamp, RecordTuple_Status = status, RecordTuple_RecordId = recordId, RecordTuple_Index = index, RecordTuple_IsLatest = isLatest, RecordTuple_RegistryId = registryId\<rparr>, dynamicOffset))))))))))))"

definition RecordTuple_parts :: "abi \<Rightarrow> RecordTuple \<Rightarrow> part list" where
  "RecordTuple_parts A v =
    [Dynamic (written (EncodeString A) (SizeString A) (RecordTuple_Uri v)),
     Dynamic (written (EncodeString A) (SizeString A) (RecordTuple_Checksum v)),
     Dynamic (written (EncodeString A) (SizeString A) (RecordTuple_ChecksumAlgo v)),
     Dynamic (written (EncodeString A) (SizeString A) (RecordTuple_Metadata v)),
     Dynamic (written (EncodeString A) (SizeString A) (RecordTuple_Timestamp v)),
     Dynamic (written (EncodeString A) (SizeString A) (RecordTuple_Status v)),
     Static (written (EncodeUint64 A) (\<lambda>_. 32) (RecordTuple_RecordId v)),
     Static (written (EncodeUint64 A) (\<lambda>_. 32) (RecordTuple_Index v)),
     Static (written (EncodeBool A) (\<lambda>_. 32) (RecordTuple_IsLatest v)),
     Static (written (EncodeUint64 A) (\<lambda>_. 32) (RecordTuple_RegistryId v))]"

lemma RecordTuple_coder: "abi_ok A \<Longrightarrow> coder (RecordTuple_EncodeTo A) (RecordTuple_EncodedSize A) (RecordTuple_Decode A)"
  by (rule tuple_coder [OF RecordTuple_EncodeTo_def, where qs = "RecordTuple_parts A"])
    (auto simp: RecordTuple_parts_def RecordTuple_EncodedSize_def RecordTuple_Decode_def RecordStaticSize_def res_bind_def abi_simps)

lemma RecordTuple_safe [safe_intros]: "abi_safe A \<Longrightarrow> safe_dec (RecordTuple_Decode A)"
  by (rule safe_decI, unfold RecordTuple_Decode_def) (auto intro!: safe_static_at safe_dyn_at safe_intros)

interpretation RecordTuple_abi: abi_tuple RecordTuple_EncodedSize RecordTuple_EncodeTo RecordTuple_Decode
  by unfold_locales (simp_all add: RecordTuple_coder RecordTuple_safe)

lemmas RecordTuple_laws [abi_simps] = RecordTuple_abi.written_laws

subsection \<open>\<open>Registry\<close>\<close>

record RegistryTuple =
  RegistryTuple_Id :: u64
  RegistryTuple_Name :: string
  RegistryTuple_Description :: string
  RegistryTuple_Creator :: string
  RegistryTuple_CreatedAt :: string
  RegistryTuple_Metadata :: string

definition RegistryStaticSize :: nat where
  "RegistryStaticSize = 192"

definition RegistryTuple_EncodedSize :: "abi \<Rightarrow> RegistryTuple \<Rightarrow> nat" where
  "RegistryTuple_EncodedSize A t = RegistryStaticSize + (SizeString A (RegistryTuple_Name t) + SizeString A (RegistryTuple_Description t) + SizeString A (RegistryTuple_Creator t) + SizeString A (RegistryTuple_CreatedAt t) + SizeString A (RegistryTuple_Metadata t))"

definition RegistryTuple_EncodeTo :: "abi \<Rightarrow> RegistryTuple \<Rightarrow> encoder" where
  "RegistryTuple_EncodeTo A value = encode_tuple RegistryStaticSize
    [static_field 0 (EncodeUint64 A (RegistryTuple_Id value)),
     dyn_field 32 (EncodeString A (RegistryTuple_Name value)),
     dyn_field 64 (EncodeString A (RegistryTuple_Description value)),
     dyn_field 96 (EncodeString A (RegistryTuple_Creator value)),
     dyn_field 128 (EncodeString A (RegistryTuple_CreatedAt value)),
     dyn_field 160 (EncodeString A (RegistryTuple_Metadata value))]"

definition RegistryTuple_Encode :: "abi \<Rightarrow> RegistryTuple \<Rightarrow> bytes result" where
  "RegistryTuple_Encode A value = encode_new (RegistryTuple_EncodedSize A value) (RegistryTuple_EncodeTo A value)"

definition RegistryTuple_Decode :: "abi \<Rightarrow> RegistryTuple decoder" where
  "RegistryTuple_Decode A data =
     (if length data < 192 then Inl ErrUnexpectedEOF else
      res_bind (static_at 0 (DecodeUint64 A) data) (\<lambda>id.
      res_bind (dyn_at A 32 (DecodeString A) data 192) (\<lambda>(name, dynamicOffset).
      res_bind (dyn_at A 64 (DecodeString A) data dynamicOffset) (\<lambda>(description, dynamicOffset).
      res_bind (dyn_at A 96 (DecodeString A) data dynamicOffset) (\<lambda>(creator, dynamicOffset).
      res_bind (dyn_at A 128 (DecodeString A) data dynamicOffset) (\<lambda>(createdAt, dynamicOffset).
      res_bind (dyn_at A 160 (DecodeString A) data dynamicOffset) (\<lambda>(metadata, dynamicOffset).
      Inr (\<lparr>RegistryTuple_Id = id, RegistryTuple_Name = name, RegistryTuple_Description = description, RegistryTuple_Creator = creator, RegistryTuple_CreatedAt = createdAt, RegistryTuple_Metadata = metadata\<rparr>, dynamicOffset))))))))"

definition RegistryTuple_parts :: "abi \<Rightarrow> RegistryTuple \<Rightarrow> part list" where
  "RegistryTuple_parts A v =
    [Static (written (EncodeUint64 A) (\<lambda>_. 32) (RegistryTuple_Id v)),
     Dynamic (written (EncodeString A) (SizeString A) (RegistryTuple_Name v)),
     Dynamic (written (EncodeString A) (SizeString A) (RegistryTuple_Description v)),
     Dynamic (written (EncodeString A) (SizeString A) (RegistryTuple_Creator v)),
     Dynamic (written (EncodeString A) (SizeString A) (RegistryTuple_CreatedAt v)),
     Dynamic (written (EncodeString A) (SizeString A) (RegistryTuple_Metadata v))]"

lemma RegistryTuple_coder: "abi_ok A \<Longrightarrow> coder (RegistryTuple_EncodeTo A) (RegistryTuple_EncodedSize A) (RegistryTuple_Decode A)"
  by (rule tuple_coder [OF RegistryTuple_EncodeTo_def, where qs = "RegistryTuple_parts A"])
    (auto simp: RegistryTuple_parts_def RegistryTuple_EncodedSize_def RegistryTuple_Decode_def RegistryStaticSize_def res_bind_def abi_simps)

lemma RegistryTuple_safe [safe_intros]: "abi_safe A \<Longrightarrow> safe_dec (RegistryTuple_Decode A)"
  by (rule safe_decI, unfold RegistryTuple_Decode_def) (auto intro!: safe_static_at safe_dyn_at safe_intros)

interpretation RegistryTuple_abi: abi_tuple RegistryTuple_EncodedSize RegistryTuple_EncodeTo RegistryTuple_Decode
  by unfold_locales (simp_all add: RegistryTuple_coder RegistryTuple_safe)

lemmas RegistryTuple_laws [abi_simps] = RegistryTuple_abi.written_laws

subsection \<open>Slices of tuples\<close>

definition EncodeRecordSlice :: "abi \<Rightarrow> RecordTuple list \<Rightarrow> encoder" where
  "EncodeRecordSlice A = encode_slice (RecordTuple_EncodeTo A)"

definition SizeRecordSlice :: "abi \<Rightarrow> RecordTuple list \<Rightarrow> nat" where
  "SizeRecordSlice A = size_slice (RecordTuple_EncodedSize A)"

definition DecodeRecordSlice :: "abi \<Rightarrow> RecordTuple list decoder" where
  "DecodeRecordSlice A = decode_slice A (RecordTuple_Decode A)"

interpretation RecordSlice_abi: abi_tuple SizeRecordSlice EncodeRecordSlice DecodeRecordSlice
  by unfold_locales (simp_all add: EncodeRecordSlice_def SizeRecordSlice_def DecodeRecordSlice_def RecordTuple_abi.slice_law RecordTuple_abi.slice_safe)

lemmas RecordSlice_laws [abi_simps] = RecordSlice_abi.written_laws

lemmas RecordSlice_safe [safe_intros] = RecordSlice_abi.safe

definition EncodeRegistrySlice :: "abi \<Rightarrow> RegistryTuple list \<Rightarrow> encoder" where
  "EncodeRegistrySlice A = encode_slice (RegistryTuple_EncodeTo A)"

definition SizeRegistrySlice :: "abi \<Rightarrow> RegistryTuple list \<Rightarrow> nat" where
  "SizeRegistrySlice A = size_slice (RegistryTuple_EncodedSize A)"

definition DecodeRegistrySlice :: "abi \<Rightarrow> RegistryTuple list decoder" where
  "DecodeRegistrySlice A = decode_slice A (RegistryTuple_Decode A)"

interpretation RegistrySlice_abi: abi_tuple SizeRegistrySlice EncodeRegistrySlice DecodeRegistrySlice
  by unfold_locales (simp_all add: EncodeRegistrySlice_def SizeRegistrySlice_def DecodeRegistrySlice_def RegistryTuple_abi.slice_law RegistryTuple_abi.slice_safe)

lemmas RegistrySlice_laws [abi_simps] = RegistrySlice_abi.written_laws

lemmas RegistrySlice_safe [safe_intros] = RegistrySlice_abi.safe

section \<open>Calls and returns\<close>

subsection \<open>\<open>AddRecordCall\<close>\<close>

record AddRecordCall =
  AddRecordCall_Record :: RecordTuple

definition AddRecordCallStaticSize :: nat where
  "AddRecordCallStaticSize = 32"

definition AddRecordCall_EncodedSize :: "abi \<Rightarrow> AddRecordCall \<Rightarrow> nat" where
  "AddRecordCall_EncodedSize A t = AddRecordCallStaticSize + RecordTuple_EncodedSize A (AddRecordCall_Record t)"

definition AddRecordCall_EncodeTo :: "abi \<Rightarrow> AddRecordCall \<Rightarrow> encoder" where
  "AddRecordCall_EncodeTo A value = encode_tuple AddRecordCallStaticSize
    [dyn_field 0 (RecordTuple_EncodeTo A (AddRecordCall_Record value))]"

definition AddRecordCall_Encode :: "abi \<Rightarrow> AddRecordCall \<Rightarrow> bytes result" where
  "AddRecordCall_Encode A value = encode_new (AddRecordCall_EncodedSize A value) (AddRecordCall_EncodeTo A value)"

definition AddRecordCall_Decode :: "abi \<Rightarrow> AddRecordCall decoder" where
  "AddRecordCall_Decode A data =
     (if length data < 32 then Inl ErrUnexpectedEOF else
      res_bind (dyn_at A 0 (RecordTuple_Decode A) data 32) (\<lambda>(record, dynamicOffset).
      Inr (\<lparr>AddRecordCall_Record = record\<rparr>, dynamicOffset)))"

definition AddRecordCall_parts :: "abi \<Rightarrow> AddRecordCall \<Rightarrow> part list" where
  "AddRecordCall_parts A v =
    [Dynamic (written (RecordTuple_EncodeTo A) (RecordTuple_EncodedSize A) (AddRecordCall_Record v))]"

lemma AddRecordCall_coder: "abi_ok A \<Longrightarrow> coder (AddRecordCall_EncodeTo A) (AddRecordCall_EncodedSize A) (AddRecordCall_Decode A)"
  by (rule tuple_coder [OF AddRecordCall_EncodeTo_def, where qs = "AddRecordCall_parts A"])
    (auto simp: AddRecordCall_parts_def AddRecordCall_EncodedSize_def AddRecordCall_Decode_def AddRecordCallStaticSize_def res_bind_def abi_simps)

lemma AddRecordCall_safe [safe_intros]: "abi_safe A \<Longrightarrow> safe_dec (AddRecordCall_Decode A)"
  by (rule safe_decI, unfold AddRecordCall_Decode_def) (auto intro!: safe_static_at safe_dyn_at safe_intros)

interpretation AddRecordCall_abi: abi_tuple AddRecordCall_EncodedSize AddRecordCall_EncodeTo AddRecordCall_Decode
  by unfold_locales (simp_all add: AddRecordCall_coder AddRecordCall_safe)

lemmas AddRecordCall_laws [abi_simps] = AddRecordCall_abi.written_laws

definition AddRecordCall_GetMethodName :: "AddRecordCall \<Rightarrow> string" where
  "AddRecordCall_GetMethodName t = ''addRecord''"

definition AddRecordCall_GetMethodID :: "AddRecordCall \<Rightarrow> 32 word" where
  "AddRecordCall_GetMethodID t = AddRecordID"

definition AddRecordCall_GetMethodSelector :: "AddRecordCall \<Rightarrow> bytes" where
  "AddRecordCall_GetMethodSelector t = AddRecordSelector"

definition AddRecordCall_EncodeWithSelector :: "abi \<Rightarrow> AddRecordCall \<Rightarrow> bytes result" where
  "AddRecordCall_EncodeWithSelector A t = encode_selector AddRecordSelector (AddRecordCall_EncodedSize A t) (AddRecordCall_EncodeTo A t)"

definition NewAddRecordCall :: "RecordTuple \<Rightarrow> AddRecordCall" where
  "NewAddRecordCall record = \<lparr>AddRecordCall_Record = record\<rparr>"

subsection \<open>\<open>AddRecordReturn\<close>\<close>

record AddRecordReturn =
  AddRecordReturn_RecordId :: u64

definition AddRecordReturnStaticSize :: nat where
  "AddRecordReturnStaticSize = 32"

definition AddRecordReturn_EncodedSize :: "abi \<Rightarrow> AddRecordReturn \<Rightarrow> nat" where
  "AddRecordReturn_EncodedSize A t = AddRecordReturnStaticSize"

definition AddRecordReturn_EncodeTo :: "abi \<Rightarrow> AddRecordReturn \<Rightarrow> encoder" where
  "AddRecordReturn_EncodeTo A value = encode_tuple AddRecordReturnStaticSize
    [static_field 0 (EncodeUint64 A (AddRecordReturn_RecordId value))]"

definition AddRecordReturn_Encode :: "abi \<Rightarrow> AddRecordReturn \<Rightarrow> bytes result" where
  "AddRecordReturn_Encode A value = encode_new (AddRecordReturn_EncodedSize A value) (AddRecordReturn_EncodeTo A value)"

definition AddRecordReturn_Decode :: "abi \<Rightarrow> AddRecordReturn decoder" where
  "AddRecordReturn_Decode A data =
     (if length data < 32 then Inl ErrUnexpectedEOF else
      res_bind (static_at 0 (DecodeUint64 A) data) (\<lambda>recordId.
      Inr (\<lparr>AddRecordReturn_RecordId = recordId\<rparr>, 32)))"

definition AddRecordReturn_parts :: "abi \<Rightarrow> AddRecordReturn \<Rightarrow> part list" where
  "AddRecordReturn_parts A v =
    [Static (written (EncodeUint64 A) (\<lambda>_. 32) (AddRecordReturn_RecordId v))]"

lemma AddRecordReturn_size [simp]: "AddRecordReturn_EncodedSize A v = 32"
  by (simp add: AddRecordReturn_EncodedSize_def AddRecordReturnStaticSize_def)

lemma AddRecordReturn_coder: "abi_ok A \<Longrightarrow> coder (AddRecordReturn_EncodeTo A) (AddRecordReturn_EncodedSize A) (AddRecordReturn_Decode A)"
  by (rule tuple_coder [OF AddRecordReturn_EncodeTo_def, where qs = "AddRecordReturn_parts A"])
    (auto simp: AddRecordReturn_parts_def AddRecordReturn_EncodedSize_def AddRecordReturn_Decode_def AddRecordReturnStaticSize_def res_bind_def abi_simps)

lemma AddRecordReturn_safe [safe_intros]: "abi_safe A \<Longrightarrow> safe_dec (AddRecordReturn_Decode A)"
  by (rule safe_decI, unfold AddRecordReturn_Decode_def) (auto intro!: safe_static_at safe_dyn_at safe_intros)

interpretation AddRecordReturn_abi: abi_tuple AddRecordReturn_EncodedSize AddRecordReturn_EncodeTo AddRecordReturn_Decode
  by unfold_locales (simp_all add: AddRecordReturn_coder AddRecordReturn_safe)

lemmas AddRecordReturn_laws [abi_simps] = AddRecordReturn_abi.written_laws

definition AddRecordReturn_PackedEncodedSize :: "AddRecordReturn \<Rightarrow> nat" where
  "AddRecordReturn_PackedEncodedSize t = 8"

definition AddRecordReturn_PackedEncodeTo :: "abi \<Rightarrow> AddRecordReturn \<Rightarrow> encoder" where
  "AddRecordReturn_PackedEncodeTo A value = encode_tuple 0 (map packed_field
    [PackedEncodeUint64 A (AddRecordReturn_RecordId value)])"

definition AddRecordReturn_PackedEncode :: "abi \<Rightarrow> AddRecordReturn \<Rightarrow> bytes result" where
  "AddRecordReturn_PackedEncode A value = encode_new (AddRecordReturn_PackedEncodedSize value) (AddRecordReturn_PackedEncodeTo A value)"

definition AddRecordReturn_PackedDecode :: "abi \<Rightarrow> AddRecordReturn decoder" where
  "AddRecordReturn_PackedDecode A data =
     (if length data < 8 then Inl ErrUnexpectedEOF else
      res_bind (static_at 0 (PackedDecodeUint64 A) data) (\<lambda>recordId.
      Inr (\<lparr>AddRecordReturn_RecordId = recordId\<rparr>, 8)))"

lemma AddRecordReturn_packed_coder: "abi_ok A \<Longrightarrow> coder (AddRecordReturn_PackedEncodeTo A) AddRecordReturn_PackedEncodedSize (AddRecordReturn_PackedDecode A)"
  by (rule packed_coder [OF AddRecordReturn_PackedEncodeTo_def, where ws = "\<lambda>v. [written (PackedEncodeUint64 A) (\<lambda>_. 8) (AddRecordReturn_RecordId v)]"])
    (auto simp: AddRecordReturn_PackedEncodedSize_def AddRecordReturn_PackedDecode_def res_bind_def abi_simps simp del: One_nat_def)

lemma AddRecordReturn_packed_safe: "abi_safe A \<Longrightarrow> safe_dec (AddRecordReturn_PackedDecode A)"
  by (rule safe_decI, unfold AddRecordReturn_PackedDecode_def) (auto intro!: safe_static_at safe_intros)

interpretation AddRecordReturn_packed: abi_tuple "\<lambda>_. AddRecordReturn_PackedEncodedSize" AddRecordReturn_PackedEncodeTo AddRecordReturn_PackedDecode
  by unfold_locales (simp_all add: AddRecordReturn_packed_coder AddRecordReturn_packed_safe)

subsection \<open>\<open>AddRegistryCall\<close>\<close>

record AddRegistryCall =
  AddRegistryCall_Name :: string
  AddRegistryCall_Description :: string
  AddRegistryCall_Metadata :: string

definition AddRegistryCallStaticSize :: nat where
  "AddRegistryCallStaticSize = 96"

definition AddRegistryCall_EncodedSize :: "abi \<Rightarrow> AddRegistryCall \<Rightarrow> nat" where
  "AddRegistryCall_EncodedSize A t = AddRegistryCallStaticSize + (SizeString A (AddRegistryCall_Name t) + SizeString A (AddRegistryCall_Description t) + SizeString A (AddRegistryCall_Metadata t))"

definition AddRegistryCall_EncodeTo :: "abi \<Rightarrow> AddRegistryCall \<Rightarrow> encoder" where
  "AddRegistryCall_EncodeTo A value = encode_tuple AddRegistryCallStaticSize
    [dyn_field 0 (EncodeString A (AddRegistryCall_Name value)),
     dyn_field 32 (EncodeString A (AddRegistryCall_Description value)),
     dyn_field 64 (EncodeString A (AddRegistryCall_Metadata value))]"

definition AddRegistryCall_Encode :: "abi \<Rightarrow> AddRegistryCall \<Rightarrow> bytes result" where
  "AddRegistryCall_Encode A value = encode_new (AddRegistryCall_EncodedSize A value) (AddRegistryCall_EncodeTo A value)"

definition AddRegistryCall_Decode :: "abi \<Rightarrow> AddRegistryCall decoder" where
  "AddRegistryCall_Decode A data =
     (if length data < 96 then Inl ErrUnexpectedEOF else
      res_bind (dyn_at A 0 (DecodeString A) data 96) (\<lambda>(name, dynamicOffset).
      res_bind (dyn_at A 32 (DecodeString A) data dynamicOffset) (\<lambda>(description, dynamicOffset).
      res_bind (dyn_at A 64 (DecodeString A) data dynamicOffset) (\<lambda>(metadata, dynamicOffset).
      Inr (\<lparr>AddRegistryCall_Name = name, AddRegistryCall_Description = description, AddRegistryCall_Metadata = metadata\<rparr>, dynamicOffset)))))"

definition AddRegistryCall_parts :: "abi \<Rightarrow> AddRegistryCall \<Rightarrow> part list" where
  "AddRegistryCall_parts A v =
    [Dynamic (written (EncodeString A) (SizeString A) (AddRegistryCall_Name v)),
     Dynamic (written (EncodeString A) (SizeString A) (AddRegistryCall_Description v)),
     Dynamic (written (EncodeString A) (SizeString A) (AddRegistryCall_Metadata v))]"

lemma AddRegistryCall_coder: "abi_ok A \<Longrightarrow> coder (AddRegistryCall_EncodeTo A) (AddRegistryCall_EncodedSize A) (AddRegistryCall_Decode A)"
  by (rule tuple_coder [OF AddRegistryCall_EncodeTo_def, where qs = "AddRegistryCall_parts A"])
    (auto simp: AddRegistryCall_parts_def AddRegistryCall_EncodedSize_def AddRegistryCall_Decode_def AddRegistryCallStaticSize_def res_bind_def abi_simps)

lemma AddRegistryCall_safe [safe_intros]: "abi_safe A \<Longrightarrow> safe_dec (AddRegistryCall_Decode A)"
  by (rule safe_decI, unfold AddRegistryCall_Decode_def) (auto intro!: safe_static_at safe_dyn_at safe_intros)

interpretation AddRegistryCall_abi: abi_tuple AddRegistryCall_EncodedSize AddRegistryCall_EncodeTo AddRegistryCall_Decode
  by unfold_locales (simp_all add: AddRegistryCall_coder AddRegistryCall_safe)

lemmas AddRegistryCall_laws [abi_simps] = AddRegistryCall_abi.written_laws

definition AddRegistryCall_GetMethodName :: "AddRegistryCall \<Rightarrow> string" where
  "AddRegistryCall_GetMethodName t = ''addRegistry''"

definition AddRegistryCall_GetMethodID :: "AddRegistryCall \<Rightarrow> 32 word" where
  "AddRegistryCall_GetMethodID t = AddRegistryID"

definition AddRegistryCall_GetMethodSelector :: "AddRegistryCall \<Rightarrow> bytes" where
  "AddRegistryCall_GetMethodSelector t = AddRegistrySelector"

definition AddRegistryCall_EncodeWithSelector :: "abi \<Rightarrow> AddRegistryCall \<Rightarrow> bytes result" where
  "AddRegistryCall_EncodeWithSelector A t = encode_selector AddRegistrySelector (AddRegistryCall_EncodedSize A t) (AddRegistryCall_EncodeTo A t)"

definition NewAddRegistryCall :: "string \<Rightarrow> string \<Rightarrow> string \<Rightarrow> AddRegistryCall" where
  "NewAddRegistryCall name description metadata = \<lparr>AddRegistryCall_Name = name, AddRegistryCall_Description = description, AddRegistryCall_Metadata = metadata\<rparr>"

subsection \<open>\<open>AddRegistryReturn\<close>\<close>

record AddRegistryReturn =
  AddRegistryReturn_RegistryId :: u64

definition AddRegistryReturnStaticSize :: nat where
  "AddRegistryReturnStaticSize = 32"

definition AddRegistryReturn_EncodedSize :: "abi \<Rightarrow> AddRegistryReturn \<Rightarrow> nat" where
  "AddRegistryReturn_EncodedSize A t = AddRegistryReturnStaticSize"

definition AddRegistryReturn_EncodeTo :: "abi \<Rightarrow> AddRegistryReturn \<Rightarrow> encoder" where
  "AddRegistryReturn_EncodeTo A value = encode_tuple AddRegistryReturnStaticSize
    [static_field 0 (EncodeUint64 A (AddRegistryReturn_RegistryId value))]"

definition AddRegistryReturn_Encode :: "abi \<Rightarrow> AddRegistryReturn \<Rightarrow> bytes result" where
  "AddRegistryReturn_Encode A value = encode_new (AddRegistryReturn_EncodedSize A value) (AddRegistryReturn_EncodeTo A value)"

definition AddRegistryReturn_Decode :: "abi \<Rightarrow> AddRegistryReturn decoder" where
  "AddRegistryReturn_Decode A data =
     (if length data < 32 then Inl ErrUnexpectedEOF else
      res_bind (static_at 0 (DecodeUint64 A) data) (\<lambda>registryId.
      Inr (\<lparr>AddRegistryReturn_RegistryId = registryId\<rparr>, 32)))"

definition AddRegistryReturn_parts :: "abi \<Rightarrow> AddRegistryReturn \<Rightarrow> part list" where
  "AddRegistryReturn_parts A v =
    [Static (written (EncodeUint64 A) (\<lambda>_. 32) (AddRegistryReturn_RegistryId v))]"

lemma AddRegistryReturn_size [simp]: "AddRegistryReturn_EncodedSize A v = 32"
  by (simp add: AddRegistryReturn_EncodedSize_def AddRegistryReturnStaticSize_def)

lemma AddRegistryReturn_coder: "abi_ok A \<Longrightarrow> coder (AddRegistryReturn_EncodeTo A) (AddRegistryReturn_EncodedSize A) (AddRegistryReturn_Decode A)"
  by (rule tuple_coder [OF AddRegistryReturn_EncodeTo_def, where qs = "AddRegistryReturn_parts A"])
    (auto simp: AddRegistryReturn_parts_def AddRegistryReturn_EncodedSize_def AddRegistryReturn_Decode_def AddRegistryReturnStaticSize_def res_bind_def abi_simps)

lemma AddRegistryReturn_safe [safe_intros]: "abi_safe A \<Longrightarrow> safe_dec (AddRegistryReturn_Decode A)"
  by (rule safe_decI, unfold AddRegistryReturn_Decode_def) (auto intro!: safe_static_at safe_dyn_at safe_intros)

interpretation AddRegistryReturn_abi: abi_tuple AddRegistryReturn_EncodedSize AddRegistryReturn_EncodeTo AddRegistryReturn_Decode
  by unfold_locales (simp_all add: AddRegistryReturn_coder AddRegistryReturn_safe)

lemmas AddRegistryReturn_laws [abi_simps] = AddRegistryReturn_abi.written_laws

definition AddRegistryReturn_PackedEncodedSize :: "AddRegistryReturn \<Rightarrow> nat" where
  "AddRegistryReturn_PackedEncodedSize t = 8"

definition AddRegistryReturn_PackedEncodeTo :: "abi \<Rightarrow> AddRegistryReturn \<Rightarrow> encoder" where
  "AddRegistryReturn_PackedEncodeTo A value = encode_tuple 0 (map packed_field
    [PackedEncodeUint64 A (AddRegistryReturn_RegistryId value)])"

definition AddRegistryReturn_PackedEncode :: "abi \<Rightarrow> AddRegistryReturn \<Rightarrow> bytes result" where
  "AddRegistryReturn_PackedEncode A value = encode_new (AddRegistryReturn_PackedEncodedSize value) (AddRegistryReturn_PackedEncodeTo A value)"

definition AddRegistryReturn_PackedDecode :: "abi \<Rightarrow> AddRegistryReturn decoder" where
  "AddRegistryReturn_PackedDecode A data =
     (if length data < 8 then Inl ErrUnexpectedEOF else
      res_bind (static_at 0 (PackedDecodeUint64 A) data) (\<lambda>registryId.
      Inr (\<lparr>AddRegistryReturn_RegistryId = registryId\<rparr>, 8)))"

lemma AddRegistryReturn_packed_coder: "abi_ok A \<Longrightarrow> coder (AddRegistryReturn_PackedEncodeTo A) AddRegistryReturn_PackedEncodedSize (AddRegistryReturn_PackedDecode A)"
  by (rule packed_coder [OF AddRegistryReturn_PackedEncodeTo_def, where ws = "\<lambda>v. [written (PackedEncodeUint64 A) (\<lambda>_. 8) (AddRegistryReturn_RegistryId v)]"])
    (auto simp: AddRegistryReturn_PackedEncodedSize_def AddRegistryReturn_PackedDecode_def res_bind_def abi_simps simp del: One_nat_def)

lemma AddRegistryReturn_packed_safe: "abi_safe A \<Longrightarrow> safe_dec (AddRegistryReturn_PackedDecode A)"
  by (rule safe_decI, unfold AddRegistryReturn_PackedDecode_def) (auto intro!: safe_static_at safe_intros)

interpretation AddRegistryReturn_packed: abi_tuple "\<lambda>_. AddRegistryReturn_PackedEncodedSize" AddRegistryReturn_PackedEncodeTo AddRegistryReturn_PackedDecode
  by unfold_locales (simp_all add: AddRegistryReturn_packed_coder AddRegistryReturn_packed_safe)

subsection \<open>\<open>GrantRoleCall\<close>\<close>

record GrantRoleCall =
  GrantRoleCall_RegistryId :: u64
  GrantRoleCall_Checksum :: string
  GrantRoleCall_Account :: Address
  GrantRoleCall_Role :: string

definition GrantRoleCallStaticSize :: nat where
  "GrantRoleCallStaticSize = 128"

definition GrantRoleCall_EncodedSize :: "abi \<Rightarrow> GrantRoleCall \<Rightarrow> nat" where
  "GrantRoleCall_EncodedSize A t = GrantRoleCallStaticSize + (SizeString A (GrantRoleCall_Checksum t) + SizeString A (GrantRoleCall_Role t))"

definition GrantRoleCall_EncodeTo :: "abi \<Rightarrow> GrantRoleCall \<Rightarrow> encoder" where
  "GrantRoleCall_EncodeTo A value = encode_tuple GrantRoleCallStaticSize
    [static_field 0 (EncodeUint64 A (GrantRoleCall_RegistryId value)),
     dyn_field 32 (EncodeString A (GrantRoleCall_Checksum value)),
     static_field 64 (EncodeAddress A (GrantRoleCall_Account value)),
     dyn_field 96 (EncodeString A (GrantRoleCall_Role value))]"

definition GrantRoleCall_Encode :: "abi \<Rightarrow> GrantRoleCall \<Rightarrow> bytes result" where
  "GrantRoleCall_Encode A value = encode_new (GrantRoleCall_EncodedSize A value) (GrantRoleCall_EncodeTo A value)"

definition GrantRoleCall_Decode :: "abi \<Rightarrow> GrantRoleCall decoder" where
  "GrantRoleCall_Decode A data =
     (if length data < 128 then Inl ErrUnexpectedEOF else
      res_bind (static_at 0 (DecodeUint64 A) data) (\<lambda>registryId.
      res_bind (dyn_at A 32 (DecodeString A) data 128) (\<lambda>(checksum, dynamicOffset).
      res_bind (static_at 64 (DecodeAddress A) data) (\<lambda>account.
      res_bind (dyn_at A 96 (DecodeString A) data dynamicOffset) (\<lambda>(role, dynamicOffset).
      Inr (\<lparr>GrantRoleCall_RegistryId = registryId, GrantRoleCall_Checksum = checksum, GrantRoleCall_Account = account, GrantRoleCall_Role = role\<rparr>, dynamicOffset))))))"

definition GrantRoleCall_parts :: "abi \<Rightarrow> GrantRoleCall \<Rightarrow> part list" where
  "GrantRoleCall_parts A v =
    [Static (written (EncodeUint64 A) (\<lambda>_. 32) (GrantRoleCall_RegistryId v)),
     Dynamic (written (EncodeString A) (SizeString A) (GrantRoleCall_Checksum v)),
     Static (written (EncodeAddress A) (\<lambda>_. 32) (GrantRoleCall_Account v)),
     Dynamic (written (EncodeString A) (SizeString A) (GrantRoleCall_Role v))]"

lemma GrantRoleCall_coder: "abi_ok A \<Longrightarrow> coder (GrantRoleCall_EncodeTo A) (GrantRoleCall_EncodedSize A) (GrantRoleCall_Decode A)"
  by (rule tuple_coder [OF GrantRoleCall_EncodeTo_def, where qs = "GrantRoleCall_parts A"])
    (auto simp: GrantRoleCall_parts_def GrantRoleCall_EncodedSize_def GrantRoleCall_Decode_def GrantRoleCallStaticSize_def res_bind_def abi_simps)

lemma GrantRoleCall_safe [safe_intros]: "abi_safe A \<Longrightarrow> safe_dec (GrantRoleCall_Decode A)"
  by (rule safe_decI, unfold GrantRoleCall_Decode_def) (auto intro!: safe_static_at safe_dyn_at safe_intros)

interpretation GrantRoleCall_abi: abi_tuple GrantRoleCall_EncodedSize GrantRoleCall_EncodeTo GrantRoleCall_Decode
  by unfold_locales (simp_all add: GrantRoleCall_coder GrantRoleCall_safe)

lemmas GrantRoleCall_laws [abi_simps] = GrantRoleCall_abi.written_laws

definition GrantRoleCall_GetMethodName :: "GrantRoleCall \<Rightarrow> string" where
  "GrantRoleCall_GetMethodName t = ''grantRole''"

definition GrantRoleCall_GetMethodID :: "GrantRoleCall \<Rightarrow> 32 word" where
  "GrantRoleCall_GetMethodID t = GrantRoleID"

definition GrantRoleCall_GetMethodSelector :: "GrantRoleCall \<Rightarrow> bytes" where
  "GrantRoleCall_GetMethodSelector t = GrantRoleSelector"

definition GrantRoleCall_EncodeWithSelector :: "abi \<Rightarrow> GrantRoleCall \<Rightarrow> bytes result" where
  "GrantRoleCall_EncodeWithSelector A t = encode_selector GrantRoleSelector (GrantRoleCall_EncodedSize A t) (GrantRoleCall_EncodeTo A t)"

definition NewGrantRoleCall :: "u64 \<Rightarrow> string \<Rightarrow> Address \<Rightarrow> string \<Rightarrow> GrantRoleCall" where
  "NewGrantRoleCall registryId checksum account role = \<lparr>GrantRoleCall_RegistryId = registryId, GrantRoleCall_Checksum = checksum, GrantRoleCall_Account = account, GrantRoleCall_Role = role\<rparr>"

subsection \<open>\<open>RecordsCall\<close>\<close>

record RecordsCall =
  RecordsCall_RegistryId :: u64
  RecordsCall_Checksum :: string
  RecordsCall_RecordId :: u64
  RecordsCall_Index :: u64
  RecordsCall_Pagination :: PageRequest

definition RecordsCallStaticSize :: nat where
  "RecordsCallStaticSize = 160"

definition RecordsCall_EncodedSize :: "abi \<Rightarrow> RecordsCall \<Rightarrow> nat" where
  "RecordsCall_EncodedSize A t = RecordsCallStaticSize + (SizeString A (RecordsCall_Checksum t) + PageRequest_EncodedSize A (RecordsCall_Pagination t))"

definition RecordsCall_EncodeTo :: "abi \<Rightarrow> RecordsCall \<Rightarrow> encoder" where
  "RecordsCall_EncodeTo A value = encode_tuple RecordsCallStaticSize
    [static_field 0 (EncodeUint64 A (RecordsCall_RegistryId value)),
     dyn_field 32 (EncodeString A (RecordsCall_Checksum value)),
     static_field 64 (EncodeUint64 A (RecordsCall_RecordId value)),
     static_field 96 (EncodeUint64 A (RecordsCall_Index value)),
     dyn_field 128 (PageRequest_EncodeTo A (RecordsCall_Pagination value))]"

definition RecordsCall_Encode :: "abi \<Rightarrow> RecordsCall \<Rightarrow> bytes result" where
  "RecordsCall_Encode A value = encode_new (RecordsCall_EncodedSize A value) (RecordsCall_EncodeTo A value)"

definition RecordsCall_Decode :: "abi \<Rightarrow> RecordsCall decoder" where
  "RecordsCall_Decode A data =
     (if length data < 160 then Inl ErrUnexpectedEOF else
      res_bind (static_at 0 (DecodeUint64 A) data) (\<lambda>registryId.
      res_bind (dyn_at A 32 (DecodeString A) data 160) (\<lambda>(checksum, dynamicOffset).
      res_bind (static_at 64 (DecodeUint64 A) data) (\<lambda>recordId.
      res_bind (static_at 96 (DecodeUint64 A) data) (\<lambda>index.
      res_bind (dyn_at A 128 (PageRequest_Decode A) data dynamicOffset) (\<lambda>(pagination, dynamicOffset).
      Inr (\<lparr>RecordsCall_RegistryId = registryId, RecordsCall_Checksum = checksum, RecordsCall_RecordId = recordId, RecordsCall_Index = index, RecordsCall_Pagination = pagination\<rparr>, dynamicOffset)))))))"

definition RecordsCall_parts :: "abi \<Rightarrow> RecordsCall \<Rightarrow> part list" where
  "RecordsCall_parts A v =
    [Static (written (EncodeUint64 A) (\<lambda>_. 32) (RecordsCall_RegistryId v)),
     Dynamic (written (EncodeString A) (SizeString A) (RecordsCall_Checksum v)),
     Static (written (EncodeUint64 A) (\<lambda>_. 32) (RecordsCall_RecordId v)),
     Static (written (EncodeUint64 A) (\<lambda>_. 32) (RecordsCall_Index v)),
     Dynamic (written (PageRequest_EncodeTo A) (PageRequest_EncodedSize A) (RecordsCall_Pagination v))]"

lemma RecordsCall_coder: "abi_ok A \<Longrightarrow> coder (RecordsCall_EncodeTo A) (RecordsCall_EncodedSize A) (RecordsCall_Decode A)"
  by (rule tuple_coder [OF RecordsCall_EncodeTo_def, where qs = "RecordsCall_parts A"])
    (auto simp: RecordsCall_parts_def RecordsCall_EncodedSize_def RecordsCall_Decode_def RecordsCallStaticSize_def res_bind_def abi_simps)

lemma RecordsCall_safe [safe_intros]: "abi_safe A \<Longrightarrow> safe_dec (RecordsCall_Decode A)"
  by (rule safe_decI, unfold RecordsCall_Decode_def) (auto intro!: safe_static_at safe_dyn_at safe_intros)

interpretation RecordsCall_abi: abi_tuple RecordsCall_EncodedSize RecordsCall_EncodeTo RecordsCall_Decode
  by unfold_locales (simp_all add: RecordsCall_coder RecordsCall_safe)

lemmas RecordsCall_laws [abi_simps] = RecordsCall_abi.written_laws

definition RecordsCall_GetMethodName :: "RecordsCall \<Rightarrow> string" where
  "RecordsCall_GetMethodName t = ''records''"

definition RecordsCall_GetMethodID :: "RecordsCall \<Rightarrow> 32 word" where
  "RecordsCall_GetMethodID t = RecordsID"

definition RecordsCall_GetMethodSelector :: "RecordsCall \<Rightarrow> bytes" where
  "RecordsCall_GetMethodSelector t = RecordsSelector"

definition RecordsCall_EncodeWithSelector :: "abi \<Rightarrow> RecordsCall \<Rightarrow> bytes result" where
  "RecordsCall_EncodeWithSelector A t = encode_selector RecordsSelector (RecordsCall_EncodedSize A t) (RecordsCall_EncodeTo A t)"

definition NewRecordsCall :: "u64 \<Rightarrow> string \<Rightarrow> u64 \<Rightarrow> u64 \<Rightarrow> PageRequest \<Rightarrow> RecordsCall" where
  "NewRecordsCall registryId checksum recordId index pagination = \<lparr>RecordsCall_RegistryId = registryId, RecordsCall_Checksum = checksum, RecordsCall_RecordId = recordId, RecordsCall_Index = index, RecordsCall_Pagination = pagination\<rparr>"

subsection \<open>\<open>RecordsReturn\<close>\<close>

record RecordsReturn =
  RecordsReturn_Records :: "RecordTuple list"
  RecordsReturn_Pagination :: PageResponse

definition RecordsReturnStaticSize :: nat where
  "RecordsReturnStaticSize = 64"

definition RecordsReturn_EncodedSize :: "abi \<Rightarrow> RecordsReturn \<Rightarrow> nat" where
  "RecordsReturn_EncodedSize A t = RecordsReturnStaticSize + (SizeRecordSlice A (RecordsReturn_Records t) + PageResponse_EncodedSize A (RecordsReturn_Pagination t))"

definition RecordsReturn_EncodeTo :: "abi \<Rightarrow> RecordsReturn \<Rightarrow> encoder" where
  "RecordsReturn_EncodeTo A value = encode_tuple RecordsReturnStaticSize
    [dyn_field 0 (EncodeRecordSlice A (RecordsReturn_Records value)),
     dyn_field 32 (PageResponse_EncodeTo A (RecordsReturn_Pagination value))]"

definition RecordsReturn_Encode :: "abi \<Rightarrow> RecordsReturn \<Rightarrow> bytes result" where
  "RecordsReturn_Encode A value = encode_new (RecordsReturn_EncodedSize A value) (RecordsReturn_EncodeTo A value)"

definition RecordsReturn_Decode :: "abi \<Rightarrow> RecordsReturn decoder" where
  "RecordsReturn_Decode A data =
     (if length data < 64 then Inl ErrUnexpectedEOF else
      res_bind (dyn_at A 0 (DecodeRecordSlice A) data 64) (\<lambda>(records, dynamicOffset).
      res_bind (dyn_at A 32 (PageResponse_Decode A) data dynamicOffset) (\<lambda>(pagination, dynamicOffset).
      Inr (\<lparr>RecordsReturn_Records = records, RecordsReturn_Pagination = pagination\<rparr>, dynamicOffset))))"

definition RecordsReturn_parts :: "abi \<Rightarrow> RecordsReturn \<Rightarrow> part list" where
  "RecordsReturn_parts A v =
    [Dynamic (written (EncodeRecordSlice A) (SizeRecordSlice A) (RecordsReturn_Records v)),
     Dynamic (written (PageResponse_EncodeTo A) (PageResponse_EncodedSize A) (RecordsReturn_Pagination v))]"

lemma RecordsReturn_coder: "abi_ok A \<Longrightarrow> coder (RecordsReturn_EncodeTo A) (RecordsReturn_EncodedSize A) (RecordsReturn_Decode A)"
  by (rule tuple_coder [OF RecordsReturn_EncodeTo_def, where qs = "RecordsReturn_parts A"])
    (auto simp: RecordsReturn_parts_def RecordsReturn_EncodedSize_def RecordsReturn_Decode_def RecordsReturnStaticSize_def res_bind_def abi_simps)

lemma RecordsReturn_safe [safe_intros]: "abi_safe A \<Longrightarrow> safe_dec (RecordsReturn_Decode A)"
  by (rule safe_decI, unfold RecordsReturn_Decode_def) (auto intro!: safe_static_at safe_dyn_at safe_intros)

interpretation RecordsReturn_abi: abi_tuple RecordsReturn_EncodedSize RecordsReturn_EncodeTo RecordsReturn_Decode
  by unfold_locales (simp_all add: RecordsReturn_coder RecordsReturn_safe)

lemmas RecordsReturn_laws [abi_simps] = RecordsReturn_abi.written_laws

subsection \<open>\<open>RegistriesCall\<close>\<close>

record RegistriesCall =
  RegistriesCall_RegistryId :: u64
  RegistriesCall_Pagination :: PageRequest

definition RegistriesCallStaticSize :: nat where
  "RegistriesCallStaticSize = 64"

definition RegistriesCall_EncodedSize :: "abi \<Rightarrow> RegistriesCall \<Rightarrow> nat" where
  "RegistriesCall_EncodedSize A t = RegistriesCallStaticSize + PageRequest_EncodedSize A (RegistriesCall_Pagination t)"

definition RegistriesCall_EncodeTo :: "abi \<Rightarrow> RegistriesCall \<Rightarrow> encoder" where
  "RegistriesCall_EncodeTo A value = encode_tuple RegistriesCallStaticSize
    [static_field 0 (EncodeUint64 A (RegistriesCall_RegistryId value)),
     dyn_field 32 (PageRequest_EncodeTo A (RegistriesCall_Pagination value))]"

definition RegistriesCall_Encode :: "abi \<Rightarrow> RegistriesCall \<Rightarrow> bytes result" where
  "RegistriesCall_Encode A value = encode_new (RegistriesCall_EncodedSize A value) (RegistriesCall_EncodeTo A value)"

definition RegistriesCall_Decode :: "abi \<Rightarrow> RegistriesCall decoder" where
  "RegistriesCall_Decode A data =
     (if length data < 64 then Inl ErrUnexpectedEOF else
      res_bind (static_at 0 (DecodeUint64 A) data) (\<lambda>registryId.
      res_bind (dyn_at A 32 (PageRequest_Decode A) data 64) (\<lambda>(pagination, dynamicOffset).
      Inr (\<lparr>RegistriesCall_RegistryId = registryId, RegistriesCall_Pagination = pagination\<rparr>, dynamicOffset))))"

definition RegistriesCall_parts :: "abi \<Rightarrow> RegistriesCall \<Rightarrow> part list" where
  "RegistriesCall_parts A v =
    [Static (written (EncodeUint64 A) (\<lambda>_. 32) (RegistriesCall_RegistryId v)),
     Dynamic (written (PageRequest_EncodeTo A) (PageRequest_EncodedSize A) (RegistriesCall_Pagination v))]"

lemma RegistriesCall_coder: "abi_ok A \<Longrightarrow> coder (RegistriesCall_EncodeTo A) (RegistriesCall_EncodedSize A) (RegistriesCall_Decode A)"
  by (rule tuple_coder [OF RegistriesCall_EncodeTo_def, where qs = "RegistriesCall_parts A"])
    (auto simp: RegistriesCall_parts_def RegistriesCall_EncodedSize_def RegistriesCall_Decode_def RegistriesCallStaticSize_def res_bind_def abi_simps)

lemma RegistriesCall_safe [safe_intros]: "abi_safe A \<Longrightarrow> safe_dec (RegistriesCall_Decode A)"
  by (rule safe_decI, unfold RegistriesCall_Decode_def) (auto intro!: safe_static_at safe_dyn_at safe_intros)

interpretation RegistriesCall_abi: abi_tuple RegistriesCall_EncodedSize RegistriesCall_EncodeTo RegistriesCall_Decode
  by unfold_locales (simp_all add: RegistriesCall_coder RegistriesCall_safe)

lemmas RegistriesCall_laws [abi_simps] = RegistriesCall_abi.written_laws

definition RegistriesCall_GetMethodName :: "RegistriesCall \<Rightarrow> string" where
  "RegistriesCall_GetMethodName t = ''registries''"

definition RegistriesCall_GetMethodID :: "RegistriesCall \<Rightarrow> 32 word" where
  "RegistriesCall_GetMethodID t = RegistriesID"

definition RegistriesCall_GetMethodSelector :: "RegistriesCall \<Rightarrow> bytes" where
  "RegistriesCall_GetMethodSelector t = RegistriesSelector"

definition RegistriesCall_EncodeWithSelector :: "abi \<Rightarrow> RegistriesCall \<Rightarrow> bytes result" where
  "RegistriesCall_EncodeWithSelector A t = encode_selector RegistriesSelector (RegistriesCall_EncodedSize A t) (RegistriesCall_EncodeTo A t)"

definition NewRegistriesCall :: "u64 \<Rightarrow> PageRequest \<Rightarrow> RegistriesCall" where
  "NewRegistriesCall registryId pagination = \<lparr>RegistriesCall_RegistryId = registryId, RegistriesCall_Pagination = pagination\<rparr>"

subsection \<open>\<open>RegistriesReturn\<close>\<close>

record RegistriesReturn =
  RegistriesReturn_Registries :: "RegistryTuple list"
  RegistriesReturn_Pagination :: PageResponse

definition RegistriesReturnStaticSize :: nat where
  "RegistriesReturnStaticSize = 64"

definition RegistriesReturn_EncodedSize :: "abi \<Rightarrow> RegistriesReturn \<Rightarrow> nat" where
  "RegistriesReturn_EncodedSize A t = RegistriesReturnStaticSize + (SizeRegistrySlice A (RegistriesReturn_Registries t) + PageResponse_EncodedSize A (RegistriesReturn_Pagination t))"

definition RegistriesReturn_EncodeTo :: "abi \<Rightarrow> RegistriesReturn \<Rightarrow> encoder" where
  "RegistriesReturn_EncodeTo A value = encode_tuple RegistriesReturnStaticSize
    [dyn_field 0 (EncodeRegistrySlice A (RegistriesReturn_Registries value)),
     dyn_field 32 (PageResponse_EncodeTo A (RegistriesReturn_Pagination value))]"

definition RegistriesReturn_Encode :: "abi \<Rightarrow> RegistriesReturn \<Rightarrow> bytes result" where
  "RegistriesReturn_Encode A value = encode_new (RegistriesReturn_EncodedSize A value) (RegistriesReturn_EncodeTo A value)"

definition RegistriesReturn_Decode :: "abi \<Rightarrow> RegistriesReturn decoder" where
  "RegistriesReturn_Decode A data =
     (if length data < 64 then Inl ErrUnexpectedEOF else
      res_bind (dyn_at A 0 (DecodeRegistrySlice A) data 64) (\<lambda>(registries, dynamicOffset).
      res_bind (dyn_at A 32 (PageResponse_Decode A) data dynamicOffset) (\<lambda>(pagination, dynamicOffset).
      Inr (\<lparr>RegistriesReturn_Registries = registries, RegistriesReturn_Pagination = pagination\<rparr>, dynamicOffset))))"

definition RegistriesReturn_parts :: "abi \<Rightarrow> RegistriesReturn \<Rightarrow> part list" where
  "RegistriesReturn_parts A v =
    [Dynamic (written (EncodeRegistrySlice A) (SizeRegistrySlice A) (RegistriesReturn_Registries v)),
     Dynamic (written (PageResponse_EncodeTo A) (PageResponse_EncodedSize A) (RegistriesReturn_Pagination v))]"

lemma RegistriesReturn_coder: "abi_ok A \<Longrightarrow> coder (RegistriesReturn_EncodeTo A) (RegistriesReturn_EncodedSize A) (RegistriesReturn_Decode A)"
  by (rule tuple_coder [OF RegistriesReturn_EncodeTo_def, where qs = "RegistriesReturn_parts A"])
    (auto simp: RegistriesReturn_parts_def RegistriesReturn_EncodedSize_def RegistriesReturn_Decode_def RegistriesReturnStaticSize_def res_bind_def abi_simps)

lemma RegistriesReturn_safe [safe_intros]: "abi_safe A \<Longrightarrow> safe_dec (RegistriesReturn_Decode A)"
  by (rule safe_decI, unfold RegistriesReturn_Decode_def) (auto intro!: safe_static_at safe_dyn_at safe_intros)

interpretation RegistriesReturn_abi: abi_tuple RegistriesReturn_EncodedSize RegistriesReturn_EncodeTo RegistriesReturn_Decode
  by unfold_locales (simp_all add: RegistriesReturn_coder RegistriesReturn_safe)

lemmas RegistriesReturn_laws [abi_simps] = RegistriesReturn_abi.written_laws

subsection \<open>\<open>RegistriesByNameCall\<close>\<close>

record RegistriesByNameCall =
  RegistriesByNameCall_Name :: string
  RegistriesByNameCall_MatchMode :: byte
  RegistriesByNameCall_Pagination :: PageRequest

definition RegistriesByNameCallStaticSize :: nat where
  "RegistriesByNameCallStaticSize = 96"

definition RegistriesByNameCall_EncodedSize :: "abi \<Rightarrow> RegistriesByNameCall \<Rightarrow> nat" where
  "RegistriesByNameCall_EncodedSize A t = RegistriesByNameCallStaticSize + (SizeString A (RegistriesByNameCall_Name t) + PageRequest_EncodedSize A (RegistriesByNameCall_Pagination t))"

definition RegistriesByNameCall_EncodeTo :: "abi \<Rightarrow> RegistriesByNameCall \<Rightarrow> encoder" where
  "RegistriesByNameCall_EncodeTo A value = encode_tuple RegistriesByNameCallStaticSize
    [dyn_field 0 (EncodeString A (RegistriesByNameCall_Name value)),
     static_field 32 (EncodeUint8 A (RegistriesByNameCall_MatchMode value)),
     dyn_field 64 (PageRequest_EncodeTo A (RegistriesByNameCall_Pagination value))]"

definition RegistriesByNameCall_Encode :: "abi \<Rightarrow> RegistriesByNameCall \<Rightarrow> bytes result" where
  "RegistriesByNameCall_Encode A value = encode_new (RegistriesByNameCall_EncodedSize A value) (RegistriesByNameCall_EncodeTo A value)"

definition RegistriesByNameCall_Decode :: "abi \<Rightarrow> RegistriesByNameCall decoder" where
  "RegistriesByNameCall_Decode A data =
     (if length data < 96 then Inl ErrUnexpectedEOF else
      res_bind (dyn_at A 0 (DecodeString A) data 96) (\<lambda>(name, dynamicOffset).
      res_bind (static_at 32 (DecodeUint8 A) data) (\<lambda>matchMode.
      res_bind (dyn_at A 64 (PageRequest_Decode A) data dynamicOffset) (\<lambda>(pagination, dynamicOffset).
      Inr (\<lparr>RegistriesByNameCall_Name = name, RegistriesByNameCall_MatchMode = matchMode, RegistriesByNameCall_Pagination = pagination\<rparr>, dynamicOffset)))))"

definition RegistriesByNameCall_parts :: "abi \<Rightarrow> RegistriesByNameCall \<Rightarrow> part list" where
  "RegistriesByNameCall_parts A v =
    [Dynamic (written (EncodeString A) (SizeString A) (RegistriesByNameCall_Name v)),
     Static (written (EncodeUint8 A) (\<lambda>_. 32) (RegistriesByNameCall_MatchMode v)),
     Dynamic (written (PageRequest_EncodeTo A) (PageRequest_EncodedSize A) (RegistriesByNameCall_Pagination v))]"

lemma RegistriesByNameCall_coder: "abi_ok A \<Longrightarrow> coder (RegistriesByNameCall_EncodeTo A) (RegistriesByNameCall_EncodedSize A) (RegistriesByNameCall_Decode A)"
  by (rule tuple_coder [OF RegistriesByNameCall_EncodeTo_def, where qs = "RegistriesByNameCall_parts A"])
    (auto simp: RegistriesByNameCall_parts_def RegistriesByNameCall_EncodedSize_def RegistriesByNameCall_Decode_def RegistriesByNameCallStaticSize_def res_bind_def abi_simps)

lemma RegistriesByNameCall_safe [safe_intros]: "abi_safe A \<Longrightarrow> safe_dec (RegistriesByNameCall_Decode A)"
  by (rule safe_decI, unfold RegistriesByNameCall_Decode_def) (auto intro!: safe_static_at safe_dyn_at safe_intros)

interpretation RegistriesByNameCall_abi: abi_tuple RegistriesByNameCall_EncodedSize RegistriesByNameCall_EncodeTo RegistriesByNameCall_Decode
  by unfold_locales (simp_all add: RegistriesByNameCall_coder RegistriesByNameCall_safe)

lemmas RegistriesByNameCall_laws [abi_simps] = RegistriesByNameCall_abi.written_laws

definition RegistriesByNameCall_GetMethodName :: "RegistriesByNameCall \<Rightarrow> string" where
  "RegistriesByNameCall_GetMethodName t = ''registriesByName''"

definition RegistriesByNameCall_GetMethodID :: "RegistriesByNameCall \<Rightarrow> 32 word" where
  "RegistriesByNameCall_GetMethodID t = RegistriesByNameID"

definition RegistriesByNameCall_GetMethodSelector :: "RegistriesByNameCall \<Rightarrow> bytes" where
  "RegistriesByNameCall_GetMethodSelector t = RegistriesByNameSelector"

definition RegistriesByNameCall_EncodeWithSelector :: "abi \<Rightarrow> RegistriesByNameCall \<Rightarrow> bytes result" where
  "RegistriesByNameCall_EncodeWithSelector A t = encode_selector RegistriesByNameSelector (RegistriesByNameCall_EncodedSize A t) (RegistriesByNameCall_EncodeTo A t)"

definition NewRegistriesByNameCall :: "string \<Rightarrow> byte \<Rightarrow> PageRequest \<Rightarrow> RegistriesByNameCall" where
  "NewRegistriesByNameCall name matchMode pagination = \<lparr>RegistriesByNameCall_Name = name, RegistriesByNameCall_MatchMode = matchMode, RegistriesByNameCall_Pagination = pagination\<rparr>"

subsection \<open>\<open>RegistriesByNameReturn\<close>\<close>

record RegistriesByNameReturn =
  RegistriesByNameReturn_Registries :: "RegistryTuple list"
  RegistriesByNameReturn_Pagination :: PageResponse

definition RegistriesByNameReturnStaticSize :: nat where
  "RegistriesByNameReturnStaticSize = 64"

definition RegistriesByNameReturn_EncodedSize :: "abi \<Rightarrow> RegistriesByNameReturn \<Rightarrow> nat" where
  "RegistriesByNameReturn_EncodedSize A t = RegistriesByNameReturnStaticSize + (SizeRegistrySlice A (RegistriesByNameReturn_Registries t) + PageResponse_EncodedSize A (RegistriesByNameReturn_Pagination t))"

definition RegistriesByNameReturn_EncodeTo :: "abi \<Rightarrow> RegistriesByNameReturn \<Rightarrow> encoder" where
  "RegistriesByNameReturn_EncodeTo A value = encode_tuple RegistriesByNameReturnStaticSize
    [dyn_field 0 (EncodeRegistrySlice A (RegistriesByNameReturn_Registries value)),
     dyn_field 32 (PageResponse_EncodeTo A (RegistriesByNameReturn_Pagination value))]"

definition RegistriesByNameReturn_Encode :: "abi \<Rightarrow> RegistriesByNameReturn \<Rightarrow> bytes result" where
  "RegistriesByNameReturn_Encode A value = encode_new (RegistriesByNameReturn_EncodedSize A value) (RegistriesByNameReturn_EncodeTo A value)"

definition RegistriesByNameReturn_Decode :: "abi \<Rightarrow> RegistriesByNameReturn decoder" where
  "RegistriesByNameReturn_Decode A data =
     (if length data < 64 then Inl ErrUnexpectedEOF else
      res_bind (dyn_at A 0 (DecodeRegistrySlice A) data 64) (\<lambda>(registries, dynamicOffset).
      res_bind (dyn_at A 32 (PageResponse_Decode A) data dynamicOffset) (\<lambda>(pagination, dynamicOffset).
      Inr (\<lparr>RegistriesByNameReturn_Registries = registries, RegistriesByNameReturn_Pagination = pagination\<rparr>, dynamicOffset))))"

definition RegistriesByNameReturn_parts :: "abi \<Rightarrow> RegistriesByNameReturn \<Rightarrow> part list" where
  "RegistriesByNameReturn_parts A v =
    [Dynamic (written (EncodeRegistrySlice A) (SizeRegistrySlice A) (RegistriesByNameReturn_Registries v)),
     Dynamic (written (PageResponse_EncodeTo A) (PageResponse_EncodedSize A) (RegistriesByNameReturn_Pagination v))]"

lemma RegistriesByNameReturn_coder: "abi_ok A \<Longrightarrow> coder (RegistriesByNameReturn_EncodeTo A) (RegistriesByNameReturn_EncodedSize A) (RegistriesByNameReturn_Decode A)"
  by (rule tuple_coder [OF RegistriesByNameReturn_EncodeTo_def, where qs = "RegistriesByNameReturn_parts A"])
    (auto simp: RegistriesByNameReturn_parts_def RegistriesByNameReturn_EncodedSize_def RegistriesByNameReturn_Decode_def RegistriesByNameReturnStaticSize_def res_bind_def abi_simps)

lemma RegistriesByNameReturn_safe [safe_intros]: "abi_safe A \<Longrightarrow> safe_dec (RegistriesByNameReturn_Decode A)"
  by (rule safe_decI, unfold RegistriesByNameReturn_Decode_def) (auto intro!: safe_static_at safe_dyn_at safe_intros)

interpretation RegistriesByNameReturn_abi: abi_tuple RegistriesByNameReturn_EncodedSize RegistriesByNameReturn_EncodeTo RegistriesByNameReturn_Decode
  by unfold_locales (simp_all add: RegistriesByNameReturn_coder RegistriesByNameReturn_safe)

lemmas RegistriesByNameReturn_laws [abi_simps] = RegistriesByNameReturn_abi.written_laws

subsection \<open>\<open>RevokeRoleCall\<close>\<close>

record RevokeRoleCall =
  RevokeRoleCall_RegistryId :: u64
  RevokeRoleCall_Checksum :: string
  RevokeRoleCall_Account :: Address
  RevokeRoleCall_Role :: string

definition RevokeRoleCallStaticSize :: nat where
  "RevokeRoleCallStaticSize = 128"

definition RevokeRoleCall_EncodedSize :: "abi \<Rightarrow> RevokeRoleCall \<Rightarrow> nat" where
  "RevokeRoleCall_EncodedSize A t = RevokeRoleCallStaticSize + (SizeString A (RevokeRoleCall_Checksum t) + SizeString A (RevokeRoleCall_Role t))"

definition RevokeRoleCall_EncodeTo :: "abi \<Rightarrow> RevokeRoleCall \<Rightarrow> encoder" where
  "RevokeRoleCall_EncodeTo A value = encode_tuple RevokeRoleCallStaticSize
    [static_field 0 (EncodeUint64 A (RevokeRoleCall_RegistryId value)),
     dyn_field 32 (EncodeString A (RevokeRoleCall_Checksum value)),
     static_field 64 (EncodeAddress A (RevokeRoleCall_Account value)),
     dyn_field 96 (EncodeString A (RevokeRoleCall_Role value))]"

definition RevokeRoleCall_Encode :: "abi \<Rightarrow> RevokeRoleCall \<Rightarrow> bytes result" where
  "RevokeRoleCall_Encode A value = encode_new (RevokeRoleCall_EncodedSize A value) (RevokeRoleCall_EncodeTo A value)"

definition RevokeRoleCall_Decode :: "abi \<Rightarrow> RevokeRoleCall decoder" where
  "RevokeRoleCall_Decode A data =
     (if length data < 128 then Inl ErrUnexpectedEOF else
      res_bind (static_at 0 (DecodeUint64 A) data) (\<lambda>registryId.
      res_bind (dyn_at A 32 (DecodeString A) data 128) (\<lambda>(checksum, dynamicOffset).
      res_bind (static_at 64 (DecodeAddress A) data) (\<lambda>account.
      res_bind (dyn_at A 96 (DecodeString A) data dynamicOffset) (\<lambda>(role, dynamicOffset).
      Inr (\<lparr>RevokeRoleCall_RegistryId = registryId, RevokeRoleCall_Checksum = checksum, RevokeRoleCall_Account = account, RevokeRoleCall_Role = role\<rparr>, dynamicOffset))))))"

definition RevokeRoleCall_parts :: "abi \<Rightarrow> RevokeRoleCall \<Rightarrow> part list" where
  "RevokeRoleCall_parts A v =
    [Static (written (EncodeUint64 A) (\<lambda>_. 32) (RevokeRoleCall_RegistryId v)),
     Dynamic (written (EncodeString A) (SizeString A) (RevokeRoleCall_Checksum v)),
     Static (written (EncodeAddress A) (\<lambda>_. 32) (RevokeRoleCall_Account v)),
     Dynamic (written (EncodeString A) (SizeString A) (RevokeRoleCall_Role v))]"

lemma RevokeRoleCall_coder: "abi_ok A \<Longrightarrow> coder (RevokeRoleCall_EncodeTo A) (RevokeRoleCall_EncodedSize A) (RevokeRoleCall_Decode A)"
  by (rule tuple_coder [OF RevokeRoleCall_EncodeTo_def, where qs = "RevokeRoleCall_parts A"])
    (auto simp: RevokeRoleCall_parts_def RevokeRoleCall_EncodedSize_def RevokeRoleCall_Decode_def RevokeRoleCallStaticSize_def res_bind_def abi_simps)

lemma RevokeRoleCall_safe [safe_intros]: "abi_safe A \<Longrightarrow> safe_dec (RevokeRoleCall_Decode A)"
  by (rule safe_decI, unfold RevokeRoleCall_Decode_def) (auto intro!: safe_static_at safe_dyn_at safe_intros)

interpretation RevokeRoleCall_abi: abi_tuple RevokeRoleCall_EncodedSize RevokeRoleCall_EncodeTo RevokeRoleCall_Decode
  by unfold_locales (simp_all add: RevokeRoleCall_coder RevokeRoleCall_safe)

lemmas RevokeRoleCall_laws [abi_simps] = RevokeRoleCall_abi.written_laws

definition RevokeRoleCall_GetMethodName :: "RevokeRoleCall \<Rightarrow> string" where
  "RevokeRoleCall_GetMethodName t = ''revokeRole''"

definition RevokeRoleCall_GetMethodID :: "RevokeRoleCall \<Rightarrow> 32 word" where
  "RevokeRoleCall_GetMethodID t = RevokeRoleID"

definition RevokeRoleCall_GetMethodSelector :: "RevokeRoleCall \<Rightarrow> bytes" where
  "RevokeRoleCall_GetMethodSelector t = RevokeRoleSelector"

definition RevokeRoleCall_EncodeWithSelector :: "abi \<Rightarrow> RevokeRoleCall \<Rightarrow> bytes result" where
  "RevokeRoleCall_EncodeWithSelector A t = encode_selector RevokeRoleSelector (RevokeRoleCall_EncodedSize A t) (RevokeRoleCall_EncodeTo A t)"

definition NewRevokeRoleCall :: "u64 \<Rightarrow> string \<Rightarrow> Address \<Rightarrow> string \<Rightarrow> RevokeRoleCall" where
  "NewRevokeRoleCall registryId checksum account role = \<lparr>RevokeRoleCall_RegistryId = registryId, RevokeRoleCall_Checksum = checksum, RevokeRoleCall_Account = account, RevokeRoleCall_Role = role\<rparr>"

subsection \<open>\<open>UpdateRecordStatusCall\<close>\<close>

record UpdateRecordStatusCall =
  UpdateRecordStatusCall_RegistryId :: u64
  UpdateRecordStatusCall_RecordId :: u64
  UpdateRecordStatusCall_Index :: u64
  UpdateRecordStatusCall_Status :: string

definition UpdateRecordStatusCallStaticSize :: nat where
  "UpdateRecordStatusCallStaticSize = 128"

definition UpdateRecordStatusCall_EncodedSize :: "abi \<Rightarrow> UpdateRecordStatusCall \<Rightarrow> nat" where
  "UpdateRecordStatusCall_EncodedSize A t = UpdateRecordStatusCallStaticSize + SizeString A (UpdateRecordStatusCall_Status t)"

definition UpdateRecordStatusCall_EncodeTo :: "abi \<Rightarrow> UpdateRecordStatusCall \<Rightarrow> encoder" where
  "UpdateRecordStatusCall_EncodeTo A value = encode_tuple UpdateRecordStatusCallStaticSize
    [static_field 0 (EncodeUint64 A (UpdateRecordStatusCall_RegistryId value)),
     static_field 32 (EncodeUint64 A (UpdateRecordStatusCall_RecordId value)),
     static_field 64 (EncodeUint64 A (UpdateRecordStatusCall_Index value)),
     dyn_field 96 (EncodeString A (UpdateRecordStatusCall_Status value))]"

definition UpdateRecordStatusCall_Encode :: "abi \<Rightarrow> UpdateRecordStatusCall \<Rightarrow> bytes result" where
  "UpdateRecordStatusCall_Encode A value = encode_new (UpdateRecordStatusCall_EncodedSize A value) (UpdateRecordStatusCall_EncodeTo A value)"

definition UpdateRecordStatusCall_Decode :: "abi \<Rightarrow> UpdateRecordStatusCall decoder" where
  "UpdateRecordStatusCall_Decode A data =
     (if length data < 128 then Inl ErrUnexpectedEOF else
      res_bind (static_at 0 (DecodeUint64 A) data) (\<lambda>registryId.
      res_bind (static_at 32 (DecodeUint64 A) data) (\<lambda>recordId.
      res_bind (static_at 64 (DecodeUint64 A) data) (\<lambda>index.
      res_bind (dyn_at A 96 (DecodeString A) data 128) (\<lambda>(status, dynamicOffset).
      Inr (\<lparr>UpdateRecordStatusCall_RegistryId = registryId, UpdateRecordStatusCall_RecordId = recordId, UpdateRecordStatusCall_Index = index, UpdateRecordStatusCall_Status = status\<rparr>, dynamicOffset))))))"

definition UpdateRecordStatusCall_parts :: "abi \<Rightarrow> UpdateRecordStatusCall \<Rightarrow> part list" where
  "UpdateRecordStatusCall_parts A v =
    [Static (written (EncodeUint64 A) (\<lambda>_. 32) (UpdateRecordStatusCall_RegistryId v)),
     Static (written (EncodeUint64 A) (\<lambda>_. 32) (UpdateRecordStatusCall_RecordId v)),
     Static (written (EncodeUint64 A) (\<lambda>_. 32) (UpdateRecordStatusCall_Index v)),
     Dynamic (written (EncodeString A) (SizeString A) (UpdateRecordStatusCall_Status v))]"

lemma UpdateRecordStatusCall_coder: "abi_ok A \<Longrightarrow> coder (UpdateRecordStatusCall_EncodeTo A) (UpdateRecordStatusCall_EncodedSize A) (UpdateRecordStatusCall_Decode A)"
  by (rule tuple_coder [OF UpdateRecordStatusCall_EncodeTo_def, where qs = "UpdateRecordStatusCall_parts A"])
    (auto simp: UpdateRecordStatusCall_parts_def UpdateRecordStatusCall_EncodedSize_def UpdateRecordStatusCall_Decode_def UpdateRecordStatusCallStaticSize_def res_bind_def abi_simps)

lemma UpdateRecordStatusCall_safe [safe_intros]: "abi_safe A \<Longrightarrow> safe_dec (UpdateRecordStatusCall_Decode A)"
  by (rule safe_decI, unfold UpdateRecordStatusCall_Decode_def) (auto intro!: safe_static_at safe_dyn_at safe_intros)

interpretation UpdateRecordStatusCall_abi: abi_tuple UpdateRecordStatusCall_EncodedSize UpdateRecordStatusCall_EncodeTo UpdateRecordStatusCall_Decode
  by unfold_locales (simp_all add: UpdateRecordStatusCall_coder UpdateRecordStatusCall_safe)

lemmas UpdateRecordStatusCall_laws [abi_simps] = UpdateRecordStatusCall_abi.written_laws

definition UpdateRecordStatusCall_GetMethodName :: "UpdateRecordStatusCall \<Rightarrow> string" where
  "UpdateRecordStatusCall_GetMethodName t = ''updateRecordStatus''"

definition UpdateRecordStatusCall_GetMethodID :: "UpdateRecordStatusCall \<Rightarrow> 32 word" where
  "UpdateRecordStatusCall_GetMethodID t = UpdateRecordStatusID"

definition UpdateRecordStatusCall_GetMethodSelector :: "UpdateRecordStatusCall \<Rightarrow> bytes" where
  "UpdateRecordStatusCall_GetMethodSelector t = UpdateRecordStatusSelector"

definition UpdateRecordStatusCall_EncodeWithSelector :: "abi \<Rightarrow> UpdateRecordStatusCall \<Rightarrow> bytes result" where
  "UpdateRecordStatusCall_EncodeWithSelector A t = encode_selector UpdateRecordStatusSelector (UpdateRecordStatusCall_EncodedSize A t) (UpdateRecordStatusCall_EncodeTo A t)"

definition NewUpdateRecordStatusCall :: "u64 \<Rightarrow> u64 \<Rightarrow> u64 \<Rightarrow> string \<Rightarrow> UpdateRecordStatusCall" where
  "NewUpdateRecordStatusCall registryId recordId index status = \<lparr>UpdateRecordStatusCall_RegistryId = registryId, UpdateRecordStatusCall_RecordId = recordId, UpdateRecordStatusCall_Index = index, UpdateRecordStatusCall_Status = status\<rparr>"

end
