(* ===== verification/Abi_Events.thy ===== *)
theory Abi_Events
  imports Abi_Anchoring
begin

text \<open>
  The events of \<open>x/anchoring/precompile/anchoring.abi.go\<close>. An event has an indexed part, the
  caller, which is encoded in the topics of the log, and a tuple, which is its data.
\<close>

section \<open>Topics\<close>

text \<open>
  The contract of the indexed part of an event: its two topics are the hash of the
  signature and the caller, and decoding accepts these topics only.
\<close>

locale abi_event =
  fixes topic :: bytes and caller_of :: "'i \<Rightarrow> Address" and indexed :: "Address \<Rightarrow> 'i"
    and EncodeTopics :: "abi \<Rightarrow> 'i \<Rightarrow> bytes list result" and DecodeTopics :: "abi \<Rightarrow> bytes list \<Rightarrow> 'i result"
  assumes indexed_caller: "indexed (caller_of e) = e"
    and encode: "EncodeTopics A e = res_bind (EncodeAddress A (caller_of e) (replicate 32 0)) (\<lambda>(n, hash). Inr [topic, hash])"
    and decode: "DecodeTopics A [t, hash] =
      (if t \<noteq> topic then Inl ErrInvalidEventTopic else res_bind (DecodeAddress A hash) (\<lambda>(c, n). Inr (indexed c)))"
    and wrong_number: "length topics \<noteq> 2 \<Longrightarrow> DecodeTopics A topics = Inl ErrInvalidNumberOfTopics"
begin

lemma topics_roundtrip:
  assumes "abi_ok A"
  shows "\<exists>hash. EncodeTopics A e = Inr [topic, hash] \<and> length hash = 32 \<and> DecodeTopics A [topic, hash] = Inr e"
proof -
  let ?w = "written (EncodeAddress A) (\<lambda>_. 32) (caller_of e)"
  have w: "length ?w = 32" "encodes (EncodeAddress A (caller_of e)) ?w" "decodes (DecodeAddress A) (caller_of e) ?w"
    using assms by (simp_all add: abi_simps)
  have "EncodeAddress A (caller_of e) (replicate 32 0 @ []) = Inr (32, ?w @ [])"
    using w(2) unfolding encodes_def w(1) by blast
  moreover have "DecodeAddress A (?w @ []) = Inr (caller_of e, 32)"
    using w(3) unfolding decodes_def w(1) by blast
  ultimately show ?thesis
    using w(1) by (simp add: encode decode res_bind_def indexed_caller)
qed

lemma foreign_topic: "t \<noteq> topic \<Longrightarrow> DecodeTopics A [t, hash] = Inl ErrInvalidEventTopic"
  by (simp add: decode)

end

section \<open>Events\<close>

subsection \<open>\<open>AddRecordEvent\<close>\<close>

definition AddRecordEventTopic :: bytes where
  "AddRecordEventTopic = [0x1a, 0x32, 0x95, 0xfa, 0x8c, 0xc0, 0xe2, 0x8c, 0x95, 0xd2, 0x19, 0x12, 0xc9, 0xe6, 0x95, 0x8f,
     0x3b, 0xc7, 0x40, 0x23, 0x17, 0x81, 0xf7, 0x64, 0x0a, 0xd8, 0x85, 0xc9, 0x72, 0xa3, 0x52, 0xfd]"

record AddRecordEventIndexed =
  AddRecordEventIndexed_Caller :: Address

definition AddRecordEventIndexed_EncodeTopics :: "abi \<Rightarrow> AddRecordEventIndexed \<Rightarrow> bytes list result" where
  "AddRecordEventIndexed_EncodeTopics A e =
     res_bind (EncodeAddress A (AddRecordEventIndexed_Caller e) (replicate 32 0)) (\<lambda>(n, hash). Inr [AddRecordEventTopic, hash])"

definition AddRecordEventIndexed_DecodeTopics :: "abi \<Rightarrow> bytes list \<Rightarrow> AddRecordEventIndexed result" where
  "AddRecordEventIndexed_DecodeTopics A topics =
     (if length topics \<noteq> 2 then Inl ErrInvalidNumberOfTopics
      else if topics ! 0 \<noteq> AddRecordEventTopic then Inl ErrInvalidEventTopic
      else res_bind (DecodeAddress A (topics ! 1)) (\<lambda>(caller, n). Inr \<lparr>AddRecordEventIndexed_Caller = caller\<rparr>))"

record AddRecordEventData =
  AddRecordEventData_RegistryId :: u64
  AddRecordEventData_RecordId :: u64
  AddRecordEventData_Index :: u64
  AddRecordEventData_Checksum :: string

definition AddRecordEventDataStaticSize :: nat where
  "AddRecordEventDataStaticSize = 128"

definition AddRecordEventData_EncodedSize :: "abi \<Rightarrow> AddRecordEventData \<Rightarrow> nat" where
  "AddRecordEventData_EncodedSize A t = AddRecordEventDataStaticSize + SizeString A (AddRecordEventData_Checksum t)"

definition AddRecordEventData_EncodeTo :: "abi \<Rightarrow> AddRecordEventData \<Rightarrow> encoder" where
  "AddRecordEventData_EncodeTo A value = encode_tuple AddRecordEventDataStaticSize
    [static_field 0 (EncodeUint64 A (AddRecordEventData_RegistryId value)),
     static_field 32 (EncodeUint64 A (AddRecordEventData_RecordId value)),
     static_field 64 (EncodeUint64 A (AddRecordEventData_Index value)),
     dyn_field 96 (EncodeString A (AddRecordEventData_Checksum value))]"

definition AddRecordEventData_Encode :: "abi \<Rightarrow> AddRecordEventData \<Rightarrow> bytes result" where
  "AddRecordEventData_Encode A value = encode_new (AddRecordEventData_EncodedSize A value) (AddRecordEventData_EncodeTo A value)"

definition AddRecordEventData_Decode :: "abi \<Rightarrow> AddRecordEventData decoder" where
  "AddRecordEventData_Decode A data =
     (if length data < 128 then Inl ErrUnexpectedEOF else
      res_bind (static_at 0 (DecodeUint64 A) data) (\<lambda>registryId.
      res_bind (static_at 32 (DecodeUint64 A) data) (\<lambda>recordId.
      res_bind (static_at 64 (DecodeUint64 A) data) (\<lambda>index.
      res_bind (dyn_at A 96 (DecodeString A) data 128) (\<lambda>(checksum, dynamicOffset).
      Inr (\<lparr>AddRecordEventData_RegistryId = registryId, AddRecordEventData_RecordId = recordId, AddRecordEventData_Index = index, AddRecordEventData_Checksum = checksum\<rparr>, dynamicOffset))))))"

definition AddRecordEventData_parts :: "abi \<Rightarrow> AddRecordEventData \<Rightarrow> part list" where
  "AddRecordEventData_parts A v =
    [Static (written (EncodeUint64 A) (\<lambda>_. 32) (AddRecordEventData_RegistryId v)),
     Static (written (EncodeUint64 A) (\<lambda>_. 32) (AddRecordEventData_RecordId v)),
     Static (written (EncodeUint64 A) (\<lambda>_. 32) (AddRecordEventData_Index v)),
     Dynamic (written (EncodeString A) (SizeString A) (AddRecordEventData_Checksum v))]"

lemma AddRecordEventData_coder: "abi_ok A \<Longrightarrow> coder (AddRecordEventData_EncodeTo A) (AddRecordEventData_EncodedSize A) (AddRecordEventData_Decode A)"
  by (rule tuple_coder [OF AddRecordEventData_EncodeTo_def, where qs = "AddRecordEventData_parts A"])
    (auto simp: AddRecordEventData_parts_def AddRecordEventData_EncodedSize_def AddRecordEventData_Decode_def AddRecordEventDataStaticSize_def res_bind_def abi_simps)

lemma AddRecordEventData_safe [safe_intros]: "abi_safe A \<Longrightarrow> safe_dec (AddRecordEventData_Decode A)"
  by (rule safe_decI, unfold AddRecordEventData_Decode_def) (auto intro!: safe_static_at safe_dyn_at safe_intros)

interpretation AddRecordEventData_abi: abi_tuple AddRecordEventData_EncodedSize AddRecordEventData_EncodeTo AddRecordEventData_Decode
  by unfold_locales (simp_all add: AddRecordEventData_coder AddRecordEventData_safe)

lemmas AddRecordEventData_laws [abi_simps] = AddRecordEventData_abi.written_laws

record AddRecordEvent =
  AddRecordEvent_AddRecordEventIndexed :: AddRecordEventIndexed
  AddRecordEvent_AddRecordEventData :: AddRecordEventData

definition NewAddRecordEvent :: "Address \<Rightarrow> u64 \<Rightarrow> u64 \<Rightarrow> u64 \<Rightarrow> string \<Rightarrow> AddRecordEvent" where
  "NewAddRecordEvent caller registryId recordId index checksum =
     \<lparr>AddRecordEvent_AddRecordEventIndexed = \<lparr>AddRecordEventIndexed_Caller = caller\<rparr>,
      AddRecordEvent_AddRecordEventData = \<lparr>AddRecordEventData_RegistryId = registryId, AddRecordEventData_RecordId = recordId, AddRecordEventData_Index = index, AddRecordEventData_Checksum = checksum\<rparr>\<rparr>"

definition AddRecordEvent_GetEventName :: "AddRecordEvent \<Rightarrow> string" where
  "AddRecordEvent_GetEventName e = ''AddRecord''"

definition AddRecordEvent_GetEventID :: "AddRecordEvent \<Rightarrow> bytes" where
  "AddRecordEvent_GetEventID e = AddRecordEventTopic"

interpretation AddRecord_event: abi_event AddRecordEventTopic AddRecordEventIndexed_Caller "\<lambda>c. \<lparr>AddRecordEventIndexed_Caller = c\<rparr>" AddRecordEventIndexed_EncodeTopics AddRecordEventIndexed_DecodeTopics
  by unfold_locales (auto simp: AddRecordEventIndexed_EncodeTopics_def AddRecordEventIndexed_DecodeTopics_def)

subsection \<open>\<open>AddRegistryEvent\<close>\<close>

definition AddRegistryEventTopic :: bytes where
  "AddRegistryEventTopic = [0x18, 0x17, 0x91, 0xbc, 0x37, 0x9a, 0xce, 0xdd, 0x36, 0x15, 0xcf, 0x06, 0x5d, 0x3c, 0x27, 0x5d,
     0xfa, 0x6a, 0x3c, 0x46, 0x14, 0xc9, 0x06, 0x5d, 0x54, 0xc9, 0x87, 0x73, 0xf5, 0x76, 0x10, 0x8d]"

record AddRegistryEventIndexed =
  AddRegistryEventIndexed_Caller :: Address

definition AddRegistryEventIndexed_EncodeTopics :: "abi \<Rightarrow> AddRegistryEventIndexed \<Rightarrow> bytes list result" where
  "AddRegistryEventIndexed_EncodeTopics A e =
     res_bind (EncodeAddress A (AddRegistryEventIndexed_Caller e) (replicate 32 0)) (\<lambda>(n, hash). Inr [AddRegistryEventTopic, hash])"

definition AddRegistryEventIndexed_DecodeTopics :: "abi \<Rightarrow> bytes list \<Rightarrow> AddRegistryEventIndexed result" where
  "AddRegistryEventIndexed_DecodeTopics A topics =
     (if length topics \<noteq> 2 then Inl ErrInvalidNumberOfTopics
      else if topics ! 0 \<noteq> AddRegistryEventTopic then Inl ErrInvalidEventTopic
      else res_bind (DecodeAddress A (topics ! 1)) (\<lambda>(caller, n). Inr \<lparr>AddRegistryEventIndexed_Caller = caller\<rparr>))"

record AddRegistryEventData =
  AddRegistryEventData_RegistryId :: u64
  AddRegistryEventData_Name :: string

definition AddRegistryEventDataStaticSize :: nat where
  "AddRegistryEventDataStaticSize = 64"

definition AddRegistryEventData_EncodedSize :: "abi \<Rightarrow> AddRegistryEventData \<Rightarrow> nat" where
  "AddRegistryEventData_EncodedSize A t = AddRegistryEventDataStaticSize + SizeString A (AddRegistryEventData_Name t)"

definition AddRegistryEventData_EncodeTo :: "abi \<Rightarrow> AddRegistryEventData \<Rightarrow> encoder" where
  "AddRegistryEventData_EncodeTo A value = encode_tuple AddRegistryEventDataStaticSize
    [static_field 0 (EncodeUint64 A (AddRegistryEventData_RegistryId value)),
     dyn_field 32 (EncodeString A (AddRegistryEventData_Name value))]"

definition AddRegistryEventData_Encode :: "abi \<Rightarrow> AddRegistryEventData \<Rightarrow> bytes result" where
  "AddRegistryEventData_Encode A value = encode_new (AddRegistryEventData_EncodedSize A value) (AddRegistryEventData_EncodeTo A value)"

definition AddRegistryEventData_Decode :: "abi \<Rightarrow> AddRegistryEventData decoder" where
  "AddRegistryEventData_Decode A data =
     (if length data < 64 then Inl ErrUnexpectedEOF else
      res_bind (static_at 0 (DecodeUint64 A) data) (\<lambda>registryId.
      res_bind (dyn_at A 32 (DecodeString A) data 64) (\<lambda>(name, dynamicOffset).
      Inr (\<lparr>AddRegistryEventData_RegistryId = registryId, AddRegistryEventData_Name = name\<rparr>, dynamicOffset))))"

definition AddRegistryEventData_parts :: "abi \<Rightarrow> AddRegistryEventData \<Rightarrow> part list" where
  "AddRegistryEventData_parts A v =
    [Static (written (EncodeUint64 A) (\<lambda>_. 32) (AddRegistryEventData_RegistryId v)),
     Dynamic (written (EncodeString A) (SizeString A) (AddRegistryEventData_Name v))]"

lemma AddRegistryEventData_coder: "abi_ok A \<Longrightarrow> coder (AddRegistryEventData_EncodeTo A) (AddRegistryEventData_EncodedSize A) (AddRegistryEventData_Decode A)"
  by (rule tuple_coder [OF AddRegistryEventData_EncodeTo_def, where qs = "AddRegistryEventData_parts A"])
    (auto simp: AddRegistryEventData_parts_def AddRegistryEventData_EncodedSize_def AddRegistryEventData_Decode_def AddRegistryEventDataStaticSize_def res_bind_def abi_simps)

lemma AddRegistryEventData_safe [safe_intros]: "abi_safe A \<Longrightarrow> safe_dec (AddRegistryEventData_Decode A)"
  by (rule safe_decI, unfold AddRegistryEventData_Decode_def) (auto intro!: safe_static_at safe_dyn_at safe_intros)

interpretation AddRegistryEventData_abi: abi_tuple AddRegistryEventData_EncodedSize AddRegistryEventData_EncodeTo AddRegistryEventData_Decode
  by unfold_locales (simp_all add: AddRegistryEventData_coder AddRegistryEventData_safe)

lemmas AddRegistryEventData_laws [abi_simps] = AddRegistryEventData_abi.written_laws

record AddRegistryEvent =
  AddRegistryEvent_AddRegistryEventIndexed :: AddRegistryEventIndexed
  AddRegistryEvent_AddRegistryEventData :: AddRegistryEventData

definition NewAddRegistryEvent :: "Address \<Rightarrow> u64 \<Rightarrow> string \<Rightarrow> AddRegistryEvent" where
  "NewAddRegistryEvent caller registryId name =
     \<lparr>AddRegistryEvent_AddRegistryEventIndexed = \<lparr>AddRegistryEventIndexed_Caller = caller\<rparr>,
      AddRegistryEvent_AddRegistryEventData = \<lparr>AddRegistryEventData_RegistryId = registryId, AddRegistryEventData_Name = name\<rparr>\<rparr>"

definition AddRegistryEvent_GetEventName :: "AddRegistryEvent \<Rightarrow> string" where
  "AddRegistryEvent_GetEventName e = ''AddRegistry''"

definition AddRegistryEvent_GetEventID :: "AddRegistryEvent \<Rightarrow> bytes" where
  "AddRegistryEvent_GetEventID e = AddRegistryEventTopic"

interpretation AddRegistry_event: abi_event AddRegistryEventTopic AddRegistryEventIndexed_Caller "\<lambda>c. \<lparr>AddRegistryEventIndexed_Caller = c\<rparr>" AddRegistryEventIndexed_EncodeTopics AddRegistryEventIndexed_DecodeTopics
  by unfold_locales (auto simp: AddRegistryEventIndexed_EncodeTopics_def AddRegistryEventIndexed_DecodeTopics_def)

subsection \<open>\<open>GrantRoleEvent\<close>\<close>

definition GrantRoleEventTopic :: bytes where
  "GrantRoleEventTopic = [0x0f, 0x49, 0xe3, 0x65, 0xba, 0xf9, 0x0d, 0xeb, 0x7d, 0x1f, 0x63, 0xe5, 0x76, 0x63, 0x79, 0x07,
     0xe1, 0x2d, 0x1d, 0xdc, 0x75, 0xd1, 0xac, 0x68, 0x89, 0x4a, 0x2b, 0xcd, 0x19, 0x2b, 0x6d, 0xdb]"

record GrantRoleEventIndexed =
  GrantRoleEventIndexed_Caller :: Address

definition GrantRoleEventIndexed_EncodeTopics :: "abi \<Rightarrow> GrantRoleEventIndexed \<Rightarrow> bytes list result" where
  "GrantRoleEventIndexed_EncodeTopics A e =
     res_bind (EncodeAddress A (GrantRoleEventIndexed_Caller e) (replicate 32 0)) (\<lambda>(n, hash). Inr [GrantRoleEventTopic, hash])"

definition GrantRoleEventIndexed_DecodeTopics :: "abi \<Rightarrow> bytes list \<Rightarrow> GrantRoleEventIndexed result" where
  "GrantRoleEventIndexed_DecodeTopics A topics =
     (if length topics \<noteq> 2 then Inl ErrInvalidNumberOfTopics
      else if topics ! 0 \<noteq> GrantRoleEventTopic then Inl ErrInvalidEventTopic
      else res_bind (DecodeAddress A (topics ! 1)) (\<lambda>(caller, n). Inr \<lparr>GrantRoleEventIndexed_Caller = caller\<rparr>))"

record GrantRoleEventData =
  GrantRoleEventData_RegistryId :: u64
  GrantRoleEventData_Checksum :: string
  GrantRoleEventData_Account :: Address
  GrantRoleEventData_Role :: string

definition GrantRoleEventDataStaticSize :: nat where
  "GrantRoleEventDataStaticSize = 128"

definition GrantRoleEventData_EncodedSize :: "abi \<Rightarrow> GrantRoleEventData \<Rightarrow> nat" where
  "GrantRoleEventData_EncodedSize A t = GrantRoleEventDataStaticSize + (SizeString A (GrantRoleEventData_Checksum t) + SizeString A (GrantRoleEventData_Role t))"

definition GrantRoleEventData_EncodeTo :: "abi \<Rightarrow> GrantRoleEventData \<Rightarrow> encoder" where
  "GrantRoleEventData_EncodeTo A value = encode_tuple GrantRoleEventDataStaticSize
    [static_field 0 (EncodeUint64 A (GrantRoleEventData_RegistryId value)),
     dyn_field 32 (EncodeString A (GrantRoleEventData_Checksum value)),
     static_field 64 (EncodeAddress A (GrantRoleEventData_Account value)),
     dyn_field 96 (EncodeString A (GrantRoleEventData_Role value))]"

definition GrantRoleEventData_Encode :: "abi \<Rightarrow> GrantRoleEventData \<Rightarrow> bytes result" where
  "GrantRoleEventData_Encode A value = encode_new (GrantRoleEventData_EncodedSize A value) (GrantRoleEventData_EncodeTo A value)"

definition GrantRoleEventData_Decode :: "abi \<Rightarrow> GrantRoleEventData decoder" where
  "GrantRoleEventData_Decode A data =
     (if length data < 128 then Inl ErrUnexpectedEOF else
      res_bind (static_at 0 (DecodeUint64 A) data) (\<lambda>registryId.
      res_bind (dyn_at A 32 (DecodeString A) data 128) (\<lambda>(checksum, dynamicOffset).
      res_bind (static_at 64 (DecodeAddress A) data) (\<lambda>account.
      res_bind (dyn_at A 96 (DecodeString A) data dynamicOffset) (\<lambda>(role, dynamicOffset).
      Inr (\<lparr>GrantRoleEventData_RegistryId = registryId, GrantRoleEventData_Checksum = checksum, GrantRoleEventData_Account = account, GrantRoleEventData_Role = role\<rparr>, dynamicOffset))))))"

definition GrantRoleEventData_parts :: "abi \<Rightarrow> GrantRoleEventData \<Rightarrow> part list" where
  "GrantRoleEventData_parts A v =
    [Static (written (EncodeUint64 A) (\<lambda>_. 32) (GrantRoleEventData_RegistryId v)),
     Dynamic (written (EncodeString A) (SizeString A) (GrantRoleEventData_Checksum v)),
     Static (written (EncodeAddress A) (\<lambda>_. 32) (GrantRoleEventData_Account v)),
     Dynamic (written (EncodeString A) (SizeString A) (GrantRoleEventData_Role v))]"

lemma GrantRoleEventData_coder: "abi_ok A \<Longrightarrow> coder (GrantRoleEventData_EncodeTo A) (GrantRoleEventData_EncodedSize A) (GrantRoleEventData_Decode A)"
  by (rule tuple_coder [OF GrantRoleEventData_EncodeTo_def, where qs = "GrantRoleEventData_parts A"])
    (auto simp: GrantRoleEventData_parts_def GrantRoleEventData_EncodedSize_def GrantRoleEventData_Decode_def GrantRoleEventDataStaticSize_def res_bind_def abi_simps)

lemma GrantRoleEventData_safe [safe_intros]: "abi_safe A \<Longrightarrow> safe_dec (GrantRoleEventData_Decode A)"
  by (rule safe_decI, unfold GrantRoleEventData_Decode_def) (auto intro!: safe_static_at safe_dyn_at safe_intros)

interpretation GrantRoleEventData_abi: abi_tuple GrantRoleEventData_EncodedSize GrantRoleEventData_EncodeTo GrantRoleEventData_Decode
  by unfold_locales (simp_all add: GrantRoleEventData_coder GrantRoleEventData_safe)

lemmas GrantRoleEventData_laws [abi_simps] = GrantRoleEventData_abi.written_laws

record GrantRoleEvent =
  GrantRoleEvent_GrantRoleEventIndexed :: GrantRoleEventIndexed
  GrantRoleEvent_GrantRoleEventData :: GrantRoleEventData

definition NewGrantRoleEvent :: "Address \<Rightarrow> u64 \<Rightarrow> string \<Rightarrow> Address \<Rightarrow> string \<Rightarrow> GrantRoleEvent" where
  "NewGrantRoleEvent caller registryId checksum account role =
     \<lparr>GrantRoleEvent_GrantRoleEventIndexed = \<lparr>GrantRoleEventIndexed_Caller = caller\<rparr>,
      GrantRoleEvent_GrantRoleEventData = \<lparr>GrantRoleEventData_RegistryId = registryId, GrantRoleEventData_Checksum = checksum, GrantRoleEventData_Account = account, GrantRoleEventData_Role = role\<rparr>\<rparr>"

definition GrantRoleEvent_GetEventName :: "GrantRoleEvent \<Rightarrow> string" where
  "GrantRoleEvent_GetEventName e = ''GrantRole''"

definition GrantRoleEvent_GetEventID :: "GrantRoleEvent \<Rightarrow> bytes" where
  "GrantRoleEvent_GetEventID e = GrantRoleEventTopic"

interpretation GrantRole_event: abi_event GrantRoleEventTopic GrantRoleEventIndexed_Caller "\<lambda>c. \<lparr>GrantRoleEventIndexed_Caller = c\<rparr>" GrantRoleEventIndexed_EncodeTopics GrantRoleEventIndexed_DecodeTopics
  by unfold_locales (auto simp: GrantRoleEventIndexed_EncodeTopics_def GrantRoleEventIndexed_DecodeTopics_def)

subsection \<open>\<open>RevokeRoleEvent\<close>\<close>

definition RevokeRoleEventTopic :: bytes where
  "RevokeRoleEventTopic = [0x82, 0x36, 0xb7, 0x6c, 0xce, 0x80, 0xea, 0xf6, 0x9b, 0x54, 0xd8, 0x92, 0x68, 0xd0, 0x0f, 0xda,
     0x3d, 0xec, 0x9e, 0x5e, 0x05, 0x4f, 0x15, 0x48, 0xeb, 0xbb, 0x1f, 0x8b, 0x20, 0xb3, 0xb0, 0x8b]"

record RevokeRoleEventIndexed =
  RevokeRoleEventIndexed_Caller :: Address

definition RevokeRoleEventIndexed_EncodeTopics :: "abi \<Rightarrow> RevokeRoleEventIndexed \<Rightarrow> bytes list result" where
  "RevokeRoleEventIndexed_EncodeTopics A e =
     res_bind (EncodeAddress A (RevokeRoleEventIndexed_Caller e) (replicate 32 0)) (\<lambda>(n, hash). Inr [RevokeRoleEventTopic, hash])"

definition RevokeRoleEventIndexed_DecodeTopics :: "abi \<Rightarrow> bytes list \<Rightarrow> RevokeRoleEventIndexed result" where
  "RevokeRoleEventIndexed_DecodeTopics A topics =
     (if length topics \<noteq> 2 then Inl ErrInvalidNumberOfTopics
      else if topics ! 0 \<noteq> RevokeRoleEventTopic then Inl ErrInvalidEventTopic
      else res_bind (DecodeAddress A (topics ! 1)) (\<lambda>(caller, n). Inr \<lparr>RevokeRoleEventIndexed_Caller = caller\<rparr>))"

record RevokeRoleEventData =
  RevokeRoleEventData_RegistryId :: u64
  RevokeRoleEventData_Checksum :: string
  RevokeRoleEventData_Account :: Address
  RevokeRoleEventData_Role :: string

definition RevokeRoleEventDataStaticSize :: nat where
  "RevokeRoleEventDataStaticSize = 128"

definition RevokeRoleEventData_EncodedSize :: "abi \<Rightarrow> RevokeRoleEventData \<Rightarrow> nat" where
  "RevokeRoleEventData_EncodedSize A t = RevokeRoleEventDataStaticSize + (SizeString A (RevokeRoleEventData_Checksum t) + SizeString A (RevokeRoleEventData_Role t))"

definition RevokeRoleEventData_EncodeTo :: "abi \<Rightarrow> RevokeRoleEventData \<Rightarrow> encoder" where
  "RevokeRoleEventData_EncodeTo A value = encode_tuple RevokeRoleEventDataStaticSize
    [static_field 0 (EncodeUint64 A (RevokeRoleEventData_RegistryId value)),
     dyn_field 32 (EncodeString A (RevokeRoleEventData_Checksum value)),
     static_field 64 (EncodeAddress A (RevokeRoleEventData_Account value)),
     dyn_field 96 (EncodeString A (RevokeRoleEventData_Role value))]"

definition RevokeRoleEventData_Encode :: "abi \<Rightarrow> RevokeRoleEventData \<Rightarrow> bytes result" where
  "RevokeRoleEventData_Encode A value = encode_new (RevokeRoleEventData_EncodedSize A value) (RevokeRoleEventData_EncodeTo A value)"

definition RevokeRoleEventData_Decode :: "abi \<Rightarrow> RevokeRoleEventData decoder" where
  "RevokeRoleEventData_Decode A data =
     (if length data < 128 then Inl ErrUnexpectedEOF else
      res_bind (static_at 0 (DecodeUint64 A) data) (\<lambda>registryId.
      res_bind (dyn_at A 32 (DecodeString A) data 128) (\<lambda>(checksum, dynamicOffset).
      res_bind (static_at 64 (DecodeAddress A) data) (\<lambda>account.
      res_bind (dyn_at A 96 (DecodeString A) data dynamicOffset) (\<lambda>(role, dynamicOffset).
      Inr (\<lparr>RevokeRoleEventData_RegistryId = registryId, RevokeRoleEventData_Checksum = checksum, RevokeRoleEventData_Account = account, RevokeRoleEventData_Role = role\<rparr>, dynamicOffset))))))"

definition RevokeRoleEventData_parts :: "abi \<Rightarrow> RevokeRoleEventData \<Rightarrow> part list" where
  "RevokeRoleEventData_parts A v =
    [Static (written (EncodeUint64 A) (\<lambda>_. 32) (RevokeRoleEventData_RegistryId v)),
     Dynamic (written (EncodeString A) (SizeString A) (RevokeRoleEventData_Checksum v)),
     Static (written (EncodeAddress A) (\<lambda>_. 32) (RevokeRoleEventData_Account v)),
     Dynamic (written (EncodeString A) (SizeString A) (RevokeRoleEventData_Role v))]"

lemma RevokeRoleEventData_coder: "abi_ok A \<Longrightarrow> coder (RevokeRoleEventData_EncodeTo A) (RevokeRoleEventData_EncodedSize A) (RevokeRoleEventData_Decode A)"
  by (rule tuple_coder [OF RevokeRoleEventData_EncodeTo_def, where qs = "RevokeRoleEventData_parts A"])
    (auto simp: RevokeRoleEventData_parts_def RevokeRoleEventData_EncodedSize_def RevokeRoleEventData_Decode_def RevokeRoleEventDataStaticSize_def res_bind_def abi_simps)

lemma RevokeRoleEventData_safe [safe_intros]: "abi_safe A \<Longrightarrow> safe_dec (RevokeRoleEventData_Decode A)"
  by (rule safe_decI, unfold RevokeRoleEventData_Decode_def) (auto intro!: safe_static_at safe_dyn_at safe_intros)

interpretation RevokeRoleEventData_abi: abi_tuple RevokeRoleEventData_EncodedSize RevokeRoleEventData_EncodeTo RevokeRoleEventData_Decode
  by unfold_locales (simp_all add: RevokeRoleEventData_coder RevokeRoleEventData_safe)

lemmas RevokeRoleEventData_laws [abi_simps] = RevokeRoleEventData_abi.written_laws

record RevokeRoleEvent =
  RevokeRoleEvent_RevokeRoleEventIndexed :: RevokeRoleEventIndexed
  RevokeRoleEvent_RevokeRoleEventData :: RevokeRoleEventData

definition NewRevokeRoleEvent :: "Address \<Rightarrow> u64 \<Rightarrow> string \<Rightarrow> Address \<Rightarrow> string \<Rightarrow> RevokeRoleEvent" where
  "NewRevokeRoleEvent caller registryId checksum account role =
     \<lparr>RevokeRoleEvent_RevokeRoleEventIndexed = \<lparr>RevokeRoleEventIndexed_Caller = caller\<rparr>,
      RevokeRoleEvent_RevokeRoleEventData = \<lparr>RevokeRoleEventData_RegistryId = registryId, RevokeRoleEventData_Checksum = checksum, RevokeRoleEventData_Account = account, RevokeRoleEventData_Role = role\<rparr>\<rparr>"

definition RevokeRoleEvent_GetEventName :: "RevokeRoleEvent \<Rightarrow> string" where
  "RevokeRoleEvent_GetEventName e = ''RevokeRole''"

definition RevokeRoleEvent_GetEventID :: "RevokeRoleEvent \<Rightarrow> bytes" where
  "RevokeRoleEvent_GetEventID e = RevokeRoleEventTopic"

interpretation RevokeRole_event: abi_event RevokeRoleEventTopic RevokeRoleEventIndexed_Caller "\<lambda>c. \<lparr>RevokeRoleEventIndexed_Caller = c\<rparr>" RevokeRoleEventIndexed_EncodeTopics RevokeRoleEventIndexed_DecodeTopics
  by unfold_locales (auto simp: RevokeRoleEventIndexed_EncodeTopics_def RevokeRoleEventIndexed_DecodeTopics_def)

subsection \<open>\<open>UpdateRecordStatusEvent\<close>\<close>

definition UpdateRecordStatusEventTopic :: bytes where
  "UpdateRecordStatusEventTopic = [0xd7, 0xb7, 0x54, 0x57, 0xd4, 0x12, 0x93, 0xea, 0xb4, 0x82, 0x99, 0x75, 0xc9, 0x51, 0xce, 0x8c,
     0x53, 0x10, 0x68, 0x66, 0xf0, 0xc4, 0x29, 0xd1, 0x75, 0xfc, 0x6c, 0x91, 0xcd, 0xad, 0x5a, 0xde]"

record UpdateRecordStatusEventIndexed =
  UpdateRecordStatusEventIndexed_Caller :: Address

definition UpdateRecordStatusEventIndexed_EncodeTopics :: "abi \<Rightarrow> UpdateRecordStatusEventIndexed \<Rightarrow> bytes list result" where
  "UpdateRecordStatusEventIndexed_EncodeTopics A e =
     res_bind (EncodeAddress A (UpdateRecordStatusEventIndexed_Caller e) (replicate 32 0)) (\<lambda>(n, hash). Inr [UpdateRecordStatusEventTopic, hash])"

definition UpdateRecordStatusEventIndexed_DecodeTopics :: "abi \<Rightarrow> bytes list \<Rightarrow> UpdateRecordStatusEventIndexed result" where
  "UpdateRecordStatusEventIndexed_DecodeTopics A topics =
     (if length topics \<noteq> 2 then Inl ErrInvalidNumberOfTopics
      else if topics ! 0 \<noteq> UpdateRecordStatusEventTopic then Inl ErrInvalidEventTopic
      else res_bind (DecodeAddress A (topics ! 1)) (\<lambda>(caller, n). Inr \<lparr>UpdateRecordStatusEventIndexed_Caller = caller\<rparr>))"

record UpdateRecordStatusEventData =
  UpdateRecordStatusEventData_RegistryId :: u64
  UpdateRecordStatusEventData_RecordId :: u64
  UpdateRecordStatusEventData_Index :: u64
  UpdateRecordStatusEventData_Status :: string

definition UpdateRecordStatusEventDataStaticSize :: nat where
  "UpdateRecordStatusEventDataStaticSize = 128"

definition UpdateRecordStatusEventData_EncodedSize :: "abi \<Rightarrow> UpdateRecordStatusEventData \<Rightarrow> nat" where
  "UpdateRecordStatusEventData_EncodedSize A t = UpdateRecordStatusEventDataStaticSize + SizeString A (UpdateRecordStatusEventData_Status t)"

definition UpdateRecordStatusEventData_EncodeTo :: "abi \<Rightarrow> UpdateRecordStatusEventData \<Rightarrow> encoder" where
  "UpdateRecordStatusEventData_EncodeTo A value = encode_tuple UpdateRecordStatusEventDataStaticSize
    [static_field 0 (EncodeUint64 A (UpdateRecordStatusEventData_RegistryId value)),
     static_field 32 (EncodeUint64 A (UpdateRecordStatusEventData_RecordId value)),
     static_field 64 (EncodeUint64 A (UpdateRecordStatusEventData_Index value)),
     dyn_field 96 (EncodeString A (UpdateRecordStatusEventData_Status value))]"

definition UpdateRecordStatusEventData_Encode :: "abi \<Rightarrow> UpdateRecordStatusEventData \<Rightarrow> bytes result" where
  "UpdateRecordStatusEventData_Encode A value = encode_new (UpdateRecordStatusEventData_EncodedSize A value) (UpdateRecordStatusEventData_EncodeTo A value)"

definition UpdateRecordStatusEventData_Decode :: "abi \<Rightarrow> UpdateRecordStatusEventData decoder" where
  "UpdateRecordStatusEventData_Decode A data =
     (if length data < 128 then Inl ErrUnexpectedEOF else
      res_bind (static_at 0 (DecodeUint64 A) data) (\<lambda>registryId.
      res_bind (static_at 32 (DecodeUint64 A) data) (\<lambda>recordId.
      res_bind (static_at 64 (DecodeUint64 A) data) (\<lambda>index.
      res_bind (dyn_at A 96 (DecodeString A) data 128) (\<lambda>(status, dynamicOffset).
      Inr (\<lparr>UpdateRecordStatusEventData_RegistryId = registryId, UpdateRecordStatusEventData_RecordId = recordId, UpdateRecordStatusEventData_Index = index, UpdateRecordStatusEventData_Status = status\<rparr>, dynamicOffset))))))"

definition UpdateRecordStatusEventData_parts :: "abi \<Rightarrow> UpdateRecordStatusEventData \<Rightarrow> part list" where
  "UpdateRecordStatusEventData_parts A v =
    [Static (written (EncodeUint64 A) (\<lambda>_. 32) (UpdateRecordStatusEventData_RegistryId v)),
     Static (written (EncodeUint64 A) (\<lambda>_. 32) (UpdateRecordStatusEventData_RecordId v)),
     Static (written (EncodeUint64 A) (\<lambda>_. 32) (UpdateRecordStatusEventData_Index v)),
     Dynamic (written (EncodeString A) (SizeString A) (UpdateRecordStatusEventData_Status v))]"

lemma UpdateRecordStatusEventData_coder: "abi_ok A \<Longrightarrow> coder (UpdateRecordStatusEventData_EncodeTo A) (UpdateRecordStatusEventData_EncodedSize A) (UpdateRecordStatusEventData_Decode A)"
  by (rule tuple_coder [OF UpdateRecordStatusEventData_EncodeTo_def, where qs = "UpdateRecordStatusEventData_parts A"])
    (auto simp: UpdateRecordStatusEventData_parts_def UpdateRecordStatusEventData_EncodedSize_def UpdateRecordStatusEventData_Decode_def UpdateRecordStatusEventDataStaticSize_def res_bind_def abi_simps)

lemma UpdateRecordStatusEventData_safe [safe_intros]: "abi_safe A \<Longrightarrow> safe_dec (UpdateRecordStatusEventData_Decode A)"
  by (rule safe_decI, unfold UpdateRecordStatusEventData_Decode_def) (auto intro!: safe_static_at safe_dyn_at safe_intros)

interpretation UpdateRecordStatusEventData_abi: abi_tuple UpdateRecordStatusEventData_EncodedSize UpdateRecordStatusEventData_EncodeTo UpdateRecordStatusEventData_Decode
  by unfold_locales (simp_all add: UpdateRecordStatusEventData_coder UpdateRecordStatusEventData_safe)

lemmas UpdateRecordStatusEventData_laws [abi_simps] = UpdateRecordStatusEventData_abi.written_laws

record UpdateRecordStatusEvent =
  UpdateRecordStatusEvent_UpdateRecordStatusEventIndexed :: UpdateRecordStatusEventIndexed
  UpdateRecordStatusEvent_UpdateRecordStatusEventData :: UpdateRecordStatusEventData

definition NewUpdateRecordStatusEvent :: "Address \<Rightarrow> u64 \<Rightarrow> u64 \<Rightarrow> u64 \<Rightarrow> string \<Rightarrow> UpdateRecordStatusEvent" where
  "NewUpdateRecordStatusEvent caller registryId recordId index status =
     \<lparr>UpdateRecordStatusEvent_UpdateRecordStatusEventIndexed = \<lparr>UpdateRecordStatusEventIndexed_Caller = caller\<rparr>,
      UpdateRecordStatusEvent_UpdateRecordStatusEventData = \<lparr>UpdateRecordStatusEventData_RegistryId = registryId, UpdateRecordStatusEventData_RecordId = recordId, UpdateRecordStatusEventData_Index = index, UpdateRecordStatusEventData_Status = status\<rparr>\<rparr>"

definition UpdateRecordStatusEvent_GetEventName :: "UpdateRecordStatusEvent \<Rightarrow> string" where
  "UpdateRecordStatusEvent_GetEventName e = ''UpdateRecordStatus''"

definition UpdateRecordStatusEvent_GetEventID :: "UpdateRecordStatusEvent \<Rightarrow> bytes" where
  "UpdateRecordStatusEvent_GetEventID e = UpdateRecordStatusEventTopic"

interpretation UpdateRecordStatus_event: abi_event UpdateRecordStatusEventTopic UpdateRecordStatusEventIndexed_Caller "\<lambda>c. \<lparr>UpdateRecordStatusEventIndexed_Caller = c\<rparr>" UpdateRecordStatusEventIndexed_EncodeTopics UpdateRecordStatusEventIndexed_DecodeTopics
  by unfold_locales (auto simp: UpdateRecordStatusEventIndexed_EncodeTopics_def UpdateRecordStatusEventIndexed_DecodeTopics_def)

end
