(* ===== verification/Abi_Sample.thy ===== *)
theory Abi_Sample
  imports Abi_Events
begin

text \<open>
  A concrete instance of the functions of \<open>go-abi\<close> which encodes as the Ethereum ABI does,
  and the proof that it satisfies \<open>abi_ok\<close> and \<open>abi_safe\<close>.
\<close>

text \<open>A value of fixed size: the bytes of its word, written at the front of the buffer.\<close>

definition put_front :: "bytes \<Rightarrow> encoder" where
  "put_front bz buf = (if length bz \<le> length buf then Inr (length bz, bz @ drop (length bz) buf) else Inl ErrUnexpectedEOF)"

definition get_front :: "nat \<Rightarrow> (bytes \<Rightarrow> 'a) \<Rightarrow> 'a decoder" where
  "get_front n f data = (if n \<le> length data then Inr (f (take n data), n) else Inl ErrUnexpectedEOF)"

definition pad_len :: "nat \<Rightarrow> nat" where
  "pad_len n = (n + 31) div 32 * 32"

definition sample_DecodeSize :: "bytes \<Rightarrow> nat result" where
  "sample_DecodeSize data =
     (if length data < 32 then Inl ErrUnexpectedEOF
      else if take 24 data \<noteq> replicate 24 0 then Inl (ErrLib ''dirty padding'')
      else Inr (unat (from_be (take 8 (drop 24 data)) :: u64)))"

definition sample_SizeBytes :: "bytes \<Rightarrow> nat" where
  "sample_SizeBytes v = 32 + pad_len (length v)"

definition sample_EncodeBytes :: "bytes \<Rightarrow> encoder" where
  "sample_EncodeBytes v = put_front (size_word (length v) @ v @ replicate (pad_len (length v) - length v) 0)"

definition sample_DecodeBytes :: "bytes decoder" where
  "sample_DecodeBytes data =
     res_bind (sample_DecodeSize data) (\<lambda>n.
     if length data < 32 + pad_len n then Inl ErrUnexpectedEOF else Inr (take n (drop 32 data), 32 + pad_len n))"

definition char_of_byte :: "byte \<Rightarrow> char" where
  "char_of_byte b = char_of (unat b)"

definition sample_abi_base :: abi where
  "sample_abi_base = \<lparr>
     EncodeString = (\<lambda>v. sample_EncodeBytes (bytes_of_string v)),
     SizeString = (\<lambda>v. sample_SizeBytes (bytes_of_string v)),
     DecodeString = (\<lambda>data. res_bind (sample_DecodeBytes data) (\<lambda>(v, n). Inr (map char_of_byte v, n))),
     EncodeBytes = sample_EncodeBytes,
     SizeBytes = sample_SizeBytes,
     DecodeBytes = sample_DecodeBytes,
     EncodeStringSlice = (\<lambda>_ _. Inl ErrUnexpectedEOF),
     SizeStringSlice = (\<lambda>_. 0),
     DecodeStringSlice = (\<lambda>_. Inl ErrUnexpectedEOF),
     EncodeUint64 = (\<lambda>v. put_front (to_be 32 v)),
     DecodeUint64 = get_front 32 from_be,
     EncodeUint8 = (\<lambda>v. put_front (to_be 32 v)),
     DecodeUint8 = get_front 32 from_be,
     EncodeUint256 = (\<lambda>v. put_front (to_be 32 v)),
     DecodeUint256 = get_front 32 from_be,
     EncodeBool = (\<lambda>v. put_front (to_be 32 (if v then 1 else 0 :: byte))),
     DecodeBool = get_front 32 (\<lambda>bz. from_be bz = (1 :: byte)),
     EncodeAddress = (\<lambda>v. put_front (to_be 32 v)),
     DecodeAddress = get_front 32 from_be,
     DecodeSize = sample_DecodeSize,
     PackedEncodeUint64 = (\<lambda>v. put_front (to_be 8 v)),
     PackedDecodeUint64 = get_front 8 from_be,
     PackedEncodeUint8 = (\<lambda>v. put_front (to_be 1 v)),
     PackedDecodeUint8 = get_front 1 from_be,
     PackedEncodeUint256 = (\<lambda>v. put_front (to_be 32 v)),
     PackedDecodeUint256 = get_front 32 from_be,
     EmptyTuple_Encode = Inr [],
     EncodeEvent = (\<lambda>topics bz. res_bind topics (\<lambda>t. res_bind bz (\<lambda>d. Inr (t, d))))\<rparr>"

definition sample_abi :: abi where
  "sample_abi = sample_abi_base\<lparr>
     EncodeStringSlice := encode_slice (EncodeString sample_abi_base),
     SizeStringSlice := size_slice (SizeString sample_abi_base),
     DecodeStringSlice := decode_slice sample_abi_base (DecodeString sample_abi_base)\<rparr>"

lemmas sample_abi_defs = sample_abi_def sample_abi_base_def

lemma encodes_put_front: "encodes (put_front bz) bz"
  by (simp add: encodes_def put_front_def)

lemma decodes_get_front: "length bz = n \<Longrightarrow> f bz = v \<Longrightarrow> decodes (get_front n f) v bz"
  by (auto simp: decodes_def get_front_def)

lemma word_coder:
  assumes "\<And>v. length (bz v) = n" and "\<And>v. f (bz v) = v"
  shows "coder (\<lambda>v. put_front (bz v)) (\<lambda>_. n) (get_front n f)"
  unfolding coder_def
proof (intro allI impI exI conjI)
  fix v
  show "length (bz v) = n" by (rule assms(1))
  show "encodes (put_front (bz v)) (bz v)" by (rule encodes_put_front)
  show "decodes (get_front n f) v (bz v)" by (rule decodes_get_front) (rule assms)+
qed

lemma safe_get_front: "safe_dec (get_front n f)"
  by (auto simp: safe_dec_def safe_res_def get_front_def)

lemma sample_size_ok: "DecodeSize A = sample_DecodeSize \<Longrightarrow> size_ok A"
  by (simp add: size_ok_def sample_DecodeSize_def size_word_def be64_def from_be_to_be_id unat_of_nat)

lemma sample_size_safe: "DecodeSize A = sample_DecodeSize \<Longrightarrow> size_safe A"
  by (simp add: size_safe_def sample_DecodeSize_def)

lemma pad_len_ge: "n \<le> pad_len n"
  by (simp add: pad_len_def)

lemma sample_bytes_coder: "coder sample_EncodeBytes sample_SizeBytes sample_DecodeBytes"
  unfolding coder_def
proof (intro allI impI exI conjI)
  fix v
  assume small: "sample_SizeBytes v < 2 ^ 31"
  let ?bz = "size_word (length v) @ v @ replicate (pad_len (length v) - length v) 0"
  show "length ?bz = sample_SizeBytes v" using pad_len_ge [of "length v"] by (simp add: sample_SizeBytes_def)
  show "encodes (sample_EncodeBytes v) ?bz" unfolding sample_EncodeBytes_def by (rule encodes_put_front)
  from small have "length v < 2 ^ 31" using pad_len_ge [of "length v"] by (simp add: sample_SizeBytes_def)
  then have "sample_DecodeSize (size_word (length v) @ rest) = Inr (length v)" for rest
    using sample_size_ok [of sample_abi_base] by (simp add: size_ok_def sample_abi_base_def)
  then show "decodes sample_DecodeBytes v ?bz"
    using pad_len_ge [of "length v"] by (simp add: decodes_def sample_DecodeBytes_def res_bind_def)
qed

lemma char_of_byte_of_char: "char_of_byte (of_nat (of_char c)) = c"
  by (simp add: char_of_byte_def unat_of_nat)

lemma chars_of_bytes_of_string: "map char_of_byte (bytes_of_string s) = s"
  by (simp add: bytes_of_string_def char_of_byte_of_char o_def)

lemma sample_string_coder:
  "coder (EncodeString sample_abi_base) (SizeString sample_abi_base) (DecodeString sample_abi_base)"
  unfolding coder_def
proof (intro allI impI)
  fix v
  assume "SizeString sample_abi_base v < 2 ^ 31"
  then obtain bz where "length bz = sample_SizeBytes (bytes_of_string v)" "encodes (sample_EncodeBytes (bytes_of_string v)) bz"
    "decodes sample_DecodeBytes (bytes_of_string v) bz"
    using sample_bytes_coder by (auto simp: coder_def sample_abi_base_def)
  then show "\<exists>bz. length bz = SizeString sample_abi_base v \<and> encodes (EncodeString sample_abi_base v) bz \<and>
      decodes (DecodeString sample_abi_base) v bz"
    by (intro exI [of _ bz]) (simp add: sample_abi_base_def decodes_def res_bind_def chars_of_bytes_of_string)
qed

lemma sample_word_coders:
  "coder (EncodeUint64 sample_abi_base) (\<lambda>_. 32) (DecodeUint64 sample_abi_base)"
  "coder (EncodeUint8 sample_abi_base) (\<lambda>_. 32) (DecodeUint8 sample_abi_base)"
  "coder (EncodeUint256 sample_abi_base) (\<lambda>_. 32) (DecodeUint256 sample_abi_base)"
  "coder (EncodeBool sample_abi_base) (\<lambda>_. 32) (DecodeBool sample_abi_base)"
  "coder (EncodeAddress sample_abi_base) (\<lambda>_. 32) (DecodeAddress sample_abi_base)"
  "coder (PackedEncodeUint64 sample_abi_base) (\<lambda>_. 8) (PackedDecodeUint64 sample_abi_base)"
  "coder (PackedEncodeUint8 sample_abi_base) (\<lambda>_. 1) (PackedDecodeUint8 sample_abi_base)"
  "coder (PackedEncodeUint256 sample_abi_base) (\<lambda>_. 32) (PackedDecodeUint256 sample_abi_base)"
  unfolding sample_abi_base_def abi.simps by (rule word_coder; simp add: from_be_to_be_id)+

lemma sample_abi_ok: "abi_ok sample_abi"
proof -
  have "size_ok sample_abi_base" by (rule sample_size_ok) (simp add: sample_abi_base_def)
  from slice_coder [OF this sample_string_coder]
  have "coder (EncodeStringSlice sample_abi) (SizeStringSlice sample_abi) (DecodeStringSlice sample_abi)"
    by (simp add: sample_abi_def)
  moreover have "coder (EncodeBytes sample_abi) (SizeBytes sample_abi) (DecodeBytes sample_abi)"
    by (simp add: sample_abi_defs sample_bytes_coder)
  moreover have "EmptyTuple_Encode sample_abi = Inr []" "EncodeEvent sample_abi (Inr topics) (Inr bz) = Inr (topics, bz)"
    "size_ok sample_abi" for topics bz
    by (simp_all add: sample_abi_defs res_bind_def sample_size_ok)
  ultimately show ?thesis
    using sample_string_coder sample_word_coders by (simp add: abi_ok_def sample_abi_def)
qed

lemma sample_safe_bytes: "safe_dec sample_DecodeBytes"
  by (auto simp: safe_dec_def safe_res_def sample_DecodeBytes_def sample_DecodeSize_def res_bind_def)

lemma sample_safe_string: "safe_dec (DecodeString sample_abi_base)"
  using sample_safe_bytes
  by (auto simp: safe_dec_def safe_res_def sample_abi_base_def res_bind_def split: sum.splits)

lemma sample_abi_safe: "abi_safe sample_abi"
proof -
  have "size_safe sample_abi_base" by (rule sample_size_safe) (simp add: sample_abi_base_def)
  from safe_decode_slice [OF this sample_safe_string] have "safe_dec (DecodeStringSlice sample_abi)"
    by (simp add: sample_abi_def)
  moreover have "safe_dec (DecodeString sample_abi)"
    using sample_safe_string by (simp add: sample_abi_def)
  ultimately show ?thesis
    by (simp add: abi_safe_def sample_size_safe) (simp add: sample_abi_defs safe_get_front sample_safe_bytes sample_size_safe)
qed

end
