(* ===== verification/Abi_Properties.thy ===== *)
theory Abi_Properties
  imports Abi_Sample
begin

text \<open>The properties of the generated ABI code, applied to the concrete instance of the library.\<close>

lemma sample_size_string [simp]: "SizeString sample_abi s = 32 + pad_len (length s)"
  by (simp add: sample_abi_defs sample_SizeBytes_def bytes_of_string_def)

lemma sample_size_bytes [simp]: "SizeBytes sample_abi bz = 32 + pad_len (length bz)"
  by (simp add: sample_abi_defs sample_SizeBytes_def)

lemma sample_size_strings [simp]: "SizeStringSlice sample_abi ss = 32 + 32 * length ss + (\<Sum>s \<leftarrow> ss. 32 + pad_len (length s))"
  by (simp add: sample_abi_def size_slice_sum) (simp add: sample_abi_base_def sample_SizeBytes_def bytes_of_string_def)

definition sample_tuple :: RecordTuple where
  "sample_tuple = \<lparr>RecordTuple_Uri = ''u'', RecordTuple_Checksum = ''c'', RecordTuple_ChecksumAlgo = ''s'',
     RecordTuple_Metadata = ''m'', RecordTuple_Timestamp = '''', RecordTuple_Status = ''new'', RecordTuple_RecordId = 0,
     RecordTuple_Index = 0, RecordTuple_IsLatest = False, RecordTuple_RegistryId = 1\<rparr>"

text \<open>
  C36. The result of \<open>records\<close>, a slice of records and a page, survives encoding: the bytes have the
  announced size and decode to the same result, whatever follows them.
\<close>

theorem RecordsReturn_roundtrip:
  assumes "abi_ok A" and "RecordsReturn_EncodedSize A v < 2 ^ 31"
  shows "\<exists>bz. RecordsReturn_Encode A v = Inr bz \<and> length bz = RecordsReturn_EncodedSize A v \<and>
    (\<forall>rest. RecordsReturn_Decode A (bz @ rest) = Inr (v, length bz))"
  unfolding RecordsReturn_Encode_def using assms by (rule RecordsReturn_abi.encode_decode)

definition sample_return :: RecordsReturn where
  "sample_return = \<lparr>RecordsReturn_Records = [sample_tuple, sample_tuple\<lparr>RecordTuple_Index := 2\<rparr>],
     RecordsReturn_Pagination = \<lparr>PageResponse_NextKey = [1, 2], PageResponse_Total = 7\<rparr>\<rparr>"

lemmas sample_sizes = RecordsReturn_EncodedSize_def SizeRecordSlice_def size_slice_sum RecordTuple_EncodedSize_def
  PageResponse_EncodedSize_def RecordsReturnStaticSize_def RecordStaticSize_def PageResponseStaticSize_def pad_len_def

theorem RecordsReturn_roundtrip_witness:
  "\<exists>bz. RecordsReturn_Encode sample_abi sample_return = Inr bz \<and>
     length bz = RecordsReturn_EncodedSize sample_abi sample_return \<and>
     (\<forall>rest. RecordsReturn_Decode sample_abi (bz @ rest) = Inr (sample_return, length bz))"
  by (rule RecordsReturn_roundtrip [OF sample_abi_ok]) (simp add: sample_return_def sample_tuple_def sample_sizes)

text \<open>
  C37. Every tuple of the shared file survives encoding: \<open>DummyCall\<close> contains all of them, static and
  dynamic tuples, a slice of tuples and slices of strings.
\<close>

theorem DummyCall_roundtrip:
  assumes "abi_ok A" and "DummyCall_EncodedSize A v < 2 ^ 31"
  shows "\<exists>bz. DummyCall_EncodeWithSelector A v = Inr (DummySelector @ bz) \<and> length bz = DummyCall_EncodedSize A v \<and>
    (\<forall>rest. DummyCall_Decode A (bz @ rest) = Inr (v, length bz))"
  unfolding DummyCall_EncodeWithSelector_def
  by (rule DummyCall_abi.encode_selector_decode [OF assms]) (simp add: selector_defs)

definition sample_dummy :: DummyCall where
  "sample_dummy = \<lparr>
     DummyCall_A = \<lparr>Coin_Denom = ''nvnm'', Coin_Amount = 5\<rparr>,
     DummyCall_B = \<lparr>DecCoin_Denom = ''nvnm'', DecCoin_Amount = 5, DecCoin_Precision = 18\<rparr>,
     DummyCall_C = \<lparr>Dec_Value = 1, Dec_Precision = 18\<rparr>,
     DummyCall_D = \<lparr>Height_RevisionNumber = 1, Height_RevisionHeight = 2\<rparr>,
     DummyCall_E = \<lparr>PageRequest_Key = [1], PageRequest_Offset = 0, PageRequest_Limit = 10, PageRequest_CountTotal = True,
       PageRequest_Reverse = False\<rparr>,
     DummyCall_F = \<lparr>PageResponse_NextKey = [], PageResponse_Total = 3\<rparr>,
     DummyCall_G = \<lparr>ICS20Allocation_SourcePort = ''transfer'', ICS20Allocation_SourceChannel = ''channel-0'',
       ICS20Allocation_SpendLimit = [\<lparr>Coin_Denom = ''nvnm'', Coin_Amount = 5\<rparr>],
       ICS20Allocation_AllowList = [''a'', ''b''], ICS20Allocation_AllowedPacketData = []\<rparr>\<rparr>"

lemmas sample_dummy_sizes = DummyCall_EncodedSize_def DummyCallStaticSize_def Coin_EncodedSize_def CoinStaticSize_def
  DecCoin_EncodedSize_def DecCoinStaticSize_def PageRequest_EncodedSize_def PageRequestStaticSize_def
  PageResponse_EncodedSize_def PageResponseStaticSize_def ICS20Allocation_EncodedSize_def ICS20AllocationStaticSize_def
  SizeCoinSlice_def size_slice_sum pad_len_def

theorem DummyCall_roundtrip_witness:
  "\<exists>bz. DummyCall_EncodeWithSelector sample_abi sample_dummy = Inr (DummySelector @ bz) \<and>
     length bz = DummyCall_EncodedSize sample_abi sample_dummy \<and>
     (\<forall>rest. DummyCall_Decode sample_abi (bz @ rest) = Inr (sample_dummy, length bz))"
  by (rule DummyCall_roundtrip [OF sample_abi_ok]) (simp add: sample_dummy_def sample_dummy_sizes)

text \<open>
  C38. Decoding arbitrary input does not panic: none of the slice expressions in the decoders of
  the precompile's methods is ever out of range.
\<close>

theorem calls_never_panic:
  assumes "abi_safe A"
  shows "AddRecordCall_Decode A data \<noteq> Inl GoPanic \<and> AddRegistryCall_Decode A data \<noteq> Inl GoPanic \<and>
    GrantRoleCall_Decode A data \<noteq> Inl GoPanic \<and> RevokeRoleCall_Decode A data \<noteq> Inl GoPanic \<and>
    UpdateRecordStatusCall_Decode A data \<noteq> Inl GoPanic \<and> RecordsCall_Decode A data \<noteq> Inl GoPanic \<and>
    RegistriesCall_Decode A data \<noteq> Inl GoPanic \<and> RegistriesByNameCall_Decode A data \<noteq> Inl GoPanic \<and>
    RecordsReturn_Decode A data \<noteq> Inl GoPanic \<and> DummyCall_Decode A data \<noteq> Inl GoPanic"
  using assms
  by (intro conjI AddRecordCall_abi.no_panic AddRegistryCall_abi.no_panic GrantRoleCall_abi.no_panic
      RevokeRoleCall_abi.no_panic UpdateRecordStatusCall_abi.no_panic RecordsCall_abi.no_panic
      RegistriesCall_abi.no_panic RegistriesByNameCall_abi.no_panic RecordsReturn_abi.no_panic DummyCall_abi.no_panic)

theorem calls_never_panic_witness: "RecordsReturn_Decode sample_abi [1, 2, 3] \<noteq> Inl GoPanic"
  using calls_never_panic [OF sample_abi_safe, of "[1, 2, 3]"] by blast


definition sample_event :: GrantRoleEvent where
  "sample_event = NewGrantRoleEvent 1 2 ''c'' 3 ''editor''"


text \<open>The packed encoding of a decimal, 33 bytes without padding, decodes to it.\<close>

theorem Dec_packed_roundtrip:
  assumes "abi_ok A"
  shows "\<exists>bz. Dec_PackedEncode A v = Inr bz \<and> length bz = 33 \<and> (\<forall>rest. Dec_PackedDecode A (bz @ rest) = Inr (v, 33))"
  using Dec_packed.encode_decode [OF assms, of v] unfolding Dec_PackedEncode_def
  by (auto simp: Dec_PackedEncodedSize_def)

theorem Dec_packed_roundtrip_witness:
  "\<exists>bz. Dec_PackedEncode sample_abi \<lparr>Dec_Value = 5, Dec_Precision = 18\<rparr> = Inr bz \<and> length bz = 33"
  using Dec_packed_roundtrip [OF sample_abi_ok] by blast


end
