(* ===== verification/Utf8.thy ===== *)
theory Utf8
  imports Nvnm_Prelude "HOL-Library.Sublist"
begin

text \<open>
  The conversions \<open>[]rune(s)\<close> and \<open>string(runes)\<close> of Go: UTF-8 decoding, in which a byte that
  does not start a valid sequence counts as one replacement character, and encoding.
\<close>

definition RuneError :: nat where
  "RuneError = 65533"

definition between :: "nat \<Rightarrow> nat \<Rightarrow> nat \<Rightarrow> bool" where
  "between lo hi b \<longleftrightarrow> lo \<le> b \<and> b \<le> hi"

text \<open>The rune that starts with byte \<open>b\<close>, and how many of the bytes behind it belong to it.\<close>

definition rune_at :: "nat \<Rightarrow> nat list \<Rightarrow> nat \<times> nat" where
  "rune_at b bs =
     (if b < 128 then (b, 0)
      else if between 194 223 b \<and> 1 \<le> length bs \<and> between 128 191 (bs ! 0)
      then ((b - 192) * 64 + (bs ! 0 - 128), 1)
      else if between 224 239 b \<and> 2 \<le> length bs \<and>
        between (if b = 224 then 160 else 128) (if b = 237 then 159 else 191) (bs ! 0) \<and> between 128 191 (bs ! 1)
      then ((b - 224) * 4096 + (bs ! 0 - 128) * 64 + (bs ! 1 - 128), 2)
      else if between 240 244 b \<and> 3 \<le> length bs \<and>
        between (if b = 240 then 144 else 128) (if b = 244 then 143 else 191) (bs ! 0) \<and>
        between 128 191 (bs ! 1) \<and> between 128 191 (bs ! 2)
      then ((b - 240) * 262144 + (bs ! 0 - 128) * 4096 + (bs ! 1 - 128) * 64 + (bs ! 2 - 128), 3)
      else (RuneError, 0))"

fun decode_runes :: "nat list \<Rightarrow> nat list" where
  "decode_runes [] = []"
| "decode_runes (b # bs) = fst (rune_at b bs) # decode_runes (drop (snd (rune_at b bs)) bs)"

definition valid_rune :: "nat \<Rightarrow> bool" where
  "valid_rune r \<longleftrightarrow> r < 1114112 \<and> \<not> between 55296 57343 r"

definition encode_rune :: "nat \<Rightarrow> nat list" where
  "encode_rune r0 =
     (let r = (if valid_rune r0 then r0 else RuneError) in
      if r < 128 then [r]
      else if r < 2048 then [192 + r div 64, 128 + r mod 64]
      else if r < 65536 then [224 + r div 4096, 128 + r div 64 mod 64, 128 + r mod 64]
      else [240 + r div 262144, 128 + r div 4096 mod 64, 128 + r div 64 mod 64, 128 + r mod 64])"

definition runes :: "string \<Rightarrow> nat list" where
  "runes s = decode_runes (map of_char s)"

definition string_of_runes :: "nat list \<Rightarrow> string" where
  "string_of_runes rs = map char_of (concat (map encode_rune rs))"

text \<open>A string of valid UTF-8.\<close>

definition valid_utf8 :: "string \<Rightarrow> bool" where
  "valid_utf8 s \<longleftrightarrow> (\<exists>rs. list_all valid_rune rs \<and> s = string_of_runes rs)"

lemma split_two: "(r :: nat) = r div 64 * 64 + r mod 64"
  by simp

lemma split_three: "(r :: nat) = r div 4096 * 4096 + r div 64 mod 64 * 64 + r mod 64"
proof -
  have "r div 64 = r div 4096 * 64 + r div 64 mod 64"
    using split_two [of "r div 64"] by (simp flip: div_mult2_eq)
  with split_two [of r] show ?thesis by linarith
qed

lemma split_four: "(r :: nat) = r div 262144 * 262144 + r div 4096 mod 64 * 4096 + r div 64 mod 64 * 64 + r mod 64"
proof -
  have "r div 4096 = r div 262144 * 64 + r div 4096 mod 64"
    using split_two [of "r div 4096"] by (simp flip: div_mult2_eq)
  with split_three [of r] show ?thesis by linarith
qed

lemma decode_two:
  "128 \<le> r \<Longrightarrow> r < 2048 \<Longrightarrow> rune_at (192 + r div 64) ((128 + r mod 64) # bs) = (r, 1)"
  by (auto simp: rune_at_def between_def)

lemma decode_three:
  assumes "2048 \<le> r" and "r < 65536" and "valid_rune r"
  shows "rune_at (224 + r div 4096) ((128 + r div 64 mod 64) # (128 + r mod 64) # bs) = (r, 2)"
proof -
  define x y z where "x = r div 4096" and "y = r div 64 mod 64" and "z = r mod 64"
  have r: "r = x * 4096 + y * 64 + z" unfolding x_def y_def z_def by (rule split_three)
  have b: "x < 16" "y < 64" "z < 64" using assms(2) by (auto simp: x_def y_def z_def less_mult_imp_div_less)
  have "x = 0 \<Longrightarrow> 32 \<le> y" using assms(1) r b by linarith
  moreover have "x = 13 \<Longrightarrow> y < 32"
    using assms(3) r b by (auto simp: valid_rune_def between_def)
  ultimately have "rune_at (224 + x) ((128 + y) # (128 + z) # bs) = (x * 4096 + y * 64 + z, 2)"
    using b by (auto simp: rune_at_def between_def)
  then have "rune_at (224 + x) ((128 + y) # (128 + z) # bs) = (r, 2)" by (simp only: r [symmetric])
  then show ?thesis by (simp only: x_def y_def z_def)
qed

lemma decode_four:
  assumes "65536 \<le> r" and "valid_rune r"
  shows "rune_at (240 + r div 262144) ((128 + r div 4096 mod 64) # (128 + r div 64 mod 64) # (128 + r mod 64) # bs) = (r, 3)"
proof -
  define w x y z where "w = r div 262144" and "x = r div 4096 mod 64" and "y = r div 64 mod 64" and "z = r mod 64"
  have r: "r = w * 262144 + x * 4096 + y * 64 + z" unfolding w_def x_def y_def z_def by (rule split_four)
  have lim: "r < 1114112" using assms(2) by (simp add: valid_rune_def)
  have b: "x < 64" "y < 64" "z < 64" by (auto simp: x_def y_def z_def)
  have "w \<le> 4" using lim r by linarith
  moreover have "w = 0 \<Longrightarrow> 16 \<le> x" using assms(1) r b by linarith
  moreover have "w = 4 \<Longrightarrow> x < 16" using lim r by linarith
  ultimately have "rune_at (240 + w) ((128 + x) # (128 + y) # (128 + z) # bs) =
      (w * 262144 + x * 4096 + y * 64 + z, 3)"
    using b by (auto simp: rune_at_def between_def)
  then have "rune_at (240 + w) ((128 + x) # (128 + y) # (128 + z) # bs) = (r, 3)" by (simp only: r [symmetric])
  then show ?thesis by (simp only: w_def x_def y_def z_def)
qed

lemma decode_encode_rune:
  assumes "valid_rune r"
  shows "decode_runes (encode_rune r @ bs) = r # decode_runes bs"
proof -
  consider "r < 128" | "128 \<le> r" "r < 2048" | "2048 \<le> r" "r < 65536" | "65536 \<le> r" by linarith
  then show ?thesis
  proof cases
    case 1
    then show ?thesis using assms by (simp add: encode_rune_def Let_def rune_at_def)
  next
    case 2
    then show ?thesis using assms decode_two [of r bs] by (simp add: encode_rune_def Let_def)
  next
    case 3
    then show ?thesis using assms decode_three [of r bs] by (simp add: encode_rune_def Let_def)
  next
    case 4
    then show ?thesis using assms decode_four [of r bs] by (simp add: encode_rune_def Let_def)
  qed
qed

lemma decode_encode_runes: "list_all valid_rune rs \<Longrightarrow> decode_runes (concat (map encode_rune rs) @ bs) = rs @ decode_runes bs"
  by (induction rs) (simp_all add: decode_encode_rune)

lemma encode_rune_bytes: "\<forall>b \<in> set (encode_rune r). b < 256"
proof -
  have "(if valid_rune r then r else RuneError) < 1114112" by (simp add: valid_rune_def RuneError_def)
  then show ?thesis by (auto simp: encode_rune_def Let_def less_mult_imp_div_less)
qed

lemma of_char_string_of_runes: "map of_char (string_of_runes rs) = concat (map encode_rune rs)"
proof -
  have "\<forall>b \<in> set (concat (map encode_rune rs)). b < 256" using encode_rune_bytes by auto
  then have "map (\<lambda>b. b mod 256) (concat (map encode_rune rs)) = concat (map encode_rune rs)"
    by (intro map_idI) auto
  then show ?thesis by (simp add: string_of_runes_def o_def)
qed

text \<open>Decoding what was encoded, with any bytes behind it.\<close>

lemma runes_string_of_runes_append:
  "list_all valid_rune rs \<Longrightarrow> runes (string_of_runes rs @ s) = rs @ runes s"
  by (simp add: runes_def of_char_string_of_runes decode_encode_runes)

lemma runes_string_of_runes: "list_all valid_rune rs \<Longrightarrow> runes (string_of_runes rs) = rs"
  using runes_string_of_runes_append [of rs "[]"] by (simp add: runes_def)

lemma string_of_runes_runes: "valid_utf8 s \<Longrightarrow> string_of_runes (runes s) = s"
  by (auto simp: valid_utf8_def runes_string_of_runes)

lemma valid_utf8_runes: "valid_utf8 s \<Longrightarrow> list_all valid_rune (runes s)"
  by (auto simp: valid_utf8_def runes_string_of_runes)

text \<open>UTF-8 is a prefix code: strings extend one another exactly if their runes do.\<close>

lemma prefix_string_of_runes:
  assumes "list_all valid_rune a" and "list_all valid_rune b"
  shows "prefix (string_of_runes a) (string_of_runes b) \<longleftrightarrow> prefix a b"
proof
  assume "prefix (string_of_runes a) (string_of_runes b)"
  then obtain t where "string_of_runes b = string_of_runes a @ t" by (auto simp: prefix_def)
  then have "runes (string_of_runes b) = a @ runes t" by (simp add: runes_string_of_runes_append [OF assms(1)])
  then show "prefix a b" by (simp add: runes_string_of_runes [OF assms(2)])
next
  assume "prefix a b"
  then show "prefix (string_of_runes a) (string_of_runes b)" by (auto simp: prefix_def string_of_runes_def)
qed

end
