(* ===== verification/Name_Index.thy ===== *)
theory Name_Index
  imports Anchoring_Keeper Utf8
begin

text \<open>
  \<open>x/anchoring/nameindex\<close> and \<open>keeper/nameindex_backfill.go\<close>: the local index of registry names.
  The SQLite database is its table \<open>registries\<close> and the full-text table kept by the triggers.
  The statements are evaluated as SQL defines them: \<open>LIKE ... ESCAPE\<close> by \<open>like\<close>, the selection,
  order, limit and offset by \<open>select_page\<close>. Failures of the disk are not modelled.
\<close>

section \<open>Library functions\<close>

text \<open>
  \<open>strings.ToLower\<close>; the binary codec of registries; and \<open>FtsMatch phrase text\<close>, the \<open>MATCH\<close>
  operator of an FTS5 table with trigram tokens.
\<close>

record index_lib =
  ToLower :: "string \<Rightarrow> string"
  Marshal :: "Registry \<Rightarrow> bytes result"
  Unmarshal :: "bytes \<Rightarrow> Registry result"
  FtsMatch :: "string \<Rightarrow> string \<Rightarrow> bool"

section \<open>The store\<close>

type_synonym RegistryNameMatchMode = int

definition MATCH_EXACT :: RegistryNameMatchMode where "MATCH_EXACT = 1"
definition MATCH_PREFIX :: RegistryNameMatchMode where "MATCH_PREFIX = 2"
definition MATCH_SUFFIX :: RegistryNameMatchMode where "MATCH_SUFFIX = 3"
definition MATCH_CONTAINS :: RegistryNameMatchMode where "MATCH_CONTAINS = 4"

lemmas match_mode_defs = MATCH_EXACT_def MATCH_PREFIX_def MATCH_SUFFIX_def MATCH_CONTAINS_def

definition MinContainsQueryLen :: nat where "MinContainsQueryLen = 3"

definition ErrContainsTooShort :: error where
  "ErrContainsTooShort = ErrMsg ''contains query needs at least 3 characters''"

record row =
  name_lower :: string
  name_rev_lower :: string
  row_data :: bytes

text \<open>The table \<open>registries\<close> by primary key, and the content of \<open>registries_fts\<close> by row id.\<close>

record Store =
  table :: "(u64, row) coll"
  fts :: "(u64, string) coll"

definition Count :: "Store \<Rightarrow> u64" where
  "Count s = of_nat (length (centries (table s)))"

text \<open>\<open>reverse\<close> exchanges the runes from both ends, which reverses the list of runes.\<close>

definition reverse :: "string \<Rightarrow> string" where
  "reverse s = string_of_runes (rev (runes s))"

text \<open>
  The row of a registry, and its insertion or update, with what the triggers do. The driver
  refuses integers of 64 bits with the high bit set.
\<close>

definition registry_row :: "index_lib \<Rightarrow> bytes \<Rightarrow> Registry \<Rightarrow> row" where
  "registry_row L bz reg =
     (let lower = ToLower L (reg_Name reg)
      in \<lparr>name_lower = lower, name_rev_lower = reverse lower, row_data = bz\<rparr>)"

definition upsert :: "index_lib \<Rightarrow> Registry \<Rightarrow> (Store, unit) act" where
  "upsert L reg =
     act_bind (act_try (res_map_err (ErrWrap (''nameindex: marshal registry '' @ sprint_u64 (reg_Id reg))) (Marshal L reg))) (\<lambda>bz.
     if 2 ^ 63 \<le> reg_Id reg
     then act_fail (ErrWrap (''nameindex: upsert registry '' @ sprint_u64 (reg_Id reg)) (ErrLib ''uint64 values with high bit set are not supported''))
     else act_put (\<lambda>s. s\<lparr>table := cset (reg_Id reg) (registry_row L bz reg) (table s),
                        fts := cset (reg_Id reg) (ToLower L (reg_Name reg)) (fts s)\<rparr>))"

text \<open>\<open>Store.Upsert\<close> runs in a transaction of its own.\<close>

definition Upsert :: "index_lib \<Rightarrow> Registry \<Rightarrow> (Store, unit) act" where
  "Upsert L reg s = (case upsert L reg s of (Inl e, _) \<Rightarrow> (Inl e, s) | (Inr u, s') \<Rightarrow> (Inr u, s'))"

text \<open>
  A batch works on the state of its transaction; \<open>Commit\<close> publishes it, and the deferred
  \<open>Close\<close> rolls it back after an error.
\<close>

definition run_batch :: "(Store, unit) act \<Rightarrow> (Store, unit) act" where
  "run_batch body s = (case body s of (Inl e, _) \<Rightarrow> (Inl e, s) | (Inr u, s') \<Rightarrow> (Inr u, s'))"

section \<open>Search\<close>

definition backslash :: char where "backslash = CHR 0x5C"
definition quotes :: char where "quotes = CHR 0x22"

definition escapeLike :: "string \<Rightarrow> string" where
  "escapeLike s = concat (map (\<lambda>c. if c = backslash \<or> c = CHR ''%'' \<or> c = CHR ''_'' then [backslash, c] else [c]) s)"

definition ftsPhrase :: "string \<Rightarrow> string" where
  "ftsPhrase s = [quotes] @ concat (map (\<lambda>c. if c = quotes then [quotes, quotes] else [c]) s) @ [quotes]"

text \<open>The statements of \<open>searchStmt\<close>; the lowercased query is folded into the argument.\<close>

datatype stmt = SelectFtsMatch | SelectNameLike | SelectRevNameLike | SelectNameEq

definition searchStmt :: "RegistryNameMatchMode \<Rightarrow> string \<Rightarrow> stmt \<times> string" where
  "searchStmt mode lower =
     (if mode = MATCH_CONTAINS then (SelectFtsMatch, ftsPhrase lower)
      else if mode = MATCH_PREFIX then (SelectNameLike, escapeLike lower @ ''%'')
      else if mode = MATCH_SUFFIX then (SelectRevNameLike, escapeLike (reverse lower) @ ''%'')
      else (SelectNameEq, lower))"

text \<open>\<open>LIKE pattern ESCAPE '\'\<close>, case sensitive.\<close>

fun like :: "string \<Rightarrow> string \<Rightarrow> bool" where
  "like [] s = (s = [])"
| "like (p # ps) s =
     (if p = CHR ''%'' then like ps s \<or> (case s of [] \<Rightarrow> False | _ # s' \<Rightarrow> like (p # ps) s')
      else if p = CHR ''_'' then (case s of [] \<Rightarrow> False | _ # s' \<Rightarrow> like ps s')
      else if p = backslash then
        (case ps of [] \<Rightarrow> False | q # qs \<Rightarrow> (case s of [] \<Rightarrow> False | c # s' \<Rightarrow> c = q \<and> like qs s'))
      else (case s of [] \<Rightarrow> False | c # s' \<Rightarrow> c = p \<and> like ps s'))"

text \<open>The rows a statement selects, before order, limit and offset.\<close>

fun selects :: "index_lib \<Rightarrow> Store \<Rightarrow> stmt \<Rightarrow> string \<Rightarrow> u64 \<Rightarrow> row \<Rightarrow> bool" where
  "selects L s SelectFtsMatch arg rid r = (case cget (fts s) rid of None \<Rightarrow> False | Some text \<Rightarrow> FtsMatch L arg text)"
| "selects L s SelectNameLike arg rid r = like arg (name_lower r)"
| "selects L s SelectRevNameLike arg rid r = like arg (name_rev_lower r)"
| "selects L s SelectNameEq arg rid r = (name_lower r = arg)"

definition select_page :: "index_lib \<Rightarrow> Store \<Rightarrow> stmt \<times> string \<Rightarrow> u64 \<Rightarrow> nat \<Rightarrow> nat \<Rightarrow> (u64 \<times> row) list" where
  "select_page L s st start limit offset =
     take limit (drop offset (filter (\<lambda>(id, r). selects L s (fst st) (snd st) id r \<and> start \<le> id) (centries (table s))))"

definition MaxInt64 :: u64 where "MaxInt64 = 2 ^ 63 - 1"

text \<open>The loop over the rows: the row after a full page only gives the start of the next one.\<close>

fun scan_rows :: "index_lib \<Rightarrow> u64 \<Rightarrow> (u64 \<times> row) list \<Rightarrow> Registry list \<Rightarrow> (Registry list \<times> u64) result" where
  "scan_rows L limit [] results = Inr (results, 0)"
| "scan_rows L limit ((rid, r) # rows) results =
     (if of_nat (length results) = limit then Inr (results, rid)
      else res_bind (res_map_err (ErrWrap ''nameindex: decode registry'') (Unmarshal L (row_data r))) (\<lambda>reg.
           scan_rows L limit rows (results @ [reg])))"

definition Search :: "index_lib \<Rightarrow> RegistryNameMatchMode \<Rightarrow> string \<Rightarrow> u64 \<Rightarrow> u64 \<Rightarrow> u64 \<Rightarrow> Store \<Rightarrow> (Registry list \<times> u64) result" where
  "Search L mode query start limit offset s =
     (if mode = MATCH_CONTAINS \<and> length (runes query) < MinContainsQueryLen then Inl ErrContainsTooShort
      else
        let st = searchStmt mode (ToLower L query);
            start = min start MaxInt64; limit = min limit (MaxInt64 - 1); offset = min offset MaxInt64
        in scan_rows L limit (select_page L s st start (unat limit + 1) (unat offset)) [])"

section \<open>The listener and the backfill\<close>

record StoreKVPair =
  kv_StoreKey :: string
  kv_Delete :: bool
  kv_Key :: bytes
  kv_Value :: bytes

definition RegistriesKeyPrefix :: bytes where "RegistriesKeyPrefix = [1]"

definition HasPrefix :: "bytes \<Rightarrow> bytes \<Rightarrow> bool" where
  "HasPrefix bz pre \<longleftrightarrow> take (length pre) bz = pre"

fun decode_changes :: "index_lib \<Rightarrow> StoreKVPair list \<Rightarrow> Registry list result" where
  "decode_changes L [] = Inr []"
| "decode_changes L (pair # changeSet) =
     (if kv_StoreKey pair \<noteq> ''anchoring'' \<or> kv_Delete pair \<or> \<not> HasPrefix (kv_Key pair) RegistriesKeyPrefix
      then decode_changes L changeSet
      else res_bind (res_map_err (ErrWrap ''nameindex: decode registry write'') (Unmarshal L (kv_Value pair))) (\<lambda>reg.
           res_bind (decode_changes L changeSet) (\<lambda>regs. Inr (reg # regs))))"

definition ListenCommit :: "index_lib \<Rightarrow> StoreKVPair list \<Rightarrow> (Store, unit) act" where
  "ListenCommit L changeSet =
     act_bind (act_try (decode_changes L changeSet)) (\<lambda>regs.
     if regs = [] then act_return () else run_batch (act_each (upsert L) regs))"

definition backfill_callback :: "index_lib \<Rightarrow> u64 \<times> Registry \<Rightarrow> (Store, bool) act" where
  "backfill_callback L = (\<lambda>(i, reg) s.
     case upsert L reg s of
       (Inl e, s') \<Rightarrow> (Inl (ErrWrap (''backfill registry '' @ sprint_u64 (reg_Id reg)) e), s')
     | (Inr _, s') \<Rightarrow> (Inr False, s'))"

definition BackfillNameIndex :: "index_lib \<Rightarrow> 'z keeper_scheme \<Rightarrow> Store option \<Rightarrow> unit result \<times> Store option" where
  "BackfillNameIndex L k idx =
     (case idx of None \<Rightarrow> (Inr (), None)
      | Some s \<Rightarrow>
          let total = (case RegistryCount k of None \<Rightarrow> 0 | Some n \<Rightarrow> n) in
          if Count s = total then (Inr (), Some s)
          else apsnd Some (run_batch (walk (backfill_callback L) (centries (Registries k))) s))"

section \<open>Configuration\<close>

record Config =
  Enabled :: bool
  DBPath :: string

definition defaultDBPath :: string where "defaultDBPath = ''anchoring_name_index.db''"

text \<open>\<open>ReadConfig\<close>, with \<open>filepath.IsAbs\<close>, \<open>filepath.Join\<close> and the two options it reads as arguments.\<close>

definition ReadConfig :: "(string \<Rightarrow> bool) \<Rightarrow> (string list \<Rightarrow> string) \<Rightarrow> bool \<Rightarrow> string \<Rightarrow> string \<Rightarrow> Config" where
  "ReadConfig IsAbs Join enabled dbPath0 homeDir =
     (let dbPath1 = (if dbPath0 = '''' then defaultDBPath else dbPath0);
          dbPath = (if IsAbs dbPath1 then dbPath1 else Join [homeDir, ''data'', dbPath1])
      in \<lparr>Enabled = enabled, DBPath = dbPath\<rparr>)"

definition DefaultConfig :: Config where
  "DefaultConfig = \<lparr>Enabled = False, DBPath = defaultDBPath\<rparr>"

end
