(* ===== verification/Name_Index_Safety.thy ===== *)
theory Name_Index_Safety
  imports Name_Index Keeper_Invariant
begin

text \<open>
  What a search returns, in terms of the registries of the chain; that paging by the returned
  keys visits every match once; and that the listener and the backfill keep the index in step
  with the chain.
\<close>

section \<open>Patterns\<close>

lemma like_percent: "like ''%'' s"
  by (induction s) auto

lemma like_escapeLike: "like (escapeLike q @ ps) s \<longleftrightarrow> (\<exists>t. s = q @ t \<and> like ps t)"
proof (induction q arbitrary: s)
  case (Cons c q)
  have step: "escapeLike (c # q) @ ps =
      (if c = backslash \<or> c = CHR ''%'' \<or> c = CHR ''_'' then [backslash, c] else [c]) @ escapeLike q @ ps"
    by (simp add: escapeLike_def)
  show ?case unfolding step by (cases s) (auto simp: Cons backslash_def)
qed (simp add: escapeLike_def)

text \<open>The escaped pattern of a prefix search matches exactly the strings that start with it.\<close>

lemma like_prefix: "like (escapeLike q @ ''%'') s \<longleftrightarrow> prefix q s"
  unfolding like_escapeLike using like_percent by (auto simp only: prefix_def)

lemma prefix_reverse:
  assumes "valid_utf8 q" and "valid_utf8 n"
  shows "prefix (reverse q) (reverse n) \<longleftrightarrow> suffix (runes q) (runes n)"
proof -
  have "prefix (rev (runes q)) (rev (runes n)) \<longleftrightarrow> suffix (runes q) (runes n)"
    by (simp add: suffix_to_prefix)
  moreover have "list_all valid_rune (rev (runes q))" "list_all valid_rune (rev (runes n))"
    using assms [THEN valid_utf8_runes] by simp_all
  ultimately show ?thesis by (simp add: reverse_def prefix_string_of_runes)
qed

section \<open>The index and the chain\<close>

text \<open>
  The binary codec reads back what it wrote, and a phrase of at least three runes matches the
  texts that contain it.
\<close>

definition index_ok :: "index_lib \<Rightarrow> bool" where
  "index_ok L \<longleftrightarrow>
     (\<forall>reg. \<exists>bz. Marshal L reg = Inr bz \<and> Unmarshal L bz = Inr reg) \<and>
     (\<forall>q n. 3 \<le> length (runes q) \<longrightarrow> FtsMatch L (ftsPhrase (ToLower L q)) (ToLower L n) = sublist (ToLower L q) (ToLower L n)) \<and>
     (\<forall>q. valid_utf8 (ToLower L q))"

definition row_of :: "index_lib \<Rightarrow> Registry \<Rightarrow> row" where
  "row_of L reg = registry_row L (projr (Marshal L reg)) reg"

text \<open>The index holds the rows of these registries: of all of them, or of no others.\<close>

definition synced :: "index_lib \<Rightarrow> (u64, Registry) coll \<Rightarrow> Store \<Rightarrow> bool" where
  "synced L R s \<longleftrightarrow>
     (\<forall>i. cget (table s) i = map_option (row_of L) (cget R i)) \<and>
     (\<forall>i. cget (fts s) i = map_option (\<lambda>reg. ToLower L (reg_Name reg)) (cget R i))"

definition within :: "index_lib \<Rightarrow> (u64, Registry) coll \<Rightarrow> Store \<Rightarrow> bool" where
  "within L R s \<longleftrightarrow>
     (\<forall>i r. cget (table s) i = Some r \<longrightarrow>
        (\<exists>reg. cget R i = Some reg \<and> r = row_of L reg \<and> cget (fts s) i = Some (ToLower L (reg_Name reg)))) \<and>
     (\<forall>i t. cget (fts s) i = Some t \<longrightarrow> chas (table s) i)"

lemma Marshal_ok: "index_ok L \<Longrightarrow> Marshal L reg = Inr (projr (Marshal L reg))"
  by (metis index_ok_def sum.sel(2))

lemma Unmarshal_row: "index_ok L \<Longrightarrow> Unmarshal L (row_data (row_of L reg)) = Inr reg"
  unfolding row_of_def registry_row_def Let_def by (simp, metis index_ok_def sum.sel(2))

lemma row_of_names [simp]: "name_lower (row_of L reg) = ToLower L (reg_Name reg)"
  "name_rev_lower (row_of L reg) = reverse (ToLower L (reg_Name reg))"
  by (simp_all add: row_of_def registry_row_def Let_def)

definition indexed :: "index_lib \<Rightarrow> Registry \<Rightarrow> Store \<Rightarrow> Store" where
  "indexed L reg s = s\<lparr>table := cset (reg_Id reg) (row_of L reg) (table s),
     fts := cset (reg_Id reg) (ToLower L (reg_Name reg)) (fts s)\<rparr>"

lemma upsert_run:
  assumes "index_ok L" and "reg_Id reg < 2 ^ 63"
  shows "upsert L reg s = (Inr (), indexed L reg s)"
proof -
  obtain bz where bz: "Marshal L reg = Inr bz" using Marshal_ok [OF assms(1)] by blast
  show ?thesis
    unfolding upsert_def act_bind_try_Inr_iff
    by (rule exI [of _ bz]) (use assms(2) in \<open>simp add: bz indexed_def row_of_def not_le [symmetric]\<close>)
qed

lemma centries_map:
  assumes "\<And>i. cget m i = map_option f (cget m' i)"
  shows "centries m = map (\<lambda>(i, v). (i, f v)) (centries m')"
proof -
  have "cget m i = None \<longleftrightarrow> cget m' i = None" for i using assms by simp
  then have "fst ` set (centries m) = fst ` set (centries m')"
    unfolding kv.get_None_iff by blast
  then have keys: "map fst (centries m) = map fst (centries m')"
    using centries_sorted [of m] centries_sorted [of m'] by (intro strict_sorted_equal) auto
  show ?thesis
  proof (rule pair_list_eqI)
    show "map fst (centries m) = map fst (map (\<lambda>(i, v). (i, f v)) (centries m'))"
      by (simp add: keys case_prod_beta o_def)
    have "snd (centries m ! n) = f (snd (centries m' ! n))" if n: "n < length (centries m')" for n
    proof -
      have len: "length (centries m) = length (centries m')" using keys by (metis length_map)
      have key: "fst (centries m ! n) = fst (centries m' ! n)"
        using keys n len by (metis nth_map)
      have "cget m (fst (centries m ! n)) = Some (snd (centries m ! n))"
        "cget m' (fst (centries m' ! n)) = Some (snd (centries m' ! n))"
        using n len by (simp_all flip: kv.mem_entries_iff)
      then show ?thesis using assms [of "fst (centries m' ! n)"] key by simp
    qed
    then show "map snd (centries m) = map snd (map (\<lambda>(i, v). (i, f v)) (centries m'))"
      using keys by (intro nth_equalityI) (auto simp: case_prod_beta dest: map_eq_imp_length_eq)
  qed
qed

section \<open>Searching\<close>

text \<open>What a match is, and the matches from an id on, in the order of their ids.\<close>

definition name_matches :: "index_lib \<Rightarrow> RegistryNameMatchMode \<Rightarrow> string \<Rightarrow> string \<Rightarrow> bool" where
  "name_matches L mode q n =
     (let lq = ToLower L q; ln = ToLower L n
      in if mode = MATCH_CONTAINS then sublist lq ln
         else if mode = MATCH_PREFIX then prefix lq ln
         else if mode = MATCH_SUFFIX then suffix (runes lq) (runes ln)
         else ln = lq)"

definition matches_from :: "index_lib \<Rightarrow> RegistryNameMatchMode \<Rightarrow> string \<Rightarrow> u64 \<Rightarrow> (u64, Registry) coll \<Rightarrow> (u64 \<times> Registry) list" where
  "matches_from L mode q start R = filter (\<lambda>(i, reg). name_matches L mode q (reg_Name reg) \<and> start \<le> i) (centries R)"

lemma selects_iff:
  assumes "index_ok L" and "synced L R s" and "cget R i = Some reg"
    and "mode = MATCH_CONTAINS \<longrightarrow> MinContainsQueryLen \<le> length (runes q)"
  shows "selects L s (fst (searchStmt mode (ToLower L q))) (snd (searchStmt mode (ToLower L q))) i (row_of L reg) \<longleftrightarrow>
    name_matches L mode q (reg_Name reg)"
proof -
  have "cget (fts s) i = Some (ToLower L (reg_Name reg))"
    using assms(2,3) by (simp add: synced_def)
  moreover have "mode = MATCH_CONTAINS \<longrightarrow>
      FtsMatch L (ftsPhrase (ToLower L q)) (ToLower L (reg_Name reg)) = sublist (ToLower L q) (ToLower L (reg_Name reg))"
    using assms(1,4) by (simp add: index_ok_def MinContainsQueryLen_def)
  moreover have "prefix (reverse (ToLower L q)) (reverse (ToLower L (reg_Name reg))) \<longleftrightarrow>
      suffix (runes (ToLower L q)) (runes (ToLower L (reg_Name reg)))"
    using assms(1) by (intro prefix_reverse) (simp_all add: index_ok_def)
  ultimately show ?thesis
    by (simp add: searchStmt_def name_matches_def Let_def like_prefix del: like.simps)
qed

lemma select_page_matches:
  assumes "index_ok L" and "synced L R s" and "mode = MATCH_CONTAINS \<longrightarrow> MinContainsQueryLen \<le> length (runes q)"
  shows "select_page L s (searchStmt mode (ToLower L q)) start limit offset =
    map (\<lambda>(i, reg). (i, row_of L reg)) (take limit (drop offset (matches_from L mode q start R)))"
proof -
  let ?st = "searchStmt mode (ToLower L q)"
  have "centries (table s) = map (\<lambda>(i, reg). (i, row_of L reg)) (centries R)"
    using assms(2) by (intro centries_map) (simp add: synced_def)
  moreover have "filter (\<lambda>e. selects L s (fst ?st) (snd ?st) (fst e) (row_of L (snd e)) \<and> start \<le> fst e) (centries R) =
      filter (\<lambda>e. name_matches L mode q (reg_Name (snd e)) \<and> start \<le> fst e) (centries R)"
    using selects_iff [OF assms(1,2) _ assms(3)] by (intro filter_cong) (auto simp: kv.mem_entries_iff)
  ultimately show ?thesis
    by (simp add: select_page_def matches_from_def filter_map take_map drop_map o_def case_prod_unfold)
qed

lemma of_nat_eq_iff_length: "n \<le> unat (limit :: u64) \<Longrightarrow> of_nat n = limit \<longleftrightarrow> n = unat limit"
  using unsigned_less [of limit, where ?'a = nat] by (auto simp: word_unat_eq_iff unat_of_nat)

lemma scan_rows_page:
  assumes "index_ok L"
  shows "length acc \<le> unat limit \<Longrightarrow>
    scan_rows L limit (map (\<lambda>(i, reg). (i, row_of L reg)) ms) acc =
    Inr (acc @ map snd (take (unat limit - length acc) ms),
         if unat limit - length acc < length ms then fst (ms ! (unat limit - length acc)) else 0)"
proof (induction ms arbitrary: acc)
  case (Cons m ms)
  show ?case
  proof (cases "length acc = unat limit")
    case True
    then show ?thesis by (cases m) (simp add: of_nat_eq_iff_length)
  next
    case False
    then have "Suc (length acc) \<le> unat limit" and ne: "of_nat (length acc) \<noteq> limit"
      using Cons.prems by (simp_all add: of_nat_eq_iff_length)
    moreover from this(1) have "unat limit - length acc = Suc (unat limit - Suc (length acc))" by simp
    ultimately show ?thesis
      using Cons.IH [of "acc @ [snd m]"] by (cases m) (simp add: res_bind_def res_map_err_def Unmarshal_row [OF assms])
  qed
qed simp

text \<open>A search returns the page of matches, and the id of the match behind it or zero.\<close>

lemma Search_page:
  assumes "index_ok L" and "synced L R s" and "mode = MATCH_CONTAINS \<longrightarrow> MinContainsQueryLen \<le> length (runes q)"
    and "limit < MaxInt64" and "start \<le> MaxInt64" and "offset \<le> MaxInt64"
  shows "Search L mode q start limit offset s =
    (let ms = drop (unat offset) (matches_from L mode q start R)
     in Inr (map snd (take (unat limit) ms), if unat limit < length ms then fst (ms ! unat limit) else 0))"
proof -
  have "limit \<le> MaxInt64 - 1"
    using assms(4) by (simp add: MaxInt64_def) unat_arith
  then have "Search L mode q start limit offset s =
      scan_rows L limit (select_page L s (searchStmt mode (ToLower L q)) start (unat limit + 1) (unat offset)) []"
    using assms(3,5,6) by (auto simp: Search_def Let_def min_absorb1)
  also have "\<dots> = (let ms = drop (unat offset) (matches_from L mode q start R)
     in Inr (map snd (take (unat limit) ms), if unat limit < length ms then fst (ms ! unat limit) else 0))"
    unfolding select_page_matches [OF assms(1-3)] Let_def by (simp add: scan_rows_page [OF assms(1)] min_def)
  finally show ?thesis .
qed

text \<open>The matches from the returned id on are those behind the page.\<close>

lemma sorted_matches: "sorted_wrt (<) (map fst (matches_from L mode q start R))"
  using centries_sorted [of R] by (simp add: matches_from_def sorted_wrt_map sorted_wrt_filter)

lemma filter_sorted_nth:
  fixes ms :: "('a :: linorder \<times> 'b) list"
  assumes "sorted_wrt (<) (map fst ms)" and "n < length ms"
  shows "filter (\<lambda>e. fst (ms ! n) \<le> fst e) ms = drop n ms"
proof -
  obtain xs m ys where ms: "ms = xs @ m # ys" and n: "length xs = n"
    using id_take_nth_drop [OF assms(2)] assms(2) by (metis length_take min.absorb4)
  from assms(1) have "\<forall>x \<in> set xs. fst x < fst m" "\<forall>y \<in> set ys. fst m < fst y"
    by (auto simp: ms sorted_wrt_append)
  then have "filter (\<lambda>e. fst m \<le> fst e) xs = []" "filter (\<lambda>e. fst m \<le> fst e) ys = ys"
    by (auto simp: filter_empty_conv filter_id_conv)
  then show ?thesis using n by (auto simp: ms nth_append)
qed

lemma matches_from_later:
  "start \<le> start' \<Longrightarrow> matches_from L mode q start' R = filter (\<lambda>e. start' \<le> fst e) (matches_from L mode q start R)"
  unfolding matches_from_def filter_filter by (intro filter_cong) auto

lemma matches_from_nth:
  assumes "n < length (matches_from L mode q start R)"
  shows "matches_from L mode q (fst (matches_from L mode q start R ! n)) R = drop n (matches_from L mode q start R)"
proof -
  have "start \<le> fst (matches_from L mode q start R ! n)"
    using nth_mem [OF assms] by (auto simp: matches_from_def)
  from matches_from_later [OF this] show ?thesis
    by (simp add: filter_sorted_nth [OF sorted_matches assms])
qed

text \<open>So a client that passes the returned id back gets every match, each once.\<close>

lemma Search_next:
  assumes "index_ok L" and "synced L R s" and "mode = MATCH_CONTAINS \<longrightarrow> MinContainsQueryLen \<le> length (runes q)"
    and "limit < MaxInt64" and "start \<le> MaxInt64" and "\<not> chas R 0"
    and "Search L mode q start limit 0 s = Inr (regs, next)"
  shows "length regs \<le> unat limit \<and>
    map snd (matches_from L mode q start R) = regs @ (if next = 0 then [] else map snd (matches_from L mode q next R))"
proof -
  let ?ms = "matches_from L mode q start R"
  from assms(7) have regs: "regs = map snd (take (unat limit) ?ms)"
    and nxt: "next = (if unat limit < length ?ms then fst (?ms ! unat limit) else 0)"
    by (simp_all add: Search_page [OF assms(1-5)] Let_def)
  show ?thesis
  proof (cases "unat limit < length ?ms")
    case True
    have "chas R (fst (?ms ! unat limit))"
      using nth_mem [OF True] by (auto simp: matches_from_def chas_iff kv.mem_entries_iff)
    then have "next \<noteq> 0" using assms(6) True nxt by auto
    then show ?thesis
      using True nxt matches_from_nth [OF True] by (simp add: regs take_map drop_map flip: map_append)
  next
    case False
    then show ?thesis using nxt by (simp add: regs)
  qed
qed

section \<open>Keeping in step\<close>

lemma indexed_sel [simp]: "table (indexed L reg s) = cset (reg_Id reg) (row_of L reg) (table s)"
  "fts (indexed L reg s) = cset (reg_Id reg) (ToLower L (reg_Name reg)) (fts s)"
  by (simp_all add: indexed_def)

lemma table_fold:
  assumes "distinct (map fst es)" and "\<forall>e \<in> set es. reg_Id (snd e) = fst e"
  shows "cget (table (fold (\<lambda>e. indexed L (snd e)) es s)) i =
      (case map_of es i of None \<Rightarrow> cget (table s) i | Some reg \<Rightarrow> Some (row_of L reg)) \<and>
    cget (fts (fold (\<lambda>e. indexed L (snd e)) es s)) i =
      (case map_of es i of None \<Rightarrow> cget (fts s) i | Some reg \<Rightarrow> Some (ToLower L (reg_Name reg)))"
  using assms
proof (induction es arbitrary: s)
  case (Cons e es)
  have "map_of es (fst e) = None" using Cons.prems(1) by (simp add: map_of_eq_None_iff)
  then show ?case
    using Cons.IH [of "indexed L (snd e) s"] Cons.prems by (auto split: option.splits)
qed simp

definition keyed :: "(u64, Registry) coll \<Rightarrow> bool" where
  "keyed R \<longleftrightarrow> (\<forall>i reg. cget R i = Some reg \<longrightarrow> reg_Id reg = i \<and> i < 2 ^ 63)"

lemma keyed_entries: "keyed R \<Longrightarrow> \<forall>e \<in> set (centries R). reg_Id (snd e) = fst e \<and> reg_Id (snd e) < 2 ^ 63"
  unfolding keyed_def by (auto simp: kv.mem_entries_iff)

lemma withinD:
  "within L R s \<Longrightarrow> cget (table s) i = Some r \<Longrightarrow>
     \<exists>reg. cget R i = Some reg \<and> r = row_of L reg \<and> cget (fts s) i = Some (ToLower L (reg_Name reg))"
  unfolding within_def by blast

lemma within_fts: "within L R s \<Longrightarrow> \<not> chas (table s) i \<Longrightarrow> cget (fts s) i = None"
  unfolding within_def by (cases "cget (fts s) i") blast+

lemma fold_synced:
  assumes "within L R s" and "keyed R"
  shows "synced L R (fold (\<lambda>e. indexed L (snd e)) (centries R) s)"
proof -
  have fold: "cget (table (fold (\<lambda>e. indexed L (snd e)) (centries R) s)) i =
      (case cget R i of None \<Rightarrow> cget (table s) i | Some reg \<Rightarrow> Some (row_of L reg))"
    "cget (fts (fold (\<lambda>e. indexed L (snd e)) (centries R) s)) i =
      (case cget R i of None \<Rightarrow> cget (fts s) i | Some reg \<Rightarrow> Some (ToLower L (reg_Name reg)))" for i
    using table_fold [OF kv.entries_distinct, of R L s i] keyed_entries [OF assms(2)] by (simp_all add: cget_centries)
  have "cget (table s) i = None \<and> cget (fts s) i = None" if "cget R i = None" for i
  proof -
    have "cget (table s) i = None"
      using withinD [OF assms(1), of i] that by (cases "cget (table s) i") auto
    moreover from this have "cget (fts s) i = None"
      by (intro within_fts [OF assms(1)]) (simp add: chas_iff)
    ultimately show ?thesis ..
  qed
  then show ?thesis by (auto simp: synced_def fold split: option.splits)
qed

lemma backfill_walk:
  assumes "index_ok L" and "\<forall>e \<in> set es. reg_Id (snd e) < 2 ^ 63"
  shows "walk (backfill_callback L) es s = (Inr (), fold (\<lambda>e. indexed L (snd e)) es s)"
  using assms(2)
  by (induction es arbitrary: s) (auto simp: backfill_callback_def upsert_run [OF assms(1)])

lemma keys_chas: "{i. chas m i} = fst ` set (centries m)"
  using kv.get_None_iff [of m] by (auto simp: chas_def)

lemma card_keys: "card {i. chas m i} = length (centries m)"
  unfolding keys_chas by (metis distinct_card kv.entries_distinct length_map set_map)

lemma finite_keys: "finite {i. chas m i}"
  by (simp add: keys_chas)

lemma within_keys: "within L R s \<Longrightarrow> {i. chas (table s) i} \<subseteq> {i. chas R i}"
  unfolding within_def chas_iff by blast

lemma within_complete:
  assumes "within L R s" and "length (centries (table s)) = length (centries R)"
  shows "synced L R s"
proof -
  have eq: "{i. chas (table s) i} = {i. chas R i}"
    using card_subset_eq [OF finite_keys within_keys [OF assms(1)]] assms(2) by (simp add: card_keys)
  have "cget (table s) i = map_option (row_of L) (cget R i) \<and>
      cget (fts s) i = map_option (\<lambda>reg. ToLower L (reg_Name reg)) (cget R i)" for i
  proof (cases "cget (table s) i")
    case None
    then have "\<not> chas (table s) i" by (simp add: chas_iff)
    with eq have "\<not> chas R i" and "cget (fts s) i = None"
      using within_fts [OF assms(1)] by blast+
    with None show ?thesis by (simp add: chas_def)
  next
    case (Some r)
    from withinD [OF assms(1) this] Some show ?thesis by auto
  qed
  then show ?thesis by (simp add: synced_def)
qed

lemma dense_length:
  assumes "registries_wf k" and "registries_dense k" and "RegistryCount k = Some n"
  shows "length (centries (Registries k)) = unat n"
proof -
  have "{r. chas (Registries k) r} = {r. r \<noteq> 0 \<and> r \<le> n}"
    using assms by (auto simp: registries_wf_def registries_dense_def chas_iff)
  then have "length (centries (Registries k)) = card {r. r \<noteq> 0 \<and> r \<le> n}"
    by (simp flip: card_keys)
  moreover have "unat ` {r. r \<noteq> 0 \<and> r \<le> n} = {1..unat n}"
  proof (intro equalityI subsetI)
    fix x
    assume "x \<in> {1..unat n}"
    then have "x = unat (of_nat x :: u64)" "of_nat x \<noteq> (0 :: u64)" "(of_nat x :: u64) \<le> n"
      using unsigned_less [of n, where ?'a = nat]
      by (auto simp: unat_of_nat word_le_nat_alt word_unat_eq_iff)
    then show "x \<in> unat ` {r. r \<noteq> 0 \<and> r \<le> n}" by blast
  qed (auto simp: word_le_nat_alt Suc_le_eq unat_gt_0)
  moreover have "card (unat ` {r. r \<noteq> 0 \<and> r \<le> n}) = card {r. r \<noteq> 0 \<and> r \<le> n}"
    by (rule card_image) (auto simp: inj_on_def word_unat_eq_iff)
  ultimately show ?thesis by simp
qed

text \<open>A backfill of an index that holds no foreign rows completes it.\<close>

lemma BackfillNameIndex_run:
  assumes "index_ok L" and "within L (Registries k) s" and "keyed (Registries k)"
    and "registries_wf k" and "registries_dense k"
  shows "\<exists>s'. BackfillNameIndex L k (Some s) = (Inr (), Some s') \<and> synced L (Registries k) s'"
proof -
  from assms(4) obtain n where n: "RegistryCount k = Some n" by (auto simp: registries_wf_def)
  note len = dense_length [OF assms(4,5) n]
  show ?thesis
  proof (cases "Count s = n")
    case True
    have "length (centries (table s)) \<le> length (centries (Registries k))"
      using card_mono [OF finite_keys within_keys [OF assms(2)]] by (simp add: card_keys)
    then have "length (centries (table s)) = unat (Count s)"
      using len unsigned_less [of n, where ?'a = nat] by (simp add: Count_def unat_of_nat)
    with True len have "synced L (Registries k) s"
      by (intro within_complete [OF assms(2)]) simp
    with True n show ?thesis by (simp add: BackfillNameIndex_def)
  next
    case False
    have "walk (backfill_callback L) (centries (Registries k)) s =
        (Inr (), fold (\<lambda>e. indexed L (snd e)) (centries (Registries k)) s)"
      using keyed_entries [OF assms(3)] by (intro backfill_walk [OF assms(1)]) blast
    then show ?thesis
      using False n fold_synced [OF assms(2,3)]
      by (simp add: BackfillNameIndex_def run_batch_def)
  qed
qed

text \<open>A committed block moves the index along with the chain; a failed write leaves it as it was.\<close>

lemma synced_indexed: "synced L R s \<Longrightarrow> synced L (cset (reg_Id reg) reg R) (indexed L reg s)"
  by (simp add: synced_def)

lemma synced_fold_indexed:
  "synced L R s \<Longrightarrow> synced L (fold (\<lambda>reg. cset (reg_Id reg) reg) regs R) (fold (indexed L) regs s)"
  by (induction regs arbitrary: R s) (simp_all add: synced_indexed)

lemma upserts_run:
  assumes "index_ok L" and "\<forall>reg \<in> set regs. reg_Id reg < 2 ^ 63"
  shows "act_each (upsert L) regs s = (Inr (), fold (indexed L) regs s)"
  using assms(2) by (induction regs arbitrary: s) (simp_all add: upsert_run [OF assms(1)])

lemma ListenCommit_run:
  assumes "index_ok L" and "decode_changes L cs = Inr regs" and "\<forall>reg \<in> set regs. reg_Id reg < 2 ^ 63"
  shows "ListenCommit L cs s = (Inr (), fold (indexed L) regs s)"
  unfolding ListenCommit_def act_bind_try_Inr_iff
  by (rule exI [of _ regs]) (use assms in \<open>simp add: run_batch_def upserts_run\<close>)

lemma ListenCommit_error: "ListenCommit L cs s = (Inl e, s') \<Longrightarrow> s' = s"
  by (auto simp: ListenCommit_def run_batch_def act_bind_def act_try_def act_return_def split: sum.splits if_splits prod.splits)

section \<open>A client that follows the pages\<close>

text \<open>The pages from \<open>start\<close> on, with fuel for the number of requests.\<close>

fun all_pages :: "index_lib \<Rightarrow> RegistryNameMatchMode \<Rightarrow> string \<Rightarrow> u64 \<Rightarrow> Store \<Rightarrow> nat \<Rightarrow> u64 \<Rightarrow> Registry list option" where
  "all_pages L mode q limit s 0 start = None"
| "all_pages L mode q limit s (Suc n) start =
     (case Search L mode q start limit 0 s of
        Inl e \<Rightarrow> None
      | Inr (regs, next) \<Rightarrow> if next = 0 then Some regs else map_option ((@) regs) (all_pages L mode q limit s n next))"

lemma matches_from_ids: "e \<in> set (matches_from L mode q start R) \<Longrightarrow> cget R (fst e) = Some (snd e)"
  by (cases e) (simp add: matches_from_def flip: kv.mem_entries_iff)

lemma keyed_MaxInt64:
  assumes "keyed R" and "cget R i = Some reg"
  shows "i \<le> MaxInt64"
proof -
  from assms have "i < 2 ^ 63" by (simp add: keyed_def)
  then show ?thesis by (simp add: MaxInt64_def word_less_nat_alt word_le_nat_alt)
qed

lemma all_pages_complete:
  assumes L: "index_ok L" "synced L R s" and q: "mode = MATCH_CONTAINS \<longrightarrow> MinContainsQueryLen \<le> length (runes q)"
    and limit: "0 < limit" "limit < MaxInt64" and R: "keyed R" "\<not> chas R 0"
    and "start \<le> MaxInt64" and "length (matches_from L mode q start R) < fuel"
  shows "all_pages L mode q limit s fuel start = Some (map snd (matches_from L mode q start R))"
  using assms(8,9)
proof (induction fuel arbitrary: start)
  case (Suc n)
  let ?ms = "matches_from L mode q start R"
  note page = Search_page [OF L q limit(2) Suc.prems(1), of 0]
  have pos: "0 < unat limit" using limit(1) by (simp add: word_less_nat_alt)
  show ?case
  proof (cases "unat limit < length ?ms")
    case True
    let ?next = "fst (?ms ! unat limit)"
    have get: "cget R ?next = Some (snd (?ms ! unat limit))" by (rule matches_from_ids [OF nth_mem [OF True]])
    with R(2) have "?next \<noteq> 0" by (auto simp: chas_iff)
    moreover have "all_pages L mode q limit s n ?next = Some (map snd (matches_from L mode q ?next R))"
      using Suc.prems(2) pos True
      by (intro Suc.IH keyed_MaxInt64 [OF R(1) get]) (simp add: matches_from_nth [OF True])
    moreover have "map snd (take (unat limit) ?ms) @ map snd (drop (unat limit) ?ms) = map snd ?ms"
      by (simp flip: map_append)
    ultimately show ?thesis using True page by (simp add: Let_def matches_from_nth [OF True])
  next
    case False
    then show ?thesis using page by (simp add: Let_def)
  qed
qed simp

lemma registries_keyed:
  assumes "registries_wf k" and "RegistryCount k = Some n" and "n < 2 ^ 63"
  shows "keyed (Registries k) \<and> \<not> chas (Registries k) 0"
  using assms le_less_trans [of _ n "2 ^ 63"] unfolding keyed_def registries_wf_def chas_iff by fastforce

end
