(* ===== verification/Anchoring_Query.thy ===== *)
theory Anchoring_Query
  imports Name_Index Big_Endian
begin

text \<open>
  \<open>x/anchoring/keeper/query.go\<close> and \<open>query_params.go\<close>: the query server. A query reads the keeper
  \<open>k\<close>; the server's name index is an argument, \<open>None\<close> on a node that does not run it. The
  paginator that the closures of \<open>Records\<close> share is the state of their walk.
\<close>

section \<open>Requests and responses\<close>

text \<open>\<open>query.PageRequest\<close> and \<open>query.PageResponse\<close> of the SDK, and the messages of \<open>query.pb.go\<close>.\<close>

record page_request =
  pr_Key :: bytes
  pr_Offset :: u64
  pr_Limit :: u64
  pr_CountTotal :: bool
  pr_Reverse :: bool

record page_response =
  ps_NextKey :: bytes
  ps_Total :: u64

definition empty_page_request :: page_request where
  "empty_page_request = \<lparr>pr_Key = [], pr_Offset = 0, pr_Limit = 0, pr_CountTotal = False, pr_Reverse = False\<rparr>"

definition empty_page_response :: page_response where
  "empty_page_response = \<lparr>ps_NextKey = [], ps_Total = 0\<rparr>"

record QueryRecordsRequest =
  qrr_Checksum :: string
  qrr_RegistryId :: u64
  qrr_RecordId :: u64
  qrr_Index :: u64
  qrr_Pagination :: "page_request option"

record QueryRecordsResponse =
  qrs_Records :: "Record list"
  qrs_Pagination :: "page_response option"

record QueryRegistriesRequest =
  qgr_RegistryId :: u64
  qgr_Pagination :: "page_request option"

record QueryRegistriesResponse =
  qgs_Registries :: "Registry list"
  qgs_Pagination :: "page_response option"

record QuerySearchRegistriesByNameRequest =
  qsr_Name :: string
  qsr_Mode :: RegistryNameMatchMode
  qsr_Pagination :: "page_request option"

section \<open>Paging\<close>

definition defaultPageLimit :: u64 where "defaultPageLimit = 50"
definition maxPageLimit :: u64 where "maxPageLimit = 200"

definition sanitizePageRequest :: "page_request option \<Rightarrow> u64 \<Rightarrow> u64 \<Rightarrow> page_request" where
  "sanitizePageRequest pr defaultLimit maxLimit =
     (let p0 = (case pr of None \<Rightarrow> empty_page_request | Some p \<Rightarrow> p);
          p1 = (if pr_Limit p0 = 0 then p0\<lparr>pr_Limit := defaultLimit\<rparr> else p0);
          p2 = (if pr_Limit p1 > maxLimit then p1\<lparr>pr_Limit := maxLimit\<rparr> else p1)
      in p2\<lparr>pr_CountTotal := False\<rparr>)"

record paginator =
  pg_offset :: u64
  pg_limit :: u64
  pg_seen :: u64
  pg_collected :: u64

definition newPaginator :: "page_request option \<Rightarrow> paginator" where
  "newPaginator pr =
     (let pageReq = sanitizePageRequest pr defaultPageLimit maxPageLimit
      in \<lparr>pg_offset = pr_Offset pageReq, pg_limit = pr_Limit pageReq, pg_seen = 0, pg_collected = 0\<rparr>)"

text \<open>\<open>step\<close> returns \<open>(include, stop)\<close> and the paginator it updated.\<close>

definition pg_step :: "paginator \<Rightarrow> bool \<times> bool \<times> paginator" where
  "pg_step p =
     (if pg_seen p < pg_offset p then (False, False, p\<lparr>pg_seen := pg_seen p + 1\<rparr>)
      else if pg_collected p < pg_limit p then
        let p' = p\<lparr>pg_seen := pg_seen p + 1, pg_collected := pg_collected p + 1\<rparr>
        in if pg_collected p' = pg_limit p' then (True, True, p') else (True, False, p')
      else (False, True, p))"

text \<open>The callback of a walk: an included entry is read with \<open>get\<close> and appended.\<close>

definition page_callback :: "('e \<Rightarrow> 'a result) \<Rightarrow> 'e \<Rightarrow> (paginator \<times> 'a list, bool) act" where
  "page_callback get e = (\<lambda>(p, acc).
     case pg_step p of (incl, stop, p') \<Rightarrow>
       if incl then (case get e of Inl err \<Rightarrow> (Inl err, (p', acc)) | Inr x \<Rightarrow> (Inr stop, (p', acc @ [x])))
       else (Inr stop, (p', acc)))"

definition page_walk :: "('e \<Rightarrow> 'a result) \<Rightarrow> page_request option \<Rightarrow> 'e list \<Rightarrow> 'a list result" where
  "page_walk get pr es =
     (case walk (page_callback get) es (newPaginator pr, []) of
        (Inl err, _) \<Rightarrow> Inl err
      | (Inr _, (p, acc)) \<Rightarrow> Inr acc)"

definition page_res :: "page_request option \<Rightarrow> page_response option" where
  "page_res pr = (case pr of None \<Rightarrow> None | Some _ \<Rightarrow> Some empty_page_response)"

section \<open>Records\<close>

text \<open>The latest version of a record, by its entry in \<open>RecordIndices\<close>.\<close>

definition get_indexed :: "'z keeper_scheme \<Rightarrow> (u64 \<times> u64) \<times> u64 \<Rightarrow> Record result" where
  "get_indexed k e = (case e of ((registryId, recordId), index) \<Rightarrow> coll_Get (Records k) (registryId, recordId, index))"

fun latest_of_each :: "'z keeper_scheme \<Rightarrow> (u64 \<times> u64) list \<Rightarrow> Record list result" where
  "latest_of_each k [] = Inr []"
| "latest_of_each k ((registryId, recordId) # pairs) =
     res_bind (coll_Get (RecordIndices k) (registryId, recordId)) (\<lambda>index.
     res_bind (coll_Get (Records k) (registryId, recordId, index)) (\<lambda>record.
     res_bind (latest_of_each k pairs) (\<lambda>records. Inr (record # records))))"

text \<open>The request after its record id has been resolved from registry and checksum.\<close>

definition resolve_record_id :: "'z keeper_scheme \<Rightarrow> QueryRecordsRequest \<Rightarrow> QueryRecordsRequest result" where
  "resolve_record_id k req =
     (if qrr_RecordId req = 0 \<and> qrr_Checksum req \<noteq> '''' \<and> qrr_RegistryId req \<noteq> 0
      then res_bind (coll_Get (RecordIdByRegistryAndChecksum k) (qrr_RegistryId req, qrr_Checksum req)) (\<lambda>recordId.
           Inr (req\<lparr>qrr_RecordId := recordId\<rparr>))
      else Inr req)"

definition empty_records_request :: QueryRecordsRequest where
  "empty_records_request = \<lparr>qrr_Checksum = '''', qrr_RegistryId = 0, qrr_RecordId = 0, qrr_Index = 0, qrr_Pagination = None\<rparr>"

definition Query_Records :: "env \<Rightarrow> 'z keeper_scheme \<Rightarrow> QueryRecordsRequest option \<Rightarrow> QueryRecordsResponse result" where
  "Query_Records E k req0 =
     (let req1 = (case req0 of None \<Rightarrow> empty_records_request | Some r \<Rightarrow> r) in
      if qrr_RecordId req1 \<noteq> 0 \<and> qrr_RegistryId req1 = 0
      then Inl (ErrStatus InvalidArgument ''record_id requires registry_id'')
      else if qrr_Index req1 \<noteq> 0 \<and> (qrr_RegistryId req1 = 0 \<or> qrr_RecordId req1 = 0 \<and> qrr_Checksum req1 = '''')
      then Inl (ErrStatus InvalidArgument ''index requires registry_id and either record_id or checksum'')
      else
        res_bind (resolve_record_id k req1) (\<lambda>req.
        if qrr_RegistryId req \<noteq> 0 \<and> qrr_RecordId req \<noteq> 0 then
          res_bind (if qrr_Index req = 0 then coll_Get (RecordIndices k) (qrr_RegistryId req, qrr_RecordId req)
                    else Inr (qrr_Index req)) (\<lambda>index.
          res_bind (coll_Get (Records k) (qrr_RegistryId req, qrr_RecordId req, index)) (\<lambda>record.
          Inr \<lparr>qrs_Records = [record], qrs_Pagination = None\<rparr>))
        else if qrr_RegistryId req \<noteq> 0 \<and> qrr_RecordId req = 0 then
          res_bind (page_walk (get_indexed k) (qrr_Pagination req) (cprefix (qrr_RegistryId req) (RecordIndices k))) (\<lambda>records.
          Inr \<lparr>qrs_Records = records, qrs_Pagination = page_res (qrr_Pagination req)\<rparr>)
        else if qrr_Checksum req \<noteq> '''' \<and> qrr_RegistryId req = 0 then
          res_bind (res_guard (key_ok E (qrr_Checksum req)) ErrCollEncoding) (\<lambda>_.
          res_bind (page_walk (\<lambda>((checksum, registryId), recordId). Inr (registryId, recordId)) (qrr_Pagination req)
                      (cprefix (qrr_Checksum req) (RecordIdByChecksumAndRegistry k))) (\<lambda>selected.
          res_bind (latest_of_each k selected) (\<lambda>records.
          Inr \<lparr>qrs_Records = records, qrs_Pagination = page_res (qrr_Pagination req)\<rparr>)))
        else
          res_bind (page_walk (get_indexed k) (qrr_Pagination req) (centries (RecordIndices k))) (\<lambda>records.
          Inr \<lparr>qrs_Records = records, qrs_Pagination = page_res (qrr_Pagination req)\<rparr>)))"

section \<open>Registries\<close>

text \<open>\<open>query.CollectionPaginate\<close> of the SDK over the registries, an argument of the query.\<close>

type_synonym paginate = "(u64 \<times> Registry) list \<Rightarrow> page_request \<Rightarrow> (Registry list \<times> page_response option) result"

definition Query_Registries :: "paginate \<Rightarrow> 'z keeper_scheme \<Rightarrow> QueryRegistriesRequest \<Rightarrow> QueryRegistriesResponse result" where
  "Query_Registries CollectionPaginate k req =
     (if qgr_RegistryId req \<noteq> 0 then
        res_bind (coll_Get (Registries k) (qgr_RegistryId req)) (\<lambda>registry.
        Inr \<lparr>qgs_Registries = [registry], qgs_Pagination = None\<rparr>)
      else
        let pageReq = sanitizePageRequest (qgr_Pagination req) defaultPageLimit maxPageLimit in
        res_bind (CollectionPaginate (centries (Registries k)) pageReq) (\<lambda>(registries, pageRes).
        Inr \<lparr>qgs_Registries = registries, qgs_Pagination = pageRes\<rparr>))"

definition Query_Registry :: "'z keeper_scheme \<Rightarrow> u64 \<Rightarrow> Registry result" where
  "Query_Registry k i =
     (if i = 0 then Inl (ErrStatus InvalidArgument ''id must be provided'')
      else coll_Get (Registries k) i)"

definition Query_Params :: "'z keeper_scheme \<Rightarrow> unit option \<Rightarrow> Params result" where
  "Query_Params k req =
     (case req of None \<Rightarrow> Inl (ErrStatus InvalidArgument ''invalid request'')
      | Some _ \<Rightarrow>
          (case item_Get (ParamsItem k) of
             Inr params \<Rightarrow> Inr params
           | Inl e \<Rightarrow> if e = ErrCollNotFound then Inl (ErrStatus StatusNotFound ''not found'')
                      else Inl (ErrStatus StatusInternal ''internal error'')))"

section \<open>SearchRegistriesByName\<close>

text \<open>The id a page key stands for, \<open>sdk.BigEndianToUint64\<close>, after the checks on the key.\<close>

definition page_start :: "page_request \<Rightarrow> u64 result" where
  "page_start pageReq =
     (if pr_Key pageReq \<noteq> [] then
        if pr_Offset pageReq \<noteq> 0
        then Inl (ErrStatus InvalidArgument ''pagination: either offset or key is expected, got both'')
        else if length (pr_Key pageReq) \<noteq> 8 then Inl (ErrStatus InvalidArgument ''pagination: invalid key'')
        else Inr (from_be (pr_Key pageReq))
      else Inr 0)"

text \<open>\<open>err.Error()\<close> of the errors a search returns; those of libraries carry their text.\<close>

fun status_text :: "error \<Rightarrow> string" where
  "status_text (ErrMsg t) = t"
| "status_text (ErrWrap t e) = t @ '': '' @ status_text e"
| "status_text (ErrLib t) = t"
| "status_text _ = ''''"

definition SearchRegistriesByName ::
    "index_lib \<Rightarrow> Store option \<Rightarrow> QuerySearchRegistriesByNameRequest option \<Rightarrow> QueryRegistriesResponse result" where
  "SearchRegistriesByName L NameIndex req0 =
     (case NameIndex of
        None \<Rightarrow> Inl (ErrStatus FailedPrecondition
                  ''registry name index is not enabled on this node; see [anchoring-name-index] in app.toml'')
      | Some s \<Rightarrow>
          (case req0 of
             None \<Rightarrow> Inl (ErrStatus InvalidArgument ''name must be provided'')
           | Some req \<Rightarrow>
               if qsr_Name req = '''' then Inl (ErrStatus InvalidArgument ''name must be provided'')
               else
                 let pageReq = sanitizePageRequest (qsr_Pagination req) defaultPageLimit maxPageLimit in
                 res_bind (page_start pageReq) (\<lambda>start.
                 res_bind (case Search L (qsr_Mode req) (qsr_Name req) start (pr_Limit pageReq) (pr_Offset pageReq) s of
                             Inr r \<Rightarrow> Inr r
                           | Inl e \<Rightarrow> if e = ErrContainsTooShort then Inl (ErrStatus InvalidArgument (status_text e))
                                      else Inl (ErrStatus StatusInternal (status_text e))) (\<lambda>(registries, nxt).
                 let pageRes = (if qsr_Pagination req \<noteq> None \<or> nxt \<noteq> 0 then Some empty_page_response else None)
                 in Inr \<lparr>qgs_Registries = registries,
                         qgs_Pagination = (if nxt \<noteq> 0 then map_option (ps_NextKey_update (\<lambda>_. to_be 8 nxt)) pageRes else pageRes)\<rparr>))))"

end
