(* ===== verification/Query_Safety.thy ===== *)
theory Query_Safety
  imports Anchoring_Query Keeper_Invariant
begin

text \<open>
  What the queries return: the walks with a paginator are pages of the list of entries, and on a
  well-formed state every entry of a page is the latest version of its record.
\<close>

section \<open>Pages\<close>

fun res_each :: "('e \<Rightarrow> 'a result) \<Rightarrow> 'e list \<Rightarrow> 'a list result" where
  "res_each get [] = Inr []"
| "res_each get (e # es) = res_bind (get e) (\<lambda>x. res_bind (res_each get es) (\<lambda>xs. Inr (x # xs)))"

lemma res_bind_simps: "res_bind (Inr x) f = f x" "res_bind (Inl e) f = Inl e"
  by (simp_all add: res_bind_def)

lemma res_each_Inr: "(\<And>e. e \<in> set es \<Longrightarrow> get e = Inr (f e)) \<Longrightarrow> res_each get es = Inr (map f es)"
  by (induction es) (auto simp: res_bind_def)

text \<open>The page a request asks for, of a list of entries.\<close>

definition page_of :: "page_request option \<Rightarrow> 'e list \<Rightarrow> 'e list" where
  "page_of pr es =
     (let p = sanitizePageRequest pr defaultPageLimit maxPageLimit
      in take (unat (pr_Limit p)) (drop (unat (pr_Offset p)) es))"

lemma sanitized_limit:
  "0 < pr_Limit (sanitizePageRequest pr defaultPageLimit maxPageLimit) \<and>
   pr_Limit (sanitizePageRequest pr defaultPageLimit maxPageLimit) \<le> 200"
  by (auto simp: sanitizePageRequest_def defaultPageLimit_def maxPageLimit_def empty_page_request_def Let_def
      word_gt_0 not_less split: option.splits)

lemma length_page_of: "length (page_of pr es) \<le> 200"
proof -
  let ?l = "pr_Limit (sanitizePageRequest pr defaultPageLimit maxPageLimit)"
  have "unat ?l \<le> unat (200 :: u64)" using sanitized_limit [of pr] by (simp add: word_le_nat_alt)
  then show ?thesis by (simp add: page_of_def Let_def min_def)
qed

definition walk_result :: "unit result \<times> (paginator \<times> 'a list) \<Rightarrow> 'a list result" where
  "walk_result r = (case r of (Inl err, _) \<Rightarrow> Inl err | (Inr _, (p, acc)) \<Rightarrow> Inr acc)"

lemma unat_succ_small: "Suc (unat x) < 2 ^ 64 \<Longrightarrow> unat (x + 1 :: u64) = Suc (unat x)"
  by (simp add: unat_word_ariths)

lemma page_walk_steps:
  assumes "unat (pg_seen p) + length es < 2 ^ 64" and "pg_collected p < pg_limit p"
    and "pg_seen p < pg_offset p \<longrightarrow> pg_collected p = 0"
  shows "walk_result (walk (page_callback get) es (p, acc)) =
    res_bind (res_each get (take (unat (pg_limit p) - unat (pg_collected p)) (drop (unat (pg_offset p) - unat (pg_seen p)) es)))
      (\<lambda>xs. Inr (acc @ xs))"
  using assms
proof (induction es arbitrary: p acc)
  case Nil
  then show ?case by (simp add: walk_result_def res_bind_def)
next
  case (Cons e es)
  have seen: "unat (pg_seen p + 1) = Suc (unat (pg_seen p))"
    using Cons.prems(1) by (intro unat_succ_small) simp
  show ?case
  proof (cases "pg_seen p < pg_offset p")
    case True
    define p' where "p' = p\<lparr>pg_seen := pg_seen p + 1\<rparr>"
    have "walk (page_callback get) (e # es) (p, acc) = walk (page_callback get) es (p', acc)"
      using True by (simp add: page_callback_def pg_step_def p'_def)
    moreover have "unat (pg_offset p) - unat (pg_seen p) = Suc (unat (pg_offset p) - unat (pg_seen p'))"
      using True seen by (simp add: p'_def word_less_nat_alt)
    moreover have "unat (pg_seen p') + length es < 2 ^ 64" "pg_collected p' < pg_limit p'"
      "pg_seen p' < pg_offset p' \<longrightarrow> pg_collected p' = 0"
      using Cons.prems True seen by (simp_all add: p'_def)
    ultimately show ?thesis
      using Cons.IH [of p' acc] by (simp add: p'_def)
  next
    case False
    have coll: "unat (pg_collected p + 1) = Suc (unat (pg_collected p))"
      using Cons.prems(2) unsigned_less [of "pg_limit p", where ?'a = nat]
      by (intro unat_succ_small) (simp add: word_less_nat_alt)
    define p' where "p' = p\<lparr>pg_seen := pg_seen p + 1, pg_collected := pg_collected p + 1\<rparr>"
    have left: "unat (pg_limit p) - unat (pg_collected p) = Suc (unat (pg_limit p') - unat (pg_collected p'))"
      using Cons.prems(2) coll by (simp add: p'_def word_less_nat_alt)
    have skipped: "unat (pg_offset p) - unat (pg_seen p) = 0" "unat (pg_offset p') - unat (pg_seen p') = 0"
      using False seen by (simp_all add: p'_def word_less_nat_alt not_less)
    have step: "pg_step p = (True, pg_collected p' = pg_limit p', p')"
      using False Cons.prems(2) by (auto simp: pg_step_def p'_def Let_def)
    show ?thesis
    proof (cases "get e")
      case (Inl err)
      then show ?thesis using step left skipped by (simp add: page_callback_def walk_result_def res_bind_def)
    next
      case (Inr x)
      show ?thesis
      proof (cases "pg_collected p' = pg_limit p'")
        case True
        then show ?thesis using Inr step left skipped by (simp add: page_callback_def walk_result_def res_bind_def)
      next
        case stop: False
        have "pg_collected p' < pg_limit p'" "pg_seen p' < pg_offset p' \<longrightarrow> pg_collected p' = 0"
          "unat (pg_seen p') + length es < 2 ^ 64"
          using Cons.prems stop False coll seen by (auto simp: p'_def word_less_nat_alt word_unat_eq_iff)
        then show ?thesis
          using Cons.IH [of p' "acc @ [x]"] Inr step stop left skipped
          by (simp add: page_callback_def res_bind_def split: sum.splits)
      qed
    qed
  qed
qed

text \<open>A walk with a paginator reads exactly the page, in order, and fails as its first failing read.\<close>

lemma page_walk_page: "length es < 2 ^ 64 \<Longrightarrow> page_walk get pr es = res_each get (page_of pr es)"
  using page_walk_steps [of "newPaginator pr" es get "[]"] sanitized_limit [of pr]
  by (simp add: page_walk_def walk_result_def newPaginator_def page_of_def Let_def res_bind_def split: sum.splits)

section \<open>Records\<close>

text \<open>The record an entry of \<open>RecordIndices\<close> stands for: the latest version under its key.\<close>

definition is_latest :: "'z keeper_scheme \<Rightarrow> u64 \<Rightarrow> u64 \<Rightarrow> Record \<Rightarrow> bool" where
  "is_latest k r i rc \<longleftrightarrow>
     (\<exists>n. cget (RecordIndices k) (r, i) = Some n \<and> cget (Records k) (r, i, n) = Some rc) \<and>
     rec_RegistryId rc = r \<and> rec_RecordId rc = i \<and> rec_IsLatest rc"

lemma latest_exists:
  assumes "versions_wf k" and "cget (RecordIndices k) (r, i) = Some n"
  shows "\<exists>rc. cget (Records k) (r, i, n) = Some rc \<and> is_latest k r i rc"
proof -
  from versions_wf_latest [OF assms] obtain rc where rc: "cget (Records k) (r, i, n) = Some rc"
    by (auto simp: chas_iff)
  from versions_wfD [OF assms(1) rc] rc assms(2) show ?thesis
    by (auto simp: version_ok_def is_latest_def)
qed

definition latest_record :: "'z keeper_scheme \<Rightarrow> u64 \<times> u64 \<Rightarrow> Record" where
  "latest_record k ri = the (cget (Records k) (fst ri, snd ri, the (cget (RecordIndices k) ri)))"

lemma latest_record_unique: "is_latest k r i rc \<Longrightarrow> latest_record k (r, i) = rc"
  by (auto simp: is_latest_def latest_record_def)

lemma latest_record_latest: "versions_wf k \<Longrightarrow> chas (RecordIndices k) (r, i) \<Longrightarrow> is_latest k r i (latest_record k (r, i))"
  using latest_exists latest_record_unique by (fastforce simp: chas_iff)

lemma get_indexed_latest:
  assumes "versions_wf k" and "e \<in> set (centries (RecordIndices k))"
  shows "get_indexed k e = Inr (latest_record k (fst e))"
proof -
  obtain r i n where e: "e = ((r, i), n)" by (metis prod.collapse)
  with assms(2) have n: "cget (RecordIndices k) (r, i) = Some n" by (simp add: kv.mem_entries_iff)
  from latest_exists [OF assms(1) n] latest_record_unique show ?thesis
    by (fastforce simp: get_indexed_def e)
qed

lemma set_page_of: "set (page_of pr es) \<subseteq> set es"
  by (auto simp: page_of_def Let_def dest: in_set_takeD in_set_dropD)

lemma page_walk_latest:
  assumes "versions_wf k" and "set es \<subseteq> set (centries (RecordIndices k))" and "length es < 2 ^ 64"
  shows "page_walk (get_indexed k) pr es = Inr (map (\<lambda>e. latest_record k (fst e)) (page_of pr es))"
  unfolding page_walk_page [OF assms(3)]
  using set_page_of [of pr es] assms(2) by (intro res_each_Inr get_indexed_latest [OF assms(1)]) blast

lemma latest_of_each_run:
  assumes "versions_wf k" and "\<forall>ri \<in> set pairs. chas (RecordIndices k) ri"
  shows "latest_of_each k pairs = Inr (map (latest_record k) pairs)"
  using assms(2)
proof (induction pairs)
  case (Cons ri pairs)
  obtain r i where ri: "ri = (r, i)" by (metis prod.collapse)
  with Cons.prems obtain n where n: "cget (RecordIndices k) (r, i) = Some n" by (auto simp: chas_iff)
  from latest_exists [OF assms(1) n] n Cons show ?case
    by (auto simp: ri res_bind_def coll_Get_def dest!: latest_record_unique)
qed simp

text \<open>The record ids of a checksum, one per registry that has it.\<close>

lemma lookup_indices:
  assumes "keeper_wf k" and "cget (RecordIdByChecksumAndRegistry k) (c, r) = Some i"
  shows "chas (RecordIndices k) (r, i)"
proof -
  from assms have "cget (RecordIdByRegistryAndChecksum k) (r, c) = Some i"
    by (simp add: keeper_wf_def lookup_wf_def)
  then obtain x rc where "cget (Records k) (r, i, x) = Some rc"
    using assms(1) unfolding keeper_wf_def lookup_wf_def by blast
  from versions_wfD [OF keeper_wf_parts(3) [OF assms(1)] this] show ?thesis
    by (auto simp: version_ok_def chas_iff)
qed

lemma lookup_checksum:
  assumes "keeper_wf k" and "checksums_wf k" and "cget (RecordIdByRegistryAndChecksum k) (r, c) = Some i" and "is_latest k r i rc"
  shows "rec_Checksum rc = c"
proof -
  from assms(4) obtain n where "cget (Records k) (r, i, n) = Some rc" by (auto simp: is_latest_def)
  then have "cget (RecordIdByRegistryAndChecksum k) (r, rec_Checksum rc) = Some i"
    using assms(2) unfolding checksums_wf_def by blast
  then show ?thesis using assms(2,3) unfolding checksums_wf_def by blast
qed

definition checksum_pairs :: "'z keeper_scheme \<Rightarrow> string \<Rightarrow> (u64 \<times> u64) list" where
  "checksum_pairs k c = map (\<lambda>((c, r), i). (r, i)) (cprefix c (RecordIdByChecksumAndRegistry k))"

lemma page_of_map: "page_of pr (map f es) = map f (page_of pr es)"
  by (simp add: page_of_def Let_def take_map drop_map)

lemma checksum_walk:
  assumes "length (cprefix c (RecordIdByChecksumAndRegistry k)) < 2 ^ 64"
  shows "page_walk (\<lambda>((checksum, registryId), recordId). Inr (registryId, recordId)) pr
      (cprefix c (RecordIdByChecksumAndRegistry k)) = Inr (page_of pr (checksum_pairs k c))"
proof -
  have "res_each (\<lambda>((checksum, registryId), recordId). Inr (registryId, recordId)) es = Inr (map (\<lambda>((c, r), i). (r, i)) es)"
    for es :: "((string \<times> u64) \<times> u64) list"
    by (rule res_each_Inr) auto
  then show ?thesis by (simp add: page_walk_page [OF assms] checksum_pairs_def page_of_map)
qed

lemma checksum_pairs_indexed:
  assumes "keeper_wf k"
  shows "\<forall>ri \<in> set (page_of pr (checksum_pairs k c)). chas (RecordIndices k) ri"
  using set_page_of [of pr "checksum_pairs k c"] lookup_indices [OF assms]
  by (fastforce simp: checksum_pairs_def mem_cprefix_iff)

text \<open>The four kinds of requests, on a well-formed state of feasible size.\<close>

definition store_fits :: "'z keeper_scheme \<Rightarrow> bool" where
  "store_fits k \<longleftrightarrow> length (centries (RecordIndices k)) < 2 ^ 64 \<and> length (centries (RecordIdByChecksumAndRegistry k)) < 2 ^ 64"

lemma length_cprefix: "length (cprefix a m) \<le> length (centries m)"
  by (simp add: cprefix_def)

lemma set_cprefix: "set (cprefix a m) \<subseteq> set (centries m)"
  by (auto simp: cprefix_def)

lemma Query_Records_page:
  assumes "keeper_wf k" and "store_fits k" and "qrr_RecordId req = 0" and "qrr_Index req = 0" and "qrr_Checksum req = ''''"
  shows "Query_Records E k (Some req) =
    Inr \<lparr>qrs_Records = map (\<lambda>e. latest_record k (fst e)) (page_of (qrr_Pagination req)
           (if qrr_RegistryId req = 0 then centries (RecordIndices k) else cprefix (qrr_RegistryId req) (RecordIndices k))),
         qrs_Pagination = page_res (qrr_Pagination req)\<rparr>"
proof -
  note wf = keeper_wf_parts(3) [OF assms(1)]
  have "length (cprefix r (RecordIndices k)) < 2 ^ 64" "length (centries (RecordIndices k)) < 2 ^ 64" for r
    using assms(2) length_cprefix [of r "RecordIndices k"] by (simp_all add: store_fits_def)
  then show ?thesis
    using assms(3-5) page_walk_latest [OF wf set_cprefix] page_walk_latest [OF wf order_refl]
    by (simp add: Query_Records_def resolve_record_id_def res_bind_def)
qed

lemma Query_Records_checksum:
  assumes "keeper_wf k" and "store_fits k" and "qrr_RegistryId req = 0" and "qrr_RecordId req = 0" and "qrr_Index req = 0"
    and "qrr_Checksum req \<noteq> ''''" and "key_ok E (qrr_Checksum req)"
  shows "Query_Records E k (Some req) =
    Inr \<lparr>qrs_Records = map (latest_record k) (page_of (qrr_Pagination req) (checksum_pairs k (qrr_Checksum req))),
         qrs_Pagination = page_res (qrr_Pagination req)\<rparr>"
proof -
  have "length (cprefix (qrr_Checksum req) (RecordIdByChecksumAndRegistry k)) < 2 ^ 64"
    using assms(2) length_cprefix [of "qrr_Checksum req" "RecordIdByChecksumAndRegistry k"] by (simp add: store_fits_def)
  then show ?thesis
    using assms(3-7) latest_of_each_run [OF keeper_wf_parts(3) [OF assms(1)] checksum_pairs_indexed [OF assms(1)]]
    by (simp add: Query_Records_def resolve_record_id_def res_bind_def checksum_walk res_guard_def)
qed

text \<open>What every record of a response satisfies.\<close>

definition record_matches :: "'z keeper_scheme \<Rightarrow> QueryRecordsRequest \<Rightarrow> Record \<Rightarrow> bool" where
  "record_matches k req rc \<longleftrightarrow>
     cget (Records k) (rec_RegistryId rc, rec_RecordId rc, rec_Index rc) = Some rc \<and>
     (qrr_RegistryId req \<noteq> 0 \<longrightarrow> rec_RegistryId rc = qrr_RegistryId req) \<and>
     (qrr_RecordId req \<noteq> 0 \<longrightarrow> rec_RecordId rc = qrr_RecordId req) \<and>
     (if qrr_Index req = 0 then rec_IsLatest rc else rec_Index rc = qrr_Index req) \<and>
     (qrr_Checksum req \<noteq> '''' \<and> qrr_RecordId req = 0 \<longrightarrow> rec_Checksum rc = qrr_Checksum req)"

lemma is_latest_stored:
  "versions_wf k \<Longrightarrow> is_latest k r i rc \<Longrightarrow>
     cget (Records k) (rec_RegistryId rc, rec_RecordId rc, rec_Index rc) = Some rc \<and>
     rec_RegistryId rc = r \<and> rec_RecordId rc = i \<and> rec_IsLatest rc"
  by (auto simp: is_latest_def version_ok_def dest!: versions_wfD)

text \<open>The record id a request names, directly or by a checksum.\<close>

definition names_record :: "'z keeper_scheme \<Rightarrow> QueryRecordsRequest \<Rightarrow> u64 \<Rightarrow> bool" where
  "names_record k req i \<longleftrightarrow>
     (if qrr_RecordId req \<noteq> 0 then i = qrr_RecordId req
      else cget (RecordIdByRegistryAndChecksum k) (qrr_RegistryId req, qrr_Checksum req) = Some i)"

lemma lookup_nonzero:
  assumes "keeper_wf k" and "cget (RecordIdByRegistryAndChecksum k) (r, c) = Some i"
  shows "i \<noteq> 0"
proof -
  obtain x rc where "cget (Records k) (r, i, x) = Some rc"
    using assms unfolding keeper_wf_def lookup_wf_def by blast
  from versions_wfD [OF keeper_wf_parts(3) [OF assms(1)] this] show ?thesis by (simp add: version_ok_def)
qed

lemma resolve_record_id_iff:
  assumes "keeper_wf k" and "qrr_RegistryId req \<noteq> 0" and "qrr_RecordId req \<noteq> 0 \<or> qrr_Checksum req \<noteq> ''''"
  shows "resolve_record_id k req = Inr req' \<longleftrightarrow> (\<exists>i. names_record k req i \<and> i \<noteq> 0 \<and> req' = req\<lparr>qrr_RecordId := i\<rparr>)"
  using assms lookup_nonzero [OF assms(1)]
  by (auto simp: resolve_record_id_def names_record_def res_bind_Inr_iff)

lemma Query_Records_single_iff:
  assumes "keeper_wf k" and "qrr_RegistryId req \<noteq> 0" and "qrr_RecordId req \<noteq> 0 \<or> qrr_Checksum req \<noteq> ''''"
  shows "Query_Records E k (Some req) = Inr resp \<longleftrightarrow>
    (\<exists>i x rc. names_record k req i \<and> i \<noteq> 0 \<and>
       (if qrr_Index req = 0 then cget (RecordIndices k) (qrr_RegistryId req, i) = Some x else x = qrr_Index req) \<and>
       cget (Records k) (qrr_RegistryId req, i, x) = Some rc \<and>
       resp = \<lparr>qrs_Records = [rc], qrs_Pagination = None\<rparr>)"
proof -
  have "Query_Records E k (Some req) =
      res_bind (resolve_record_id k req) (\<lambda>req.
        res_bind (if qrr_Index req = 0 then coll_Get (RecordIndices k) (qrr_RegistryId req, qrr_RecordId req)
                  else Inr (qrr_Index req)) (\<lambda>index.
        res_bind (coll_Get (Records k) (qrr_RegistryId req, qrr_RecordId req, index)) (\<lambda>record.
        Inr \<lparr>qrs_Records = [record], qrs_Pagination = None\<rparr>)))"
  proof (cases "resolve_record_id k req")
    case (Inl e)
    then show ?thesis using assms(2,3) by (auto simp: Query_Records_def res_bind_def)
  next
    case (Inr req')
    then obtain i where "i \<noteq> 0" "req' = req\<lparr>qrr_RecordId := i\<rparr>" unfolding resolve_record_id_iff [OF assms] by blast
    then show ?thesis using assms(2,3) Inr by (auto simp: Query_Records_def res_bind_simps)
  qed
  then show ?thesis
    by (cases "qrr_Index req = 0") (auto simp: res_bind_Inr_iff resolve_record_id_iff [OF assms])
qed

lemma Query_Records_single:
  assumes "keeper_wf k" and "checksums_wf k" and "qrr_RegistryId req \<noteq> 0"
    and "qrr_RecordId req \<noteq> 0 \<or> qrr_Checksum req \<noteq> ''''"
    and "Query_Records E k (Some req) = Inr resp"
  shows "\<exists>rc. qrs_Records resp = [rc] \<and> record_matches k req rc"
proof -
  from assms(5) obtain i x rc where run: "names_record k req i"
    "if qrr_Index req = 0 then cget (RecordIndices k) (qrr_RegistryId req, i) = Some x else x = qrr_Index req"
    "cget (Records k) (qrr_RegistryId req, i, x) = Some rc" "qrs_Records resp = [rc]"
    unfolding Query_Records_single_iff [OF assms(1,3,4)] by auto
  note v = versions_wfD [OF keeper_wf_parts(3) [OF assms(1)] run(3), unfolded version_ok_def]
  have "cget (RecordIdByRegistryAndChecksum k) (qrr_RegistryId req, rec_Checksum rc) = Some i"
    using assms(2) run(3) unfolding checksums_wf_def by blast
  then have "qrr_RecordId req = 0 \<longrightarrow> rec_Checksum rc = qrr_Checksum req"
    using assms(2) run(1) unfolding checksums_wf_def names_record_def by (auto split: if_splits)
  then have "record_matches k req rc"
    using run(1-3) v by (auto simp: record_matches_def names_record_def split: if_splits)
  with run(4) show ?thesis by blast
qed

text \<open>Every record returned by any request is stored and passes its filters, and there are at most 200.\<close>

lemma latest_matches:
  assumes "keeper_wf k" and "chas (RecordIndices k) (r, i)" and "qrr_Index req = 0" and "qrr_RecordId req = 0"
    and "qrr_RegistryId req \<noteq> 0 \<longrightarrow> qrr_RegistryId req = r"
    and "qrr_Checksum req \<noteq> '''' \<longrightarrow> rec_Checksum (latest_record k (r, i)) = qrr_Checksum req"
  shows "record_matches k req (latest_record k (r, i))"
  using is_latest_stored [OF keeper_wf_parts(3) [OF assms(1)] latest_record_latest [OF keeper_wf_parts(3) [OF assms(1)] assms(2)]]
    assms(3-6) unfolding record_matches_def by auto

lemma checksum_pairs_matches:
  assumes "keeper_wf k" and "checksums_wf k" and "ri \<in> set (checksum_pairs k (qrr_Checksum req))"
    and "qrr_Index req = 0" and "qrr_RecordId req = 0" and "qrr_RegistryId req = 0"
  shows "record_matches k req (latest_record k ri)"
proof -
  obtain r i where ri: "ri = (r, i)" by (metis prod.collapse)
  with assms(3) have get: "cget (RecordIdByChecksumAndRegistry k) (qrr_Checksum req, r) = Some i"
    by (auto simp: checksum_pairs_def mem_cprefix_iff)
  then have "cget (RecordIdByRegistryAndChecksum k) (r, qrr_Checksum req) = Some i"
    using assms(1) by (simp add: keeper_wf_def lookup_wf_def)
  from lookup_checksum [OF assms(1,2) this] lookup_indices [OF assms(1) get]
    latest_record_latest [OF keeper_wf_parts(3) [OF assms(1)]] latest_matches [OF assms(1)] assms(4-6)
  show ?thesis by (simp add: ri)
qed

lemma Query_Records_sound:
  assumes "keeper_wf k" and "checksums_wf k" and "store_fits k" and "Query_Records E k (Some req) = Inr resp"
  shows "length (qrs_Records resp) \<le> 200 \<and> (\<forall>rc \<in> set (qrs_Records resp). record_matches k req rc)"
proof -
  consider (single) "qrr_RegistryId req \<noteq> 0" "qrr_RecordId req \<noteq> 0 \<or> qrr_Checksum req \<noteq> ''''"
    | (page) "qrr_RecordId req = 0" "qrr_Checksum req = ''''"
    | (checksum) "qrr_RegistryId req = 0" "qrr_RecordId req = 0" "qrr_Checksum req \<noteq> ''''"
    | (invalid) "qrr_RegistryId req = 0" "qrr_RecordId req \<noteq> 0" by blast
  then show ?thesis
  proof cases
    case single
    from Query_Records_single [OF assms(1,2) single assms(4)] show ?thesis by auto
  next
    case page
    then have index: "qrr_Index req = 0" using assms(4) by (auto simp: Query_Records_def split: if_splits)
    let ?es = "if qrr_RegistryId req = 0 then centries (RecordIndices k) else cprefix (qrr_RegistryId req) (RecordIndices k)"
    have resp: "qrs_Records resp = map (\<lambda>e. latest_record k (fst e)) (page_of (qrr_Pagination req) ?es)"
      using Query_Records_page [OF assms(1,3) page(1) index page(2)] assms(4) by auto
    have "record_matches k req (latest_record k (fst e))" if "e \<in> set ?es" for e
    proof (cases e)
      case (Pair ri n)
      obtain r i where ri: "ri = (r, i)" by (metis prod.collapse)
      from that have "chas (RecordIndices k) (r, i)" "qrr_RegistryId req \<noteq> 0 \<longrightarrow> qrr_RegistryId req = r"
        by (auto simp: Pair ri kv.mem_entries_iff mem_cprefix_iff chas_iff split: if_splits)
      then show ?thesis using latest_matches [OF assms(1)] page index by (simp add: Pair ri)
    qed
    then show ?thesis
      using length_page_of [of "qrr_Pagination req" ?es] set_page_of [of "qrr_Pagination req" ?es] unfolding resp by auto
  next
    case checksum
    then have index: "qrr_Index req = 0" and key: "key_ok E (qrr_Checksum req)"
      using assms(4)
      by (auto simp: Query_Records_def resolve_record_id_def res_bind_Inr_iff split: if_splits)
    have resp: "qrs_Records resp = map (latest_record k) (page_of (qrr_Pagination req) (checksum_pairs k (qrr_Checksum req)))"
      using Query_Records_checksum [OF assms(1,3) checksum(1,2) index checksum(3) key] assms(4) by auto
    show ?thesis
      using length_page_of [of "qrr_Pagination req" "checksum_pairs k (qrr_Checksum req)"]
        set_page_of [of "qrr_Pagination req" "checksum_pairs k (qrr_Checksum req)"]
        checksum_pairs_matches [OF assms(1,2) _ index checksum(2,1)] unfolding resp by auto
  next
    case invalid
    then show ?thesis using assms(4) by (simp add: Query_Records_def)
  qed
qed

end
