(* ===== verification/Query_Sample.thy ===== *)
theory Query_Sample
  imports Name_Index_Safety Query_Safety Abi_Sample Anchoring_Properties
begin

text \<open>
  An instance of the libraries behind the name index with the documented properties, and a store
  with two registries, on which the theorems about queries are applied.
\<close>

text \<open>Lower case on ASCII; other bytes are not valid UTF-8 on their own and become question marks.\<close>

definition ascii_lower :: "char \<Rightarrow> char" where
  "ascii_lower c =
     (if of_char c \<ge> (128 :: nat) then CHR ''?''
      else if (65 :: nat) \<le> of_char c \<and> of_char c \<le> (90 :: nat) then char_of (of_char c + 32 :: nat) else c)"

definition put_text :: "string \<Rightarrow> bytes" where
  "put_text s = concat (map (\<lambda>c. [1, of_nat (of_char c)]) s) @ [0]"

fun get_text :: "bytes \<Rightarrow> string \<times> bytes" where
  "get_text (b # c # bs) = (if b = 1 then (case get_text bs of (s, rest) \<Rightarrow> (char_of_byte c # s, rest)) else ([], c # bs))"
| "get_text [b] = ([], [])"
| "get_text [] = ([], [])"

definition put_registry :: "Registry \<Rightarrow> bytes" where
  "put_registry reg = to_be 8 (reg_Id reg) @ put_text (reg_Name reg) @ put_text (reg_Description reg) @
     put_text (reg_Creator reg) @ put_text (reg_CreatedAt reg) @ put_text (reg_Metadata reg)"

definition get_registry :: "bytes \<Rightarrow> Registry" where
  "get_registry bz =
     (case get_text (drop 8 bz) of (name, b1) \<Rightarrow>
      case get_text b1 of (description, b2) \<Rightarrow>
      case get_text b2 of (creator, b3) \<Rightarrow>
      case get_text b3 of (createdAt, b4) \<Rightarrow>
      case get_text b4 of (metadata, _) \<Rightarrow>
        \<lparr>reg_Id = from_be (take 8 bz), reg_Name = name, reg_Description = description, reg_Creator = creator,
         reg_CreatedAt = createdAt, reg_Metadata = metadata\<rparr>)"

text \<open>The phrase between the quotes, in which doubled quotes stand for one.\<close>

fun unquote :: "string \<Rightarrow> string" where
  "unquote (c # d # s) = (if c = quotes then (if d = quotes then c # unquote s else []) else c # unquote (d # s))"
| "unquote s = []"

definition sample_index :: index_lib where
  "sample_index = \<lparr>
     ToLower = map ascii_lower,
     Marshal = (\<lambda>reg. Inr (put_registry reg)),
     Unmarshal = (\<lambda>bz. Inr (get_registry bz)),
     FtsMatch = (\<lambda>phrase text. sublist (unquote (tl phrase)) text)\<rparr>"

definition registry_named :: "u64 \<Rightarrow> string \<Rightarrow> Registry" where
  "registry_named i name = \<lparr>reg_Id = i, reg_Name = name, reg_Description = '''', reg_Creator = ''ann'', reg_CreatedAt = '''',
     reg_Metadata = ''''\<rparr>"

definition sample_registries :: "(u64, Registry) coll" where
  "sample_registries = cset 2 (registry_named 2 ''Notary'') (cset 1 (registry_named 1 ''Land'') cempty)"

definition sample_store :: Store where
  "sample_store = snd (act_each (upsert sample_index) (map snd (centries sample_registries)) \<lparr>table = cempty, fts = cempty\<rparr>)"

text \<open>A keeper that one registry and one record were added to.\<close>

definition sample_keeper :: keeper where
  "sample_keeper = run_txs sample_env [add_registry_tx, add_record_tx ''ann''] sample_state"

definition keeper_view ::
    "keeper \<Rightarrow> ((u64 \<times> u64) \<times> u64) list \<times> ((string \<times> u64) \<times> u64) list \<times> u64 option \<times> (u64 \<times> Registry) list" where
  "keeper_view k =
     (centries (RecordIndices k), centries (RecordIdByChecksumAndRegistry k), RegistryCount k, centries (Registries k))"

lemma get_put_text: "get_text (put_text s @ rest) = (s, rest)"
proof (induction s)
  case Nil
  show ?case by (cases rest) (simp_all add: put_text_def)
next
  case (Cons c s)
  then show ?case by (simp add: put_text_def char_of_byte_of_char)
qed

lemma get_put_registry: "get_registry (put_registry reg) = reg"
  using get_put_text [where rest = "[]"]
  by (simp add: get_registry_def put_registry_def get_put_text from_be_to_be_id)

lemma unquote_phrase: "unquote (concat (map (\<lambda>c. if c = quotes then [quotes, quotes] else [c]) s) @ [quotes]) = s"
proof (induction s)
  case (Cons c s)
  then show ?case by (cases s) auto
qed simp

lemma ascii_lower_small: "of_char (ascii_lower c) < (128 :: nat)"
  by (auto simp: ascii_lower_def)

lemma encode_ascii: "b < 128 \<Longrightarrow> valid_rune b \<and> encode_rune b = [b]"
  by (simp add: encode_rune_def valid_rune_def between_def)

lemma ascii_valid:
  assumes "\<And>c. c \<in> set s \<Longrightarrow> of_char c < (128 :: nat)"
  shows "valid_utf8 s"
proof -
  have "list_all valid_rune (map of_char s)"
    using assms encode_ascii by (simp add: list_all_iff)
  moreover have "s = string_of_runes (map of_char s)"
    using assms by (induction s) (simp_all add: string_of_runes_def encode_ascii)
  ultimately show ?thesis unfolding valid_utf8_def by blast
qed

lemma sample_index_ok: "index_ok sample_index"
  unfolding index_ok_def
proof (intro conjI allI impI)
  show "\<exists>bz. Marshal sample_index reg = Inr bz \<and> Unmarshal sample_index bz = Inr reg" for reg
    by (simp add: sample_index_def get_put_registry)
  show "FtsMatch sample_index (ftsPhrase (ToLower sample_index q)) (ToLower sample_index n) =
      sublist (ToLower sample_index q) (ToLower sample_index n)" for q n
    by (simp add: sample_index_def ftsPhrase_def unquote_phrase del: map_map)
  show "valid_utf8 (ToLower sample_index q)" for q
    by (rule ascii_valid) (auto simp: sample_index_def ascii_lower_small)
qed

lemma sample_synced: "synced sample_index sample_registries sample_store"
proof -
  let ?a = "registry_named 1 ''Land''" and ?b = "registry_named 2 ''Notary''"
  have entries: "map snd (centries sample_registries) = [?a, ?b]" by code_simp
  have "act_each (upsert sample_index) [?a, ?b] \<lparr>table = cempty, fts = cempty\<rparr> =
      (Inr (), fold (indexed sample_index) [?a, ?b] \<lparr>table = cempty, fts = cempty\<rparr>)"
    by (rule upserts_run [OF sample_index_ok]) (simp add: registry_named_def)
  then have "sample_store = indexed sample_index ?b (indexed sample_index ?a \<lparr>table = cempty, fts = cempty\<rparr>)"
    by (simp add: sample_store_def entries)
  moreover have "synced sample_index cempty \<lparr>table = cempty, fts = cempty\<rparr>" by (simp add: synced_def)
  ultimately show ?thesis
    using synced_indexed [OF synced_indexed, of sample_index cempty "\<lparr>table = cempty, fts = cempty\<rparr>" ?b ?a]
    by (simp add: sample_registries_def registry_named_def)
qed

lemma sample_keyed: "keyed sample_registries" "\<not> chas sample_registries 0"
  by (auto simp: keyed_def chas_iff sample_registries_def registry_named_def split: if_splits)

lemma sample_keeper_wf: "keeper_wf sample_keeper" "checksums_wf sample_keeper" "dense_wf sample_keeper"
  using strong_run.run_invariant [of "[add_registry_tx, add_record_tx ''ann'']" 0 sample_state sample_env]
    sample_state_strong [of "Suc (Suc 0)"]
  by (simp_all add: sample_keeper_def run_txs_def strong_room_def wf_room_def)

lemma sample_keeper_views:
  "keeper_view sample_keeper =
    ([((1, 1), 1)], [((''c'', 1), 1)], Some 1, [(1, (registry_named 1 ''R'')\<lparr>reg_CreatedAt := ''2025-01-01''\<rparr>)])"
  by code_simp

lemma sample_keeper_view:
  "centries (RecordIndices sample_keeper) = [((1, 1), 1)]"
  "centries (RecordIdByChecksumAndRegistry sample_keeper) = [((''c'', 1), 1)]" "RegistryCount sample_keeper = Some 1"
  "centries (Registries sample_keeper) = [(1, (registry_named 1 ''R'')\<lparr>reg_CreatedAt := ''2025-01-01''\<rparr>)]"
  using sample_keeper_views by (simp_all add: keeper_view_def)

lemma sample_keeper_fits: "store_fits sample_keeper"
  by (simp add: store_fits_def sample_keeper_view)

end
