(* ===== verification/Query_Properties.thy ===== *)
theory Query_Properties
  imports Query_Sample
begin

text \<open>
  The properties of the queries and of the name index behind \<open>SearchRegistriesByName\<close>. Each
  property with hypotheses is followed by an application to the stores of \<open>Query_Sample\<close>.
\<close>

section \<open>The name index\<close>

text \<open>
  C23. On a chain whose registry count fits the integers of the database, \<open>BackfillNameIndex\<close>
  succeeds whatever part of the registries the index holds, and after it every search returns
  exactly the page of the registries on the chain whose name matches, and the id of the next match.
\<close>

theorem backfill_then_search:
  assumes "index_ok L" and "keeper_wf k" and "dense_wf k" and "RegistryCount k = Some n" and "n < 2 ^ 63"
    and "within L (Registries k) s" and "mode = MATCH_CONTAINS \<longrightarrow> MinContainsQueryLen \<le> length (runes q)"
    and "limit < MaxInt64" and "start \<le> MaxInt64" and "offset \<le> MaxInt64"
  shows "\<exists>s'. BackfillNameIndex L k (Some s) = (Inr (), Some s') \<and>
    Search L mode q start limit offset s' =
      (let ms = drop (unat offset) (matches_from L mode q start (Registries k))
       in Inr (map snd (take (unat limit) ms), if unat limit < length ms then fst (ms ! unat limit) else 0))"
proof -
  have wf: "registries_wf k" "registries_dense k" using assms(2,3) by (simp_all add: keeper_wf_def dense_wf_def)
  have "keyed (Registries k)" using registries_keyed [OF wf(1) assms(4,5)] by blast
  from BackfillNameIndex_run [OF assms(1,6) this wf] obtain s'
    where "BackfillNameIndex L k (Some s) = (Inr (), Some s')" and "synced L (Registries k) s'" by blast
  with Search_page [OF assms(1) _ assms(7-10)] show ?thesis by blast
qed

theorem backfill_then_search_witness:
  "\<exists>s'. BackfillNameIndex sample_index sample_keeper (Some \<lparr>table = cempty, fts = cempty\<rparr>) = (Inr (), Some s') \<and>
    Search sample_index MATCH_EXACT ''r'' 0 50 0 s' = Inr ([(registry_named 1 ''R'')\<lparr>reg_CreatedAt := ''2025-01-01''\<rparr>], 0)"
proof -
  have "within sample_index (Registries sample_keeper) \<lparr>table = cempty, fts = cempty\<rparr>" by (simp add: within_def)
  moreover have "matches_from sample_index MATCH_EXACT ''r'' 0 (Registries sample_keeper) =
      [(1, (registry_named 1 ''R'')\<lparr>reg_CreatedAt := ''2025-01-01''\<rparr>)]"
    unfolding matches_from_def sample_keeper_view by code_simp
  ultimately show ?thesis
    using backfill_then_search [OF sample_index_ok sample_keeper_wf(1,3) sample_keeper_view(3),
        of "\<lparr>table = cempty, fts = cempty\<rparr>" MATCH_EXACT "''r''" 50 0 0]
    by (simp add: MaxInt64_def match_mode_defs)
qed

text \<open>
  C24. A client that starts anywhere and passes the returned id back as the next start needs no
  more requests than there are matches, plus one, and receives every match once, in the order of
  the ids.
\<close>

theorem search_pages_end:
  assumes "index_ok L" and "synced L R s" and "mode = MATCH_CONTAINS \<longrightarrow> MinContainsQueryLen \<le> length (runes q)"
    and "0 < limit" and "limit < MaxInt64" and "keyed R" and "\<not> chas R 0" and "start \<le> MaxInt64"
  shows "all_pages L mode q limit s (Suc (length (matches_from L mode q start R))) start =
    Some (map snd (matches_from L mode q start R))"
  using assms by (intro all_pages_complete) simp_all

theorem search_pages_end_witness:
  "all_pages sample_index MATCH_PREFIX '''' 1 sample_store 3 0 = Some [registry_named 1 ''Land'', registry_named 2 ''Notary'']"
proof -
  have "matches_from sample_index MATCH_PREFIX '''' 0 sample_registries =
      [(1, registry_named 1 ''Land''), (2, registry_named 2 ''Notary'')]"
    by code_simp
  then show ?thesis
    using search_pages_end [OF sample_index_ok sample_synced _ _ _ sample_keyed, of MATCH_PREFIX "''''" 1 0]
    by (simp add: MaxInt64_def match_mode_defs numeral_3_eq_3)
qed



section \<open>Records\<close>

text \<open>
  C26. Without a record id and a checksum, \<open>Records\<close> returns the requested page, with the limits
  of \<open>sanitizePageRequest\<close>, of the latest versions of all records, or of those of the registry
  asked for, in the order of their ids. The walk that counts entries and stops when the page is
  full is the selection of that page from the whole list.
\<close>

theorem Records_pages:
  assumes "keeper_wf k" and "store_fits k" and "qrr_RecordId req = 0" and "qrr_Index req = 0" and "qrr_Checksum req = ''''"
  shows "Query_Records E k (Some req) =
    Inr \<lparr>qrs_Records = map (\<lambda>e. latest_record k (fst e)) (page_of (qrr_Pagination req)
           (if qrr_RegistryId req = 0 then centries (RecordIndices k) else cprefix (qrr_RegistryId req) (RecordIndices k))),
         qrs_Pagination = page_res (qrr_Pagination req)\<rparr>"
  using assms by (rule Query_Records_page)

theorem Records_pages_witness:
  "Query_Records sample_env sample_keeper (Some empty_records_request) =
    Inr \<lparr>qrs_Records = [latest_record sample_keeper (1, 1)], qrs_Pagination = None\<rparr>"
  using Records_pages [OF sample_keeper_wf(1) sample_keeper_fits, of empty_records_request sample_env]
  by (simp add: empty_records_request_def sample_keeper_view page_of_def page_res_def sanitizePageRequest_def
      empty_page_request_def defaultPageLimit_def maxPageLimit_def)

text \<open>
  Whatever the request, an answer of \<open>Records\<close> has at most 200 records; each is stored under
  the ids it carries, is of the registry, record and version asked for, has the checksum asked for
  when no record id was given, and is the latest version when no version was asked for.
\<close>

theorem Records_sound:
  assumes "keeper_wf k" and "checksums_wf k" and "store_fits k" and "Query_Records E k (Some req) = Inr resp"
  shows "length (qrs_Records resp) \<le> 200 \<and> (\<forall>rc \<in> set (qrs_Records resp). record_matches k req rc)"
  using assms by (rule Query_Records_sound)

theorem Records_sound_witness:
  "\<exists>rc. Query_Records sample_env sample_keeper (Some (empty_records_request\<lparr>qrr_Checksum := ''c''\<rparr>)) =
      Inr \<lparr>qrs_Records = [rc], qrs_Pagination = None\<rparr> \<and> rec_Checksum rc = ''c'' \<and> rec_IsLatest rc"
proof -
  let ?req = "empty_records_request\<lparr>qrr_Checksum := ''c''\<rparr>"
  have "Query_Records sample_env sample_keeper (Some ?req) =
      Inr \<lparr>qrs_Records = [latest_record sample_keeper (1, 1)], qrs_Pagination = None\<rparr>"
    using Query_Records_checksum [OF sample_keeper_wf(1) sample_keeper_fits, of ?req sample_env]
    by (simp add: empty_records_request_def sample_env_def [THEN arg_cong, of key_ok] checksum_pairs_def cprefix_def
        sample_keeper_view page_of_def page_res_def sanitizePageRequest_def empty_page_request_def defaultPageLimit_def maxPageLimit_def)
  then obtain rc where run: "Query_Records sample_env sample_keeper (Some ?req) =
      Inr \<lparr>qrs_Records = [rc], qrs_Pagination = None\<rparr>" by blast
  from Records_sound [OF sample_keeper_wf(1,2) sample_keeper_fits run] run show ?thesis
    by (simp add: record_matches_def empty_records_request_def)
qed

end
