(* ===== verification/Anchoring_Precompile.thy ===== *)
theory Anchoring_Precompile
  imports Anchoring_Msg Anchoring_Query Abi_Events
begin

text \<open>
  The EVM precompile: \<open>precompiles/common.go\<close> and \<open>anchoring.go\<close>, \<open>events.go\<close>, \<open>types.go\<close> of
  \<open>x/anchoring/precompile\<close>. A call decodes its input with the generated ABI code, runs the
  message or query server on behalf of the caller, emits an event and encodes the result.
  The gas meter counts what the precompile itself charges; running out of gas and the journal
  of the EVM are not modelled.
\<close>

section \<open>Environment\<close>

text \<open>
  \<open>evmtypes.RevertReasonBytes\<close>; whether \<open>gethtypes.ParseDelegation\<close> succeeds; \<open>common.Address.Hex\<close>;
  \<open>String\<close> and \<open>Sign\<close> of \<open>uint256.Int\<close>; the texts of \<open>erc20.ErrCannotReceiveFunds\<close> and
  \<open>core.ErrSenderNoEOA\<close>; and \<open>RequiredGas\<close> of the embedded base precompile.
\<close>

record evm_lib =
  RevertReasonBytes :: "string \<Rightarrow> bytes result"
  ParseDelegation :: "bytes \<Rightarrow> bool"
  AddressHex :: "Address \<Rightarrow> string"
  Uint256String :: "uint256 \<Rightarrow> string"
  Uint256Sign :: "uint256 \<Rightarrow> int"
  ErrCannotReceiveFunds :: "string \<Rightarrow> string"
  ErrSenderNoEOA :: string
  BaseRequiredGas :: "bytes \<Rightarrow> bool \<Rightarrow> u64"

text \<open>The log of the EVM, what the precompile uses of \<open>vm.Contract\<close> and \<open>vm.StateDB\<close>, and the state.\<close>

record ethlog =
  log_Address :: Address
  log_Topics :: "bytes list"
  log_Data :: bytes
  log_BlockNumber :: u64

record contract =
  con_Caller :: Address
  con_Input :: bytes
  con_Value :: "uint256 option"

record StateDB =
  GetCode :: "Address \<Rightarrow> bytes"

record evm_state = keeper +
  Logs :: "ethlog list"
  GasConsumed :: nat

text \<open>The \<open>Precompile\<close> struct: its keeper is the state; the libraries and the name index are fields.\<close>

record Precompile =
  pc_env :: env
  pc_abi :: abi
  pc_evm :: evm_lib
  pc_index :: index_lib
  pc_paginate :: paginate
  pc_NameIndex :: "Store option"
  pc_ReadCostFlat :: u64
  pc_ReadCostPerByte :: u64

definition AnchoringPrecompileAddress :: Address where
  "AnchoringPrecompileAddress = 0xa00"

text \<open>\<open>common.Address.Bytes\<close>.\<close>

definition Address_Bytes :: "Address \<Rightarrow> bytes" where
  "Address_Bytes a = to_be 20 a"

section \<open>common.go\<close>

definition SplitMethodID :: "bytes \<Rightarrow> (32 word \<times> bytes) result" where
  "SplitMethodID input =
     (if length input < 4 then Inl (ErrMsg ''invalid input length'')
      else Inr (from_be (take 4 input), drop 4 input))"

definition ParseMethod :: "bytes \<Rightarrow> bool \<Rightarrow> (32 word \<Rightarrow> bool) \<Rightarrow> (32 word \<times> bytes) result" where
  "ParseMethod input readOnly isTransaction =
     res_bind (SplitMethodID input) (\<lambda>(methodID, input).
     if readOnly \<and> isTransaction methodID then Inl ErrWriteProtection else Inr (methodID, input))"

definition Run :: "'i decoder \<Rightarrow> ('o \<Rightarrow> bytes result) \<Rightarrow> ('i \<Rightarrow> ('s, 'o) act) \<Rightarrow> bytes \<Rightarrow> ('s, bytes) act" where
  "Run Decode Encode fn input =
     act_bind (act_try (Decode input)) (\<lambda>(inp, n).
     act_bind (fn inp) (\<lambda>out.
     act_try (Encode out)))"

definition RunWithStateDB ::
    "'i decoder \<Rightarrow> ('o \<Rightarrow> bytes result) \<Rightarrow> ('i \<Rightarrow> StateDB option \<Rightarrow> contract \<Rightarrow> ('s, 'o) act) \<Rightarrow> bytes \<Rightarrow>
     StateDB option \<Rightarrow> contract \<Rightarrow> ('s, bytes) act" where
  "RunWithStateDB Decode Encode fn input stateDB con =
     act_bind (act_try (Decode input)) (\<lambda>(inp, n).
     act_bind (fn inp stateDB con) (\<lambda>out.
     act_try (Encode out)))"

definition ToPageRequest :: "PageRequest \<Rightarrow> page_request" where
  "ToPageRequest p = \<lparr>pr_Key = PageRequest_Key p, pr_Offset = PageRequest_Offset p, pr_Limit = PageRequest_Limit p,
     pr_CountTotal = PageRequest_CountTotal p, pr_Reverse = PageRequest_Reverse p\<rparr>"

definition FromPageResponse :: "page_response option \<Rightarrow> PageResponse" where
  "FromPageResponse pr =
     (case pr of None \<Rightarrow> \<lparr>PageResponse_NextKey = [], PageResponse_Total = 0\<rparr>
      | Some p \<Rightarrow> \<lparr>PageResponse_NextKey = ps_NextKey p, PageResponse_Total = ps_Total p\<rparr>)"

section \<open>types.go\<close>

definition FromABIRecord :: "RecordTuple \<Rightarrow> Record" where
  "FromABIRecord rc = \<lparr>rec_Uri = RecordTuple_Uri rc, rec_Checksum = RecordTuple_Checksum rc,
     rec_ChecksumAlgo = RecordTuple_ChecksumAlgo rc, rec_Metadata = RecordTuple_Metadata rc,
     rec_Timestamp = RecordTuple_Timestamp rc, rec_Status = RecordTuple_Status rc,
     rec_RecordId = RecordTuple_RecordId rc, rec_Index = RecordTuple_Index rc,
     rec_IsLatest = RecordTuple_IsLatest rc, rec_RegistryId = RecordTuple_RegistryId rc\<rparr>"

definition ToABIRecord :: "Record \<Rightarrow> RecordTuple" where
  "ToABIRecord rc = \<lparr>RecordTuple_Uri = rec_Uri rc, RecordTuple_Checksum = rec_Checksum rc,
     RecordTuple_ChecksumAlgo = rec_ChecksumAlgo rc, RecordTuple_Metadata = rec_Metadata rc,
     RecordTuple_Timestamp = rec_Timestamp rc, RecordTuple_Status = rec_Status rc,
     RecordTuple_RecordId = rec_RecordId rc, RecordTuple_Index = rec_Index rc,
     RecordTuple_IsLatest = rec_IsLatest rc, RecordTuple_RegistryId = rec_RegistryId rc\<rparr>"

definition ToABIRegistry :: "Registry \<Rightarrow> RegistryTuple" where
  "ToABIRegistry reg = \<lparr>RegistryTuple_Id = reg_Id reg, RegistryTuple_Name = reg_Name reg,
     RegistryTuple_Description = reg_Description reg, RegistryTuple_Creator = reg_Creator reg,
     RegistryTuple_CreatedAt = reg_CreatedAt reg, RegistryTuple_Metadata = reg_Metadata reg\<rparr>"

section \<open>events.go\<close>

text \<open>\<open>emitEvent\<close>, with what \<open>EncodeTopics\<close> and \<open>Encode\<close> of the event return.\<close>

definition emitEvent ::
    "Precompile \<Rightarrow> ctx \<Rightarrow> StateDB option \<Rightarrow> bytes list result \<Rightarrow> bytes result \<Rightarrow> ('z evm_state_scheme, unit) act" where
  "emitEvent p cx stateDB topics data =
     (case stateDB of None \<Rightarrow> act_return ()
      | Some _ \<Rightarrow>
          act_bind (act_try (EncodeEvent (pc_abi p) topics data)) (\<lambda>(topics, data).
          act_put (\<lambda>s. s\<lparr>Logs := Logs s @ [\<lparr>log_Address = AnchoringPrecompileAddress, log_Topics = topics,
             log_Data = data, log_BlockNumber = of_int (BlockHeight cx)\<rparr>]\<rparr>)))"

definition emitAddRegistryEvent :: "Precompile \<Rightarrow> ctx \<Rightarrow> StateDB option \<Rightarrow> Address \<Rightarrow> u64 \<Rightarrow> string \<Rightarrow> ('z evm_state_scheme, unit) act" where
  "emitAddRegistryEvent p cx stateDB caller registryID name =
     (let ev = NewAddRegistryEvent caller registryID name
      in emitEvent p cx stateDB (AddRegistryEventIndexed_EncodeTopics (pc_abi p) (AddRegistryEvent_AddRegistryEventIndexed ev))
           (AddRegistryEventData_Encode (pc_abi p) (AddRegistryEvent_AddRegistryEventData ev)))"

definition emitAddRecordEvent :: "Precompile \<Rightarrow> ctx \<Rightarrow> StateDB option \<Rightarrow> Address \<Rightarrow> u64 \<Rightarrow> u64 \<Rightarrow> string \<Rightarrow> ('z evm_state_scheme, unit) act" where
  "emitAddRecordEvent p cx stateDB caller registryID recordID checksum =
     act_bind (act_get (\<lambda>k. coll_Get (RecordIndices k) (registryID, recordID))) (\<lambda>index.
     let ev = NewAddRecordEvent caller registryID recordID index checksum
     in emitEvent p cx stateDB (AddRecordEventIndexed_EncodeTopics (pc_abi p) (AddRecordEvent_AddRecordEventIndexed ev))
          (AddRecordEventData_Encode (pc_abi p) (AddRecordEvent_AddRecordEventData ev)))"

definition emitUpdateRecordStatusEvent ::
    "Precompile \<Rightarrow> ctx \<Rightarrow> StateDB option \<Rightarrow> Address \<Rightarrow> u64 \<Rightarrow> u64 \<Rightarrow> u64 \<Rightarrow> string \<Rightarrow> ('z evm_state_scheme, unit) act" where
  "emitUpdateRecordStatusEvent p cx stateDB caller registryID recordID index status =
     (let ev = NewUpdateRecordStatusEvent caller registryID recordID index status
      in emitEvent p cx stateDB
           (UpdateRecordStatusEventIndexed_EncodeTopics (pc_abi p) (UpdateRecordStatusEvent_UpdateRecordStatusEventIndexed ev))
           (UpdateRecordStatusEventData_Encode (pc_abi p) (UpdateRecordStatusEvent_UpdateRecordStatusEventData ev)))"

definition emitGrantRoleEvent ::
    "Precompile \<Rightarrow> ctx \<Rightarrow> StateDB option \<Rightarrow> Address \<Rightarrow> u64 \<Rightarrow> string \<Rightarrow> Address \<Rightarrow> string \<Rightarrow> ('z evm_state_scheme, unit) act" where
  "emitGrantRoleEvent p cx stateDB caller registryID checksum account role =
     (let ev = NewGrantRoleEvent caller registryID checksum account role
      in emitEvent p cx stateDB (GrantRoleEventIndexed_EncodeTopics (pc_abi p) (GrantRoleEvent_GrantRoleEventIndexed ev))
           (GrantRoleEventData_Encode (pc_abi p) (GrantRoleEvent_GrantRoleEventData ev)))"

definition emitRevokeRoleEvent ::
    "Precompile \<Rightarrow> ctx \<Rightarrow> StateDB option \<Rightarrow> Address \<Rightarrow> u64 \<Rightarrow> string \<Rightarrow> Address \<Rightarrow> string \<Rightarrow> ('z evm_state_scheme, unit) act" where
  "emitRevokeRoleEvent p cx stateDB caller registryID checksum account role =
     (let ev = NewRevokeRoleEvent caller registryID checksum account role
      in emitEvent p cx stateDB (RevokeRoleEventIndexed_EncodeTopics (pc_abi p) (RevokeRoleEvent_RevokeRoleEventIndexed ev))
           (RevokeRoleEventData_Encode (pc_abi p) (RevokeRoleEvent_RevokeRoleEventData ev)))"

section \<open>Gates\<close>

definition IsTransactionID :: "32 word \<Rightarrow> bool" where
  "IsTransactionID methodID \<longleftrightarrow> methodID = AddRegistryID \<or> methodID = AddRecordID \<or> methodID = UpdateRecordStatusID \<or>
     methodID = GrantRoleID \<or> methodID = RevokeRoleID"

definition RequiredGas :: "Precompile \<Rightarrow> bytes \<Rightarrow> u64" where
  "RequiredGas p input =
     (case SplitMethodID input of Inl _ \<Rightarrow> 0
      | Inr (methodID, input) \<Rightarrow> BaseRequiredGas (pc_evm p) input (IsTransactionID methodID))"

definition isEOACode :: "evm_lib \<Rightarrow> bytes \<Rightarrow> bool" where
  "isEOACode V code = (if length code = 0 then True else ParseDelegation V code)"

definition methodName :: "32 word \<Rightarrow> string" where
  "methodName methodID =
     (if methodID = AddRegistryID then ''addRegistry''
      else if methodID = AddRecordID then ''addRecord''
      else if methodID = UpdateRecordStatusID then ''updateRecordStatus''
      else if methodID = GrantRoleID then ''grantRole''
      else if methodID = RevokeRoleID then ''revokeRole''
      else '''')"

definition encodeRevertReason :: "evm_lib \<Rightarrow> string \<Rightarrow> bytes" where
  "encodeRevertReason V reason = (case RevertReasonBytes V reason of Inl _ \<Rightarrow> [] | Inr bz \<Rightarrow> bz)"

definition ensureEOACaller :: "evm_lib \<Rightarrow> StateDB option \<Rightarrow> contract \<Rightarrow> string \<Rightarrow> Address \<Rightarrow> unit result" where
  "ensureEOACaller V stateDB con method txOrigin =
     (case stateDB of
        None \<Rightarrow> Inl (ErrWrap (ErrSenderNoEOA V) (ErrMsg (''method '' @ method)))
      | Some db \<Rightarrow>
          if con_Caller con \<noteq> txOrigin
          then Inl (ErrWrap (ErrSenderNoEOA V) (ErrMsg (''caller '' @ AddressHex V (con_Caller con) @ '' != tx.origin '' @
                 AddressHex V txOrigin @ '', method: '' @ method)))
          else if \<not> isEOACode V (GetCode db txOrigin)
          then Inl (ErrWrap (ErrSenderNoEOA V) (ErrMsg (''tx.origin '' @ AddressHex V txOrigin @ '' has non-EOA code len(code): '' @
                 dec_string (length (GetCode db txOrigin)) @ '', method: '' @ method)))
          else Inr ())"

definition ensureNoValue :: "evm_lib \<Rightarrow> contract \<Rightarrow> string option" where
  "ensureNoValue V con =
     (case con_Value con of
        None \<Rightarrow> None
      | Some value \<Rightarrow> if Uint256Sign V value = 1 then Some (ErrCannotReceiveFunds V (Uint256String V value)) else None)"

definition ErrRegistriesByNameInTx :: string where
  "ErrRegistriesByNameInTx = ''registriesByName is query-only: use eth_call, not a transaction''"

definition ErrRegistriesByNameIndexOff :: string where
  "ErrRegistriesByNameIndexOff = ''registry name index is not enabled on this node; see [anchoring-name-index] in app.toml''"

definition registriesByNameGate :: "Precompile \<Rightarrow> ctx \<Rightarrow> StateDB option \<Rightarrow> contract \<Rightarrow> Address \<Rightarrow> string option" where
  "registriesByNameGate p cx stateDB con txOrigin =
     (if \<not> IsCheckTx cx then Some ErrRegistriesByNameInTx
      else if \<not> res_ok (ensureEOACaller (pc_evm p) stateDB con ''registriesByName'' txOrigin) then Some (ErrSenderNoEOA (pc_evm p))
      else if pc_NameIndex p = None then Some ErrRegistriesByNameIndexOff
      else None)"

text \<open>The five values of the enumeration, the keys of \<open>RegistryNameMatchMode_name\<close>.\<close>

definition matchModeFromABI :: "byte \<Rightarrow> RegistryNameMatchMode result" where
  "matchModeFromABI mode =
     (if uint mode \<in> {0, 1, 2, 3, 4} then Inr (uint mode)
      else Inl (ErrMsg (''invalid matchMode '' @ dec_string (unat mode) @ '': want 0/1 exact, 2 prefix, 3 suffix, 4 contains'')))"

section \<open>Methods\<close>

definition Precompile_AddRegistry :: "Precompile \<Rightarrow> ctx \<Rightarrow> AddRegistryCall \<Rightarrow> StateDB option \<Rightarrow> contract \<Rightarrow> ('z evm_state_scheme, AddRegistryReturn) act" where
  "Precompile_AddRegistry p cx input stateDB con =
     act_bind (act_try (BytesToString (pc_env p) (Address_Bytes (con_Caller con)))) (\<lambda>senderStr.
     act_bind (Msg_AddRegistry (pc_env p) cx (Some \<lparr>mar_Sender = senderStr, mar_Name = AddRegistryCall_Name input,
       mar_Description = AddRegistryCall_Description input, mar_Metadata = AddRegistryCall_Metadata input\<rparr>)) (\<lambda>registryId.
     act_bind (emitAddRegistryEvent p cx stateDB (con_Caller con) registryId (AddRegistryCall_Name input)) (\<lambda>_.
     act_return \<lparr>AddRegistryReturn_RegistryId = registryId\<rparr>)))"

definition Precompile_AddRecord :: "Precompile \<Rightarrow> ctx \<Rightarrow> AddRecordCall \<Rightarrow> StateDB option \<Rightarrow> contract \<Rightarrow> ('z evm_state_scheme, AddRecordReturn) act" where
  "Precompile_AddRecord p cx input stateDB con =
     act_bind (act_try (BytesToString (pc_env p) (Address_Bytes (con_Caller con)))) (\<lambda>senderStr.
     let doc = FromABIRecord (AddRecordCall_Record input) in
     act_bind (Msg_AddRecord (pc_env p) cx (Some \<lparr>mrc_Sender = senderStr, mrc_Record = Some doc\<rparr>)) (\<lambda>recordId.
     act_bind (emitAddRecordEvent p cx stateDB (con_Caller con) (rec_RegistryId doc) recordId (rec_Checksum doc)) (\<lambda>_.
     act_return \<lparr>AddRecordReturn_RecordId = recordId\<rparr>)))"

definition Precompile_UpdateRecordStatus :: "Precompile \<Rightarrow> ctx \<Rightarrow> UpdateRecordStatusCall \<Rightarrow> StateDB option \<Rightarrow> contract \<Rightarrow> ('z evm_state_scheme, unit) act" where
  "Precompile_UpdateRecordStatus p cx input stateDB con =
     act_bind (act_try (BytesToString (pc_env p) (Address_Bytes (con_Caller con)))) (\<lambda>sender.
     act_bind (Msg_UpdateRecordStatus (pc_env p) cx (Some \<lparr>mus_Editor = sender, mus_RegistryId = UpdateRecordStatusCall_RegistryId input,
       mus_RecordId = UpdateRecordStatusCall_RecordId input, mus_Index = UpdateRecordStatusCall_Index input,
       mus_Status = UpdateRecordStatusCall_Status input\<rparr>)) (\<lambda>_.
     emitUpdateRecordStatusEvent p cx stateDB (con_Caller con) (UpdateRecordStatusCall_RegistryId input)
       (UpdateRecordStatusCall_RecordId input) (UpdateRecordStatusCall_Index input) (UpdateRecordStatusCall_Status input)))"

definition Precompile_GrantRole :: "Precompile \<Rightarrow> ctx \<Rightarrow> GrantRoleCall \<Rightarrow> StateDB option \<Rightarrow> contract \<Rightarrow> ('z evm_state_scheme, unit) act" where
  "Precompile_GrantRole p cx input stateDB con =
     act_bind (act_try (BytesToString (pc_env p) (Address_Bytes (con_Caller con)))) (\<lambda>admin.
     act_bind (act_try (BytesToString (pc_env p) (Address_Bytes (GrantRoleCall_Account input)))) (\<lambda>address.
     act_bind (Msg_GrantRole (pc_env p) (Some \<lparr>mgr_Admin = admin, mgr_Address = address,
       mgr_RegistryId = GrantRoleCall_RegistryId input, mgr_Checksum = GrantRoleCall_Checksum input,
       mgr_Role = GrantRoleCall_Role input\<rparr>)) (\<lambda>_.
     emitGrantRoleEvent p cx stateDB (con_Caller con) (GrantRoleCall_RegistryId input) (GrantRoleCall_Checksum input)
       (GrantRoleCall_Account input) (GrantRoleCall_Role input))))"

definition Precompile_RevokeRole :: "Precompile \<Rightarrow> ctx \<Rightarrow> RevokeRoleCall \<Rightarrow> StateDB option \<Rightarrow> contract \<Rightarrow> ('z evm_state_scheme, unit) act" where
  "Precompile_RevokeRole p cx input stateDB con =
     (if RevokeRoleCall_Role input = '''' then act_fail (ErrMsg ''role cannot be empty'') else
     act_bind (act_try (BytesToString (pc_env p) (Address_Bytes (con_Caller con)))) (\<lambda>admin.
     act_bind (act_try (BytesToString (pc_env p) (Address_Bytes (RevokeRoleCall_Account input)))) (\<lambda>address.
     act_bind (Msg_RevokeRole (pc_env p) (Some \<lparr>mrr_Admin = admin, mrr_Address = address,
       mrr_RegistryId = RevokeRoleCall_RegistryId input, mrr_Checksum = RevokeRoleCall_Checksum input,
       mrr_Role = RevokeRoleCall_Role input\<rparr>)) (\<lambda>_.
     emitRevokeRoleEvent p cx stateDB (con_Caller con) (RevokeRoleCall_RegistryId input) (RevokeRoleCall_Checksum input)
       (RevokeRoleCall_Account input) (RevokeRoleCall_Role input)))))"

definition Precompile_Records :: "Precompile \<Rightarrow> RecordsCall \<Rightarrow> ('z evm_state_scheme, RecordsReturn) act" where
  "Precompile_Records p input =
     act_bind (act_get (\<lambda>k. Query_Records (pc_env p) k (Some \<lparr>qrr_Checksum = RecordsCall_Checksum input,
       qrr_RegistryId = RecordsCall_RegistryId input, qrr_RecordId = RecordsCall_RecordId input,
       qrr_Index = RecordsCall_Index input, qrr_Pagination = Some (ToPageRequest (RecordsCall_Pagination input))\<rparr>))) (\<lambda>rsp.
     act_return \<lparr>RecordsReturn_Records = map ToABIRecord (qrs_Records rsp),
       RecordsReturn_Pagination = FromPageResponse (qrs_Pagination rsp)\<rparr>)"

definition Precompile_Registries :: "Precompile \<Rightarrow> RegistriesCall \<Rightarrow> ('z evm_state_scheme, RegistriesReturn) act" where
  "Precompile_Registries p input =
     act_bind (act_get (\<lambda>k. Query_Registries (pc_paginate p) k \<lparr>qgr_RegistryId = RegistriesCall_RegistryId input,
       qgr_Pagination = Some (ToPageRequest (RegistriesCall_Pagination input))\<rparr>)) (\<lambda>rsp.
     act_return \<lparr>RegistriesReturn_Registries = map ToABIRegistry (qgs_Registries rsp),
       RegistriesReturn_Pagination = FromPageResponse (qgs_Pagination rsp)\<rparr>)"

definition chargeIndexReadGas :: "Precompile \<Rightarrow> RegistryTuple list \<Rightarrow> ('z evm_state_scheme, unit) act" where
  "chargeIndexReadGas p registries =
     act_each (\<lambda>reg. act_put (\<lambda>s. s\<lparr>GasConsumed := GasConsumed s +
       unat (pc_ReadCostFlat p + pc_ReadCostPerByte p * of_nat (RegistryTuple_EncodedSize (pc_abi p) reg))\<rparr>)) registries"

definition Precompile_RegistriesByName :: "Precompile \<Rightarrow> RegistriesByNameCall \<Rightarrow> ('z evm_state_scheme, RegistriesByNameReturn) act" where
  "Precompile_RegistriesByName p input =
     act_bind (act_try (matchModeFromABI (RegistriesByNameCall_MatchMode input))) (\<lambda>mode.
     act_bind (act_try (SearchRegistriesByName (pc_index p) (pc_NameIndex p) (Some \<lparr>qsr_Name = RegistriesByNameCall_Name input,
       qsr_Mode = mode, qsr_Pagination = Some (ToPageRequest (RegistriesByNameCall_Pagination input))\<rparr>))) (\<lambda>rsp.
     let abiRegistries = map ToABIRegistry (qgs_Registries rsp) in
     act_bind (chargeIndexReadGas p abiRegistries) (\<lambda>_.
     act_return \<lparr>RegistriesByNameReturn_Registries = abiRegistries,
       RegistriesByNameReturn_Pagination = FromPageResponse (qgs_Pagination rsp)\<rparr>)))"

section \<open>Execute\<close>

text \<open>The \<open>switch\<close> over the method id; an empty return is encoded by the library's \<open>EmptyTuple\<close>.\<close>

definition dispatch ::
    "Precompile \<Rightarrow> ctx \<Rightarrow> StateDB option \<Rightarrow> contract \<Rightarrow> Address \<Rightarrow> 32 word \<Rightarrow> bytes \<Rightarrow> ('z evm_state_scheme, bytes) act" where
  "dispatch p cx stateDB con txOrigin methodID input =
     (let A = pc_abi p; empty = (\<lambda>_ :: unit. EmptyTuple_Encode A) in
      if methodID = AddRegistryID then
        RunWithStateDB (AddRegistryCall_Decode A) (AddRegistryReturn_Encode A) (Precompile_AddRegistry p cx) input stateDB con
      else if methodID = AddRecordID then
        RunWithStateDB (AddRecordCall_Decode A) (AddRecordReturn_Encode A) (Precompile_AddRecord p cx) input stateDB con
      else if methodID = UpdateRecordStatusID then
        RunWithStateDB (UpdateRecordStatusCall_Decode A) empty (Precompile_UpdateRecordStatus p cx) input stateDB con
      else if methodID = RecordsID then Run (RecordsCall_Decode A) (RecordsReturn_Encode A) (Precompile_Records p) input
      else if methodID = RegistriesID then
        Run (RegistriesCall_Decode A) (RegistriesReturn_Encode A) (Precompile_Registries p) input
      else if methodID = RegistriesByNameID then
        (case registriesByNameGate p cx stateDB con txOrigin of
           Some err \<Rightarrow> act_fail (ErrExecutionReverted (encodeRevertReason (pc_evm p) err))
         | None \<Rightarrow> Run (RegistriesByNameCall_Decode A) (RegistriesByNameReturn_Encode A) (Precompile_RegistriesByName p) input)
      else if methodID = GrantRoleID then
        RunWithStateDB (GrantRoleCall_Decode A) empty (Precompile_GrantRole p cx) input stateDB con
      else if methodID = RevokeRoleID then
        RunWithStateDB (RevokeRoleCall_Decode A) empty (Precompile_RevokeRole p cx) input stateDB con
      else act_fail (ErrMsg (''unknown method id: '' @ dec_string (unat methodID))))"

definition Execute ::
    "Precompile \<Rightarrow> ctx \<Rightarrow> StateDB option \<Rightarrow> contract option \<Rightarrow> bool \<Rightarrow> Address \<Rightarrow> ('z evm_state_scheme, bytes) act" where
  "Execute p cx stateDB con0 readOnly txOrigin =
     (case con0 of
        None \<Rightarrow> act_fail (ErrMsg ''contract is nil'')
      | Some con \<Rightarrow>
          act_bind (act_try (ParseMethod (con_Input con) readOnly IsTransactionID)) (\<lambda>(methodID, input).
          case ensureNoValue (pc_evm p) con of
            Some err \<Rightarrow> act_fail (ErrExecutionReverted (encodeRevertReason (pc_evm p) err))
          | None \<Rightarrow>
              if IsTransactionID methodID \<and>
                \<not> res_ok (ensureEOACaller (pc_evm p) stateDB con (methodName methodID) txOrigin)
              then act_fail (ErrExecutionReverted (encodeRevertReason (pc_evm p) (ErrSenderNoEOA (pc_evm p))))
              else dispatch p cx stateDB con txOrigin methodID input))"

end
