(* ===== verification/Precompile_Safety.thy ===== *)
theory Precompile_Safety
  imports Anchoring_Precompile Msg_Safety Query_Safety
begin

text \<open>
  What a call of the precompile does: it changes the module's state only as one message of the
  caller would, and only for an account that calls directly and sends no funds; during block
  execution its answer does not depend on the node's name index; and a call encoded by the
  generated code reaches its method.
\<close>

section \<open>Effects of the methods\<close>

text \<open>The effects outside the module: a log, and gas.\<close>

definition same_keeper :: "'z evm_state_scheme \<Rightarrow> 'z evm_state_scheme \<Rightarrow> bool" where
  "same_keeper s s' \<longleftrightarrow> (\<exists>logs gas. s' = s\<lparr>Logs := logs, GasConsumed := gas\<rparr>)"

lemma same_keeper_refl [simp]: "same_keeper s s"
proof -
  have "s = s\<lparr>Logs := Logs s, GasConsumed := GasConsumed s\<rparr>" by simp
  then show ?thesis unfolding same_keeper_def by blast
qed

lemma same_keeper_trans: "same_keeper s t \<Longrightarrow> same_keeper t u \<Longrightarrow> same_keeper s u"
  unfolding same_keeper_def by fastforce

lemma same_keeper_Logs [simp]: "same_keeper s (s\<lparr>Logs := ls\<rparr>)"
proof -
  have "s\<lparr>Logs := ls\<rparr> = s\<lparr>Logs := ls, GasConsumed := GasConsumed s\<rparr>" by simp
  then show ?thesis unfolding same_keeper_def by blast
qed

lemma same_keeper_Gas [simp]: "same_keeper s (s\<lparr>GasConsumed := g\<rparr>)"
proof -
  have "s\<lparr>GasConsumed := g\<rparr> = s\<lparr>Logs := Logs s, GasConsumed := g\<rparr>" by simp
  then show ?thesis unfolding same_keeper_def by blast
qed

lemma emitEvent_same: "emitEvent p cx db topics data s = (Inr u, s') \<Longrightarrow> same_keeper s s'"
  by (auto simp: emitEvent_def act_reads split: option.splits prod.splits)

lemma emit_same:
  "emitAddRegistryEvent p cx db a r n s = (Inr u, s') \<Longrightarrow> same_keeper s s'"
  "emitAddRecordEvent p cx db a r i c s = (Inr u, s') \<Longrightarrow> same_keeper s s'"
  "emitUpdateRecordStatusEvent p cx db a r i x st s = (Inr u, s') \<Longrightarrow> same_keeper s s'"
  "emitGrantRoleEvent p cx db a r c b role s = (Inr u, s') \<Longrightarrow> same_keeper s s'"
  "emitRevokeRoleEvent p cx db a r c b role s = (Inr u, s') \<Longrightarrow> same_keeper s s'"
  by (auto simp: emitAddRegistryEvent_def emitAddRecordEvent_def emitUpdateRecordStatusEvent_def emitGrantRoleEvent_def
      emitRevokeRoleEvent_def Let_def act_reads dest: emitEvent_same)

text \<open>The effect of one message that the caller signs, and a log.\<close>

definition as_message :: "Precompile \<Rightarrow> ctx \<Rightarrow> contract \<Rightarrow> 'z evm_state_scheme \<Rightarrow> 'z evm_state_scheme \<Rightarrow> bool" where
  "as_message p cx con s s' \<longleftrightarrow>
     (\<exists>m t. BytesToString (pc_env p) (Address_Bytes (con_Caller con)) = Inr (msg_signer m) \<and>
        handle (pc_env p) cx m s = (Inr (), t) \<and> same_keeper t s')"

lemma as_messageI:
  "BytesToString (pc_env p) (Address_Bytes (con_Caller con)) = Inr (msg_signer m) \<Longrightarrow>
     handle (pc_env p) cx m s = (Inr (), t) \<Longrightarrow> same_keeper t s' \<Longrightarrow> as_message p cx con s s'"
  unfolding as_message_def by blast

lemma AddRegistry_effect:
  assumes "Precompile_AddRegistry p cx inp db con s = (Inr out, s')"
  shows "as_message p cx con s s'"
proof -
  from assms obtain sender i t where "BytesToString (pc_env p) (Address_Bytes (con_Caller con)) = Inr sender"
    and run: "Msg_AddRegistry (pc_env p) cx (Some \<lparr>mar_Sender = sender, mar_Name = AddRegistryCall_Name inp,
       mar_Description = AddRegistryCall_Description inp, mar_Metadata = AddRegistryCall_Metadata inp\<rparr>) s = (Inr i, t)"
    and "same_keeper t s'"
    unfolding Precompile_AddRegistry_def act_bind_try_Inr_iff act_bind_Inr_iff by (auto dest: emit_same)
  then show ?thesis
    by (intro as_messageI [where m = "AddRegistryMsg \<lparr>mar_Sender = sender, mar_Name = AddRegistryCall_Name inp,
       mar_Description = AddRegistryCall_Description inp, mar_Metadata = AddRegistryCall_Metadata inp\<rparr>"])
      (auto simp: act_bind_Inr_iff)
qed

lemma AddRecord_effect:
  assumes "Precompile_AddRecord p cx inp db con s = (Inr out, s')"
  shows "as_message p cx con s s'"
proof -
  let ?doc = "FromABIRecord (AddRecordCall_Record inp)"
  from assms obtain sender i t where "BytesToString (pc_env p) (Address_Bytes (con_Caller con)) = Inr sender"
    and "Msg_AddRecord (pc_env p) cx (Some \<lparr>mrc_Sender = sender, mrc_Record = Some ?doc\<rparr>) s = (Inr i, t)"
    and "same_keeper t s'"
    unfolding Precompile_AddRecord_def act_bind_try_Inr_iff act_bind_Inr_iff Let_def by (auto dest: emit_same)
  then show ?thesis
    by (intro as_messageI [where m = "AddRecordMsg \<lparr>mrc_Sender = sender, mrc_Record = Some ?doc\<rparr>"])
      (auto simp: act_bind_Inr_iff)
qed

lemma UpdateRecordStatus_effect:
  assumes "Precompile_UpdateRecordStatus p cx inp db con s = (Inr out, s')"
  shows "as_message p cx con s s'"
proof -
  from assms obtain sender t where "BytesToString (pc_env p) (Address_Bytes (con_Caller con)) = Inr sender"
    and "Msg_UpdateRecordStatus (pc_env p) cx (Some \<lparr>mus_Editor = sender, mus_RegistryId = UpdateRecordStatusCall_RegistryId inp,
       mus_RecordId = UpdateRecordStatusCall_RecordId inp, mus_Index = UpdateRecordStatusCall_Index inp,
       mus_Status = UpdateRecordStatusCall_Status inp\<rparr>) s = (Inr (), t)"
    and "same_keeper t s'"
    unfolding Precompile_UpdateRecordStatus_def act_bind_try_Inr_iff act_bind_Inr_iff by (auto dest: emit_same)
  then show ?thesis
    by (intro as_messageI [where m = "UpdateRecordStatusMsg \<lparr>mus_Editor = sender, mus_RegistryId = UpdateRecordStatusCall_RegistryId inp,
       mus_RecordId = UpdateRecordStatusCall_RecordId inp, mus_Index = UpdateRecordStatusCall_Index inp,
       mus_Status = UpdateRecordStatusCall_Status inp\<rparr>"]) auto
qed

lemma GrantRole_effect:
  assumes "Precompile_GrantRole p cx inp db con s = (Inr out, s')"
  shows "as_message p cx con s s'"
proof -
  from assms obtain admin account t where "BytesToString (pc_env p) (Address_Bytes (con_Caller con)) = Inr admin"
    and "Msg_GrantRole (pc_env p) (Some \<lparr>mgr_Admin = admin, mgr_Address = account,
       mgr_RegistryId = GrantRoleCall_RegistryId inp, mgr_Checksum = GrantRoleCall_Checksum inp,
       mgr_Role = GrantRoleCall_Role inp\<rparr>) s = (Inr (), t)"
    and "same_keeper t s'"
    unfolding Precompile_GrantRole_def act_bind_try_Inr_iff act_bind_Inr_iff by (auto dest: emit_same)
  then show ?thesis
    by (intro as_messageI [where m = "GrantRoleMsg \<lparr>mgr_Admin = admin, mgr_Address = account,
       mgr_RegistryId = GrantRoleCall_RegistryId inp, mgr_Checksum = GrantRoleCall_Checksum inp,
       mgr_Role = GrantRoleCall_Role inp\<rparr>"]) auto
qed

lemma RevokeRole_effect:
  assumes "Precompile_RevokeRole p cx inp db con s = (Inr out, s')"
  shows "as_message p cx con s s'"
proof -
  from assms obtain admin account t where "BytesToString (pc_env p) (Address_Bytes (con_Caller con)) = Inr admin"
    and "Msg_RevokeRole (pc_env p) (Some \<lparr>mrr_Admin = admin, mrr_Address = account,
       mrr_RegistryId = RevokeRoleCall_RegistryId inp, mrr_Checksum = RevokeRoleCall_Checksum inp,
       mrr_Role = RevokeRoleCall_Role inp\<rparr>) s = (Inr (), t)"
    and "same_keeper t s'"
    unfolding Precompile_RevokeRole_def
    by (auto simp: act_bind_try_Inr_iff act_bind_Inr_iff dest: emit_same split: if_splits)
  then show ?thesis
    by (intro as_messageI [where m = "RevokeRoleMsg \<lparr>mrr_Admin = admin, mrr_Address = account,
       mrr_RegistryId = RevokeRoleCall_RegistryId inp, mrr_Checksum = RevokeRoleCall_Checksum inp,
       mrr_Role = RevokeRoleCall_Role inp\<rparr>"]) auto
qed

text \<open>Queries leave the module's state alone.\<close>

lemma charge_same: "chargeIndexReadGas p regs s = (Inr u, s') \<Longrightarrow> same_keeper s s'"
  unfolding chargeIndexReadGas_def
proof (induction regs arbitrary: s)
  case (Cons reg regs)
  then show ?case by (auto simp: act_put_def intro: same_keeper_trans [OF same_keeper_Gas])
qed simp

lemma query_effects:
  "Precompile_Records p inp s = (Inr out, s') \<Longrightarrow> same_keeper s s'"
  "Precompile_Registries p inp' s = (Inr out', s') \<Longrightarrow> same_keeper s s'"
  "Precompile_RegistriesByName p inp'' s = (Inr out'', s') \<Longrightarrow> same_keeper s s'"
  by (auto simp: Precompile_Records_def Precompile_Registries_def Precompile_RegistriesByName_def act_reads
      act_bind_Inr_iff Let_def dest: charge_same)

lemma Run_Inr_iff:
  "Run dec enc fn inp s = (Inr out, s') \<longleftrightarrow> (\<exists>v n x. dec inp = Inr (v, n) \<and> fn v s = (Inr x, s') \<and> enc x = Inr out)"
  by (auto simp: Run_def act_reads act_bind_Inr_iff)

lemma RunWithStateDB_Inr_iff:
  "RunWithStateDB dec enc fn inp db con s = (Inr out, s') \<longleftrightarrow>
     (\<exists>v n x. dec inp = Inr (v, n) \<and> fn v db con s = (Inr x, s') \<and> enc x = Inr out)"
  by (auto simp: RunWithStateDB_def act_reads act_bind_Inr_iff)

lemmas ID_defs = AddRecordID_def AddRegistryID_def GrantRoleID_def RevokeRoleID_def UpdateRecordStatusID_def RecordsID_def
  RegistriesID_def RegistriesByNameID_def

lemma dispatch_simps:
  "dispatch p cx db con origin AddRegistryID inp =
     RunWithStateDB (AddRegistryCall_Decode (pc_abi p)) (AddRegistryReturn_Encode (pc_abi p)) (Precompile_AddRegistry p cx) inp db con"
  "dispatch p cx db con origin AddRecordID inp =
     RunWithStateDB (AddRecordCall_Decode (pc_abi p)) (AddRecordReturn_Encode (pc_abi p)) (Precompile_AddRecord p cx) inp db con"
  "dispatch p cx db con origin UpdateRecordStatusID inp =
     RunWithStateDB (UpdateRecordStatusCall_Decode (pc_abi p)) (\<lambda>_. EmptyTuple_Encode (pc_abi p)) (Precompile_UpdateRecordStatus p cx)
       inp db con"
  "dispatch p cx db con origin GrantRoleID inp =
     RunWithStateDB (GrantRoleCall_Decode (pc_abi p)) (\<lambda>_. EmptyTuple_Encode (pc_abi p)) (Precompile_GrantRole p cx) inp db con"
  "dispatch p cx db con origin RevokeRoleID inp =
     RunWithStateDB (RevokeRoleCall_Decode (pc_abi p)) (\<lambda>_. EmptyTuple_Encode (pc_abi p)) (Precompile_RevokeRole p cx) inp db con"
  by (simp_all add: dispatch_def Let_def ID_defs)

lemma dispatch_effect:
  assumes "dispatch p cx db con origin i inp s = (Inr out, s')"
  shows "if IsTransactionID i then as_message p cx con s s' else same_keeper s s'"
proof (cases "IsTransactionID i")
  case True
  then have "as_message p cx con s s'"
    using assms
    by (auto simp: IsTransactionID_def dispatch_simps RunWithStateDB_Inr_iff
        dest: AddRegistry_effect AddRecord_effect UpdateRecordStatus_effect GrantRole_effect RevokeRole_effect)
  with True show ?thesis by simp
next
  case False
  then have "same_keeper s s'"
    using assms
    by (auto simp: dispatch_def Let_def IsTransactionID_def Run_Inr_iff split: if_splits option.splits dest: query_effects)
  with False show ?thesis by simp
qed

section \<open>The gates\<close>

text \<open>What a contract must be to write: an account that signs the transaction itself and attaches no funds.\<close>

definition direct_caller :: "evm_lib \<Rightarrow> StateDB option \<Rightarrow> contract \<Rightarrow> Address \<Rightarrow> bool" where
  "direct_caller V db con origin \<longleftrightarrow>
     con_Caller con = origin \<and> (\<exists>d. db = Some d \<and> isEOACode V (GetCode d origin)) \<and>
     (\<forall>v. con_Value con = Some v \<longrightarrow> Uint256Sign V v \<noteq> 1)"

lemma direct_caller_iff:
  "direct_caller V db con origin \<longleftrightarrow> res_ok (ensureEOACaller V db con mth origin) \<and> ensureNoValue V con = None"
  by (auto simp: direct_caller_def ensureEOACaller_def ensureNoValue_def split: option.splits)

lemma Execute_Inr_iff:
  "Execute p cx db con0 ro origin s = (Inr out, s') \<longleftrightarrow>
     (\<exists>con. con0 = Some con \<and> 4 \<le> length (con_Input con) \<and> ensureNoValue (pc_evm p) con = None \<and>
        (IsTransactionID (from_be (take 4 (con_Input con))) \<longrightarrow> \<not> ro \<and> direct_caller (pc_evm p) db con origin) \<and>
        dispatch p cx db con origin (from_be (take 4 (con_Input con))) (drop 4 (con_Input con)) s = (Inr out, s'))"
proof (cases con0)
  case (Some con)
  let ?id = "from_be (take 4 (con_Input con)) :: 32 word"
  show ?thesis
    using direct_caller_iff [of "pc_evm p" db con origin "methodName ?id"]
    by (cases "ensureNoValue (pc_evm p) con")
      (auto simp: Some Execute_def ParseMethod_def SplitMethodID_def res_bind_def act_reads not_less)
qed (simp add: Execute_def)

lemma Execute_effect:
  assumes "Execute p cx db (Some con) ro origin s = (Inr out, s')"
  shows "same_keeper s s' \<or> as_message p cx con s s' \<and> \<not> ro \<and> direct_caller (pc_evm p) db con origin"
  using assms dispatch_effect by (fastforce simp: Execute_Inr_iff split: if_splits)

text \<open>
  The name index is local to a node. While a block executes (not in \<open>eth_call\<close>, which runs on a
  check context) the result and the state after a call are the same whatever the index holds.
\<close>

lemma pc_NameIndex_fields [simp]:
  "pc_env (p\<lparr>pc_NameIndex := i\<rparr>) = pc_env p" "pc_abi (p\<lparr>pc_NameIndex := i\<rparr>) = pc_abi p"
  "pc_evm (p\<lparr>pc_NameIndex := i\<rparr>) = pc_evm p" "pc_index (p\<lparr>pc_NameIndex := i\<rparr>) = pc_index p"
  "pc_paginate (p\<lparr>pc_NameIndex := i\<rparr>) = pc_paginate p"
  by simp_all

lemma emit_index:
  "emitAddRegistryEvent (p\<lparr>pc_NameIndex := i\<rparr>) = emitAddRegistryEvent p"
  "emitAddRecordEvent (p\<lparr>pc_NameIndex := i\<rparr>) = emitAddRecordEvent p"
  "emitUpdateRecordStatusEvent (p\<lparr>pc_NameIndex := i\<rparr>) = emitUpdateRecordStatusEvent p"
  "emitGrantRoleEvent (p\<lparr>pc_NameIndex := i\<rparr>) = emitGrantRoleEvent p"
  "emitRevokeRoleEvent (p\<lparr>pc_NameIndex := i\<rparr>) = emitRevokeRoleEvent p"
  unfolding emitAddRegistryEvent_def emitAddRecordEvent_def emitUpdateRecordStatusEvent_def emitGrantRoleEvent_def
    emitRevokeRoleEvent_def emitEvent_def pc_NameIndex_fields
  by (rule refl)+

lemma methods_index:
  "Precompile_AddRegistry (p\<lparr>pc_NameIndex := i\<rparr>) = Precompile_AddRegistry p"
  "Precompile_AddRecord (p\<lparr>pc_NameIndex := i\<rparr>) = Precompile_AddRecord p"
  "Precompile_UpdateRecordStatus (p\<lparr>pc_NameIndex := i\<rparr>) = Precompile_UpdateRecordStatus p"
  "Precompile_GrantRole (p\<lparr>pc_NameIndex := i\<rparr>) = Precompile_GrantRole p"
  "Precompile_RevokeRole (p\<lparr>pc_NameIndex := i\<rparr>) = Precompile_RevokeRole p"
  "Precompile_Records (p\<lparr>pc_NameIndex := i\<rparr>) = Precompile_Records p"
  "Precompile_Registries (p\<lparr>pc_NameIndex := i\<rparr>) = Precompile_Registries p"
  unfolding Precompile_AddRegistry_def Precompile_AddRecord_def Precompile_UpdateRecordStatus_def
    Precompile_GrantRole_def Precompile_RevokeRole_def Precompile_Records_def Precompile_Registries_def
    emit_index pc_NameIndex_fields
  by (rule refl)+

lemma Execute_index:
  assumes "\<not> IsCheckTx cx"
  shows "Execute (p\<lparr>pc_NameIndex := i\<rparr>) cx db con ro origin = Execute p cx db con ro origin"
proof -
  have gate: "\<And>con. registriesByNameGate (p\<lparr>pc_NameIndex := i\<rparr>) cx db con origin = Some ErrRegistriesByNameInTx"
    "\<And>con. registriesByNameGate p cx db con origin = Some ErrRegistriesByNameInTx"
    using assms by (simp_all add: registriesByNameGate_def)
  show ?thesis unfolding Execute_def dispatch_def gate methods_index pc_NameIndex_fields option.case by (rule refl)
qed

section \<open>Calls from the generated code\<close>

text \<open>
  What a client sends is the selector and the encoded arguments. \<open>ParseMethod\<close> splits them again, so
  the handler of the method runs on the arguments the client gave.
\<close>

lemma selector_ids:
  "from_be AddRegistrySelector = AddRegistryID" "from_be AddRecordSelector = AddRecordID"
  "from_be GrantRoleSelector = GrantRoleID" "from_be RevokeRoleSelector = RevokeRoleID"
  "from_be UpdateRecordStatusSelector = UpdateRecordStatusID" "from_be RecordsSelector = RecordsID"
  "length AddRegistrySelector = 4" "length AddRecordSelector = 4" "length GrantRoleSelector = 4"
  "length RevokeRoleSelector = 4" "length UpdateRecordStatusSelector = 4" "length RecordsSelector = 4"
  by code_simp+

lemma Execute_call:
  assumes "direct_caller (pc_evm p) db con origin" and "length sel = 4"
  shows "Execute p cx db (Some (con\<lparr>con_Input := sel @ bz\<rparr>)) False origin =
    dispatch p cx db (con\<lparr>con_Input := sel @ bz\<rparr>) origin (from_be sel) bz"
proof -
  let ?con = "con\<lparr>con_Input := sel @ bz\<rparr>"
  have "direct_caller (pc_evm p) db ?con origin" using assms(1) by (simp add: direct_caller_def)
  then have "\<And>m. res_ok (ensureEOACaller (pc_evm p) db ?con m origin)" "ensureNoValue (pc_evm p) ?con = None"
    using direct_caller_iff by blast+
  with assms(2) show ?thesis
    by (simp add: Execute_def ParseMethod_def SplitMethodID_def res_bind_def act_bind_def act_try_def fun_eq_iff)
qed

section \<open>One call from end to end\<close>

lemma emitEvent_logs:
  assumes "abi_ok (pc_abi p)"
  shows "emitEvent p cx (Some d) (Inr topics) (Inr bz) s =
    (Inr (), s\<lparr>Logs := Logs s @ [\<lparr>log_Address = AnchoringPrecompileAddress, log_Topics = topics, log_Data = bz,
       log_BlockNumber = of_int (BlockHeight cx)\<rparr>]\<rparr>)"
  using assms by (simp add: emitEvent_def abi_ok_def act_bind_def act_try_def act_put_def)

lemma AddRecord_indexed:
  "AddRecord E cx sender rc k = (Inr i, k') \<Longrightarrow> chas (RecordIndices k') (rec_RegistryId rc, i)"
  by (erule AddRecord_cases) (simp_all add: chas_iff)

text \<open>The event of a record: it is logged with the version the record now has.\<close>

definition logs_record :: "abi \<Rightarrow> Address \<Rightarrow> 'z keeper_scheme \<Rightarrow> u64 \<Rightarrow> u64 \<Rightarrow> string \<Rightarrow> ethlog \<Rightarrow> bool" where
  "logs_record A caller k r i c l \<longleftrightarrow>
     log_Address l = AnchoringPrecompileAddress \<and>
     AddRecordEventIndexed_DecodeTopics A (log_Topics l) = Inr \<lparr>AddRecordEventIndexed_Caller = caller\<rparr> \<and>
     (\<exists>x n. cget (RecordIndices k) (r, i) = Some x \<and>
        AddRecordEventData_Decode A (log_Data l) =
          Inr (\<lparr>AddRecordEventData_RegistryId = r, AddRecordEventData_RecordId = i, AddRecordEventData_Index = x,
                AddRecordEventData_Checksum = c\<rparr>, n))"

lemma emitAddRecordEvent_logs:
  assumes ok: "abi_ok (pc_abi p)" and size: "128 + SizeString (pc_abi p) c < 2 ^ 31"
    and idx: "chas (RecordIndices s) (r, i)"
  shows "\<exists>l. emitAddRecordEvent p cx (Some d) caller r i c s = (Inr (), s\<lparr>Logs := Logs s @ [l]\<rparr>) \<and>
    logs_record (pc_abi p) caller s r i c l"
proof -
  from idx obtain x where x: "cget (RecordIndices s) (r, i) = Some x" by (auto simp: chas_iff)
  let ?data = "\<lparr>AddRecordEventData_RegistryId = r, AddRecordEventData_RecordId = i, AddRecordEventData_Index = x,
    AddRecordEventData_Checksum = c\<rparr>"
  obtain hash where topics: "AddRecordEventIndexed_EncodeTopics (pc_abi p) \<lparr>AddRecordEventIndexed_Caller = caller\<rparr> =
      Inr [AddRecordEventTopic, hash]"
    "AddRecordEventIndexed_DecodeTopics (pc_abi p) [AddRecordEventTopic, hash] = Inr \<lparr>AddRecordEventIndexed_Caller = caller\<rparr>"
    using AddRecord_event.topics_roundtrip [OF ok] by blast
  have "AddRecordEventData_EncodedSize (pc_abi p) ?data < 2 ^ 31"
    using size by (simp add: AddRecordEventData_EncodedSize_def AddRecordEventDataStaticSize_def)
  from AddRecordEventData_abi.encode_decode [OF ok this] obtain bz
    where bz: "AddRecordEventData_Encode (pc_abi p) ?data = Inr bz"
      "AddRecordEventData_Decode (pc_abi p) (bz @ []) = Inr (?data, length bz)"
    unfolding AddRecordEventData_Encode_def by blast
  have "emitAddRecordEvent p cx (Some d) caller r i c s =
      emitEvent p cx (Some d) (Inr [AddRecordEventTopic, hash]) (Inr bz) s"
    using x topics(1) bz(1) by (simp add: emitAddRecordEvent_def NewAddRecordEvent_def act_bind_def act_get_def coll_Get_def)
  moreover have "logs_record (pc_abi p) caller s r i c \<lparr>log_Address = AnchoringPrecompileAddress,
      log_Topics = [AddRecordEventTopic, hash], log_Data = bz, log_BlockNumber = of_int (BlockHeight cx)\<rparr>"
    using topics(2) bz(2) x by (simp add: logs_record_def)
  ultimately show ?thesis unfolding emitEvent_logs [OF ok] by blast
qed

lemma addRecord_call_runs:
  assumes ok: "abi_ok (pc_abi p)" and size: "AddRecordCall_EncodedSize (pc_abi p) c < 2 ^ 31"
    and caller: "direct_caller (pc_evm p) (Some d) con origin"
    and sender: "BytesToString (pc_env p) (Address_Bytes (con_Caller con)) = Inr sender"
    and run: "Msg_AddRecord (pc_env p) cx (Some \<lparr>mrc_Sender = sender, mrc_Record = Some (FromABIRecord (AddRecordCall_Record c))\<rparr>) s =
      (Inr i, t)"
  shows "\<exists>bz out l. AddRecordCall_EncodeWithSelector (pc_abi p) c = Inr bz \<and>
    Execute p cx (Some d) (Some (con\<lparr>con_Input := bz\<rparr>)) False origin s = (Inr out, t\<lparr>Logs := Logs t @ [l]\<rparr>) \<and>
    AddRecordReturn_Decode (pc_abi p) out = Inr (\<lparr>AddRecordReturn_RecordId = i\<rparr>, length out) \<and>
    logs_record (pc_abi p) (con_Caller con) t (rec_RegistryId (FromABIRecord (AddRecordCall_Record c))) i
      (rec_Checksum (FromABIRecord (AddRecordCall_Record c))) l"
proof -
  let ?A = "pc_abi p" and ?doc = "FromABIRecord (AddRecordCall_Record c)"
  from AddRecordCall_abi.encode_selector_decode [OF ok size selector_ids(8)] obtain bz
    where bz: "AddRecordCall_EncodeWithSelector ?A c = Inr (AddRecordSelector @ bz)"
      "AddRecordCall_Decode ?A (bz @ []) = Inr (c, length bz)"
    unfolding AddRecordCall_EncodeWithSelector_def by blast
  let ?con = "con\<lparr>con_Input := AddRecordSelector @ bz\<rparr>"
  have "128 + SizeString ?A (rec_Checksum ?doc) < 2 ^ 31"
    using size by (simp add: AddRecordCall_EncodedSize_def RecordTuple_EncodedSize_def RecordStaticSize_def FromABIRecord_def)
  moreover have "chas (RecordIndices t) (rec_RegistryId ?doc, i)"
    using run by (auto simp: Msg_AddRecord_Inr_iff dest: AddRecord_indexed)
  ultimately obtain l where l: "emitAddRecordEvent p cx (Some d) (con_Caller con) (rec_RegistryId ?doc) i (rec_Checksum ?doc) t =
      (Inr (), t\<lparr>Logs := Logs t @ [l]\<rparr>)"
    "logs_record ?A (con_Caller con) t (rec_RegistryId ?doc) i (rec_Checksum ?doc) l"
    using emitAddRecordEvent_logs [OF ok] by blast
  have "AddRecordReturn_EncodedSize ?A \<lparr>AddRecordReturn_RecordId = i\<rparr> < 2 ^ 31"
    by (simp add: AddRecordReturn_EncodedSize_def AddRecordReturnStaticSize_def)
  from AddRecordReturn_abi.encode_decode [OF ok this] obtain out
    where out: "AddRecordReturn_Encode ?A \<lparr>AddRecordReturn_RecordId = i\<rparr> = Inr out"
      "AddRecordReturn_Decode ?A (out @ []) = Inr (\<lparr>AddRecordReturn_RecordId = i\<rparr>, length out)"
    unfolding AddRecordReturn_Encode_def by blast
  have "Precompile_AddRecord p cx c (Some d) ?con s = (Inr \<lparr>AddRecordReturn_RecordId = i\<rparr>, t\<lparr>Logs := Logs t @ [l]\<rparr>)"
    unfolding Precompile_AddRecord_def act_bind_try_Inr_iff act_bind_Inr_iff Let_def using sender run l(1) by auto
  then have "Execute p cx (Some d) (Some ?con) False origin s = (Inr out, t\<lparr>Logs := Logs t @ [l]\<rparr>)"
    using bz(2) out(1) unfolding Execute_call [OF caller selector_ids(8)] selector_ids(2) dispatch_simps
    by (auto simp: RunWithStateDB_Inr_iff)
  with bz(1) out(2) l(2) show ?thesis by auto
qed

end
