(* ===== verification/Precompile_Properties.thy ===== *)
theory Precompile_Properties
  imports Precompile_Safety Query_Sample
begin

text \<open>
  The properties of the precompile, the way into the module for accounts of the EVM, and their
  application to one call.
\<close>

section \<open>A sample call\<close>

text \<open>The EVM library as documented; the sign of a 256-bit value is that of its two's complement.\<close>

definition sample_evm :: evm_lib where
  "sample_evm = \<lparr>
     RevertReasonBytes = (\<lambda>s. Inr (bytes_of_string s)),
     ParseDelegation = (\<lambda>code. False),
     AddressHex = (\<lambda>a. ''0x''),
     Uint256String = (\<lambda>v. ''''),
     Uint256Sign = (\<lambda>v. if v = 0 then 0 else if v < 2 ^ 255 then 1 else -1),
     ErrCannotReceiveFunds = (\<lambda>v. ''cannot receive funds''),
     ErrSenderNoEOA = ''sender not an eoa'',
     BaseRequiredGas = (\<lambda>input tx. 0)\<rparr>"

definition sample_precompile :: Precompile where
  "sample_precompile = \<lparr>
     pc_env = sample_env\<lparr>BytesToString := (\<lambda>a. Inr (sample_name (drop 19 a)))\<rparr>,
     pc_abi = sample_abi, pc_evm = sample_evm, pc_index = sample_index,
     pc_paginate = (\<lambda>entries page. Inr (map snd entries, None)), pc_NameIndex = None,
     pc_ReadCostFlat = 1000, pc_ReadCostPerByte = 3\<rparr>"

text \<open>The account \<open>ann\<close> calls without funds; no account has code.\<close>

definition sample_contract :: contract where
  "sample_contract = \<lparr>con_Caller = 1, con_Input = [], con_Value = None\<rparr>"

definition sample_db :: StateDB where
  "sample_db = \<lparr>GetCode = (\<lambda>a. [])\<rparr>"

definition sample_call :: AddRecordCall where
  "sample_call = \<lparr>AddRecordCall_Record = ToABIRecord sample_record\<rparr>"

definition sample_evm_state :: evm_state where
  "sample_evm_state = snd (AddRegistry sample_env sample_ctx [1] ''R'' '''' ''''
     (keeper.extend sample_state (evm_state.fields [] 0)))"

definition sample_message :: "error + u64" where
  "sample_message = fst (Msg_AddRecord (pc_env sample_precompile) sample_ctx
     (Some \<lparr>mrc_Sender = ''ann'', mrc_Record = Some (FromABIRecord (AddRecordCall_Record sample_call))\<rparr>) sample_evm_state)"

lemma sample_message_value: "sample_message = Inr 1"
  by code_simp

lemma sample_direct: "direct_caller (pc_evm sample_precompile) (Some sample_db) sample_contract 1"
  by (simp add: direct_caller_def sample_contract_def sample_db_def isEOACode_def)

lemma sample_size: "AddRecordCall_EncodedSize (pc_abi sample_precompile) sample_call < 2 ^ 31"
  by (simp add: sample_precompile_def sample_call_def AddRecordCall_EncodedSize_def AddRecordCallStaticSize_def
      RecordTuple_EncodedSize_def RecordStaticSize_def ToABIRecord_def sample_record_def sample_abi_defs sample_SizeBytes_def pad_len_def
      bytes_of_string_def)

lemma sample_sender: "BytesToString (pc_env sample_precompile) (Address_Bytes (con_Caller sample_contract)) = Inr ''ann''"
  by code_simp

lemma sample_abi_ok': "abi_ok (pc_abi sample_precompile)"
  by (simp add: sample_precompile_def sample_abi_ok)

lemma sample_message_runs:
  "\<exists>t. Msg_AddRecord (pc_env sample_precompile) sample_ctx
     (Some \<lparr>mrc_Sender = ''ann'', mrc_Record = Some (FromABIRecord (AddRecordCall_Record sample_call))\<rparr>) sample_evm_state = (Inr 1, t)"
  using sample_message_value unfolding sample_message_def by (metis prod.collapse)

section \<open>Properties\<close>

text \<open>
  C9. A call of the precompile that returns refines one message: either it changes nothing of the
  module's state, or it is not read-only, comes directly from an account without code that is the
  origin of the transaction and attaches no positive value, and leaves the state that one message
  signed by that account leaves, apart from logs and gas.
\<close>

theorem Execute_refines_message:
  assumes "Execute p cx db (Some con) ro origin s = (Inr out, s')"
  shows "same_keeper s s' \<or> as_message p cx con s s' \<and> \<not> ro \<and> direct_caller (pc_evm p) db con origin"
  using assms by (rule Execute_effect)

theorem Execute_refines_message_witness:
  "\<exists>bz out s'. Execute sample_precompile sample_ctx (Some sample_db) (Some (sample_contract\<lparr>con_Input := bz\<rparr>)) False 1 sample_evm_state =
      (Inr out, s') \<and>
    (same_keeper sample_evm_state s' \<or> as_message sample_precompile sample_ctx (sample_contract\<lparr>con_Input := bz\<rparr>) sample_evm_state s')"
proof -
  obtain t where "Msg_AddRecord (pc_env sample_precompile) sample_ctx
      (Some \<lparr>mrc_Sender = ''ann'', mrc_Record = Some (FromABIRecord (AddRecordCall_Record sample_call))\<rparr>) sample_evm_state = (Inr 1, t)"
    using sample_message_runs by blast
  from addRecord_call_runs [OF sample_abi_ok' sample_size sample_direct sample_sender this] obtain bz out l
    where "Execute sample_precompile sample_ctx (Some sample_db) (Some (sample_contract\<lparr>con_Input := bz\<rparr>)) False 1 sample_evm_state =
      (Inr out, t\<lparr>Logs := Logs t @ [l]\<rparr>)" by blast
  with Execute_refines_message [OF this] show ?thesis by blast
qed

text \<open>
  C10. The name index, which every node keeps or leaves out for itself, does not reach consensus:
  outside of \<open>eth_call\<close> a call gives the same result and the same state whatever the index holds.
\<close>

theorem Execute_ignores_index:
  assumes "\<not> IsCheckTx cx"
  shows "Execute (p\<lparr>pc_NameIndex := i\<rparr>) cx db con ro origin = Execute (p\<lparr>pc_NameIndex := j\<rparr>) cx db con ro origin"
  by (rule trans [OF Execute_index [OF assms] Execute_index [OF assms, symmetric]])

theorem Execute_ignores_index_witness:
  "Execute (sample_precompile\<lparr>pc_NameIndex := Some sample_store\<rparr>) sample_ctx (Some sample_db)
      (Some (sample_contract\<lparr>con_Input := RegistriesByNameSelector\<rparr>)) False 1 sample_evm_state =
   Execute (sample_precompile\<lparr>pc_NameIndex := None\<rparr>) sample_ctx (Some sample_db)
      (Some (sample_contract\<lparr>con_Input := RegistriesByNameSelector\<rparr>)) False 1 sample_evm_state"
proof -
  have "\<not> IsCheckTx sample_ctx" by (simp add: sample_ctx_def)
  from Execute_ignores_index [OF this] show ?thesis by metis
qed

text \<open>
  C11. A record anchored from the EVM: the call data that the generated client code builds for
  \<open>addRecord\<close>, sent directly by an account, runs the message of that account on that record; the
  return data decodes to the record id, and one event is logged that decodes to the caller, the
  registry, the record id, the version the record now has and its checksum.
\<close>

theorem addRecord_call_end_to_end:
  assumes "abi_ok (pc_abi p)" and "AddRecordCall_EncodedSize (pc_abi p) c < 2 ^ 31"
    and "direct_caller (pc_evm p) (Some d) con origin"
    and "BytesToString (pc_env p) (Address_Bytes (con_Caller con)) = Inr sender"
    and "Msg_AddRecord (pc_env p) cx (Some \<lparr>mrc_Sender = sender, mrc_Record = Some (FromABIRecord (AddRecordCall_Record c))\<rparr>) s =
      (Inr i, t)"
  shows "\<exists>bz out l. AddRecordCall_EncodeWithSelector (pc_abi p) c = Inr bz \<and>
    Execute p cx (Some d) (Some (con\<lparr>con_Input := bz\<rparr>)) False origin s = (Inr out, t\<lparr>Logs := Logs t @ [l]\<rparr>) \<and>
    AddRecordReturn_Decode (pc_abi p) out = Inr (\<lparr>AddRecordReturn_RecordId = i\<rparr>, length out) \<and>
    logs_record (pc_abi p) (con_Caller con) t (rec_RegistryId (FromABIRecord (AddRecordCall_Record c))) i
      (rec_Checksum (FromABIRecord (AddRecordCall_Record c))) l"
  using assms by (rule addRecord_call_runs)

theorem addRecord_call_end_to_end_witness:
  "\<exists>bz out s'. AddRecordCall_EncodeWithSelector (pc_abi sample_precompile) sample_call = Inr bz \<and>
    Execute sample_precompile sample_ctx (Some sample_db) (Some (sample_contract\<lparr>con_Input := bz\<rparr>)) False 1 sample_evm_state =
      (Inr out, s') \<and>
    AddRecordReturn_Decode (pc_abi sample_precompile) out = Inr (\<lparr>AddRecordReturn_RecordId = 1\<rparr>, length out)"
proof -
  obtain t where "Msg_AddRecord (pc_env sample_precompile) sample_ctx
      (Some \<lparr>mrc_Sender = ''ann'', mrc_Record = Some (FromABIRecord (AddRecordCall_Record sample_call))\<rparr>) sample_evm_state = (Inr 1, t)"
    using sample_message_runs by blast
  from addRecord_call_end_to_end [OF sample_abi_ok' sample_size sample_direct sample_sender this] show ?thesis by blast
qed

end
