(* ===== verification/Evm_Layout.thy ===== *)
theory Evm_Layout
  imports Anchoring_Keeper Big_Endian
begin

text \<open>
  \<open>x/anchoring/evmlayout\<close>: the state of the module as the storage of the anchoring contract. A
  \<open>common.Hash\<close> is its 32 bytes; the hash function and \<open>common.BytesToAddress\<close> of the Ethereum
  library are parameters. A sink is an action on a state of its own.
\<close>

section \<open>layout.go\<close>

definition SlotRoleAdmin :: u64 where "SlotRoleAdmin = 0"
definition SlotRoleMembers :: u64 where "SlotRoleMembers = 1"
definition SlotRoleMemberCount :: u64 where "SlotRoleMemberCount = 2"
definition SlotHeader :: u64 where "SlotHeader = 3"
definition SlotRegistries :: u64 where "SlotRegistries = 4"
definition SlotRecordCount :: u64 where "SlotRecordCount = 5"
definition SlotLatestIndex :: u64 where "SlotLatestIndex = 6"
definition SlotRecords :: u64 where "SlotRecords = 7"
definition SlotRecordIDByChecksum :: u64 where "SlotRecordIDByChecksum = 8"
definition SlotRegistriesByChecksum :: u64 where "SlotRegistriesByChecksum = 9"
definition SlotRegistriesByName :: u64 where "SlotRegistriesByName = 10"

definition RegistryID :: u64 where "RegistryID = 0"
definition RegistryName :: u64 where "RegistryName = 1"
definition RegistryDescription :: u64 where "RegistryDescription = 2"
definition RegistryCreator :: u64 where "RegistryCreator = 3"
definition RegistryCreatedAt :: u64 where "RegistryCreatedAt = 4"
definition RegistryMetadata :: u64 where "RegistryMetadata = 5"

definition RecordURI :: u64 where "RecordURI = 0"
definition RecordChecksum :: u64 where "RecordChecksum = 1"
definition RecordChecksumAlgo :: u64 where "RecordChecksumAlgo = 2"
definition RecordMetadata :: u64 where "RecordMetadata = 3"
definition RecordTimestamp :: u64 where "RecordTimestamp = 4"
definition RecordStatus :: u64 where "RecordStatus = 5"
definition RecordPacked :: u64 where "RecordPacked = 6"

lemmas slot_defs = SlotRoleAdmin_def SlotRoleMembers_def SlotRoleMemberCount_def SlotHeader_def SlotRegistries_def
  SlotRecordCount_def SlotLatestIndex_def SlotRecords_def SlotRecordIDByChecksum_def SlotRegistriesByChecksum_def
  SlotRegistriesByName_def

lemmas field_defs = RegistryID_def RegistryName_def RegistryDescription_def RegistryCreator_def RegistryCreatedAt_def
  RegistryMetadata_def RecordURI_def RecordChecksum_def RecordChecksumAlgo_def RecordMetadata_def RecordTimestamp_def
  RecordStatus_def RecordPacked_def

type_synonym Hash = bytes

record Write =
  Slot :: Hash
  Value :: Hash

definition zero_hash :: Hash where
  "zero_hash = replicate 32 0"

text \<open>\<open>binary.BigEndian.PutUint64(h[off:off+8], v)\<close>.\<close>

definition PutUint64 :: "nat \<Rightarrow> u64 \<Rightarrow> bytes \<Rightarrow> bytes" where
  "PutUint64 off v h = take off h @ to_be 8 v @ drop (off + 8) h"

definition Word_hash :: "u64 \<Rightarrow> Hash" where
  "Word_hash v = PutUint64 24 v zero_hash"

text \<open>\<open>common.BigToHash\<close> keeps the low 32 bytes of the sum.\<close>

definition at_slot :: "Hash \<Rightarrow> u64 \<Rightarrow> Hash" where
  "at_slot base n = to_be 32 ((from_be base :: 256 word) + ucast n)"

definition mapUint64 :: "env \<Rightarrow> u64 \<Rightarrow> Hash \<Rightarrow> Hash" where
  "mapUint64 E key parent = Keccak256 E (Word_hash key @ parent)"

definition mapHash :: "env \<Rightarrow> Hash \<Rightarrow> Hash \<Rightarrow> Hash" where
  "mapHash E key parent = Keccak256 E (key @ parent)"

definition MapString :: "env \<Rightarrow> string \<Rightarrow> Hash \<Rightarrow> Hash" where
  "MapString E key parent = Keccak256 E (bytes_of_string key @ parent)"

definition ArrayData :: "env \<Rightarrow> Hash \<Rightarrow> Hash" where
  "ArrayData E lengthSlot = Keccak256 E lengthSlot"

text \<open>The loop over the words of a long string, from word \<open>i\<close> on; \<open>copy\<close> fills a zero word.\<close>

function string_words :: "Hash \<Rightarrow> nat \<Rightarrow> bytes \<Rightarrow> Write list" where
  "string_words start i b =
     (if b = [] then []
      else \<lparr>Slot = at_slot start (of_nat i), Value = take 32 (b @ zero_hash)\<rparr> # string_words start (i + 1) (drop 32 b))"
  by pat_completeness auto
termination
  by (relation "measure (\<lambda>(start, i, b). length b)") auto

declare string_words.simps [simp del]

definition stringWrites :: "env \<Rightarrow> Hash \<Rightarrow> string \<Rightarrow> Write list" where
  "stringWrites E base s =
     (let b = bytes_of_string s in
      if length b < 32 then [\<lparr>Slot = base, Value = (take 32 (b @ zero_hash))[31 := of_nat (length b * 2)]\<rparr>]
      else \<lparr>Slot = base, Value = Word_hash (of_nat (length b * 2 + 1))\<rparr> # string_words (ArrayData E base) 0 b)"

definition registryBase :: "env \<Rightarrow> u64 \<Rightarrow> Hash" where
  "registryBase E registryID = mapUint64 E registryID (Word_hash SlotRegistries)"

definition recordBase :: "env \<Rightarrow> u64 \<Rightarrow> u64 \<Rightarrow> u64 \<Rightarrow> Hash" where
  "recordBase E registryID recordID index =
     mapUint64 E index (mapUint64 E recordID (mapUint64 E registryID (Word_hash SlotRecords)))"

definition registryWrites :: "env \<Rightarrow> Hash \<Rightarrow> Registry \<Rightarrow> Write list" where
  "registryWrites E base reg =
     [\<lparr>Slot = at_slot base RegistryID, Value = Word_hash (reg_Id reg)\<rparr>] @
     stringWrites E (at_slot base RegistryName) (reg_Name reg) @
     stringWrites E (at_slot base RegistryDescription) (reg_Description reg) @
     stringWrites E (at_slot base RegistryCreator) (reg_Creator reg) @
     stringWrites E (at_slot base RegistryCreatedAt) (reg_CreatedAt reg) @
     stringWrites E (at_slot base RegistryMetadata) (reg_Metadata reg)"

definition packRecord :: "u64 \<Rightarrow> u64 \<Rightarrow> bool \<Rightarrow> u64 \<Rightarrow> Hash" where
  "packRecord recordID index isLatest registryID =
     (let h = PutUint64 16 index (PutUint64 24 recordID zero_hash);
          h' = (if isLatest then h[15 := 1] else h)
      in PutUint64 7 registryID h')"

definition recordWrites :: "env \<Rightarrow> Hash \<Rightarrow> Record \<Rightarrow> Write list" where
  "recordWrites E base rec =
     stringWrites E (at_slot base RecordURI) (rec_Uri rec) @
     stringWrites E (at_slot base RecordChecksum) (rec_Checksum rec) @
     stringWrites E (at_slot base RecordChecksumAlgo) (rec_ChecksumAlgo rec) @
     stringWrites E (at_slot base RecordMetadata) (rec_Metadata rec) @
     stringWrites E (at_slot base RecordTimestamp) (rec_Timestamp rec) @
     stringWrites E (at_slot base RecordStatus) (rec_Status rec) @
     [\<lparr>Slot = at_slot base RecordPacked,
       Value = packRecord (rec_RecordId rec) (rec_Index rec) (rec_IsLatest rec) (rec_RegistryId rec)\<rparr>]"

text \<open>One turn of the loop of \<open>idsWrites\<close>: every fourth id opens a word, and the id goes into the last one.\<close>

definition ids_step :: "Hash \<Rightarrow> nat \<times> u64 \<Rightarrow> Write list \<Rightarrow> Write list" where
  "ids_step data = (\<lambda>(i, id) writes.
     let ws = (if i mod 4 = 0 then writes @ [\<lparr>Slot = at_slot data (of_nat (i div 4)), Value = zero_hash\<rparr>] else writes);
         e = 32 - 8 * (i mod 4);
         w = last ws
     in butlast ws @ [w\<lparr>Value := PutUint64 (e - 8) id (Value w)\<rparr>])"

definition idsWrites :: "env \<Rightarrow> Hash \<Rightarrow> string \<Rightarrow> u64 list \<Rightarrow> Write list" where
  "idsWrites E table key list =
     (let lengthSlot = MapString E key table in
      fold (ids_step (ArrayData E lengthSlot)) (enumerate 0 list)
        [\<lparr>Slot = lengthSlot, Value = Word_hash (of_nat (length list))\<rparr>])"

section \<open>migrate.go\<close>

type_synonym 's Sink = "Write \<Rightarrow> ('s, unit) act"

definition skipZero :: "'s Sink \<Rightarrow> 's Sink" where
  "skipZero sink w = (if Value w = zero_hash then act_return () else sink w)"

definition emitAll :: "'s Sink \<Rightarrow> Write list \<Rightarrow> ('s, unit) act" where
  "emitAll emit writes = act_each emit writes"

definition asciiLower :: "string \<Rightarrow> string" where
  "asciiLower s = map (\<lambda>c. if (65 :: nat) \<le> of_char c \<and> of_char c \<le> (90 :: nat) then char_of (of_char c + 32 :: nat) else c) s"

text \<open>
  The walks share their local variables with their callbacks: these are part of the state of the
  walk, next to the state of the sink.
\<close>

definition lift_sink :: "('s, 'a) act \<Rightarrow> ('s \<times> 'l, 'a) act" where
  "lift_sink m = (\<lambda>(s, l). case m s of (r, s') \<Rightarrow> (r, (s', l)))"

definition with_locals :: "'l \<Rightarrow> ('s \<times> 'l, unit) act \<Rightarrow> ('l \<Rightarrow> ('s, 'b) act) \<Rightarrow> ('s, 'b) act" where
  "with_locals l m f = (\<lambda>s. case m (s, l) of (Inl e, (s', _)) \<Rightarrow> (Inl e, s') | (Inr _, (s', l')) \<Rightarrow> f l' s')"

definition append_id :: "string \<Rightarrow> u64 \<Rightarrow> (string, u64 list) coll \<Rightarrow> (string, u64 list) coll" where
  "append_id key i byName = cset key ((case cget byName key of None \<Rightarrow> [] | Some ids \<Rightarrow> ids) @ [i]) byName"

definition registry_callback ::
    "env \<Rightarrow> 's Sink \<Rightarrow> u64 \<times> Registry \<Rightarrow> ('s \<times> u64 \<times> (string, u64 list) coll, bool) act" where
  "registry_callback E emit = (\<lambda>(i, registry) (s, previous, byName).
     if i \<noteq> previous + 1
     then (Inl (ErrMsg (''ids must run from 1 with no gaps, got '' @ sprint_u64 i @ '' after '' @ sprint_u64 previous)),
           (s, previous, byName))
     else
       (let byName' = append_id (asciiLower (reg_Name registry)) i byName in
        case emitAll emit (registryWrites E (registryBase E i) registry) s of
          (Inl e, s') \<Rightarrow> (Inl e, (s', i, byName'))
        | (Inr _, s') \<Rightarrow> (Inr False, (s', i, byName'))))"

definition migrateRegistries :: "env \<Rightarrow> 'z keeper_scheme \<Rightarrow> 's Sink \<Rightarrow> ('s, unit) act" where
  "migrateRegistries E k emit =
     with_locals (0, cempty) (walk (registry_callback E emit) (centries (Registries k))) (\<lambda>(previous, byName).
     act_bind (act_try (item_Get (RegistryCount k))) (\<lambda>count.
     if count \<noteq> previous
     then act_fail (ErrMsg (''RegistryCount is '' @ sprint_u64 count @ '' but the ids end at '' @ sprint_u64 previous))
     else act_each (\<lambda>(name, ids). emitAll emit (idsWrites E (Word_hash SlotRegistriesByName) name ids)) (centries byName)))"

text \<open>A callback that emits and goes on.\<close>

definition go_on :: "('s, unit) act \<Rightarrow> ('s, bool) act" where
  "go_on m = act_bind m (\<lambda>_. act_return False)"

definition migrateRecordCounts :: "env \<Rightarrow> 'z keeper_scheme \<Rightarrow> 's Sink \<Rightarrow> ('s, unit) act" where
  "migrateRecordCounts E k emit =
     walk (\<lambda>(i, count). go_on (emit \<lparr>Slot = mapUint64 E i (Word_hash SlotRecordCount), Value = Word_hash count\<rparr>))
       (centries (RecordsCountByRegistry k))"

definition migrateRecords :: "env \<Rightarrow> 'z keeper_scheme \<Rightarrow> 's Sink \<Rightarrow> ('s, unit) act" where
  "migrateRecords E k emit =
     walk (\<lambda>((k1, k2, k3), record). go_on (emitAll emit (recordWrites E (recordBase E k1 k2 k3) record)))
       (centries (Records k))"

definition migrateLatestIndexes :: "env \<Rightarrow> 'z keeper_scheme \<Rightarrow> 's Sink \<Rightarrow> ('s, unit) act" where
  "migrateLatestIndexes E k emit =
     walk (\<lambda>((k1, k2), index). go_on (emit
       \<lparr>Slot = mapUint64 E k2 (mapUint64 E k1 (Word_hash SlotLatestIndex)), Value = Word_hash index\<rparr>))
       (centries (RecordIndices k))"

definition migrateRecordIDs :: "env \<Rightarrow> 'z keeper_scheme \<Rightarrow> 's Sink \<Rightarrow> ('s, unit) act" where
  "migrateRecordIDs E k emit =
     walk (\<lambda>((k1, k2), recordID). go_on (emit
       \<lparr>Slot = MapString E k2 (mapUint64 E k1 (Word_hash SlotRecordIDByChecksum)), Value = Word_hash recordID\<rparr>))
       (centries (RecordIdByRegistryAndChecksum k))"

definition migrateHeader :: "env \<Rightarrow> (bytes \<Rightarrow> bytes) \<Rightarrow> 'z keeper_scheme \<Rightarrow> 's Sink \<Rightarrow> ('s, unit) act" where
  "migrateHeader E BytesToAddress k emit =
     act_bind (act_try (item_Get (ParamsItem k))) (\<lambda>params.
     act_bind (act_try (res_map_err (ErrWrap (''params admin '' @ [CHR 0x22] @ par_Admin params @ [CHR 0x22])) (AccAddressFromBech32 E (par_Admin params)))) (\<lambda>admin.
     act_bind (act_try (item_Get (RegistryCount k))) (\<lambda>count.
     let header = take 12 zero_hash @ BytesToAddress admin;
         header' = PutUint64 4 count header
     in emit \<lparr>Slot = Word_hash SlotHeader, Value = header'\<rparr>)))"

definition flush_checksum :: "env \<Rightarrow> 's Sink \<Rightarrow> string \<Rightarrow> u64 list \<Rightarrow> ('s, unit) act" where
  "flush_checksum E emit current registries =
     (if registries = [] then act_return ()
      else emitAll emit (idsWrites E (Word_hash SlotRegistriesByChecksum) current registries))"

definition checksum_callback ::
    "env \<Rightarrow> 's Sink \<Rightarrow> (string \<times> u64) \<times> u64 \<Rightarrow> ('s \<times> string \<times> u64 list, bool) act" where
  "checksum_callback E emit = (\<lambda>((k1, k2), _) (s, current, registries).
     if k1 \<noteq> current then
       (case flush_checksum E emit current registries s of
          (Inl e, s') \<Rightarrow> (Inl e, (s', current, registries))
        | (Inr _, s') \<Rightarrow> (Inr False, (s', k1, [k2])))
     else (Inr False, (s, current, registries @ [k2])))"

definition migrateChecksumIndex :: "env \<Rightarrow> 'z keeper_scheme \<Rightarrow> 's Sink \<Rightarrow> ('s, unit) act" where
  "migrateChecksumIndex E k emit =
     with_locals ('''', []) (walk (checksum_callback E emit) (centries (RecordIdByChecksumAndRegistry k)))
       (\<lambda>(current, registries). flush_checksum E emit current registries)"

definition flushCount :: "env \<Rightarrow> 's Sink \<Rightarrow> role \<Rightarrow> u64 \<Rightarrow> ('s, unit) act" where
  "flushCount E emit current members =
     (if members = 0 then act_return ()
      else emit \<lparr>Slot = mapHash E current (Word_hash SlotRoleMemberCount), Value = Word_hash members\<rparr>)"

definition member_write :: "env \<Rightarrow> role \<times> addr \<Rightarrow> Write" where
  "member_write E key =
     \<lparr>Slot = mapHash E (BytesToHash E (snd key)) (mapHash E (fst key) (Word_hash SlotRoleMembers)), Value = Word_hash 1\<rparr>"

definition member_callback ::
    "env \<Rightarrow> 's Sink \<Rightarrow> (role \<times> addr) \<times> bytes \<Rightarrow> ('s \<times> role \<times> u64, bool) act" where
  "member_callback E emit = (\<lambda>(key, _).
     act_bind (\<lambda>(s, current, members).
       if fst key \<noteq> current then
         (case flushCount E emit current members s of
            (Inl e, s') \<Rightarrow> (Inl e, (s', current, members))
          | (Inr _, s') \<Rightarrow> (Inr (), (s', fst key, 0)))
       else (Inr (), (s, current, members))) (\<lambda>_.
     act_bind (act_put (\<lambda>(s, current, members). (s, current, members + 1))) (\<lambda>_.
     go_on (lift_sink (emit (member_write E key))))))"

definition migrateRoles :: "env \<Rightarrow> 'z keeper_scheme \<Rightarrow> 's Sink \<Rightarrow> ('s, unit) act" where
  "migrateRoles E k emit =
     act_bind (walk (\<lambda>(role, adminRole). go_on (emit
       \<lparr>Slot = mapHash E role (Word_hash SlotRoleAdmin), Value = BytesToHash E adminRole\<rparr>)) (centries (RoleAdmins k))) (\<lambda>_.
     with_locals (zero_hash, 0) (walk (member_callback E emit) (centries (RoleMembers k)))
       (\<lambda>(current, members). flushCount E emit current members))"

definition migrate_step :: "string \<times> ('s, unit) act \<Rightarrow> ('s, unit) act" where
  "migrate_step = (\<lambda>(what, m) s.
     case m s of (Inl e, s') \<Rightarrow> (Inl (ErrWrap (''migrating '' @ what) e), s') | (Inr u, s') \<Rightarrow> (Inr u, s'))"

definition Migrate :: "env \<Rightarrow> (bytes \<Rightarrow> bytes) \<Rightarrow> 'z keeper_scheme \<Rightarrow> 's Sink \<Rightarrow> ('s, unit) act" where
  "Migrate E BytesToAddress k sink =
     (let emit = skipZero sink in
      act_each migrate_step
        [(''registries'', migrateRegistries E k emit),
         (''record counts'', migrateRecordCounts E k emit),
         (''records'', migrateRecords E k emit),
         (''latest indexes'', migrateLatestIndexes E k emit),
         (''checksum lookup'', migrateRecordIDs E k emit),
         (''header'', migrateHeader E BytesToAddress k emit),
         (''checksum index'', migrateChecksumIndex E k emit),
         (''roles'', migrateRoles E k emit)])"

section \<open>dump.go\<close>

definition dumpMagic :: bytes where
  "dumpMagic = bytes_of_string ''TEMPOSB'' @ [0]"

definition dumpVersion :: "16 word" where "dumpVersion = 1"
definition dumpHeader :: nat where "dumpHeader = 40"
definition dumpPair :: nat where "dumpPair = 64"
definition DumpBlockPairs :: nat where "DumpBlockPairs = 1048576"

definition Layout_Address :: bytes where
  "Layout_Address = to_be 20 (0xa00 :: 160 word)"

text \<open>The writer is an action per chunk on a state of its own.\<close>

record 'w Dump =
  dump_out :: 'w
  dump_address :: bytes
  pending :: bytes

definition NewDump :: "'w \<Rightarrow> bytes \<Rightarrow> 'w Dump" where
  "NewDump out address = \<lparr>dump_out = out, dump_address = address, pending = []\<rparr>"

definition dump_header :: "bytes \<Rightarrow> bytes \<Rightarrow> bytes" where
  "dump_header address pend =
     dumpMagic @ to_be 2 dumpVersion @ [0, 0] @ address @ to_be 8 (of_nat (length pend div dumpPair) :: u64)"

definition dump_write :: "(bytes \<Rightarrow> ('w, unit) act) \<Rightarrow> bytes \<Rightarrow> ('w Dump, unit) act" where
  "dump_write wr bz d = (case wr bz (dump_out d) of (r, w) \<Rightarrow> (r, d\<lparr>dump_out := w\<rparr>))"

definition flush :: "(bytes \<Rightarrow> ('w, unit) act) \<Rightarrow> ('w Dump, unit) act" where
  "flush wr d =
     (if pending d = [] then (Inr (), d)
      else act_bind (dump_write wr (dump_header (dump_address d) (pending d))) (\<lambda>_.
           act_bind (dump_write wr (pending d)) (\<lambda>_.
           act_put (\<lambda>d. d\<lparr>pending := []\<rparr>))) d)"

definition Put :: "(bytes \<Rightarrow> ('w, unit) act) \<Rightarrow> 'w Dump Sink" where
  "Put wr w =
     act_bind (act_put (\<lambda>d. d\<lparr>pending := pending d @ Slot w @ Value w\<rparr>)) (\<lambda>_ d.
     if length (pending d) = DumpBlockPairs * dumpPair then flush wr d else (Inr (), d))"

definition Dump_Close :: "(bytes \<Rightarrow> ('w, unit) act) \<Rightarrow> ('w Dump, unit) act" where
  "Dump_Close wr = flush wr"

end
