(* ===== verification/Evm_Layout_Safety.thy ===== *)
theory Evm_Layout_Safety
  imports Evm_Layout Keeper_Invariant Role_Safety
begin

text \<open>
  What the migration writes: its slots as terms over the hash function, the cells it fills in
  closed form, and the storage that results, read back as Solidity lays it out.
\<close>

section \<open>Words\<close>

lemma zero_hash_length [simp]: "length zero_hash = 32" "zero_hash \<noteq> []"
  by (simp_all add: zero_hash_def)

lemma PutUint64_split: "length a = off \<Longrightarrow> length b = 8 \<Longrightarrow> PutUint64 off v (a @ b @ c) = a @ to_be 8 v @ c"
  by (simp add: PutUint64_def)

lemma Word_hash_bytes: "Word_hash v = replicate 24 0 @ to_be 8 v"
  using PutUint64_split [of "replicate 24 0" 24 "replicate 8 0" v "[]"]
  by (simp add: Word_hash_def zero_hash_def flip: replicate_add)

lemma packRecord_bytes:
  "packRecord i x latest r = replicate 7 0 @ to_be 8 r @ [if latest then 1 else 0] @ to_be 8 x @ to_be 8 i"
proof -
  have 1: "PutUint64 24 i zero_hash = replicate 16 0 @ replicate 8 0 @ to_be 8 i"
    using Word_hash_bytes [of i] by (simp add: Word_hash_def flip: append_assoc replicate_add)
  have 2: "PutUint64 16 x (PutUint64 24 i zero_hash) = replicate 7 0 @ replicate 8 0 @ [0] @ to_be 8 x @ to_be 8 i"
  proof -
    have "(replicate 16 0 :: bytes) = replicate 7 0 @ replicate 8 0 @ [0]" by (simp add: numeral_eq_Suc)
    with PutUint64_split [of "replicate 16 0" 16 "replicate 8 0" x "to_be 8 i"] show ?thesis by (simp add: 1)
  qed
  have "(replicate 7 0 @ replicate 8 0 @ [0] @ ys)[15 := 1] = replicate 7 0 @ replicate 8 0 @ [1] @ (ys :: bytes)" for ys
    by (simp add: list_update_append)
  with PutUint64_split [of "replicate 7 0" 7 "replicate 8 0" r] show ?thesis
    unfolding packRecord_def Let_def 2 by simp
qed

lemma at_slot_length [simp]: "length (at_slot base n) = 32"
  by (simp add: at_slot_def)

text \<open>Sums within the last eight bytes do not touch the others.\<close>

lemma from_be_append: "from_be (xs @ ys) = (push_bit (8 * length ys) (from_be xs) OR from_be ys :: 'a :: len word)"
proof (induction ys rule: rev_induct)
  case (snoc y ys)
  have "from_be (xs @ ys @ [y]) = (push_bit 8 (from_be (xs @ ys)) OR ucast y :: 'a word)"
    by (metis append_assoc from_be_snoc)
  then show ?case unfolding snoc.IH by (simp add: push_bit_or push_bit_push_bit ac_simps)
qed simp

lemma from_be_replicate_0 [simp]: "from_be (replicate n 0) = 0"
  by (induction n) (simp_all add: from_be_def)

lemma at_slot_zeros:
  assumes "length bz = 24"
  shows "at_slot (bz @ replicate 8 0) n = bz @ to_be 8 n"
proof -
  let ?h = "push_bit 64 (from_be bz) :: 256 word"
  have "to_be 8 n = to_be 8 (ucast n :: 256 word)"
    unfolding to_be_def by (intro map_cong refl bit_word_eqI) (auto simp: bit_simps)
  then have "(from_be (to_be 8 n) :: 256 word) = take_bit 64 (ucast n)" by (simp add: from_be_to_be)
  also have "\<dots> = ucast n" by (rule bit_word_eqI) (auto simp: bit_simps dest: bit_imp_le_length)
  finally have "from_be (bz @ to_be 8 n) = ?h OR ucast n" by (simp add: from_be_append)
  also have "\<dots> = ?h + ucast n"
  proof (rule disjunctive_add [symmetric])
    show "\<not> bit ?h i \<or> \<not> bit (ucast n :: 256 word) i" for i by (auto simp: bit_simps dest: bit_imp_le_length)
  qed
  also have "?h = from_be (bz @ replicate 8 0)" by (simp add: from_be_append)
  finally show ?thesis
    using to_be_from_be [of "bz @ to_be 8 n", where ?'a = 256] assms by (simp add: at_slot_def)
qed

section \<open>Storage locations\<close>

text \<open>
  A location of the contract's storage: a state variable, an entry of a mapping, the elements of an
  array or the words of a long string, and an offset. \<open>slot_of\<close> is the slot the layout gives it.
\<close>

datatype loc = Var u64 | AtU64 u64 loc | AtHash Hash loc | AtString string loc | Data loc | Plus loc u64

fun slot_of :: "env \<Rightarrow> loc \<Rightarrow> Hash" where
  "slot_of E (Var n) = Word_hash n"
| "slot_of E (AtU64 key p) = mapUint64 E key (slot_of E p)"
| "slot_of E (AtHash key p) = mapHash E key (slot_of E p)"
| "slot_of E (AtString key p) = MapString E key (slot_of E p)"
| "slot_of E (Data p) = ArrayData E (slot_of E p)"
| "slot_of E (Plus p n) = at_slot (slot_of E p) n"

type_synonym cell = "loc \<times> Hash"

definition cell_write :: "env \<Rightarrow> cell \<Rightarrow> Write" where
  "cell_write E c = \<lparr>Slot = slot_of E (fst c), Value = snd c\<rparr>"

text \<open>The cells of a string at \<open>p\<close> and of a list of ids, four to a word.\<close>

definition word_at :: "bytes \<Rightarrow> nat \<Rightarrow> Hash" where
  "word_at b i = take 32 (drop (32 * i) b @ zero_hash)"

definition string_cells :: "loc \<Rightarrow> string \<Rightarrow> cell list" where
  "string_cells p s =
     (let b = bytes_of_string s in
      if length b < 32 then [(p, (take 32 (b @ zero_hash))[31 := of_nat (length b * 2)])]
      else (p, Word_hash (of_nat (length b * 2 + 1))) #
           map (\<lambda>i. (Plus (Data p) (of_nat i), word_at b i)) [0..<(length b + 31) div 32])"

definition ids_word :: "u64 list \<Rightarrow> Hash" where
  "ids_word is = replicate (32 - 8 * length is) 0 @ concat (map (to_be 8) (rev is))"

definition ids_cells :: "loc \<Rightarrow> u64 list \<Rightarrow> cell list" where
  "ids_cells p list =
     (p, Word_hash (of_nat (length list))) #
     map (\<lambda>j. (Plus (Data p) (of_nat j), ids_word (take 4 (drop (4 * j) list)))) [0..<(length list + 3) div 4]"

lemma string_words_cells:
  "string_words start i b =
     map (\<lambda>j. \<lparr>Slot = at_slot start (of_nat (i + j)), Value = word_at b j\<rparr>) [0..<(length b + 31) div 32]"
proof (induction start i b rule: string_words.induct)
  case (1 start i b)
  show ?case
  proof (cases "b = []")
    case False
    have n: "(length b + 31) div 32 = Suc ((length (drop 32 b) + 31) div 32)"
    proof (cases "length b < 32")
      case True
      moreover have "0 < length b" using False by simp
      ultimately have "(length b + 31) div 32 = 1" by linarith
      with True show ?thesis by simp
    next
      case False
      then obtain m where "length b = m + 32" by (metis add.commute le_Suc_ex not_less)
      then show ?thesis by simp
    qed
    have "string_words start i b =
        \<lparr>Slot = at_slot start (of_nat i), Value = word_at b 0\<rparr> # string_words start (i + 1) (drop 32 b)"
      using False by (subst string_words.simps) (simp add: word_at_def)
    also have "\<dots> = map (\<lambda>j. \<lparr>Slot = at_slot start (of_nat (i + j)), Value = word_at b j\<rparr>)
        (0 # map Suc [0..<(length (drop 32 b) + 31) div 32])"
      using 1 [OF False] by (simp add: word_at_def ac_simps)
    finally show ?thesis unfolding n by (simp only: upt_conv_Cons [OF zero_less_Suc] map_Suc_upt)
  qed (simp add: string_words.simps)
qed

lemma stringWrites_cells: "stringWrites E (slot_of E p) s = map (cell_write E) (string_cells p s)"
  by (simp add: stringWrites_def string_cells_def Let_def cell_write_def string_words_cells)

lemma ids_word_put:
  assumes "length is < 4"
  shows "PutUint64 (24 - 8 * length is) i (ids_word is) = ids_word (is @ [i])"
proof -
  have "(replicate (32 - 8 * length is) 0 :: bytes) = replicate (24 - 8 * length is) 0 @ replicate 8 0"
    using assms by (simp flip: replicate_add)
  then have "PutUint64 (24 - 8 * length is) i (ids_word is) =
      replicate (24 - 8 * length is) 0 @ to_be 8 i @ concat (map (to_be 8) (rev is))"
    unfolding ids_word_def append_assoc
    using PutUint64_split [of "replicate (24 - 8 * length is) 0" "24 - 8 * length is" "replicate 8 0" i] by simp
  then show ?thesis by (simp add: ids_word_def)
qed

text \<open>The words of the first \<open>n\<close> full words, and of the list after one more turn.\<close>

definition ids_words :: "Hash \<Rightarrow> u64 list \<Rightarrow> nat \<Rightarrow> Write list" where
  "ids_words data list n =
     map (\<lambda>j. \<lparr>Slot = at_slot data (of_nat j), Value = ids_word (take 4 (drop (4 * j) list))\<rparr>) [0..<n]"

lemma ids_words_prefix: "4 * n \<le> length list \<Longrightarrow> ids_words data (list @ xs) n = ids_words data list n"
  by (auto simp: ids_words_def)

lemma ids_words_Suc:
  "ids_words data list (Suc n) = ids_words data list n @ [\<lparr>Slot = at_slot data (of_nat n), Value = ids_word (take 4 (drop (4 * n) list))\<rparr>]"
  by (simp add: ids_words_def)

lemma ids_step_words:
  "ids_step data (length list, i) (h # ids_words data list ((length list + 3) div 4)) =
     h # ids_words data (list @ [i]) ((length (list @ [i]) + 3) div 4)"
proof -
  define q m where "q = length list div 4" and "m = length list mod 4"
  have n: "length list = 4 * q + m" and m: "m < 4" by (simp_all add: q_def m_def)
  have after: "(length (list @ [i]) + 3) div 4 = Suc q" using n m by simp
  have len: "length (drop (4 * q) list) = m" by (simp add: n)
  have last: "take 4 (drop (4 * q) (list @ [i])) = drop (4 * q) list @ [i]" using n m by simp
  have pre: "ids_words data (list @ [i]) q = ids_words data list q" by (rule ids_words_prefix) (simp add: n)
  have put: "PutUint64 (24 - 8 * m) i (ids_word (drop (4 * q) list)) = ids_word (drop (4 * q) list @ [i])"
    using ids_word_put [of "drop (4 * q) list" i, unfolded len, OF m] .
  have e: "32 - 8 * m - 8 = 24 - 8 * m" by simp
  show ?thesis
  proof (cases "m = 0")
    case True
    then have "(length list + 3) div 4 = q" "ids_word (drop (4 * q) list) = zero_hash"
      using n by (simp_all add: ids_word_def zero_hash_def)
    with True put show ?thesis
      unfolding after ids_words_Suc pre last by (simp add: ids_step_def n Let_def)
  next
    case False
    have all: "take 4 (drop (4 * q) list) = drop (4 * q) list" using m len by simp
    from False have before: "(length list + 3) div 4 = Suc q" using n m by linarith
    have mod: "length list mod 4 = m" by (simp add: m_def)
    show ?thesis
      unfolding after before ids_words_Suc pre last all ids_step_def prod.case Let_def
      using mod put False by (simp add: e butlast_append)
  qed
qed

lemma ids_fold_words:
  "fold (ids_step data) (enumerate 0 list) [h] = h # ids_words data list ((length list + 3) div 4)"
proof (induction list rule: rev_induct)
  case (snoc i list)
  then show ?case using ids_step_words [of data list i h] by (simp add: enumerate_append_eq)
qed (simp add: ids_words_def)

lemma idsWrites_cells: "idsWrites E (slot_of E p) key list = map (cell_write E) (ids_cells (AtString key p) list)"
  by (simp add: idsWrites_def Let_def ids_fold_words ids_cells_def cell_write_def ids_words_def)

section \<open>Sinks that do not fail\<close>

text \<open>
  A sink that takes every write. The steps of the migration then emit fixed lists of writes; the
  interpretations below are the storage of the contract and the dump in memory.
\<close>

locale total_sink =
  fixes emit :: "'s Sink" and put :: "Write \<Rightarrow> 's \<Rightarrow> 's"
  assumes emit_put: "emit w s = (Inr (), put w s)"
begin

lemma emitAll_put: "emitAll emit ws s = (Inr (), fold put ws s)"
  unfolding emitAll_def by (induction ws arbitrary: s) (simp_all add: emit_put)

lemma walk_puts:
  assumes "\<And>x s. x \<in> set xs \<Longrightarrow> f x s = (Inr False, fold put (w x) s)"
  shows "walk f xs s = (Inr (), fold put (concat (map w xs)) s)"
  using assms by (induction xs arbitrary: s) simp_all

lemma each_puts:
  assumes "\<And>x s. x \<in> set xs \<Longrightarrow> f x s = (Inr (), fold put (w x) s)"
  shows "act_each f xs s = (Inr (), fold put (concat (map w xs)) s)"
  using assms by (induction xs arbitrary: s) simp_all

lemma go_on_emit: "go_on (emit w) s = (Inr False, put w s)"
  by (simp add: go_on_def act_bind_def emit_put act_return_def)

lemma go_on_emitAll: "go_on (emitAll emit ws) s = (Inr False, fold put ws s)"
  by (simp add: go_on_def act_bind_def emitAll_put act_return_def)

end

lemma total_sink_skipZero:
  assumes "total_sink sink put"
  shows "total_sink (skipZero sink) (\<lambda>w. if Value w = zero_hash then (\<lambda>s. s) else put w)"
  using total_sink.emit_put [OF assms] by unfold_locales (simp add: skipZero_def act_return_def)

section \<open>The cells of the migration\<close>

definition registry_cells :: "u64 \<times> Registry \<Rightarrow> cell list" where
  "registry_cells e =
     (let b = AtU64 (fst e) (Var SlotRegistries); reg = snd e
      in [(Plus b RegistryID, Word_hash (reg_Id reg))] @ string_cells (Plus b RegistryName) (reg_Name reg) @
         string_cells (Plus b RegistryDescription) (reg_Description reg) @
         string_cells (Plus b RegistryCreator) (reg_Creator reg) @
         string_cells (Plus b RegistryCreatedAt) (reg_CreatedAt reg) @
         string_cells (Plus b RegistryMetadata) (reg_Metadata reg))"

definition record_loc :: "u64 \<times> u64 \<times> u64 \<Rightarrow> loc" where
  "record_loc key = AtU64 (snd (snd key)) (AtU64 (fst (snd key)) (AtU64 (fst key) (Var SlotRecords)))"

definition record_cells :: "(u64 \<times> u64 \<times> u64) \<times> Record \<Rightarrow> cell list" where
  "record_cells e =
     (let b = record_loc (fst e); rc = snd e
      in string_cells (Plus b RecordURI) (rec_Uri rc) @ string_cells (Plus b RecordChecksum) (rec_Checksum rc) @
         string_cells (Plus b RecordChecksumAlgo) (rec_ChecksumAlgo rc) @ string_cells (Plus b RecordMetadata) (rec_Metadata rc) @
         string_cells (Plus b RecordTimestamp) (rec_Timestamp rc) @ string_cells (Plus b RecordStatus) (rec_Status rc) @
         [(Plus b RecordPacked, packRecord (rec_RecordId rc) (rec_Index rc) (rec_IsLatest rc) (rec_RegistryId rc))])"

definition by_name :: "(u64 \<times> Registry) list \<Rightarrow> (string, u64 list) coll" where
  "by_name es = fold (\<lambda>(i, reg). append_id (asciiLower (reg_Name reg)) i) es cempty"

definition name_cells :: "string \<times> u64 list \<Rightarrow> cell list" where
  "name_cells e = ids_cells (AtString (fst e) (Var SlotRegistriesByName)) (snd e)"

definition checksum_cells :: "string \<times> u64 list \<Rightarrow> cell list" where
  "checksum_cells e = ids_cells (AtString (fst e) (Var SlotRegistriesByChecksum)) (snd e)"

text \<open>Neighbours with the same first component, taken together.\<close>

fun groups :: "('a \<times> 'b) list \<Rightarrow> ('a \<times> 'b list) list" where
  "groups [] = []"
| "groups (x # xs) =
     (case groups xs of
        [] \<Rightarrow> [(fst x, [snd x])]
      | g # gs \<Rightarrow> if fst g = fst x then (fst x, snd x # snd g) # gs else (fst x, [snd x]) # g # gs)"

definition member_cell :: "env \<Rightarrow> role \<times> addr \<Rightarrow> cell" where
  "member_cell E key = (AtHash (BytesToHash E (snd key)) (AtHash (fst key) (Var SlotRoleMembers)), Word_hash 1)"

definition member_count_cell :: "role \<Rightarrow> nat \<Rightarrow> cell" where
  "member_count_cell r n = (AtHash r (Var SlotRoleMemberCount), Word_hash (of_nat n))"

definition role_cells :: "env \<Rightarrow> role \<times> addr list \<Rightarrow> cell list" where
  "role_cells E g = map (\<lambda>a. member_cell E (fst g, a)) (snd g) @ [member_count_cell (fst g) (length (snd g))]"

lemma registryWrites_cells: "registryWrites E (registryBase E i) reg = map (cell_write E) (registry_cells (i, reg))"
proof -
  have base: "registryBase E i = slot_of E (AtU64 i (Var SlotRegistries))" by (simp add: registryBase_def)
  have "at_slot (registryBase E i) n = slot_of E (Plus (AtU64 i (Var SlotRegistries)) n)" for n by (simp add: base)
  then show ?thesis
    unfolding registryWrites_def registry_cells_def Let_def
    by (simp only: stringWrites_cells map_append) (simp add: cell_write_def)
qed

lemma recordWrites_cells:
  "recordWrites E (recordBase E r i x) rc = map (cell_write E) (record_cells ((r, i, x), rc))"
proof -
  have base: "recordBase E r i x = slot_of E (record_loc (r, i, x))" by (simp add: recordBase_def record_loc_def)
  have "at_slot (recordBase E r i x) n = slot_of E (Plus (record_loc (r, i, x)) n)" for n by (simp add: base)
  then show ?thesis
    unfolding recordWrites_def record_cells_def Let_def fst_conv snd_conv
    by (simp only: stringWrites_cells map_append) (simp add: cell_write_def)
qed

definition count_cell :: "u64 \<times> u64 \<Rightarrow> cell" where
  "count_cell e = (AtU64 (fst e) (Var SlotRecordCount), Word_hash (snd e))"

definition latest_cell :: "(u64 \<times> u64) \<times> u64 \<Rightarrow> cell" where
  "latest_cell e = (AtU64 (snd (fst e)) (AtU64 (fst (fst e)) (Var SlotLatestIndex)), Word_hash (snd e))"

definition id_cell :: "(u64 \<times> string) \<times> u64 \<Rightarrow> cell" where
  "id_cell e = (AtString (snd (fst e)) (AtU64 (fst (fst e)) (Var SlotRecordIDByChecksum)), Word_hash (snd e))"

definition admin_cell :: "env \<Rightarrow> role \<times> bytes \<Rightarrow> cell" where
  "admin_cell E e = (AtHash (fst e) (Var SlotRoleAdmin), BytesToHash E (snd e))"

definition header_cell :: "(bytes \<Rightarrow> bytes) \<Rightarrow> addr \<Rightarrow> u64 \<Rightarrow> cell" where
  "header_cell BytesToAddress admin count = (Var SlotHeader, PutUint64 4 count (take 12 zero_hash @ BytesToAddress admin))"

text \<open>Ids that run on from \<open>p\<close> without a gap.\<close>

fun consecutive :: "u64 \<Rightarrow> u64 list \<Rightarrow> bool" where
  "consecutive p [] = True"
| "consecutive p (i # is) = (i = p + 1 \<and> consecutive i is)"

lemma groups_Cons_other:
  "rs \<noteq> [] \<Longrightarrow> xs = [] \<or> fst (hd xs) \<noteq> c \<Longrightarrow> groups (map (Pair c) rs @ xs) = (c, rs) # groups xs"
proof (induction rs)
  case (Cons r rs)
  show ?case
  proof (cases "rs = []")
    case True
    have "fst (hd (groups xs)) = fst (hd xs)" if "xs \<noteq> []"
      using that by (cases xs) (auto split: list.splits)
    moreover have "groups xs = [] \<longleftrightarrow> xs = []" by (cases xs) (auto split: list.splits)
    ultimately show ?thesis using Cons.prems(2) True by (auto split: list.splits)
  next
    case False
    with Cons show ?thesis by simp
  qed
qed simp

context total_sink
begin

lemma migrateRecordCounts_puts:
  "migrateRecordCounts E k emit s = (Inr (), fold put (map (cell_write E) (map count_cell (centries (RecordsCountByRegistry k)))) s)"
proof -
  have "walk (\<lambda>(i, count). go_on (emit \<lparr>Slot = mapUint64 E i (Word_hash SlotRecordCount), Value = Word_hash count\<rparr>)) es s =
      (Inr (), fold put (concat (map (\<lambda>e. [cell_write E (count_cell e)]) es)) s)" for es s
    by (rule walk_puts) (simp add: case_prod_beta go_on_emit cell_write_def count_cell_def)
  then show ?thesis by (simp add: migrateRecordCounts_def comp_def)
qed

lemma migrateRecords_puts:
  "migrateRecords E k emit s = (Inr (), fold put (map (cell_write E) (concat (map record_cells (centries (Records k))))) s)"
proof -
  have "walk (\<lambda>((k1, k2, k3), record). go_on (emitAll emit (recordWrites E (recordBase E k1 k2 k3) record))) es s =
      (Inr (), fold put (concat (map (\<lambda>e. map (cell_write E) (record_cells e)) es)) s)" for es s
    by (rule walk_puts) (simp add: case_prod_beta go_on_emitAll recordWrites_cells)
  then show ?thesis by (simp add: migrateRecords_def map_concat comp_def)
qed

lemma migrateLatestIndexes_puts:
  "migrateLatestIndexes E k emit s = (Inr (), fold put (map (cell_write E) (map latest_cell (centries (RecordIndices k)))) s)"
proof -
  have "walk (\<lambda>((k1, k2), index). go_on (emit
        \<lparr>Slot = mapUint64 E k2 (mapUint64 E k1 (Word_hash SlotLatestIndex)), Value = Word_hash index\<rparr>)) es s =
      (Inr (), fold put (concat (map (\<lambda>e. [cell_write E (latest_cell e)]) es)) s)" for es s
    by (rule walk_puts) (simp add: case_prod_beta go_on_emit cell_write_def latest_cell_def)
  then show ?thesis by (simp add: migrateLatestIndexes_def comp_def)
qed

lemma migrateRecordIDs_puts:
  "migrateRecordIDs E k emit s =
     (Inr (), fold put (map (cell_write E) (map id_cell (centries (RecordIdByRegistryAndChecksum k)))) s)"
proof -
  have "walk (\<lambda>((k1, k2), recordID). go_on (emit
        \<lparr>Slot = MapString E k2 (mapUint64 E k1 (Word_hash SlotRecordIDByChecksum)), Value = Word_hash recordID\<rparr>)) es s =
      (Inr (), fold put (concat (map (\<lambda>e. [cell_write E (id_cell e)]) es)) s)" for es s
    by (rule walk_puts) (simp add: case_prod_beta go_on_emit cell_write_def id_cell_def)
  then show ?thesis by (simp add: migrateRecordIDs_def comp_def)
qed

lemma migrateHeader_puts:
  assumes "ParamsItem k = Some ps" and "AccAddressFromBech32 E (par_Admin ps) = Inr admin" and "RegistryCount k = Some n"
  shows "migrateHeader E A k emit s = (Inr (), put (cell_write E (header_cell A admin n)) s)"
  using assms
  by (simp add: migrateHeader_def act_bind_def act_try_def item_Get_def res_map_err_def Let_def emit_put cell_write_def header_cell_def)

lemma registry_walk:
  assumes "consecutive p (map fst es)"
  shows "walk (registry_callback E emit) es (s, p, names) =
    (Inr (), (fold put (map (cell_write E) (concat (map registry_cells es))) s, last (p # map fst es),
       fold (\<lambda>(i, reg). append_id (asciiLower (reg_Name reg)) i) es names))"
  using assms
proof (induction es arbitrary: s p names)
  case (Cons e es)
  obtain i reg where e: "e = (i, reg)" by (cases e)
  with Cons.prems have i: "i = p + 1" "consecutive i (map fst es)" by auto
  have "registry_callback E emit e (s, p, names) =
      (Inr False, (fold put (map (cell_write E) (registry_cells e)) s, i, append_id (asciiLower (reg_Name reg)) i names))"
    by (simp add: registry_callback_def e i(1) Let_def emitAll_put registryWrites_cells)
  with Cons.IH [OF i(2)] show ?case by (simp add: e)
qed simp

lemma migrateRegistries_puts:
  assumes "consecutive 0 (map fst (centries (Registries k)))"
    and "RegistryCount k = Some (last (0 # map fst (centries (Registries k))))"
  shows "migrateRegistries E k emit s =
    (Inr (), fold put (map (cell_write E) (concat (map registry_cells (centries (Registries k))) @
       concat (map name_cells (centries (by_name (centries (Registries k))))))) s)"
proof -
  have "act_each (\<lambda>(name, ids). emitAll emit (idsWrites E (Word_hash SlotRegistriesByName) name ids)) es s =
      (Inr (), fold put (concat (map (\<lambda>e. map (cell_write E) (name_cells e)) es)) s)" for es s
    using idsWrites_cells [of E "Var SlotRegistriesByName"]
    by (intro each_puts) (simp add: case_prod_beta emitAll_put name_cells_def)
  then show ?thesis
    using assms
    by (simp add: migrateRegistries_def with_locals_def registry_walk act_bind_def act_try_def item_Get_def by_name_def
        map_concat comp_def)
qed

end

lemma groups_same: "groups (map (Pair c) rs) = (if rs = [] then [] else [(c, rs)])"
  using groups_Cons_other [of rs "[]" c] by simp

lemma groups_after:
  "fst x \<noteq> c \<Longrightarrow> groups (map (Pair c) rs @ x # xs) = (if rs = [] then [] else [(c, rs)]) @ groups (x # xs)"
  using groups_Cons_other [of rs "x # xs" c] by simp

lemma of_nat_eq_0_small: "n < 2 ^ 64 \<Longrightarrow> (of_nat n :: u64) = 0 \<longleftrightarrow> n = 0"
  by (simp add: word_unat_eq_iff unat_of_nat)

context total_sink
begin

lemma flush_checksum_puts:
  "flush_checksum E emit c rs s =
     (Inr (), fold put (map (cell_write E) (concat (map checksum_cells (if rs = [] then [] else [(c, rs)])))) s)"
  using idsWrites_cells [of E "Var SlotRegistriesByChecksum"]
  by (simp add: flush_checksum_def act_return_def emitAll_put checksum_cells_def)

lemma checksum_index_walk:
  "\<exists>s' c' rs'. walk (checksum_callback E emit) es (s, c, rs) = (Inr (), (s', c', rs')) \<and>
     flush_checksum E emit c' rs' s' =
       (Inr (), fold put (map (cell_write E) (concat (map checksum_cells (groups (map (Pair c) rs @ map fst es))))) s)"
proof (induction es arbitrary: s c rs)
  case Nil
  show ?case by (simp add: flush_checksum_puts groups_same)
next
  case (Cons e es)
  obtain a r i where e: "e = ((a, r), i)" by (metis prod.collapse)
  show ?case
  proof (cases "a = c")
    case True
    then show ?thesis using Cons [of s c "rs @ [r]"] by (simp add: e checksum_callback_def)
  next
    case False
    let ?s = "fold put (map (cell_write E) (concat (map checksum_cells (if rs = [] then [] else [(c, rs)])))) s"
    have "checksum_callback E emit e (s, c, rs) = (Inr False, (?s, a, [r]))"
      using False by (simp add: e checksum_callback_def flush_checksum_puts)
    with False show ?thesis
      using Cons [of ?s a "[r]"] groups_after [of "(a, r)" c rs "map fst es"]
      by (simp add: e del: groups.simps)
  qed
qed

lemma migrateChecksumIndex_puts:
  "migrateChecksumIndex E k emit s =
     (Inr (), fold put (map (cell_write E)
        (concat (map checksum_cells (groups (map fst (centries (RecordIdByChecksumAndRegistry k))))))) s)"
  using checksum_index_walk [of E "centries (RecordIdByChecksumAndRegistry k)" s "''''" "[]"]
  by (auto simp: migrateChecksumIndex_def with_locals_def)

lemma flushCount_puts:
  assumes "length ads < 2 ^ 64"
  shows "flushCount E emit r (of_nat (length ads)) (fold put (map (cell_write E) (map (\<lambda>a. member_cell E (r, a)) ads)) s) =
    (Inr (), fold put (map (cell_write E) (concat (map (role_cells E) (if ads = [] then [] else [(r, ads)])))) s)"
  using assms
  by (auto simp: flushCount_def of_nat_eq_0_small act_return_def emit_put role_cells_def cell_write_def member_count_cell_def)

lemma member_walk:
  assumes "length ads + length es < 2 ^ 64"
  shows "\<exists>s' r' n'. walk (member_callback E emit) es
      (fold put (map (cell_write E) (map (\<lambda>a. member_cell E (r, a)) ads)) s, r, of_nat (length ads)) = (Inr (), (s', r', n')) \<and>
     flushCount E emit r' n' s' =
       (Inr (), fold put (map (cell_write E) (concat (map (role_cells E) (groups (map (Pair r) ads @ map fst es))))) s)"
  using assms
proof (induction es arbitrary: s r ads)
  case Nil
  then show ?case using flushCount_puts [of ads E r s] by (simp add: groups_same)
next
  case (Cons e es)
  obtain q a v where e: "e = ((q, a), v)" by (metis prod.collapse)
  let ?m = "\<lambda>r a. cell_write E (member_cell E (r, a))"
  have wr: "member_write E (q', a') = ?m q' a'" for q' a' by (simp add: member_write_def cell_write_def member_cell_def)
  show ?case
  proof (cases "q = r")
    case True
    have "member_callback E emit e (fold put (map (?m r) ads) s, r, of_nat (length ads)) =
        (Inr False, (fold put (map (?m r) (ads @ [a])) s, r, of_nat (length (ads @ [a]))))"
      using True by (simp add: e member_callback_def wr act_bind_def act_put_def go_on_def lift_sink_def emit_put act_return_def)
    with True show ?thesis using Cons.IH [of "ads @ [a]" r s] Cons.prems by (simp add: e comp_def)
  next
    case False
    let ?s = "fold put (map (cell_write E) (concat (map (role_cells E) (if ads = [] then [] else [(r, ads)])))) s"
    have flushed: "flushCount E emit r (of_nat (length ads)) (fold put (map (?m r) ads) s) = (Inr (), ?s)"
      using flushCount_puts [of ads E r s] Cons.prems by (simp add: comp_def)
    have "member_callback E emit e (fold put (map (?m r) ads) s, r, of_nat (length ads)) =
        (Inr False, (fold put (map (?m q) [a]) ?s, q, of_nat (length [a])))"
      using False by (simp add: e member_callback_def wr flushed act_bind_def act_put_def go_on_def lift_sink_def emit_put act_return_def)
    with False show ?thesis
      using Cons.IH [of "[a]" q ?s] Cons.prems groups_after [of "(q, a)" r ads "map fst es"]
      by (simp add: e comp_def del: groups.simps)
  qed
qed

lemma migrateRoles_puts:
  assumes "length (centries (RoleMembers k)) < 2 ^ 64"
  shows "migrateRoles E k emit s =
    (Inr (), fold put (map (cell_write E) (map (admin_cell E) (centries (RoleAdmins k)) @
       concat (map (role_cells E) (groups (map fst (centries (RoleMembers k))))))) s)"
proof -
  have "walk (\<lambda>(role, adminRole). go_on (emit
        \<lparr>Slot = mapHash E role (Word_hash SlotRoleAdmin), Value = BytesToHash E adminRole\<rparr>)) es s =
      (Inr (), fold put (concat (map (\<lambda>e. [cell_write E (admin_cell E e)]) es)) s)" for es s
    by (rule walk_puts) (simp add: case_prod_beta go_on_emit cell_write_def admin_cell_def)
  then show ?thesis
    using member_walk [of "[]" "centries (RoleMembers k)" E zero_hash
        "fold put (map (cell_write E) (map (admin_cell E) (centries (RoleAdmins k)))) s"] assms
    by (auto simp: migrateRoles_def act_bind_def with_locals_def comp_def)
qed

end

section \<open>The whole migration\<close>

text \<open>The states that can be migrated: registry ids from 1 without gaps, and a valid admin.\<close>

definition migratable :: "env \<Rightarrow> 'z keeper_scheme \<Rightarrow> addr \<Rightarrow> u64 \<Rightarrow> bool" where
  "migratable E k admin n \<longleftrightarrow>
     consecutive 0 (map fst (centries (Registries k))) \<and> n = last (0 # map fst (centries (Registries k))) \<and>
     RegistryCount k = Some n \<and> (\<exists>ps. ParamsItem k = Some ps \<and> AccAddressFromBech32 E (par_Admin ps) = Inr admin)"

definition migrate_cells :: "env \<Rightarrow> (bytes \<Rightarrow> bytes) \<Rightarrow> 'z keeper_scheme \<Rightarrow> addr \<Rightarrow> u64 \<Rightarrow> cell list" where
  "migrate_cells E A k admin n =
     concat (map registry_cells (centries (Registries k))) @
     concat (map name_cells (centries (by_name (centries (Registries k))))) @
     map count_cell (centries (RecordsCountByRegistry k)) @
     concat (map record_cells (centries (Records k))) @
     map latest_cell (centries (RecordIndices k)) @
     map id_cell (centries (RecordIdByRegistryAndChecksum k)) @
     [header_cell A admin n] @
     concat (map checksum_cells (groups (map fst (centries (RecordIdByChecksumAndRegistry k))))) @
     map (admin_cell E) (centries (RoleAdmins k)) @
     concat (map (role_cells E) (groups (map fst (centries (RoleMembers k)))))"

context total_sink
begin

lemma Migrate_puts:
  assumes "emit = skipZero raw" and "migratable E k admin n" and "length (centries (RoleMembers k)) < 2 ^ 64"
  shows "Migrate E A k raw s = (Inr (), fold put (map (cell_write E) (migrate_cells E A k admin n)) s)"
proof -
  from assms(2) obtain ps where ok: "consecutive 0 (map fst (centries (Registries k)))"
    "RegistryCount k = Some (last (0 # map fst (centries (Registries k))))" "ParamsItem k = Some ps"
    "AccAddressFromBech32 E (par_Admin ps) = Inr admin" "RegistryCount k = Some n"
    unfolding migratable_def by blast
  show ?thesis
    unfolding Migrate_def Let_def assms(1) [symmetric] migrate_cells_def
    by (simp add: migrate_step_def migrateRegistries_puts [OF ok(1,2)] migrateRecordCounts_puts migrateRecords_puts
        migrateLatestIndexes_puts migrateRecordIDs_puts migrateHeader_puts [OF ok(3,4,5)] migrateChecksumIndex_puts
        migrateRoles_puts [OF assms(3)] del: map_map)
qed

end

text \<open>A state that the module reached by messages from a dense genesis can be migrated.\<close>

lemma u64_succ_le: "p < x \<Longrightarrow> p + 1 \<noteq> 0 \<and> p < p + 1 \<and> p + 1 \<le> (x :: u64)"
proof -
  assume "p < x"
  then have "unat p < unat x" by (simp add: word_less_nat_alt)
  then have "unat p + 1 < 2 ^ 64" using unsigned_less [of x, where ?'a = nat] by simp
  then have "unat (p + 1) = unat p + 1" by (simp add: unat_word_ariths)
  with \<open>unat p < unat x\<close> show ?thesis
    by (auto simp: word_less_nat_alt word_le_nat_alt)
qed

lemma consecutive_interval:
  assumes "sorted_wrt (<) xs" and "set xs = {r. p < r \<and> r \<le> n}" and "p \<le> (n :: u64)"
  shows "consecutive p xs \<and> last (p # xs) = n"
  using assms
proof (induction xs arbitrary: p)
  case Nil
  then have "n \<notin> {r. p < r \<and> r \<le> n}" by (metis empty_iff list.set(1))
  with Nil(3) show ?case by (simp add: order.order_iff_strict)
next
  case (Cons x xs)
  have x: "p < x" "x \<le> n" using Cons.prems(2) by auto
  note p = u64_succ_le [OF x(1)]
  have "p + 1 \<in> set (x # xs)" unfolding Cons.prems(2) using p x(2) by auto
  moreover have "p + 1 \<notin> set xs" using Cons.prems(1) p by auto
  ultimately have eq: "x = p + 1" by simp
  have "set xs = {r. x < r \<and> r \<le> n}"
  proof (intro equalityI subsetI)
    fix r
    assume "r \<in> set xs"
    then show "r \<in> {r. x < r \<and> r \<le> n}" using Cons.prems(1,2) by auto
  next
    fix r
    assume r: "r \<in> {r. x < r \<and> r \<le> n}"
    then have "r \<in> set (x # xs)" unfolding Cons.prems(2) using x(1) by auto
    with r show "r \<in> set xs" by auto
  qed
  with Cons.IH [of x] Cons.prems(1) x(2) eq show ?case by simp
qed

lemma dense_migratable:
  assumes "registries_wf k" and "registries_dense k" and "ParamsItem k = Some ps"
    and "AccAddressFromBech32 E (par_Admin ps) = Inr admin" and "RegistryCount k = Some n"
  shows "migratable E k admin n"
proof -
  have "set (map fst (centries (Registries k))) = {r. chas (Registries k) r}"
    using kv.get_None_iff [of "Registries k"] by (auto simp: chas_def)
  also have "\<dots> = {r. 0 < r \<and> r \<le> n}"
    using assms(1,2,5) by (auto simp: registries_wf_def registries_dense_def chas_iff word_gt_0)
  finally have "consecutive 0 (map fst (centries (Registries k))) \<and> last (0 # map fst (centries (Registries k))) = n"
    by (intro consecutive_interval centries_sorted) simp_all
  with assms show ?thesis by (auto simp: migratable_def)
qed

section \<open>What is refused\<close>

context total_sink
begin

lemma registry_walk_gap:
  assumes "\<not> consecutive p (map fst es)"
  shows "\<exists>e t. walk (registry_callback E emit) es (s, p, names) = (Inl e, t)"
  using assms
proof (induction es arbitrary: s p names)
  case (Cons e es)
  obtain i reg where e: "e = (i, reg)" by (cases e)
  show ?case
  proof (cases "i = p + 1")
    case True
    with Cons.prems e have "\<not> consecutive i (map fst es)" by simp
    then show ?thesis
      using Cons.IH True by (simp add: e registry_callback_def Let_def emitAll_put)
  qed (simp add: e registry_callback_def)
qed simp

lemma migrateRegistries_fails:
  assumes "\<not> (consecutive 0 (map fst (centries (Registries k))) \<and>
    RegistryCount k = Some (last (0 # map fst (centries (Registries k)))))"
  shows "\<exists>e t. migrateRegistries E k emit s = (Inl e, t)"
proof (cases "consecutive 0 (map fst (centries (Registries k)))")
  case True
  with assms have "RegistryCount k \<noteq> Some (last (0 # map fst (centries (Registries k))))" by blast
  then show ?thesis
    by (cases "RegistryCount k")
      (simp_all add: migrateRegistries_def with_locals_def registry_walk [OF True] act_bind_def act_try_def item_Get_def act_fail_def)
next
  case False
  from registry_walk_gap [OF False] obtain e t
    where "walk (registry_callback E emit) (centries (Registries k)) (s, 0, cempty) = (Inl e, t)" by blast
  then show ?thesis by (cases t) (simp add: migrateRegistries_def with_locals_def)
qed

lemma migrateHeader_fails:
  assumes "\<nexists>ps admin. ParamsItem k = Some ps \<and> AccAddressFromBech32 E (par_Admin ps) = Inr admin"
  shows "\<exists>e. migrateHeader E A k emit s = (Inl e, s)"
proof (cases "ParamsItem k")
  case None
  then show ?thesis by (simp add: migrateHeader_def act_bind_def act_try_def item_Get_def)
next
  case (Some ps)
  with assms obtain e where "AccAddressFromBech32 E (par_Admin ps) = Inl e" by (metis sum.exhaust)
  with Some show ?thesis by (simp add: migrateHeader_def act_bind_def act_try_def item_Get_def res_map_err_def)
qed

lemma Migrate_exact:
  assumes "emit = skipZero raw" and "length (centries (RoleMembers k)) < 2 ^ 64"
  shows "fst (Migrate E A k raw s) = Inr () \<longleftrightarrow> (\<exists>admin n. migratable E k admin n)"
proof
  assume ok: "fst (Migrate E A k raw s) = Inr ()"
  have "consecutive 0 (map fst (centries (Registries k))) \<and> RegistryCount k = Some (last (0 # map fst (centries (Registries k))))"
  proof (rule ccontr)
    assume "\<not> ?thesis"
    from migrateRegistries_fails [OF this] obtain e t where "migrateRegistries E k emit s = (Inl e, t)" by blast
    with ok show False by (simp add: Migrate_def Let_def migrate_step_def flip: assms(1))
  qed
  then have regs: "consecutive 0 (map fst (centries (Registries k)))"
    "RegistryCount k = Some (last (0 # map fst (centries (Registries k))))" by blast+
  have "\<exists>ps admin. ParamsItem k = Some ps \<and> AccAddressFromBech32 E (par_Admin ps) = Inr admin"
  proof (rule ccontr)
    assume "\<not> ?thesis"
    from migrateHeader_fails [OF this] have "\<And>s. \<exists>e. migrateHeader E A k emit s = (Inl e, s)" by blast
    then obtain err where "\<And>s. migrateHeader E A k emit s = (Inl (err s), s)" by metis
    with ok show False
      by (simp add: Migrate_def Let_def migrate_step_def migrateRegistries_puts [OF regs] migrateRecordCounts_puts migrateRecords_puts
          migrateLatestIndexes_puts migrateRecordIDs_puts del: map_map flip: assms(1))
  qed
  with regs show "\<exists>admin n. migratable E k admin n" unfolding migratable_def by blast
next
  assume "\<exists>admin n. migratable E k admin n"
  then obtain admin n where "migratable E k admin n" by blast
  from Migrate_puts [OF assms(1) this assms(2)] show "fst (Migrate E A k raw s) = Inr ()" by simp
qed

end

end
