(* ===== verification/Evm_Storage.thy ===== *)
theory Evm_Storage
  imports Evm_Layout_Safety
begin

text \<open>
  The storage after a migration. As long as the slots of the locations in use do not collide, every
  location is written once, and reading the storage the way Solidity lays out strings, packed
  fields, arrays and mappings gives the state of the module.
\<close>

section \<open>The locations are distinct\<close>

fun root :: "loc \<Rightarrow> u64" where
  "root (Var n) = n"
| "root (AtU64 key p) = root p"
| "root (AtHash key p) = root p"
| "root (AtString key p) = root p"
| "root (Data p) = root p"
| "root (Plus p n) = root p"

text \<open>The location a word belongs to, and the entry of a mapping a field belongs to.\<close>

definition owner :: "loc \<Rightarrow> loc" where
  "owner l = (case l of Plus (Data p) n \<Rightarrow> p | _ \<Rightarrow> l)"

fun stem :: "loc \<Rightarrow> loc" where
  "stem (Data p) = stem p"
| "stem (Plus p n) = stem p"
| "stem p = p"

lemma owner_simps [simp]: "owner (Plus (Data p) n) = p" "owner (Plus (AtU64 i q) n) = Plus (AtU64 i q) n"
  "owner (AtString c q) = AtString c q" "owner (AtU64 i q) = AtU64 i q" "owner (Var n) = Var n" "owner (AtHash h q) = AtHash h q"
  by (simp_all add: owner_def)

lemma loc_no_cycle: "p \<noteq> Plus (Data p) n"
proof
  assume "p = Plus (Data p) n"
  then have "size p = size (Plus (Data p) n)" by simp
  then show False by simp
qed

lemma of_nat_inj_upt: "n \<le> 2 ^ 64 \<Longrightarrow> inj_on (of_nat :: nat \<Rightarrow> u64) {0..<n}"
  by (rule inj_onI) (simp add: word_unat_eq_iff unat_of_nat)

lemma distinct_words: "n \<le> 2 ^ 64 \<Longrightarrow> distinct (map fst ((p, v) # map (\<lambda>i. (Plus (Data p) (of_nat i), f i)) [0..<n]))"
  using of_nat_inj_upt [of n] loc_no_cycle [of p]
  by (auto simp: distinct_map comp_def inj_on_def)

text \<open>Lengths that fit Go's \<open>int\<close>.\<close>

definition fits :: "nat \<Rightarrow> bool" where
  "fits n \<longleftrightarrow> n < 2 ^ 63"

lemma fits_words: "fits n \<Longrightarrow> (n + 31) div 32 \<le> 2 ^ 64" "fits n \<Longrightarrow> (n + 3) div 4 \<le> 2 ^ 64"
  using div_le_dividend [of "n + 31" 32] div_le_dividend [of "n + 3" 4] by (simp_all add: fits_def)

lemma string_cells_distinct:
  assumes "fits (length s)"
  shows "distinct (map fst (string_cells p s))"
  using distinct_words [OF fits_words(1) [OF assms], of p] by (simp add: string_cells_def Let_def bytes_of_string_def comp_def)

lemma ids_cells_distinct: "fits (length is) \<Longrightarrow> distinct (map fst (ids_cells p is))"
  unfolding ids_cells_def by (intro distinct_words fits_words)

lemma string_cells_owner: "c \<in> set (string_cells p s) \<Longrightarrow> owner p = p \<longrightarrow> owner (fst c) = p"
  by (auto simp: string_cells_def Let_def split: if_splits)

lemma ids_cells_owner: "c \<in> set (ids_cells p is) \<Longrightarrow> owner p = p \<longrightarrow> owner (fst c) = p"
  by (auto simp: ids_cells_def)

lemma string_cells_root: "c \<in> set (string_cells p s) \<Longrightarrow> root (fst c) = root p \<and> stem (fst c) = stem p"
  by (auto simp: string_cells_def Let_def split: if_splits)

lemma ids_cells_root: "c \<in> set (ids_cells p is) \<Longrightarrow> root (fst c) = root p"
  by (auto simp: ids_cells_def)

lemma distinct_tagged:
  assumes "distinct (map key xs)" and "\<And>x. x \<in> set xs \<Longrightarrow> distinct (map fst (f x))"
    and "\<And>x c. x \<in> set xs \<Longrightarrow> c \<in> set (f x) \<Longrightarrow> tag (fst c) = key x"
  shows "distinct (map fst (concat (map f xs)))"
  using assms
proof (induction xs)
  case (Cons x xs)
  have "tag (fst c) \<noteq> tag (fst c')" if "c \<in> set (f x)" "c' \<in> set (concat (map f xs))" for c c'
  proof -
    from that(2) obtain y where y: "y \<in> set xs" "c' \<in> set (f y)" by auto
    then have "key y \<noteq> key x" using Cons.prems(1) by (metis distinct.simps(2) image_eqI list.simps(9) set_map)
    moreover have "tag (fst c) = key x" "tag (fst c') = key y"
      using Cons.prems(3) [of x c] Cons.prems(3) [of y c'] y that(1) by simp_all
    ultimately show ?thesis by simp
  qed
  then have "set (map fst (f x)) \<inter> set (map fst (concat (map f xs))) = {}" by fastforce
  with Cons show ?case by simp
qed simp

definition registry_fits :: "Registry \<Rightarrow> bool" where
  "registry_fits reg \<longleftrightarrow> fits (length (reg_Name reg)) \<and> fits (length (reg_Description reg)) \<and> fits (length (reg_Creator reg)) \<and>
     fits (length (reg_CreatedAt reg)) \<and> fits (length (reg_Metadata reg))"

definition record_fits :: "Record \<Rightarrow> bool" where
  "record_fits rc \<longleftrightarrow> fits (length (rec_Uri rc)) \<and> fits (length (rec_Checksum rc)) \<and> fits (length (rec_ChecksumAlgo rc)) \<and>
     fits (length (rec_Metadata rc)) \<and> fits (length (rec_Timestamp rc)) \<and> fits (length (rec_Status rc))"

lemma registry_cells_distinct:
  assumes "registry_fits reg"
  shows "distinct (map fst (registry_cells (i, reg)))"
proof -
  let ?b = "AtU64 i (Var SlotRegistries)"
  let ?parts = "[(Plus ?b RegistryID, [(Plus ?b RegistryID, Word_hash (reg_Id reg))]),
    (Plus ?b RegistryName, string_cells (Plus ?b RegistryName) (reg_Name reg)),
    (Plus ?b RegistryDescription, string_cells (Plus ?b RegistryDescription) (reg_Description reg)),
    (Plus ?b RegistryCreator, string_cells (Plus ?b RegistryCreator) (reg_Creator reg)),
    (Plus ?b RegistryCreatedAt, string_cells (Plus ?b RegistryCreatedAt) (reg_CreatedAt reg)),
    (Plus ?b RegistryMetadata, string_cells (Plus ?b RegistryMetadata) (reg_Metadata reg))]"
  have "distinct (map fst (concat (map snd ?parts)))"
    by (rule distinct_tagged [where key = fst and tag = owner])
      (use assms in \<open>auto simp: registry_fits_def field_defs string_cells_distinct dest!: string_cells_owner\<close>)
  then show ?thesis by (simp add: registry_cells_def Let_def)
qed

lemma record_cells_distinct:
  assumes "record_fits rc"
  shows "distinct (map fst (record_cells (key, rc)))"
proof -
  let ?b = "record_loc key"
  let ?parts = "[(Plus ?b RecordURI, string_cells (Plus ?b RecordURI) (rec_Uri rc)),
    (Plus ?b RecordChecksum, string_cells (Plus ?b RecordChecksum) (rec_Checksum rc)),
    (Plus ?b RecordChecksumAlgo, string_cells (Plus ?b RecordChecksumAlgo) (rec_ChecksumAlgo rc)),
    (Plus ?b RecordMetadata, string_cells (Plus ?b RecordMetadata) (rec_Metadata rc)),
    (Plus ?b RecordTimestamp, string_cells (Plus ?b RecordTimestamp) (rec_Timestamp rc)),
    (Plus ?b RecordStatus, string_cells (Plus ?b RecordStatus) (rec_Status rc)),
    (Plus ?b RecordPacked, [(Plus ?b RecordPacked,
       packRecord (rec_RecordId rc) (rec_Index rc) (rec_IsLatest rc) (rec_RegistryId rc))])]"
  have "owner (Plus ?b n) = Plus ?b n" for n by (simp add: record_loc_def)
  then have "distinct (map fst (concat (map snd ?parts)))"
    by (intro distinct_tagged [where key = fst and tag = owner])
      (use assms in \<open>auto simp: record_fits_def field_defs string_cells_distinct dest!: string_cells_owner\<close>)
  then show ?thesis by (simp add: record_cells_def Let_def)
qed

text \<open>Groups of a sorted list.\<close>

lemma groups_Nil_iff [simp]: "groups xs = [] \<longleftrightarrow> xs = []"
  by (cases xs) (auto split: list.splits)

lemma groups_hd: "xs \<noteq> [] \<Longrightarrow> fst (hd (groups xs)) = fst (hd xs)"
  by (cases xs) (auto split: list.splits)

lemma groups_keys: "set (map fst (groups xs)) = set (map fst xs)"
proof (induction xs)
  case (Cons x xs)
  have "set (map fst (groups (x # xs))) = insert (fst x) (set (map fst (groups xs)))"
    by (simp split: list.split)
  then show ?case unfolding Cons by simp
qed simp

lemma groups_sorted:
  assumes "sorted (map fst xs)"
  shows "distinct (map fst (groups xs)) \<and> (\<forall>g \<in> set (groups xs). snd g = map snd (filter (\<lambda>x. fst x = fst g) xs))"
  using assms
proof (induction xs)
  case (Cons x xs)
  then have IH: "distinct (map fst (groups xs))" "\<And>g. g \<in> set (groups xs) \<Longrightarrow> snd g = map snd (filter (\<lambda>x. fst x = fst g) xs)"
    and le: "\<And>y. y \<in> set xs \<Longrightarrow> fst x \<le> fst y" by simp_all
  show ?case
  proof (cases "groups xs")
    case (Cons g gs)
    then have xs: "xs \<noteq> []" by auto
    with Cons groups_hd [of xs] have hd: "fst g = fst (hd xs)" by simp
    show ?thesis
    proof (cases "fst g = fst x")
      case True
      then show ?thesis using IH Cons by auto
    next
      case False
      have other: "fst y \<noteq> fst x" if y: "y \<in> set xs" for y
      proof
        assume "fst y = fst x"
        moreover have "fst (hd xs) \<le> fst y" using Cons.prems y by (cases xs) auto
        ultimately show False using le [of "hd xs"] xs hd False by simp
      qed
      then have nil: "filter (\<lambda>y. fst y = fst x) xs = []" by (simp add: filter_empty_conv)
      have fresh: "fst x \<notin> set (map fst (groups xs))"
        unfolding groups_keys unfolding set_map image_iff using other by metis
      have diff: "fst x \<noteq> fst g'" if "g' \<in> set (groups xs)" for g'
        using fresh that unfolding set_map by (metis imageI)
      have eq: "groups (x # xs) = (fst x, [snd x]) # groups xs" using Cons False by simp
      show ?thesis unfolding eq using IH nil fresh diff by simp
    qed
  qed simp
qed simp

lemma sorted_fst_pairs: "sorted_wrt (<) (ps :: ('a :: linorder \<times> 'b :: linorder) list) \<Longrightarrow> sorted (map fst ps)"
  by (induction ps) (auto simp: less_prod_def)

text \<open>The registries that share a folded name.\<close>

lemma get_by_name:
  "cget (by_name es) key =
     (let ids = map fst (filter (\<lambda>e. asciiLower (reg_Name (snd e)) = key) es) in if ids = [] then None else Some ids)"
  unfolding by_name_def
  by (induction es rule: rev_induct) (auto simp: append_id_def Let_def split: option.splits)

section \<open>Every location once\<close>

text \<open>Sizes that fit, and addresses that the padding to 32 bytes keeps apart.\<close>

definition state_fits :: "env \<Rightarrow> 'z keeper_scheme \<Rightarrow> bool" where
  "state_fits E k \<longleftrightarrow>
     (\<forall>i reg. cget (Registries k) i = Some reg \<longrightarrow> registry_fits reg) \<and>
     (\<forall>key rc. cget (Records k) key = Some rc \<longrightarrow> record_fits rc) \<and>
     fits (length (centries (Registries k))) \<and> fits (length (centries (RecordIdByChecksumAndRegistry k))) \<and>
     fits (length (centries (RoleMembers k))) \<and>
     inj_on (BytesToHash E) {a. \<exists>r. chas (RoleMembers k) (r, a)}"

lemma distinct_centries_map: "distinct (map f (map fst (centries m))) \<longleftrightarrow> inj_on f (set (map fst (centries m)))"
  using kv.entries_distinct [of m] by (metis distinct_map)

lemma record_loc_simps [simp]: "stem (record_loc key) = record_loc key" "root (record_loc key) = SlotRecords"
  by (simp_all add: record_loc_def)

lemma record_loc_inj: "record_loc key = record_loc key' \<Longrightarrow> key = key'"
  by (cases key; cases key') (simp add: record_loc_def)

lemma registries_distinct:
  assumes "state_fits E k"
  shows "distinct (map fst (concat (map registry_cells (centries (Registries k)))))"
proof (rule distinct_tagged [where key = "\<lambda>e. AtU64 (fst e) (Var SlotRegistries)" and tag = stem])
  show "distinct (map (\<lambda>e. AtU64 (fst e) (Var SlotRegistries)) (centries (Registries k)))"
    using kv.entries_distinct [of "Registries k"] by (auto simp: distinct_map inj_on_def)
  show "distinct (map fst (registry_cells e))" if "e \<in> set (centries (Registries k))" for e
    using that assms registry_cells_distinct [of "snd e" "fst e"] by (cases e rule: prod.exhaust) (simp add: state_fits_def kv.mem_entries_iff)
  show "stem (fst c) = AtU64 (fst e) (Var SlotRegistries)" if "c \<in> set (registry_cells e)" for e c
    using that by (auto simp: registry_cells_def Let_def dest: string_cells_root)
qed

lemma records_distinct:
  assumes "state_fits E k"
  shows "distinct (map fst (concat (map record_cells (centries (Records k)))))"
proof (rule distinct_tagged [where key = "\<lambda>e. record_loc (fst e)" and tag = stem])
  show "distinct (map (\<lambda>e. record_loc (fst e)) (centries (Records k)))"
    using kv.entries_distinct [of "Records k"] record_loc_inj by (auto simp: distinct_map inj_on_def)
  show "distinct (map fst (record_cells e))" if "e \<in> set (centries (Records k))" for e
    using that assms record_cells_distinct [of "snd e" "fst e"]
    by (cases e rule: prod.exhaust) (simp add: state_fits_def kv.mem_entries_iff del: split_paired_All)
  show "stem (fst c) = record_loc (fst e)" if "c \<in> set (record_cells e)" for e c
    using that by (auto simp: record_cells_def Let_def dest: string_cells_root)
qed

lemma names_distinct:
  assumes "state_fits E k"
  shows "distinct (map fst (concat (map name_cells (centries (by_name (centries (Registries k)))))))"
proof (rule distinct_tagged [where key = "\<lambda>e. AtString (fst e) (Var SlotRegistriesByName)" and tag = owner])
  let ?es = "centries (Registries k)"
  show "distinct (map (\<lambda>e. AtString (fst e) (Var SlotRegistriesByName)) (centries (by_name ?es)))"
    using kv.entries_distinct [of "by_name ?es"] by (auto simp: distinct_map inj_on_def)
  fix e
  assume "e \<in> set (centries (by_name ?es))"
  then have "cget (by_name ?es) (fst e) = Some (snd e)" by (cases e rule: prod.exhaust) (simp add: kv.mem_entries_iff)
  then have "snd e = map fst (filter (\<lambda>e'. asciiLower (reg_Name (snd e')) = fst e) ?es)"
    by (simp add: get_by_name Let_def split: if_splits)
  then have "length (snd e) \<le> length ?es" by simp
  then have "fits (length (snd e))" using assms by (simp add: state_fits_def fits_def)
  then show "distinct (map fst (name_cells e))" by (simp add: name_cells_def ids_cells_distinct)
  show "owner (fst c) = AtString (fst e) (Var SlotRegistriesByName)" if "c \<in> set (name_cells e)" for c
    using ids_cells_owner [OF that [unfolded name_cells_def]] by simp
qed

lemma centries_groups:
  "distinct (map fst (groups (map fst (centries m)))) \<and>
   (\<forall>g \<in> set (groups (map fst (centries m))). snd g = map snd (filter (\<lambda>key. fst key = fst g) (map fst (centries m))))"
  by (intro groups_sorted sorted_fst_pairs centries_sorted)

lemma length_group: "g \<in> set (groups (map fst (centries m))) \<Longrightarrow> length (snd g) \<le> length (centries m)"
  using centries_groups [of m] length_filter_le [of "\<lambda>key. fst key = fst g" "map fst (centries m)"]
  by (metis length_map)

lemma checksums_distinct:
  assumes "state_fits E k"
  shows "distinct (map fst (concat (map checksum_cells (groups (map fst (centries (RecordIdByChecksumAndRegistry k)))))))"
proof (rule distinct_tagged [where key = "\<lambda>e. AtString (fst e) (Var SlotRegistriesByChecksum)" and tag = owner])
  let ?gs = "groups (map fst (centries (RecordIdByChecksumAndRegistry k)))"
  show "distinct (map (\<lambda>e. AtString (fst e) (Var SlotRegistriesByChecksum)) ?gs)"
    using centries_groups [of "RecordIdByChecksumAndRegistry k"] by (auto simp: distinct_map inj_on_def)
  fix e
  assume "e \<in> set ?gs"
  from length_group [OF this] have "fits (length (snd e))" using assms by (simp add: state_fits_def fits_def)
  then show "distinct (map fst (checksum_cells e))" by (simp add: checksum_cells_def ids_cells_distinct)
  show "owner (fst c) = AtString (fst e) (Var SlotRegistriesByChecksum)" if "c \<in> set (checksum_cells e)" for c
    using ids_cells_owner [OF that [unfolded checksum_cells_def]] by simp
qed

lemma centries_cells_distinct:
  assumes "\<And>e. fst (f e) = g (fst e)" and "inj g"
  shows "distinct (map fst (map f (centries m)))"
proof -
  have "map fst (map f (centries m)) = map g (map fst (centries m))" by (simp add: assms(1))
  then show ?thesis
    using kv.entries_distinct [of m] inj_on_subset [OF assms(2)] by (metis distinct_map subset_UNIV)
qed

fun role_at :: "loc \<Rightarrow> role" where
  "role_at (AtHash h (AtHash r p)) = r"
| "role_at (AtHash r p) = r"
| "role_at p = []"

lemma roles_distinct:
  assumes "state_fits E k"
  shows "distinct (map fst (concat (map (role_cells E) (groups (map fst (centries (RoleMembers k)))))))"
proof (rule distinct_tagged [where key = fst and tag = role_at])
  let ?gs = "groups (map fst (centries (RoleMembers k)))"
  note gs = centries_groups [of "RoleMembers k"]
  show "distinct (map fst ?gs)" using gs by blast
  fix g
  assume g: "g \<in> set ?gs"
  then have ads: "snd g = map snd (filter (\<lambda>key. fst key = fst g) (map fst (centries (RoleMembers k))))" using gs by blast
  have "distinct (snd g)"
    unfolding ads using kv.entries_distinct [of "RoleMembers k"] by (auto simp: distinct_map inj_on_def)
  moreover have "set (snd g) \<subseteq> {a. \<exists>r. chas (RoleMembers k) (r, a)}"
    unfolding ads by (auto simp: chas_iff kv.mem_entries_iff) blast
  then have "inj_on (BytesToHash E) (set (snd g))" using assms inj_on_subset by (auto simp: state_fits_def)
  ultimately show "distinct (map fst (role_cells E g))"
    by (auto simp: role_cells_def member_cell_def member_count_cell_def distinct_map inj_on_def slot_defs comp_def)
  show "role_at (fst c) = fst g" if "c \<in> set (role_cells E g)" for c
    using that by (auto simp: role_cells_def member_cell_def member_count_cell_def)
qed

lemma registry_cells_root: "c \<in> set (registry_cells e) \<Longrightarrow> root (fst c) = SlotRegistries"
  by (auto simp: registry_cells_def Let_def dest!: string_cells_root)

lemma record_cells_root: "c \<in> set (record_cells e) \<Longrightarrow> root (fst c) = SlotRecords"
  by (auto simp: record_cells_def Let_def dest!: string_cells_root)

lemma id_list_roots: "c \<in> set (name_cells e) \<Longrightarrow> root (fst c) = SlotRegistriesByName"
  "c \<in> set (checksum_cells e) \<Longrightarrow> root (fst c) = SlotRegistriesByChecksum"
  by (auto simp: name_cells_def checksum_cells_def dest!: ids_cells_root)

lemma role_cells_root: "c \<in> set (role_cells E g) \<Longrightarrow> root (fst c) = SlotRoleMembers \<or> root (fst c) = SlotRoleMemberCount"
  by (auto simp: role_cells_def member_cell_def member_count_cell_def)

text \<open>The parts of the migration, each under the state variable it fills; the last fills two.\<close>

definition migrate_parts :: "env \<Rightarrow> (bytes \<Rightarrow> bytes) \<Rightarrow> 'z keeper_scheme \<Rightarrow> addr \<Rightarrow> u64 \<Rightarrow> (u64 \<times> cell list) list" where
  "migrate_parts E A k admin n =
     [(SlotRegistries, concat (map registry_cells (centries (Registries k)))),
      (SlotRegistriesByName, concat (map name_cells (centries (by_name (centries (Registries k)))))),
      (SlotRecordCount, map count_cell (centries (RecordsCountByRegistry k))),
      (SlotRecords, concat (map record_cells (centries (Records k)))),
      (SlotLatestIndex, map latest_cell (centries (RecordIndices k))),
      (SlotRecordIDByChecksum, map id_cell (centries (RecordIdByRegistryAndChecksum k))),
      (SlotHeader, [header_cell A admin n]),
      (SlotRegistriesByChecksum, concat (map checksum_cells (groups (map fst (centries (RecordIdByChecksumAndRegistry k)))))),
      (SlotRoleAdmin, map (admin_cell E) (centries (RoleAdmins k))),
      (SlotRoleMembers, concat (map (role_cells E) (groups (map fst (centries (RoleMembers k))))))]"

lemma migrate_cells_parts: "migrate_cells E A k admin n = concat (map snd (migrate_parts E A k admin n))"
  by (simp add: migrate_cells_def migrate_parts_def)

lemma single_cells_distinct:
  "distinct (map fst (map count_cell (centries m1)))" "distinct (map fst (map latest_cell (centries m2)))"
  "distinct (map fst (map id_cell (centries m3)))" "distinct (map fst (map (admin_cell E) (centries m4)))"
  by (rule centries_cells_distinct [where g = "\<lambda>i. AtU64 i (Var SlotRecordCount)"], simp add: count_cell_def, simp add: inj_def)
    (rule centries_cells_distinct [where g = "\<lambda>key. AtU64 (snd key) (AtU64 (fst key) (Var SlotLatestIndex))"],
      simp add: latest_cell_def, simp add: inj_def,
     rule centries_cells_distinct [where g = "\<lambda>key. AtString (snd key) (AtU64 (fst key) (Var SlotRecordIDByChecksum))"],
      simp add: id_cell_def, simp add: inj_def,
     rule centries_cells_distinct [where g = "\<lambda>r. AtHash r (Var SlotRoleAdmin)"], simp add: admin_cell_def, simp add: inj_def)

lemma migrate_cells_distinct:
  assumes "state_fits E k"
  shows "distinct (map fst (migrate_cells E A k admin n))"
  unfolding migrate_cells_parts
proof (rule distinct_tagged [where key = fst and tag = "\<lambda>l. if root l = SlotRoleMemberCount then SlotRoleMembers else root l"])
  show "distinct (map fst (migrate_parts E A k admin n))" by (simp add: migrate_parts_def slot_defs)
next
  fix x
  assume "x \<in> set (migrate_parts E A k admin n)"
  then show "distinct (map fst (snd x))"
    using registries_distinct [OF assms] records_distinct [OF assms] names_distinct [OF assms] checksums_distinct [OF assms]
      roles_distinct [OF assms] single_cells_distinct
    by (auto simp only: migrate_parts_def list.set insert_iff empty_iff snd_conv distinct_singleton list.map)
next
  fix x c
  assume "x \<in> set (migrate_parts E A k admin n)" and "c \<in> set (snd x)"
  then show "(if root (fst c) = SlotRoleMemberCount then SlotRoleMembers else root (fst c)) = fst x"
    by (auto simp: migrate_parts_def slot_defs count_cell_def latest_cell_def id_cell_def admin_cell_def header_cell_def
        dest!: registry_cells_root record_cells_root id_list_roots role_cells_root)
qed

section \<open>Reading words\<close>

lemma from_be_zeros: "from_be (replicate n 0 @ bz) = (from_be bz :: 'a :: len word)"
  by (induction n) (simp_all add: from_be_def)

lemma from_be_to_be_ucast: "(from_be (to_be n (w :: 'a :: len word)) :: 'b :: len word) = ucast (take_bit (8 * n) w)"
proof (induction n arbitrary: w)
  case (Suc n)
  show ?case
    unfolding to_be_Suc from_be_snoc Suc
    by (rule bit_word_eqI) (auto simp: bit_simps)
qed (simp add: to_be_def from_be_def)

text \<open>A whole word as an integer, and its low eight bytes.\<close>

definition read_uint :: "Hash \<Rightarrow> nat" where
  "read_uint h = unat (from_be h :: 256 word)"

definition read_u64 :: "Hash \<Rightarrow> u64" where
  "read_u64 h = from_be (drop 24 h)"

lemma read_uint_Word: "read_uint (Word_hash v) = unat v"
proof -
  have "take_bit 64 v = v" by (rule bit_word_eqI) (simp add: bit_simps)
  then have "(from_be (Word_hash v) :: 256 word) = ucast v"
    unfolding Word_hash_bytes from_be_zeros from_be_to_be_ucast by simp
  moreover have "unat v < 2 ^ 256" using unsigned_less [of v, where ?'a = nat] by simp
  ultimately show ?thesis by (simp add: read_uint_def unsigned_ucast_eq take_bit_nat_eq_self)
qed

lemma read_u64_Word [simp]: "read_u64 (Word_hash v) = v"
  by (simp add: read_u64_def Word_hash_bytes from_be_to_be_id)

lemma last_Word: "last (Word_hash v) = ucast v"
  using to_be_Suc [of 7 v] by (simp add: Word_hash_bytes)

section \<open>Reading strings and lists\<close>

definition read_string :: "env \<Rightarrow> (Hash \<Rightarrow> Hash) \<Rightarrow> Hash \<Rightarrow> bytes" where
  "read_string E st base =
     (let w = st base in
      if even (unat (last w)) then take (unat (last w) div 2) w
      else let n = (read_uint w - 1) div 2
           in take n (concat (map (\<lambda>i. st (at_slot (ArrayData E base) (of_nat i))) [0..<(n + 31) div 32])))"

definition read_ids :: "env \<Rightarrow> (Hash \<Rightarrow> Hash) \<Rightarrow> Hash \<Rightarrow> u64 list" where
  "read_ids E st base =
     map (\<lambda>i. from_be (take 8 (drop (24 - 8 * (i mod 4)) (st (at_slot (ArrayData E base) (of_nat (i div 4)))))))
       [0..<read_uint (st base)]"

text \<open>The storage has these cells.\<close>

definition has_cells :: "env \<Rightarrow> (Hash \<Rightarrow> Hash) \<Rightarrow> cell list \<Rightarrow> bool" where
  "has_cells E st cs \<longleftrightarrow> (\<forall>c \<in> set cs. st (slot_of E (fst c)) = snd c)"

lemma has_cells_simps [simp]:
  "has_cells E st []" "has_cells E st (c # cs) \<longleftrightarrow> st (slot_of E (fst c)) = snd c \<and> has_cells E st cs"
  "has_cells E st (cs @ cs') \<longleftrightarrow> has_cells E st cs \<and> has_cells E st cs'"
  by (auto simp: has_cells_def)

lemma has_cells_map: "has_cells E st (map f xs) \<longleftrightarrow> (\<forall>x \<in> set xs. st (slot_of E (fst (f x))) = snd (f x))"
  by (simp add: has_cells_def)

lemma has_cells_concat: "has_cells E st (concat (map f xs)) \<longleftrightarrow> (\<forall>x \<in> set xs. has_cells E st (f x))"
  by (auto simp: has_cells_def)

lemma concat_chunks: "32 * m \<le> length c \<Longrightarrow> concat (map (\<lambda>i. take 32 (drop (32 * i) c)) [0..<m]) = take (32 * m) c"
proof (induction m)
  case (Suc m)
  then show ?case using take_add [of "32 * m" 32 c] by (simp add: add.commute)
qed simp

lemma concat_words: "take (length b) (concat (map (word_at b) [0..<(length b + 31) div 32])) = b"
proof -
  let ?m = "(length b + 31) div 32" and ?c = "b @ zero_hash"
  have le: "32 * ?m \<le> length b + 31" using div_times_less_eq_dividend [of "length b + 31" 32] by (simp add: mult.commute)
  have ge: "length b \<le> 32 * ?m" by linarith
  have "word_at b i = take 32 (drop (32 * i) ?c)" if "i < ?m" for i
  proof -
    from that have "32 * i + 32 \<le> 32 * ?m" by simp
    with le have "32 * i \<le> length b" by linarith
    then show ?thesis by (simp add: word_at_def)
  qed
  then have "concat (map (word_at b) [0..<?m]) = concat (map (\<lambda>i. take 32 (drop (32 * i) ?c)) [0..<?m])"
    by (intro arg_cong [where f = concat] map_cong) auto
  also have "\<dots> = take (32 * ?m) ?c" using le by (intro concat_chunks) simp
  finally show ?thesis using ge by simp
qed

lemma read_string_cells:
  assumes "fits (length s)" and "has_cells E st (string_cells p s)"
  shows "read_string E st (slot_of E p) = bytes_of_string s"
proof -
  let ?b = "bytes_of_string s"
  have len: "length ?b = length s" by (simp add: bytes_of_string_def)
  show ?thesis
  proof (cases "length ?b < 32")
    case True
    let ?w = "(take 32 (?b @ zero_hash))[31 := of_nat (length ?b * 2)]"
    have w: "st (slot_of E p) = ?w" using assms(2) True by (simp add: string_cells_def Let_def)
    have "length ?w = 32" using True by simp
    then have "last ?w = ?w ! 31" by (subst last_conv_nth) auto
    then have "last ?w = of_nat (length ?b * 2)" using True by simp
    moreover have "unat (of_nat (length ?b * 2) :: byte) = length ?b * 2"
      unfolding unat_of_nat using True by simp
    ultimately show ?thesis using True by (simp add: read_string_def w)
  next
    case False
    let ?v = "of_nat (length ?b * 2 + 1) :: u64"
    have "st (slot_of E p) = Word_hash ?v" using assms(2) False by (simp add: string_cells_def Let_def)
    moreover have v: "unat ?v = length ?b * 2 + 1" unfolding unat_of_nat len using assms(1) by (simp add: fits_def)
    then have "odd (unat (last (Word_hash ?v)))" by (simp only: last_Word unsigned_ucast_eq) simp
    ultimately have "read_string E st (slot_of E p) =
        take (length ?b) (concat (map (\<lambda>i. st (at_slot (ArrayData E (slot_of E p)) (of_nat i))) [0..<(length ?b + 31) div 32]))"
      using v by (simp add: read_string_def Let_def read_uint_Word)
    also have "map (\<lambda>i. st (at_slot (ArrayData E (slot_of E p)) (of_nat i))) [0..<(length ?b + 31) div 32] =
        map (word_at ?b) [0..<(length ?b + 31) div 32]"
      using assms(2) False by (simp add: string_cells_def Let_def has_cells_map)
    finally show ?thesis by (simp only: concat_words)
  qed
qed

lemma take_drop_ids: "q < length xs \<Longrightarrow> take 8 (drop (8 * q) (concat (map (to_be 8) xs))) = to_be 8 (xs ! q)"
proof (induction xs arbitrary: q)
  case (Cons x xs)
  then show ?case by (cases q) simp_all
qed simp

lemma ids_word_nth:
  assumes "m < length is" and "length is \<le> 4"
  shows "from_be (take 8 (drop (24 - 8 * m) (ids_word is))) = is ! m"
proof -
  let ?q = "length is - Suc m"
  have "24 - 8 * m = (32 - 8 * length is) + 8 * ?q" using assms by linarith
  then have "drop (24 - 8 * m) (ids_word is) = drop (8 * ?q) (concat (map (to_be 8) (rev is)))"
    by (simp add: ids_word_def)
  moreover have "rev is ! ?q = is ! m" using assms(1) by (simp add: rev_nth)
  ultimately show ?thesis
    using take_drop_ids [of ?q "rev is"] assms(1) by (simp add: from_be_to_be_id)
qed

lemma read_ids_cells:
  assumes "fits (length is)" and "has_cells E st (ids_cells p is)"
  shows "read_ids E st (slot_of E p) = is"
proof -
  have "unat (of_nat (length is) :: u64) = length is" unfolding unat_of_nat using assms(1) by (simp add: fits_def)
  then have n: "read_uint (st (slot_of E p)) = length is" using assms(2) by (simp add: ids_cells_def read_uint_Word)
  have "from_be (take 8 (drop (24 - 8 * (i mod 4)) (st (at_slot (ArrayData E (slot_of E p)) (of_nat (i div 4)))))) = is ! i"
    if i: "i < length is" for i
  proof -
    let ?w = "take 4 (drop (4 * (i div 4)) is)"
    have "i div 4 < (length is + 3) div 4" using i by linarith
    then have "st (at_slot (ArrayData E (slot_of E p)) (of_nat (i div 4))) = ids_word ?w"
      using assms(2) by (simp add: ids_cells_def has_cells_map)
    moreover have idx: "4 * (i div 4) + i mod 4 = i" by simp
    have "i mod 4 < length ?w" using i idx by (simp add: less_diff_conv)
    moreover have "?w ! (i mod 4) = is ! i" using i idx by simp
    ultimately show ?thesis by (simp add: ids_word_nth)
  qed
  then show ?thesis unfolding read_ids_def n by (intro nth_equalityI) simp_all
qed

section \<open>The storage after a migration\<close>

definition sstore :: "Write \<Rightarrow> (Hash \<Rightarrow> Hash) \<Rightarrow> Hash \<Rightarrow> Hash" where
  "sstore w st = st(Slot w := Value w)"

definition store_sink :: "(Hash \<Rightarrow> Hash) Sink" where
  "store_sink w = act_put (sstore w)"

interpretation storage: total_sink "skipZero store_sink" "\<lambda>w. if Value w = zero_hash then (\<lambda>st. st) else sstore w"
  by (rule total_sink_skipZero) (unfold_locales, simp add: store_sink_def act_put_def)

lemma storage_other:
  "slot \<notin> Slot ` set ws \<Longrightarrow> fold (\<lambda>w. if Value w = zero_hash then (\<lambda>st. st) else sstore w) ws st slot = st slot"
  by (induction ws arbitrary: st) (auto simp: sstore_def)

lemma storage_once:
  assumes "distinct (map Slot ws)" and "w \<in> set ws" and "st (Slot w) = zero_hash"
  shows "fold (\<lambda>w. if Value w = zero_hash then (\<lambda>st. st) else sstore w) ws st (Slot w) = Value w"
  using assms
proof (induction ws arbitrary: st)
  case (Cons v ws)
  show ?case
  proof (cases "v = w")
    case True
    with Cons.prems show ?thesis by (simp add: storage_other sstore_def)
  next
    case False
    with Cons.prems have w: "w \<in> set ws" "Slot v \<noteq> Slot w" by auto
    with Cons show ?thesis by (simp add: sstore_def)
  qed
qed simp

text \<open>The storage starts out zero.\<close>

definition no_collisions :: "env \<Rightarrow> cell list \<Rightarrow> bool" where
  "no_collisions E cs \<longleftrightarrow> inj_on (slot_of E) (set (map fst cs))"

lemma slots_distinct:
  assumes "state_fits E k" and "no_collisions E (migrate_cells E A k admin n)"
  shows "distinct (map Slot (map (cell_write E) (migrate_cells E A k admin n)))"
proof -
  have "map Slot (map (cell_write E) cs) = map (slot_of E) (map fst cs)" for cs by (simp add: cell_write_def)
  then show ?thesis
    using migrate_cells_distinct [OF assms(1)] assms(2) unfolding no_collisions_def by (simp only: distinct_map)
qed

lemma has_cells_fold:
  assumes "distinct (map Slot (map (cell_write E) cs))"
  shows "has_cells E (fold (\<lambda>w. if Value w = zero_hash then (\<lambda>st. st) else sstore w) (map (cell_write E) cs) (\<lambda>_. zero_hash)) cs"
  unfolding has_cells_def
proof
  fix c
  assume "c \<in> set cs"
  then show "fold (\<lambda>w. if Value w = zero_hash then (\<lambda>st. st) else sstore w) (map (cell_write E) cs) (\<lambda>_. zero_hash)
      (slot_of E (fst c)) = snd c"
    using storage_once [OF assms, of "cell_write E c"] by (simp add: cell_write_def)
qed

lemma Migrate_storage:
  assumes "migratable E k admin n" and fits: "state_fits E k" and "no_collisions E (migrate_cells E A k admin n)"
  shows "\<exists>st. Migrate E A k store_sink (\<lambda>_. zero_hash) = (Inr (), st) \<and> has_cells E st (migrate_cells E A k admin n)"
proof -
  let ?cs = "migrate_cells E A k admin n"
  let ?st = "fold (\<lambda>w. if Value w = zero_hash then (\<lambda>st. st) else sstore w) (map (cell_write E) ?cs) (\<lambda>_. zero_hash)"
  have "length (centries (RoleMembers k)) < 2 ^ 64" using fits by (simp add: state_fits_def fits_def)
  then have "Migrate E A k store_sink (\<lambda>_. zero_hash) = (Inr (), ?st)"
    by (intro storage.Migrate_puts assms(1) refl)
  with has_cells_fold [OF slots_distinct [OF assms(2,3)]] show ?thesis by blast
qed

section \<open>What the contract reads\<close>

definition holds_registry :: "env \<Rightarrow> (Hash \<Rightarrow> Hash) \<Rightarrow> u64 \<Rightarrow> Registry \<Rightarrow> bool" where
  "holds_registry E st i reg \<longleftrightarrow>
     (let f = at_slot (registryBase E i) in
      read_u64 (st (f RegistryID)) = reg_Id reg \<and>
      read_string E st (f RegistryName) = bytes_of_string (reg_Name reg) \<and>
      read_string E st (f RegistryDescription) = bytes_of_string (reg_Description reg) \<and>
      read_string E st (f RegistryCreator) = bytes_of_string (reg_Creator reg) \<and>
      read_string E st (f RegistryCreatedAt) = bytes_of_string (reg_CreatedAt reg) \<and>
      read_string E st (f RegistryMetadata) = bytes_of_string (reg_Metadata reg))"

definition holds_record :: "env \<Rightarrow> (Hash \<Rightarrow> Hash) \<Rightarrow> u64 \<times> u64 \<times> u64 \<Rightarrow> Record \<Rightarrow> bool" where
  "holds_record E st key rc \<longleftrightarrow>
     (let f = at_slot (recordBase E (fst key) (fst (snd key)) (snd (snd key))); h = st (f RecordPacked) in
      read_string E st (f RecordURI) = bytes_of_string (rec_Uri rc) \<and>
      read_string E st (f RecordChecksum) = bytes_of_string (rec_Checksum rc) \<and>
      read_string E st (f RecordChecksumAlgo) = bytes_of_string (rec_ChecksumAlgo rc) \<and>
      read_string E st (f RecordMetadata) = bytes_of_string (rec_Metadata rc) \<and>
      read_string E st (f RecordTimestamp) = bytes_of_string (rec_Timestamp rc) \<and>
      read_string E st (f RecordStatus) = bytes_of_string (rec_Status rc) \<and>
      from_be (drop 24 h) = rec_RecordId rc \<and> from_be (take 8 (drop 16 h)) = rec_Index rc \<and>
      (h ! 15 = 1) = rec_IsLatest rc \<and> from_be (take 8 (drop 7 h)) = rec_RegistryId rc)"

definition holds_roles :: "env \<Rightarrow> (Hash \<Rightarrow> Hash) \<Rightarrow> 'z rbac_state_scheme \<Rightarrow> bool" where
  "holds_roles E st k \<longleftrightarrow>
     (\<forall>r a. cget (RoleAdmins k) r = Some a \<longrightarrow> st (mapHash E r (Word_hash SlotRoleAdmin)) = BytesToHash E a) \<and>
     (\<forall>r a. chas (RoleMembers k) (r, a) \<longrightarrow>
        read_u64 (st (mapHash E (BytesToHash E a) (mapHash E r (Word_hash SlotRoleMembers)))) = 1 \<and>
        read_uint (st (mapHash E r (Word_hash SlotRoleMemberCount))) = card {a. chas (RoleMembers k) (r, a)})"

definition registries_with :: "'z keeper_scheme \<Rightarrow> string \<Rightarrow> u64 list" where
  "registries_with k c = map (\<lambda>e. snd (fst e)) (cprefix c (RecordIdByChecksumAndRegistry k))"

definition registries_named :: "'z keeper_scheme \<Rightarrow> string \<Rightarrow> u64 list" where
  "registries_named k nm = map fst (filter (\<lambda>e. asciiLower (reg_Name (snd e)) = nm) (centries (Registries k)))"

definition holds_lookups :: "env \<Rightarrow> (Hash \<Rightarrow> Hash) \<Rightarrow> 'z keeper_scheme \<Rightarrow> bool" where
  "holds_lookups E st k \<longleftrightarrow>
     (\<forall>r n. cget (RecordsCountByRegistry k) r = Some n \<longrightarrow> read_u64 (st (mapUint64 E r (Word_hash SlotRecordCount))) = n) \<and>
     (\<forall>r i x. cget (RecordIndices k) (r, i) = Some x \<longrightarrow>
        read_u64 (st (mapUint64 E i (mapUint64 E r (Word_hash SlotLatestIndex)))) = x) \<and>
     (\<forall>r c i. cget (RecordIdByRegistryAndChecksum k) (r, c) = Some i \<longrightarrow>
        read_u64 (st (MapString E c (mapUint64 E r (Word_hash SlotRecordIDByChecksum)))) = i) \<and>
     (\<forall>c. registries_with k c \<noteq> [] \<longrightarrow>
        read_ids E st (MapString E c (Word_hash SlotRegistriesByChecksum)) = registries_with k c) \<and>
     (\<forall>nm. registries_named k nm \<noteq> [] \<longrightarrow>
        read_ids E st (MapString E nm (Word_hash SlotRegistriesByName)) = registries_named k nm)"

definition represents :: "env \<Rightarrow> (bytes \<Rightarrow> bytes) \<Rightarrow> (Hash \<Rightarrow> Hash) \<Rightarrow> 'z keeper_scheme \<Rightarrow> addr \<Rightarrow> bool" where
  "represents E A st k admin \<longleftrightarrow>
     (\<forall>i reg. cget (Registries k) i = Some reg \<longrightarrow> holds_registry E st i reg) \<and>
     (\<forall>key rc. cget (Records k) key = Some rc \<longrightarrow> holds_record E st key rc) \<and>
     holds_lookups E st k \<and> holds_roles E st k \<and>
     drop 12 (st (Word_hash SlotHeader)) = A admin \<and>
     RegistryCount k = Some (from_be (take 8 (drop 4 (st (Word_hash SlotHeader)))))"

lemma holds_registry_cells:
  assumes "registry_fits reg" and "has_cells E st (registry_cells (i, reg))"
  shows "holds_registry E st i reg"
proof -
  let ?b = "AtU64 i (Var SlotRegistries)"
  have f: "at_slot (registryBase E i) n = slot_of E (Plus ?b n)" for n by (simp add: registryBase_def)
  have "has_cells E st (string_cells (Plus ?b RegistryName) (reg_Name reg))"
    "has_cells E st (string_cells (Plus ?b RegistryDescription) (reg_Description reg))"
    "has_cells E st (string_cells (Plus ?b RegistryCreator) (reg_Creator reg))"
    "has_cells E st (string_cells (Plus ?b RegistryCreatedAt) (reg_CreatedAt reg))"
    "has_cells E st (string_cells (Plus ?b RegistryMetadata) (reg_Metadata reg))"
    "st (slot_of E (Plus ?b RegistryID)) = Word_hash (reg_Id reg)"
    using assms(2) by (simp_all add: registry_cells_def Let_def)
  with assms(1) show ?thesis
    unfolding holds_registry_def Let_def f registry_fits_def by (simp add: read_string_cells del: slot_of.simps)
qed

lemma holds_record_cells:
  assumes "record_fits rc" and "has_cells E st (record_cells (key, rc))"
  shows "holds_record E st key rc"
proof -
  let ?b = "record_loc key"
  have f: "at_slot (recordBase E (fst key) (fst (snd key)) (snd (snd key))) n = slot_of E (Plus ?b n)" for n
    by (simp add: recordBase_def record_loc_def)
  have strings: "has_cells E st (string_cells (Plus ?b RecordURI) (rec_Uri rc))"
    "has_cells E st (string_cells (Plus ?b RecordChecksum) (rec_Checksum rc))"
    "has_cells E st (string_cells (Plus ?b RecordChecksumAlgo) (rec_ChecksumAlgo rc))"
    "has_cells E st (string_cells (Plus ?b RecordMetadata) (rec_Metadata rc))"
    "has_cells E st (string_cells (Plus ?b RecordTimestamp) (rec_Timestamp rc))"
    "has_cells E st (string_cells (Plus ?b RecordStatus) (rec_Status rc))"
    and h: "st (slot_of E (Plus ?b RecordPacked)) =
      packRecord (rec_RecordId rc) (rec_Index rc) (rec_IsLatest rc) (rec_RegistryId rc)"
    using assms(2) by (simp_all add: record_cells_def Let_def)
  have "packRecord i x l r ! 15 = (if l then 1 else 0)" for i x l r by (simp add: packRecord_bytes nth_append)
  moreover have "from_be (drop 24 (packRecord i x l r)) = i" "from_be (take 8 (drop 16 (packRecord i x l r))) = x"
    "from_be (take 8 (drop 7 (packRecord i x l r))) = r" for i x l r
    by (simp_all add: packRecord_bytes from_be_to_be_id)
  ultimately show ?thesis
    using assms(1) strings h unfolding holds_record_def Let_def f record_fits_def
    by (simp add: read_string_cells del: slot_of.simps)
qed

lemma holds_lookups_cells:
  assumes fits: "state_fits E k" and cells: "has_cells E st (migrate_cells E A k admin n)"
  shows "holds_lookups E st k"
  unfolding holds_lookups_def
proof (intro conjI allI impI)
  have counts: "has_cells E st (map count_cell (centries (RecordsCountByRegistry k)))"
    and latest: "has_cells E st (map latest_cell (centries (RecordIndices k)))"
    and ids: "has_cells E st (map id_cell (centries (RecordIdByRegistryAndChecksum k)))"
    and sums: "has_cells E st (concat (map checksum_cells (groups (map fst (centries (RecordIdByChecksumAndRegistry k))))))"
    and names: "has_cells E st (concat (map name_cells (centries (by_name (centries (Registries k))))))"
    using cells by (simp_all add: migrate_cells_def)
  show "read_u64 (st (mapUint64 E r (Word_hash SlotRecordCount))) = m" if "cget (RecordsCountByRegistry k) r = Some m" for r m
    using counts that [folded kv.mem_entries_iff] by (force simp: has_cells_map count_cell_def)
  show "read_u64 (st (mapUint64 E i (mapUint64 E r (Word_hash SlotLatestIndex)))) = x"
    if "cget (RecordIndices k) (r, i) = Some x" for r i x
    using latest that [folded kv.mem_entries_iff] by (force simp: has_cells_map latest_cell_def)
  show "read_u64 (st (MapString E c (mapUint64 E r (Word_hash SlotRecordIDByChecksum)))) = i"
    if "cget (RecordIdByRegistryAndChecksum k) (r, c) = Some i" for r c i
    using ids that [folded kv.mem_entries_iff] by (force simp: has_cells_map id_cell_def)
  show "read_ids E st (MapString E c (Word_hash SlotRegistriesByChecksum)) = registries_with k c"
    if c: "registries_with k c \<noteq> []" for c
  proof -
    let ?gs = "groups (map fst (centries (RecordIdByChecksumAndRegistry k)))"
    have "c \<in> set (map fst (map fst (centries (RecordIdByChecksumAndRegistry k))))"
      using c by (force simp: registries_with_def cprefix_def filter_empty_conv)
    then have "c \<in> set (map fst ?gs)" by (simp only: groups_keys)
    then obtain g where g: "g \<in> set ?gs" "fst g = c" by auto
    then have "snd g = map snd (filter (\<lambda>key. fst key = c) (map fst (centries (RecordIdByChecksumAndRegistry k))))"
      using centries_groups by blast
    then have list: "snd g = registries_with k c" by (simp add: registries_with_def cprefix_def filter_map comp_def)
    have "fits (length (snd g))" using length_group [OF g(1)] fits by (simp add: state_fits_def fits_def)
    moreover have "has_cells E st (ids_cells (AtString c (Var SlotRegistriesByChecksum)) (snd g))"
      using sums g by (auto simp: has_cells_concat checksum_cells_def)
    ultimately show ?thesis using read_ids_cells list by fastforce
  qed
  show "read_ids E st (MapString E nm (Word_hash SlotRegistriesByName)) = registries_named k nm"
    if nm: "registries_named k nm \<noteq> []" for nm
  proof -
    have "cget (by_name (centries (Registries k))) nm = Some (registries_named k nm)"
      using nm by (simp add: get_by_name registries_named_def Let_def)
    then have "(nm, registries_named k nm) \<in> set (centries (by_name (centries (Registries k))))" by (simp add: kv.mem_entries_iff)
    then have "has_cells E st (ids_cells (AtString nm (Var SlotRegistriesByName)) (registries_named k nm))"
      using names by (auto simp: has_cells_concat name_cells_def)
    moreover have "length (registries_named k nm) \<le> length (centries (Registries k))" by (simp add: registries_named_def)
    then have "fits (length (registries_named k nm))" using fits by (simp add: state_fits_def fits_def)
    ultimately show ?thesis using read_ids_cells by fastforce
  qed
qed

lemma holds_roles_cells:
  assumes fits: "state_fits E k" and cells: "has_cells E st (migrate_cells E A k admin n)"
  shows "holds_roles E st k"
  unfolding holds_roles_def
proof (intro conjI allI impI)
  have admins: "has_cells E st (map (admin_cell E) (centries (RoleAdmins k)))"
    and roles: "has_cells E st (concat (map (role_cells E) (groups (map fst (centries (RoleMembers k))))))"
    using cells by (simp_all add: migrate_cells_def)
  show "st (mapHash E r (Word_hash SlotRoleAdmin)) = BytesToHash E a" if "cget (RoleAdmins k) r = Some a" for r a
    using admins that [folded kv.mem_entries_iff] by (force simp: has_cells_map admin_cell_def)
  fix r a
  assume "chas (RoleMembers k) (r, a)"
  then have mem: "(r, a) \<in> set (map fst (centries (RoleMembers k)))"
    using kv.get_None_iff [of "RoleMembers k"] by (auto simp: chas_def)
  let ?gs = "groups (map fst (centries (RoleMembers k)))"
  have "r \<in> set (map fst (map fst (centries (RoleMembers k))))" using mem by force
  then have "r \<in> set (map fst ?gs)" by (simp only: groups_keys)
  then obtain g where g: "g \<in> set ?gs" "fst g = r" by auto
  then have list: "snd g = map snd (filter (\<lambda>key. fst key = r) (map fst (centries (RoleMembers k))))"
    using centries_groups by blast
  have has: "has_cells E st (role_cells E g)" using roles g(1) by (simp add: has_cells_concat)
  have set_g: "set (snd g) = {a. chas (RoleMembers k) (r, a)}"
    unfolding list using kv.get_None_iff [of "RoleMembers k"] by (force simp: chas_def)
  have "a \<in> set (snd g)" unfolding list using mem by force
  then show "read_u64 (st (mapHash E (BytesToHash E a) (mapHash E r (Word_hash SlotRoleMembers)))) = 1"
    using has g(2) by (simp add: role_cells_def has_cells_map member_cell_def)
  have "distinct (snd g)"
    unfolding list using kv.entries_distinct [of "RoleMembers k"] by (auto simp: distinct_map inj_on_def)
  then have "card {a. chas (RoleMembers k) (r, a)} = length (snd g)" by (simp flip: set_g add: distinct_card)
  moreover have "unat (of_nat (length (snd g)) :: u64) = length (snd g)"
    unfolding unat_of_nat using length_group [OF g(1)] fits by (simp add: state_fits_def fits_def)
  ultimately show "read_uint (st (mapHash E r (Word_hash SlotRoleMemberCount))) = card {a. chas (RoleMembers k) (r, a)}"
    using has g(2) by (simp add: role_cells_def member_count_cell_def read_uint_Word)
qed

lemma cells_represent:
  assumes mig: "migratable E k admin n" and fits: "state_fits E k" and addr: "length (A admin) = 20"
    and cells: "has_cells E st (migrate_cells E A k admin n)"
  shows "represents E A st k admin"
  unfolding represents_def
proof (intro conjI allI impI)
  have regs: "has_cells E st (concat (map registry_cells (centries (Registries k))))"
    and recs: "has_cells E st (concat (map record_cells (centries (Records k))))"
    and header: "st (Word_hash SlotHeader) = PutUint64 4 n (take 12 zero_hash @ A admin)"
    using cells by (simp_all add: migrate_cells_def header_cell_def)
  show "holds_registry E st i reg" if "cget (Registries k) i = Some reg" for i reg
    using regs that fits by (intro holds_registry_cells) (auto simp: has_cells_concat state_fits_def simp flip: kv.mem_entries_iff)
  show "holds_record E st key rc" if "cget (Records k) key = Some rc" for key rc
    using recs that fits
    by (intro holds_record_cells) (auto simp: has_cells_concat state_fits_def simp flip: kv.mem_entries_iff simp del: split_paired_All)
  show "holds_lookups E st k" "holds_roles E st k" using fits cells by (rule holds_lookups_cells, rule holds_roles_cells)
  have "take 12 zero_hash @ A admin = replicate 4 0 @ replicate 8 0 @ A admin"
    by (simp add: zero_hash_def flip: replicate_add)
  with header have h: "st (Word_hash SlotHeader) = replicate 4 0 @ to_be 8 n @ A admin"
    using PutUint64_split [of "replicate 4 0" 4 "replicate 8 0" n "A admin"] by simp
  show "drop 12 (st (Word_hash SlotHeader)) = A admin" by (simp add: h)
  show "RegistryCount k = Some (from_be (take 8 (drop 4 (st (Word_hash SlotHeader)))))"
    using mig by (simp add: h migratable_def from_be_to_be_id)
qed

end
