(* ===== verification/Evm_Dump.thy ===== *)
theory Evm_Dump
  imports Evm_Storage
begin

text \<open>
  The dump of a migration (\<open>dump.go\<close>) into a writer that keeps what it is given, and what a reader of
  the documented format finds in it.
\<close>

section \<open>A dump in memory\<close>

definition buffer :: "bytes \<Rightarrow> (bytes, unit) act" where
  "buffer bz = act_put (\<lambda>out. out @ bz)"

definition flush_mem :: "bytes Dump \<Rightarrow> bytes Dump" where
  "flush_mem d =
     (if pending d = [] then d
      else d\<lparr>dump_out := dump_out d @ dump_header (dump_address d) (pending d) @ pending d, pending := []\<rparr>)"

definition put_mem :: "Write \<Rightarrow> bytes Dump \<Rightarrow> bytes Dump" where
  "put_mem w d =
     (let d' = d\<lparr>pending := pending d @ Slot w @ Value w\<rparr>
      in if length (pending d') = DumpBlockPairs * dumpPair then flush_mem d' else d')"

lemma flush_buffer: "flush buffer d = (Inr (), flush_mem d)"
  by (simp add: flush_def flush_mem_def act_bind_def dump_write_def buffer_def act_put_def)

lemma Put_buffer: "Put buffer w d = (Inr (), put_mem w d)"
  by (simp add: Put_def put_mem_def Let_def act_bind_def act_put_def flush_buffer)

interpretation memory: total_sink "skipZero (Put buffer)" "\<lambda>w. if Value w = zero_hash then (\<lambda>d. d) else put_mem w"
  by (rule total_sink_skipZero) (unfold_locales, rule Put_buffer)

section \<open>The format\<close>

text \<open>The pairs of a block, and the blocks of a dump: magic, version 1, no flags, address, number of pairs, pairs.\<close>

definition split_pairs :: "nat \<Rightarrow> bytes \<Rightarrow> (Hash \<times> Hash) list" where
  "split_pairs n body = map (\<lambda>i. (take 32 (drop (64 * i) body), take 32 (drop (64 * i + 32) body))) [0..<n]"

definition block_ok :: "bytes \<Rightarrow> bool" where
  "block_ok bz \<longleftrightarrow> 40 \<le> length bz \<and> take 8 bz = dumpMagic \<and> take 2 (drop 8 bz) = [0, 1] \<and> take 2 (drop 10 bz) = [0, 0]"

definition block_pairs :: "bytes \<Rightarrow> nat" where
  "block_pairs bz = unat (from_be (take 8 (drop 32 bz)) :: u64)"

function parse_dump :: "bytes \<Rightarrow> (bytes \<times> (Hash \<times> Hash) list) list option" where
  "parse_dump bz =
     (if bz = [] then Some []
      else if \<not> block_ok bz \<or> length bz < 40 + 64 * block_pairs bz then None
      else map_option ((#) (take 20 (drop 12 bz), split_pairs (block_pairs bz) (drop 40 bz)))
             (parse_dump (drop (40 + 64 * block_pairs bz) bz)))"
  by pat_completeness auto
termination
  by (relation "measure length") auto

declare parse_dump.simps [simp del]

definition write_pair :: "Write \<Rightarrow> Hash \<times> Hash" where
  "write_pair w = (Slot w, Value w)"

definition write_bytes :: "Write list \<Rightarrow> bytes" where
  "write_bytes ws = concat (map (\<lambda>w. Slot w @ Value w) ws)"

definition block :: "bytes \<Rightarrow> Write list \<Rightarrow> bytes" where
  "block address ws = dump_header address (write_bytes ws) @ write_bytes ws"

definition word_writes :: "Write list \<Rightarrow> bool" where
  "word_writes ws \<longleftrightarrow> (\<forall>w \<in> set ws. length (Slot w) = 32 \<and> length (Value w) = 32)"

lemma word_writes_simps [simp]: "word_writes []" "word_writes (w # ws) \<longleftrightarrow> length (Slot w) = 32 \<and> length (Value w) = 32 \<and> word_writes ws"
  "word_writes (ws @ ws') \<longleftrightarrow> word_writes ws \<and> word_writes ws'"
  by (auto simp: word_writes_def)

lemma length_write_bytes: "word_writes ws \<Longrightarrow> length (write_bytes ws) = 64 * length ws"
  by (induction ws) (simp_all add: write_bytes_def)

lemma split_write_bytes: "word_writes ws \<Longrightarrow> split_pairs (length ws) (write_bytes ws @ rest) = map write_pair ws"
proof (induction ws)
  case (Cons w ws)
  let ?b = "write_bytes ws @ rest"
  have bytes: "write_bytes (w # ws) @ rest = Slot w @ Value w @ ?b" by (simp add: write_bytes_def)
  have "split_pairs (Suc (length ws)) (Slot w @ Value w @ ?b) = write_pair w # split_pairs (length ws) ?b"
    unfolding split_pairs_def upt_conv_Cons [OF zero_less_Suc] map_Suc_upt [symmetric]
    using Cons.prems by (simp add: write_pair_def add.commute)
  with Cons show ?case unfolding bytes by simp
qed (simp add: split_pairs_def)

lemma dump_header_bytes:
  assumes "length address = 20"
  shows "dump_header address pend =
    dumpMagic @ [0, 1] @ [0, 0] @ address @ to_be 8 (of_nat (length pend div 64) :: u64)"
  and "length dumpMagic = 8"
proof -
  have "to_be 2 (1 :: 16 word) = [0, 1]" by code_simp
  then show "dump_header address pend =
      dumpMagic @ [0, 1] @ [0, 0] @ address @ to_be 8 (of_nat (length pend div 64) :: u64)"
    by (simp add: dump_header_def dumpVersion_def dumpPair_def)
  show "length dumpMagic = 8" by (simp add: dumpMagic_def bytes_of_string_def)
qed

lemma parse_block:
  assumes "length address = 20" and ws: "word_writes ws" and n: "length ws < 2 ^ 64"
  shows "parse_dump (block address ws @ tail) = map_option ((#) (address, map write_pair ws)) (parse_dump tail)"
proof -
  define z where "z = block address ws @ tail"
  note header = dump_header_bytes [OF assms(1)] and len = length_write_bytes [OF ws]
  have bz: "z = dumpMagic @ [0, 1] @ [0, 0] @ address @ to_be 8 (of_nat (length ws) :: u64) @ write_bytes ws @ tail"
    by (simp add: z_def block_def header(1) len)
  have "block_pairs z = unat (of_nat (length ws) :: u64)"
    unfolding bz block_pairs_def using header(2) assms(1) by (simp add: from_be_to_be_id)
  then have pairs: "block_pairs z = length ws" unfolding unat_of_nat using n by simp
  have ok: "block_ok z" unfolding bz block_ok_def using header(2) assms(1) by simp
  have parts: "z \<noteq> []" "\<not> length z < 40 + 64 * length ws" "take 20 (drop 12 z) = address"
    and body: "drop 40 z = write_bytes ws @ tail"
    unfolding bz using header(2) assms(1) len by simp_all
  have "drop (64 * length ws + 40) z = drop (64 * length ws) (write_bytes ws @ tail)"
    by (simp only: body drop_drop [symmetric])
  then have "drop (40 + 64 * length ws) z = tail" by (simp only: add.commute) (simp add: len)
  with ok parts body have "parse_dump z = map_option ((#) (address, map write_pair ws)) (parse_dump tail)"
    by (subst parse_dump.simps) (simp add: pairs split_write_bytes [OF ws])
  then show ?thesis by (simp only: z_def)
qed

section \<open>Round trip\<close>

text \<open>What is in the writer and what is pending after some writes.\<close>

definition dumped :: "bytes \<Rightarrow> Write list \<Rightarrow> bytes Dump \<Rightarrow> bool" where
  "dumped address ws d \<longleftrightarrow>
     dump_address d = address \<and>
     (\<exists>full rest. concat full @ rest = ws \<and> dump_out d = concat (map (block address) full) \<and> pending d = write_bytes rest \<and>
        length rest < DumpBlockPairs \<and> (\<forall>b \<in> set full. length b \<le> DumpBlockPairs))"

lemma dumpedI:
  "dump_address d = address \<Longrightarrow> concat full @ rest = ws \<Longrightarrow> dump_out d = concat (map (block address) full) \<Longrightarrow>
   pending d = write_bytes rest \<Longrightarrow> length rest < DumpBlockPairs \<Longrightarrow> \<forall>b \<in> set full. length b \<le> DumpBlockPairs \<Longrightarrow>
   dumped address ws d"
  unfolding dumped_def by blast

lemma dumped_put:
  assumes "dumped address ws d" and ok: "word_writes (ws @ [w])"
  shows "dumped address (ws @ [w]) (put_mem w d)"
proof -
  from assms(1) obtain full rest where a: "dump_address d = address" and ws: "concat full @ rest = ws"
    and out: "dump_out d = concat (map (block address) full)" and pend: "pending d = write_bytes rest"
    and small: "length rest < DumpBlockPairs" and blocks: "\<forall>b \<in> set full. length b \<le> DumpBlockPairs"
    unfolding dumped_def by blast
  have word: "word_writes (rest @ [w])" using ok ws by auto
  have pend': "pending d @ Slot w @ Value w = write_bytes (rest @ [w])" by (simp add: pend write_bytes_def)
  have len: "length (write_bytes (rest @ [w])) = 64 * Suc (length rest)" using length_write_bytes [OF word] by simp
  show ?thesis
  proof (cases "Suc (length rest) = DumpBlockPairs")
    case True
    then have "put_mem w d = d\<lparr>dump_out := concat (map (block address) (full @ [rest @ [w]])), pending := write_bytes []\<rparr>"
      using len by (auto simp: put_mem_def pend' Let_def dumpPair_def flush_mem_def block_def a out) (simp add: write_bytes_def)
    moreover have "\<forall>b \<in> set (full @ [rest @ [w]]). length b \<le> DumpBlockPairs" using True blocks by simp
    ultimately show ?thesis
      using a ws by (intro dumpedI [of _ _ "full @ [rest @ [w]]" "[]"]) (simp_all add: DumpBlockPairs_def)
  next
    case False
    then have "put_mem w d = d\<lparr>pending := write_bytes (rest @ [w])\<rparr>"
      using len by (simp add: put_mem_def pend' Let_def dumpPair_def)
    then show ?thesis
      using a ws out small blocks False by (intro dumpedI [of _ _ full "rest @ [w]"]) simp_all
  qed
qed

lemma dumped_fold:
  assumes "dumped address ws d" and "word_writes (ws @ ws')"
  shows "dumped address (ws @ ws') (fold put_mem ws' d)"
  using assms
proof (induction ws' arbitrary: ws d)
  case (Cons w ws')
  have "dumped address (ws @ [w]) (put_mem w d)" using Cons.prems by (intro dumped_put) simp_all
  from Cons.IH [OF this] Cons.prems(2) show ?case by simp
qed simp

lemma parse_blocks:
  assumes "length address = 20" and "\<forall>b \<in> set bs. word_writes b \<and> length b \<le> DumpBlockPairs"
  shows "parse_dump (concat (map (block address) bs)) = Some (map (\<lambda>b. (address, map write_pair b)) bs)"
  using assms(2)
proof (induction bs)
  case (Cons b bs)
  then have "length b < 2 ^ 64" by (simp add: DumpBlockPairs_def)
  with Cons show ?case by (simp add: parse_block [OF assms(1)])
qed (simp add: parse_dump.simps)

lemma dump_roundtrip:
  assumes "length address = 20" and "word_writes ws"
  shows "\<exists>d bs. Dump_Close buffer (fold put_mem ws (NewDump [] address)) = (Inr (), d) \<and>
    parse_dump (dump_out d) = Some (map (\<lambda>b. (address, map write_pair b)) bs) \<and> concat bs = ws"
proof -
  have "dumped address [] (NewDump [] address)"
    by (rule dumpedI [of _ _ "[]" "[]"]) (simp_all add: NewDump_def DumpBlockPairs_def write_bytes_def)
  from dumped_fold [OF this, of ws] assms(2) have "dumped address ws (fold put_mem ws (NewDump [] address))" by simp
  then obtain full rest
    where a: "dump_address (fold put_mem ws (NewDump [] address)) = address" and ws: "concat full @ rest = ws"
      and out: "dump_out (fold put_mem ws (NewDump [] address)) = concat (map (block address) full)"
      and pend: "pending (fold put_mem ws (NewDump [] address)) = write_bytes rest"
      and len: "length rest < DumpBlockPairs" "\<forall>b \<in> set full. length b \<le> DumpBlockPairs"
    unfolding dumped_def by blast
  let ?bs = "full @ (if rest = [] then [] else [rest])"
  have "word_writes rest" using assms(2) ws by auto
  then have "write_bytes rest = [] \<longleftrightarrow> rest = []" using length_write_bytes [of rest] by auto
  then have "dump_out (flush_mem (fold put_mem ws (NewDump [] address))) = concat (map (block address) ?bs)"
    by (auto simp: flush_mem_def out pend a block_def)
  moreover have "word_writes b" if "b \<in> set ?bs" for b
    using that assms(2) ws by (auto simp: word_writes_def split: if_splits)
  ultimately have "parse_dump (dump_out (flush_mem (fold put_mem ws (NewDump [] address)))) =
      Some (map (\<lambda>b. (address, map write_pair b)) ?bs)"
    using len parse_blocks [OF assms(1), of ?bs] by (auto split: if_splits)
  moreover have "concat ?bs = ws" using ws by auto
  ultimately show ?thesis unfolding Dump_Close_def flush_buffer by blast
qed

section \<open>The dump of a migration\<close>

text \<open>The documented sizes of the results of the Ethereum library.\<close>

definition word_hashes :: "env \<Rightarrow> bool" where
  "word_hashes E \<longleftrightarrow> (\<forall>bz. length (Keccak256 E bz) = 32) \<and> (\<forall>bz. length (BytesToHash E bz) = 32)"

lemma Word_hash_length [simp]: "length (Word_hash v) = 32"
  by (simp add: Word_hash_bytes)

lemma slot_length: "word_hashes E \<Longrightarrow> length (slot_of E l) = 32"
  by (cases l) (simp_all add: word_hashes_def mapUint64_def mapHash_def MapString_def ArrayData_def)

lemma cell_values:
  "c \<in> set (string_cells p s) \<Longrightarrow> length (snd c) = 32" "c \<in> set (ids_cells p is) \<Longrightarrow> length (snd c) = 32"
proof -
  have "length (word_at b i) = 32" for b i by (simp add: word_at_def)
  then show "c \<in> set (string_cells p s) \<Longrightarrow> length (snd c) = 32"
    by (auto simp: string_cells_def Let_def split: if_splits)
  have "length (concat (map (to_be 8) xs)) = 8 * length xs" for xs :: "u64 list" by (induction xs) simp_all
  then have "length (ids_word (take 4 xs)) = 32" for xs by (simp add: ids_word_def)
  then show "c \<in> set (ids_cells p is) \<Longrightarrow> length (snd c) = 32" by (auto simp: ids_cells_def)
qed

lemma migrate_cells_words:
  assumes "word_hashes E" and "length (A admin) = 20"
  shows "word_writes (map (cell_write E) (migrate_cells E A k admin n))"
proof -
  have "length (snd c) = 32" if "c \<in> set (migrate_cells E A k admin n)" for c
  proof -
    have "length (packRecord i x l r) = 32" for i x l r by (simp add: packRecord_bytes)
    moreover have "length (PutUint64 4 n (take 12 zero_hash @ A admin)) = 32" using assms(2) by (simp add: PutUint64_def)
    ultimately show ?thesis
      using that assms(1)
      by (auto simp: migrate_cells_def registry_cells_def record_cells_def name_cells_def checksum_cells_def count_cell_def
          latest_cell_def id_cell_def header_cell_def admin_cell_def role_cells_def member_cell_def member_count_cell_def Let_def
          word_hashes_def dest: cell_values)
  qed
  then show ?thesis using slot_length [OF assms(1)] by (auto simp: word_writes_def cell_write_def)
qed

text \<open>A dump holds the cells that are not zero, in the order of the migration.\<close>

definition nonzero_writes :: "env \<Rightarrow> cell list \<Rightarrow> Write list" where
  "nonzero_writes E cs = filter (\<lambda>w. Value w \<noteq> zero_hash) (map (cell_write E) cs)"

lemma fold_skip: "fold (\<lambda>w. if Value w = zero_hash then (\<lambda>d. d) else f w) ws s = fold f (filter (\<lambda>w. Value w \<noteq> zero_hash) ws) s"
  by (induction ws arbitrary: s) simp_all

lemma Migrate_dump:
  assumes "migratable E k admin n" and fits: "state_fits E k" and "word_hashes E"
    and "length (A admin) = 20" and "length address = 20"
  shows "\<exists>d d' bs. Migrate E A k (Put buffer) (NewDump [] address) = (Inr (), d) \<and> Dump_Close buffer d = (Inr (), d') \<and>
    parse_dump (dump_out d') = Some (map (\<lambda>b. (address, map write_pair b)) bs) \<and>
    concat bs = nonzero_writes E (migrate_cells E A k admin n)"
proof -
  let ?ws = "nonzero_writes E (migrate_cells E A k admin n)"
  have len: "length (centries (RoleMembers k)) < 2 ^ 64" using fits by (simp add: state_fits_def fits_def)
  have "Migrate E A k (Put buffer) (NewDump [] address) = (Inr (), fold put_mem ?ws (NewDump [] address))"
    unfolding memory.Migrate_puts [OF refl assms(1) len] fold_skip nonzero_writes_def by (rule refl)
  moreover have "word_writes ?ws"
    using migrate_cells_words [of E A admin k n] assms(3,4) by (auto simp: nonzero_writes_def word_writes_def)
  ultimately show ?thesis using dump_roundtrip [OF assms(5)] by blast
qed

text \<open>Loading the pairs of a dump into empty storage, as the reader of the format does.\<close>

definition load_pairs :: "(Hash \<times> Hash) list \<Rightarrow> Hash \<Rightarrow> Hash" where
  "load_pairs ps = fold (\<lambda>(slot, v) st. st(slot := v)) ps (\<lambda>_. zero_hash)"

lemma load_writes: "load_pairs (map write_pair ws) = fold sstore ws (\<lambda>_. zero_hash)"
  unfolding load_pairs_def by (simp add: fold_map comp_def write_pair_def sstore_def [abs_def])

lemma dump_loads_state:
  assumes "migratable E k admin n" and fits: "state_fits E k" and "no_collisions E (migrate_cells E A k admin n)"
    and "word_hashes E" and "length (A admin) = 20" and "length address = 20"
  shows "\<exists>d d' blocks. Migrate E A k (Put buffer) (NewDump [] address) = (Inr (), d) \<and> Dump_Close buffer d = (Inr (), d') \<and>
    parse_dump (dump_out d') = Some blocks \<and> (\<forall>b \<in> set blocks. fst b = address) \<and>
    distinct (map fst (concat (map snd blocks))) \<and> represents E A (load_pairs (concat (map snd blocks))) k admin"
proof -
  let ?cs = "migrate_cells E A k admin n"
  from Migrate_dump [of E k admin n A address, OF assms(1,2,4,5,6)] obtain d d' bs
    where run: "Migrate E A k (Put buffer) (NewDump [] address) = (Inr (), d)" "Dump_Close buffer d = (Inr (), d')"
      "parse_dump (dump_out d') = Some (map (\<lambda>b. (address, map write_pair b)) bs)" and bs: "concat bs = nonzero_writes E ?cs"
    by blast
  let ?blocks = "map (\<lambda>b. (address, map write_pair b)) bs"
  have pairs: "concat (map snd ?blocks) = map write_pair (nonzero_writes E ?cs)" by (simp add: comp_def map_concat flip: bs)
  have slots: "distinct (map Slot (map (cell_write E) ?cs))" by (rule slots_distinct [OF assms(2,3)])
  then have "distinct (map fst (concat (map snd ?blocks)))"
    unfolding pairs nonzero_writes_def by (simp add: write_pair_def comp_def distinct_map_filter)
  moreover have "load_pairs (concat (map snd ?blocks)) =
      fold (\<lambda>w. if Value w = zero_hash then (\<lambda>st. st) else sstore w) (map (cell_write E) ?cs) (\<lambda>_. zero_hash)"
    unfolding pairs load_writes fold_skip nonzero_writes_def by (rule refl)
  then have "has_cells E (load_pairs (concat (map snd ?blocks))) ?cs"
    using has_cells_fold [OF slots] by simp
  then have "represents E A (load_pairs (concat (map snd ?blocks))) k admin"
    by (intro cells_represent [of E k admin n A, OF assms(1,2,5)])
  ultimately show ?thesis using run by (intro exI [of _ d] exI [of _ d'] exI [of _ ?blocks]) auto
qed

end
