(* ===== verification/Evm_Properties.thy ===== *)
theory Evm_Properties
  imports Evm_Dump Anchoring_Properties
begin

text \<open>
  The properties of the migration to the storage of the contract, applied to the state after one
  registry was added.
\<close>

section \<open>A sample layout\<close>

text \<open>A function of the size of the hash that keeps the few slots of the sample apart.\<close>

definition tag :: "bytes \<Rightarrow> 8 word" where
  "tag bz = foldl (\<lambda>a b. 5 * a + b + 1) 7 bz"

definition layout_env :: env where
  "layout_env = sample_env\<lparr>Keccak256 := (\<lambda>bz. tag bz # replicate 31 0)\<rparr>"

definition take_address :: "bytes \<Rightarrow> bytes" where
  "take_address bz = take 20 (bz @ replicate 20 0)"

definition layout_locs :: "keeper \<Rightarrow> loc list" where
  "layout_locs k = map fst (migrate_cells layout_env take_address k [3] 1)"

lemma sample_locs:
  "layout_locs sample_k1 =
     map (Plus (AtU64 1 (Var 4))) [0, 1, 2, 3, 4, 5] @
     [AtString ''r'' (Var 10), Plus (Data (AtString ''r'' (Var 10))) 0, AtU64 1 (Var 5), Var 3,
      AtHash (RegistryRole sample_env 1 RoleAdmin) (Var 0),
      AtHash (left_pad32 [1]) (AtHash (RegistryRole sample_env 1 RoleAdmin) (Var 1)),
      AtHash (RegistryRole sample_env 1 RoleAdmin) (Var 2)]"
  by code_simp

text \<open>The slots of the sample differ in their first byte, or in their last eight.\<close>

definition tagged :: "byte \<Rightarrow> bytes" where
  "tagged t = t # replicate 31 0"

lemma layout_env_hash: "Keccak256 layout_env bz = tagged (tag bz)"
  by (simp add: layout_env_def tagged_def)

lemma at_slot_tagged: "at_slot (tagged t) n = t # replicate 23 0 @ to_be 8 n"
proof -
  have "tagged t = (t # replicate 23 0) @ replicate 8 0" by (simp add: tagged_def flip: replicate_add)
  then show ?thesis using at_slot_zeros [of "t # replicate 23 0" n] by simp
qed

lemma sample_bases:
  "map (slot_of layout_env) [AtU64 1 (Var 4), AtString ''r'' (Var 10), Data (AtString ''r'' (Var 10)), AtU64 1 (Var 5),
      AtHash (RegistryRole sample_env 1 RoleAdmin) (Var 0),
      AtHash (left_pad32 [1]) (AtHash (RegistryRole sample_env 1 RoleAdmin) (Var 1)),
      AtHash (RegistryRole sample_env 1 RoleAdmin) (Var 2)] =
   map tagged [76, 128, 231, 77, 138, 23, 140]"
  by code_simp

lemma sample_slots_distinct: "distinct (map (slot_of layout_env) (layout_locs sample_k1))"
proof -
  note bases = sample_bases [unfolded list.map list.inject simp_thms]
  have "map (slot_of layout_env) (layout_locs sample_k1) =
      map (\<lambda>n :: u64. 76 # replicate 23 0 @ to_be 8 n) [0, 1, 2, 3, 4, 5] @
      [tagged 128, 231 # replicate 23 0 @ to_be 8 (0 :: u64), tagged 77, Word_hash 3, tagged 138, tagged 23, tagged 140]"
    unfolding sample_locs by (simp only: map_append list.map slot_of.simps(1,6) bases at_slot_tagged)
  also have "distinct \<dots>" by code_simp
  finally show ?thesis by simp
qed

text \<open>The other hypotheses of the properties hold for the sample too.\<close>

lemma layout_env_word_hashes: "word_hashes layout_env"
proof -
  have "length (left_pad32 bz) = 32" for bz by (cases "length bz \<le> 32") (simp_all add: left_pad32_def)
  then show ?thesis by (simp add: word_hashes_def layout_env_hash tagged_def layout_env_def sample_env_def)
qed

lemma take_address_length: "length (take_address bz) = 20"
  by (simp add: take_address_def)

definition layout_view :: "keeper \<Rightarrow> nat \<times> nat \<times> addr list \<times> Params option \<times> u64 option" where
  "layout_view k = (length (centries (Records k)), length (centries (RecordIdByChecksumAndRegistry k)),
     map (snd \<circ> fst) (centries (RoleMembers k)), ParamsItem k, RegistryCount k)"

lemma sample_layout_view: "layout_view sample_k1 = (0, 0, [[1]], Some \<lparr>par_Admin = ''root''\<rparr>, Some 1)"
  by code_simp

lemma sample_entries: "centries (Registries sample_k1) = [(1, sample_registry)]"
  unfolding sample_k1_registries by code_simp

lemma sample_state_fits: "state_fits layout_env sample_k1"
proof -
  note view = sample_layout_view [unfolded layout_view_def prod.inject]
  have "registry_fits sample_registry" by (simp add: registry_fits_def sample_registry_def fits_def)
  moreover have "cget (Records sample_k1) key = None" for key
    using view by (simp add: kv.get_None_iff)
  moreover have "{a. \<exists>r. chas (RoleMembers sample_k1) (r, a)} = {[1]}"
    using view by (force simp: chas_def kv.get_None_iff)
  ultimately show ?thesis
    using view by (auto simp: state_fits_def fits_def sample_entries sample_k1_registries split: if_splits)
qed

lemma sample_no_collisions: "no_collisions layout_env (migrate_cells layout_env take_address sample_k1 [3] 1)"
  using sample_slots_distinct by (simp only: no_collisions_def layout_locs_def distinct_map)

lemma sample_dense: "keeper_wf sample_k1" "dense_wf sample_k1"
  using sample_k1_inv [of 5] by (simp_all add: strong_room_def wf_room_def)

lemma sample_migratable: "migratable layout_env sample_k1 [3] 1"
proof (rule dense_migratable)
  show "ParamsItem sample_k1 = Some \<lparr>par_Admin = ''root''\<rparr>" "RegistryCount sample_k1 = Some 1"
    using sample_layout_view by (simp_all add: layout_view_def)
  show "AccAddressFromBech32 layout_env (par_Admin \<lparr>par_Admin = ''root''\<rparr>) = Inr [3]" by code_simp
qed (use sample_dense in \<open>simp_all add: keeper_wf_def dense_wf_def\<close>)

section \<open>Properties\<close>

text \<open>
  C12. The migration carries the state over: a well-formed module state with gapless ids, an admin
  that is an address and lengths within the bounds of the layout is migrated without an error, and
  the contract that reads the resulting storage finds every registry, record, counter, latest
  version, checksum and name lookup, role administrator and role member, the admin and the registry
  count, each as the module has it, provided the hash function keeps the used slots apart.
\<close>

theorem migrated_storage_represents_state:
  assumes "keeper_wf k" and "dense_wf k" and "ParamsItem k = Some ps"
    and "AccAddressFromBech32 E (par_Admin ps) = Inr admin" and "RegistryCount k = Some n"
    and "state_fits E k" and "no_collisions E (migrate_cells E A k admin n)" and "length (A admin) = 20"
  shows "\<exists>st. Migrate E A k store_sink (\<lambda>_. zero_hash) = (Inr (), st) \<and> represents E A st k admin"
proof -
  have mig: "migratable E k admin n"
    using assms by (intro dense_migratable) (auto simp: keeper_wf_def dense_wf_def)
  from Migrate_storage [OF this assms(6,7)] obtain st
    where "Migrate E A k store_sink (\<lambda>_. zero_hash) = (Inr (), st)" "has_cells E st (migrate_cells E A k admin n)" by blast
  with cells_represent [of E k admin n A, OF mig assms(6,8)] show ?thesis by blast
qed

theorem migrated_storage_represents_state_witness:
  "\<exists>st. Migrate layout_env take_address sample_k1 store_sink (\<lambda>_. zero_hash) = (Inr (), st) \<and>
     holds_registry layout_env st 1 sample_registry"
proof -
  have "ParamsItem sample_k1 = Some \<lparr>par_Admin = ''root''\<rparr>" "RegistryCount sample_k1 = Some 1"
    using sample_layout_view by (simp_all add: layout_view_def)
  moreover have "AccAddressFromBech32 layout_env (par_Admin \<lparr>par_Admin = ''root''\<rparr>) = Inr [3]" by code_simp
  ultimately obtain st where st: "Migrate layout_env take_address sample_k1 store_sink (\<lambda>_. zero_hash) = (Inr (), st)"
    "represents layout_env take_address st sample_k1 [3]"
    using migrated_storage_represents_state [OF sample_dense _ _ _ sample_state_fits sample_no_collisions take_address_length]
    by blast
  have "cget (Registries sample_k1) 1 = Some sample_registry" by (simp add: sample_k1_registries)
  with st show ?thesis by (auto simp: represents_def)
qed

text \<open>
  C13. The file of the migration holds the state: written through the buffered dump and closed, it
  parses back into blocks of pairs for the contract's address with no slot twice, and the storage
  loaded from these pairs represents the module state.
\<close>

theorem dump_file_roundtrip:
  assumes "migratable E k admin n" and "state_fits E k" and "no_collisions E (migrate_cells E A k admin n)"
    and "word_hashes E" and "length (A admin) = 20" and "length address = 20"
  shows "\<exists>d d' blocks. Migrate E A k (Put buffer) (NewDump [] address) = (Inr (), d) \<and> Dump_Close buffer d = (Inr (), d') \<and>
    parse_dump (dump_out d') = Some blocks \<and> (\<forall>b \<in> set blocks. fst b = address) \<and>
    distinct (map fst (concat (map snd blocks))) \<and> represents E A (load_pairs (concat (map snd blocks))) k admin"
  using assms by (rule dump_loads_state)

theorem dump_file_roundtrip_witness:
  "\<exists>d d' blocks. Migrate layout_env take_address sample_k1 (Put buffer) (NewDump [] (replicate 20 9)) = (Inr (), d) \<and>
     Dump_Close buffer d = (Inr (), d') \<and> parse_dump (dump_out d') = Some blocks \<and>
     holds_registry layout_env (load_pairs (concat (map snd blocks))) 1 sample_registry"
proof -
  have "cget (Registries sample_k1) 1 = Some sample_registry" by (simp add: sample_k1_registries)
  then show ?thesis
    using dump_file_roundtrip [OF sample_migratable sample_state_fits sample_no_collisions layout_env_word_hashes
        take_address_length length_replicate [of 20 9]]
    unfolding represents_def by blast
qed

text \<open>
  C14. When the migration refuses a state: with storage that takes every write, it fails exactly
  when registry ids have a gap or do not end at the stored count, the count or the parameters are
  missing, or the admin is no address.
\<close>

theorem migration_fails_exactly:
  assumes "length (centries (RoleMembers k)) < 2 ^ 64"
  shows "(\<exists>e. fst (Migrate E A k store_sink st) = Inl e) \<longleftrightarrow>
     \<not> (consecutive 0 (map fst (centries (Registries k))) \<and> RegistryCount k = Some (last (0 # map fst (centries (Registries k)))) \<and>
        (\<exists>ps admin. ParamsItem k = Some ps \<and> AccAddressFromBech32 E (par_Admin ps) = Inr admin))"
proof -
  have "(\<exists>e. r = Inl e) \<longleftrightarrow> r \<noteq> Inr ()" for r :: "unit result" by (cases r) simp_all
  then show ?thesis
    using storage.Migrate_exact [OF refl assms, of E A st] by (auto simp: migratable_def)
qed

theorem migration_fails_exactly_witness:
  "\<exists>e. fst (Migrate layout_env take_address (sample_k1\<lparr>RegistryCount := Some 2\<rparr>) store_sink (\<lambda>_. zero_hash)) = Inl e"
proof -
  have "length (centries (RoleMembers sample_k1)) = 1"
    using arg_cong [OF sample_layout_view, of "\<lambda>v. length (fst (snd (snd v)))"] by (simp add: layout_view_def)
  then have "length (centries (RoleMembers (sample_k1\<lparr>RegistryCount := Some 2\<rparr>))) < 2 ^ 64" by simp
  from migration_fails_exactly [OF this, of layout_env take_address "\<lambda>_. zero_hash"]
  show ?thesis by (simp add: sample_entries)
qed

end
