(* ===== verification/Migration_V2.thy ===== *)
theory Migration_V2
  imports Genesis_Properties
begin

text \<open>
  \<open>x/anchoring/migrations/v2/store.go\<close> and \<open>keeper/migrations.go\<close>: the store migration from version 1, in
  which a record did not carry the id of its registry and an index from registry names to ids was
  kept, to version 2, the state of \<open>keeper\<close>.
\<close>

section \<open>The migration\<close>

text \<open>The store before the migration: the collections of the keeper and the retired index.\<close>

record store_v1 = keeper +
  RegistryIdByName :: "(string, u64) coll"

text \<open>The walk collects the keys; the loop rewrites the records; \<open>Clear\<close> empties the index.\<close>

definition collect_key :: "(u64 \<times> u64 \<times> u64) \<times> Record \<Rightarrow> ((u64 \<times> u64 \<times> u64) list, bool) act" where
  "collect_key e keys = (Inr False, keys @ [fst e])"

definition backfill_record :: "u64 \<times> u64 \<times> u64 \<Rightarrow> ('z keeper_scheme, unit) act" where
  "backfill_record key =
     act_bind (act_get (\<lambda>s. coll_Get (Records s) key)) (\<lambda>record.
     act_put (\<lambda>s. s\<lparr>Records := cset key (record\<lparr>rec_RegistryId := fst key\<rparr>) (Records s)\<rparr>))"

definition MigrateStore :: "(store_v1, unit) act" where
  "MigrateStore s =
     (case walk collect_key (centries (Records s)) [] of
        (Inl e, _) \<Rightarrow> (Inl e, s)
      | (Inr _, keys) \<Rightarrow>
          act_bind (act_each backfill_record keys) (\<lambda>_.
          act_put (\<lambda>s. s\<lparr>RegistryIdByName := cempty\<rparr>)) s)"

definition Migrate1to2 :: "(store_v1, unit) act" where
  "Migrate1to2 = MigrateStore"

section \<open>Its effect\<close>

lemma collect_keys: "walk collect_key es keys = (Inr (), keys @ map fst es)"
  by (induction es arbitrary: keys) (simp_all add: collect_key_def)

text \<open>The record of a key after the migration.\<close>

definition backfilled :: "u64 \<times> u64 \<times> u64 \<Rightarrow> Record \<Rightarrow> Record" where
  "backfilled key rc = rc\<lparr>rec_RegistryId := fst key\<rparr>"

lemma backfilled_idem [simp]: "backfilled key (backfilled key rc) = backfilled key rc"
  by (simp add: backfilled_def)

lemma backfill_loop:
  assumes "\<forall>key \<in> set keys. chas (Records s) key"
  shows "\<exists>m. act_each backfill_record keys s = (Inr (), s\<lparr>Records := m\<rparr>) \<and>
    (\<forall>key. cget m key = (if key \<in> set keys then map_option (backfilled key) (cget (Records s) key) else cget (Records s) key))"
  using assms
proof (induction keys arbitrary: s)
  case Nil
  then show ?case by (intro exI [of _ "Records s"]) simp
next
  case (Cons key keys)
  then obtain rc where rc: "cget (Records s) key = Some rc" by (auto simp: chas_iff)
  let ?s = "s\<lparr>Records := cset key (backfilled key rc) (Records s)\<rparr>"
  have step: "backfill_record key s = (Inr (), ?s)"
    by (simp add: backfill_record_def act_defs coll_Get_def rc backfilled_def)
  have "\<forall>key \<in> set keys. chas (Records ?s) key" using Cons.prems by (simp add: chas_def)
  from Cons.IH [OF this] obtain m where
    run: "act_each backfill_record keys ?s = (Inr (), ?s\<lparr>Records := m\<rparr>)" and
    m: "\<And>key'. cget m key' = (if key' \<in> set keys then map_option (backfilled key') (cget (Records ?s) key') else cget (Records ?s) key')"
    by blast
  have "cget m key' = (if key' \<in> set (key # keys) then map_option (backfilled key') (cget (Records s) key') else cget (Records s) key')"
    for key' using rc by (cases "key' = key") (simp_all add: m)
  with run step show ?case by (intro exI [of _ m]) simp
qed

lemma Migrate1to2_effect:
  "\<exists>m. Migrate1to2 s = (Inr (), s\<lparr>Records := m, RegistryIdByName := cempty\<rparr>) \<and>
     (\<forall>key. cget m key = map_option (backfilled key) (cget (Records s) key))"
proof -
  let ?keys = "map fst (centries (Records s))"
  have keys: "key \<in> set ?keys \<longleftrightarrow> chas (Records s) key" for key
    using kv.get_None_iff [of "Records s" key] by (auto simp: chas_def)
  then obtain m where m: "act_each backfill_record ?keys s = (Inr (), s\<lparr>Records := m\<rparr>)"
    "\<forall>key. cget m key = (if key \<in> set ?keys then map_option (backfilled key) (cget (Records s) key) else cget (Records s) key)"
    using backfill_loop [of ?keys s] by blast
  have "cget m key = map_option (backfilled key) (cget (Records s) key)" for key
    using spec [OF m(2), of key] keys [of key] by (cases "cget (Records s) key") (simp_all add: chas_def)
  moreover have "Migrate1to2 s = (Inr (), s\<lparr>Records := m, RegistryIdByName := cempty\<rparr>)"
    using m(1) by (simp add: Migrate1to2_def MigrateStore_def collect_keys act_bind_def act_put_def)
  ultimately show ?thesis by blast
qed

section \<open>The invariant of version 1\<close>

text \<open>Consistent collections whose records say nothing of their registry.\<close>

definition v1_wf :: "'z keeper_scheme \<Rightarrow> bool" where
  "v1_wf s \<longleftrightarrow> registries_wf s \<and> lookup_wf s \<and>
     (\<forall>r i x rc. cget (Records s) (r, i, x) = Some rc \<longrightarrow> version_ok s r i x (rc\<lparr>rec_RegistryId := r\<rparr>)) \<and>
     (\<forall>r i n. cget (RecordIndices s) (r, i) = Some n \<longrightarrow> chas (Records s) (r, i, n))"

lemma migrated_wf:
  assumes "v1_wf (s :: store_v1)" and m: "\<And>key. cget m key = map_option (backfilled key) (cget (Records s) key)"
  shows "keeper_wf (s\<lparr>Records := m, RegistryIdByName := cempty\<rparr>)" (is "keeper_wf ?s")
  unfolding keeper_wf_def
proof (intro conjI)
  show "registries_wf ?s" using assms(1) by (simp add: v1_wf_def registries_wf_def)
  show "lookup_wf ?s"
    using assms(1) by (fastforce simp: v1_wf_def lookup_wf_def m backfilled_def)
  show "versions_wf ?s"
    using assms(1) by (auto simp: v1_wf_def versions_wf_def version_ok_def m backfilled_def chas_def)
qed

lemma migrated_keeps:
  assumes m: "\<And>key. cget m key = map_option (backfilled key) (cget (Records (s :: store_v1)) key)"
  shows "checksums_wf s \<Longrightarrow> checksums_wf (s\<lparr>Records := m, RegistryIdByName := cempty\<rparr>)"
    and "dense_wf s \<Longrightarrow> dense_wf (s\<lparr>Records := m, RegistryIdByName := cempty\<rparr>)"
  by (auto simp: checksums_wf_def dense_wf_def registries_dense_def ids_dense_def versions_dense_def chas_def m backfilled_def)

section \<open>Property\<close>

text \<open>
  C17. The migration to version 2 establishes the invariant of the module: from consistent collections whose records
  lack the registry id, it succeeds, empties the retired index, gives every record the registry id of its
  key and changes nothing else, and the resulting state is well-formed, with dense ids if they were
  dense, as are all states that messages reach from it.
\<close>

theorem migration_establishes_invariant:
  assumes "v1_wf s" and "checksums_wf s" and "dense_wf s" and "room (length txs) s"
  shows "\<exists>s'. Migrate1to2 s = (Inr (), s') \<and> RegistryIdByName s' = cempty \<and> Registries s' = Registries s \<and>
    (\<forall>r i x. cget (Records s') (r, i, x) = map_option (\<lambda>rc. rc\<lparr>rec_RegistryId := r\<rparr>) (cget (Records s) (r, i, x))) \<and>
    keeper_wf (run_txs E txs s') \<and> checksums_wf (run_txs E txs s') \<and> dense_wf (run_txs E txs s')"
proof -
  obtain m where run: "Migrate1to2 s = (Inr (), s\<lparr>Records := m, RegistryIdByName := cempty\<rparr>)"
    and m: "\<forall>key. cget m key = map_option (backfilled key) (cget (Records s) key)"
    using Migrate1to2_effect by blast
  let ?s = "s\<lparr>Records := m, RegistryIdByName := cempty\<rparr>"
  note m' = spec [OF m]
  have "strong_room (length txs) ?s"
    using migrated_wf [OF assms(1) m'] migrated_keeps [OF m'] assms(2-4)
    by (simp add: strong_room_def wf_room_def room_def)
  then have "keeper_wf (run_txs E txs ?s) \<and> checksums_wf (run_txs E txs ?s) \<and> dense_wf (run_txs E txs ?s)"
    using strong_run.run_invariant [of txs 0 ?s E] by (simp add: run_txs_def strong_room_def wf_room_def)
  moreover have "backfilled (r, i, x) = (\<lambda>rc. rc\<lparr>rec_RegistryId := r\<rparr>)" for r i x by (simp add: backfilled_def fun_eq_iff)
  ultimately show ?thesis using run m by simp
qed

text \<open>A store of version 1 with one record, in a registry that the retired index lists.\<close>

definition sample_version :: Record where
  "sample_version = sample_record\<lparr>rec_RecordId := 1, rec_Index := 1, rec_IsLatest := True, rec_Timestamp := ''2025-01-01''\<rparr>"

definition sample_v1 :: store_v1 where
  "sample_v1 = keeper.extend (sample_k2\<lparr>Records := cset (1, 1, 1) (sample_version\<lparr>rec_RegistryId := 0\<rparr>) cempty\<rparr>)
     (store_v1.fields (cset ''R'' 1 cempty))"

lemma sample_k2_records: "Records sample_k2 = cset (1, 1, 1) sample_version cempty"
  by code_simp

text \<open>Taking the registry ids out of the records of a well-formed state gives a store of version 1.\<close>

lemma v1_wf_of_keeper:
  assumes "keeper_wf k"
    and old: "Registries s = Registries k" "RegistryCount s = RegistryCount k" "RecordsCountByRegistry s = RecordsCountByRegistry k"
      "RecordIndices s = RecordIndices k" "RecordIdByRegistryAndChecksum s = RecordIdByRegistryAndChecksum k"
      "RecordIdByChecksumAndRegistry s = RecordIdByChecksumAndRegistry k"
    and recs: "\<And>r i x. cget (Records k) (r, i, x) = map_option (\<lambda>rc. rc\<lparr>rec_RegistryId := r\<rparr>) (cget (Records s) (r, i, x))"
  shows "v1_wf s"
proof -
  have wf: "registries_wf k" "lookup_wf k" "versions_wf k" using assms(1) by (simp_all add: keeper_wf_def)
  have "registries_wf s" using wf(1) by (simp add: registries_wf_def old)
  moreover have "lookup_wf s" using wf(2) by (fastforce simp: lookup_wf_def old recs)
  moreover have "version_ok s r i x (rc\<lparr>rec_RegistryId := r\<rparr>)" if "cget (Records s) (r, i, x) = Some rc" for r i x rc
  proof -
    have "cget (Records k) (r, i, x) = Some (rc\<lparr>rec_RegistryId := r\<rparr>)" using that by (simp add: recs)
    from versions_wfD [OF wf(3) this] show ?thesis by (simp add: version_ok_def old)
  qed
  moreover have "chas (Records s) (r, i, n)" if "cget (RecordIndices s) (r, i) = Some n" for r i n
    using versions_wf_latest [OF wf(3), of r i n] that by (simp add: chas_def old recs)
  ultimately show ?thesis by (simp add: v1_wf_def)
qed

lemma sample_v1_wf: "v1_wf sample_v1" "checksums_wf sample_v1" "dense_wf sample_v1" "room 1 sample_v1"
proof -
  let ?rc = "sample_version\<lparr>rec_RegistryId := 0\<rparr>"
  have old: "Registries sample_v1 = Registries sample_k2" "RegistryCount sample_v1 = RegistryCount sample_k2"
    "RecordsCountByRegistry sample_v1 = RecordsCountByRegistry sample_k2" "RecordIndices sample_v1 = RecordIndices sample_k2"
    "RecordIdByRegistryAndChecksum sample_v1 = RecordIdByRegistryAndChecksum sample_k2"
    "RecordIdByChecksumAndRegistry sample_v1 = RecordIdByChecksumAndRegistry sample_k2"
    "Records sample_v1 = cset (1, 1, 1) ?rc cempty"
    by (simp_all add: sample_v1_def keeper.defs)
  have new: "keeper_wf sample_k2" "checksums_wf sample_k2" "dense_wf sample_k2" "room 1 sample_k2"
    using sample_k2_strong by (simp_all add: strong_room_def wf_room_def)
  have rc: "?rc\<lparr>rec_RegistryId := 1\<rparr> = sample_version" by (simp add: sample_version_def sample_record_def)
  show "v1_wf sample_v1"
    by (rule v1_wf_of_keeper [OF new(1) old(1-6)]) (simp add: sample_k2_records old(7) rc)
  show "checksums_wf sample_v1" "dense_wf sample_v1" "room 1 sample_v1"
    using new(2-4) by (auto simp: checksums_wf_def dense_wf_def registries_dense_def ids_dense_def versions_dense_def room_def
        old sample_k2_records chas_def split: if_splits)
qed

theorem migration_establishes_invariant_witness:
  "\<exists>s'. Migrate1to2 sample_v1 = (Inr (), s') \<and> Records s' = cset (1, 1, 1) sample_version cempty \<and>
     keeper_wf (run_txs sample_env [add_registry_tx] s')"
proof -
  have "room (length [add_registry_tx]) sample_v1" using sample_v1_wf(4) by simp
  from migration_establishes_invariant [OF sample_v1_wf(1-3) this, of sample_env] obtain s'
    where s': "Migrate1to2 sample_v1 = (Inr (), s')" "keeper_wf (run_txs sample_env [add_registry_tx] s')"
      "\<And>r i x. cget (Records s') (r, i, x) = map_option (\<lambda>rc. rc\<lparr>rec_RegistryId := r\<rparr>) (cget (Records sample_v1) (r, i, x))"
    by blast
  have "Records s' = cset (1, 1, 1) sample_version cempty"
  proof (rule coll_eqI)
    fix key
    show "cget (Records s') key = cget (cset (1, 1, 1) sample_version cempty) key"
      by (cases key) (simp add: s'(3) sample_v1_def keeper.defs sample_version_def sample_record_def)
  qed
  with s' show ?thesis by blast
qed

end
