(* ===== verification/Tax.thy ===== *)
theory Tax
  imports Anchoring_Types
begin

text \<open>
  \<open>x/tax\<close>: the parameters and their checks (\<open>types/params.go\<close>, \<open>types/genesis.go\<close>), the message
  that changes them (\<open>types/msg_update_params.go\<close>, \<open>keeper/msg_update_params.go\<close>), the allocation of
  the tax (\<open>keeper/keeper.go\<close>), the end of a block (\<open>module/abci.go\<close>), genesis (\<open>module/genesis.go\<close>),
  the query (\<open>keeper/query_params.go\<close>) and the methods of the module that run them
  (\<open>module/module.go\<close>). Decimals, coins, the account keeper, the bank keeper and the JSON codec are
  library code, collected in the record \<open>tax_lib\<close>.
\<close>

section \<open>Library functions the module calls\<close>

text \<open>
  \<open>'d\<close> is \<open>math.LegacyDec\<close>, \<open>'e\<close> is \<open>sdk.DecCoins\<close>, \<open>'c\<close> is \<open>sdk.Coins\<close> and \<open>'b\<close> the state of the
  account and bank modules. \<open>MulDec\<close> panics when a product is too long for a decimal, and
  \<open>GetModuleAccount\<close> may create the account, so that it is an action.
\<close>

record ('d, 'e, 'c, 'b) tax_lib =
  LegacyNewDecFromStr :: "string \<Rightarrow> 'd result"
  Dec_String :: "'d \<Rightarrow> string"
  IsNegative :: "'d \<Rightarrow> bool"
  Dec_IsZero :: "'d \<Rightarrow> bool"
  GT :: "'d \<Rightarrow> 'd \<Rightarrow> bool"
  LegacyOneDec :: 'd
  NewDecCoinsFromCoins :: "'c \<Rightarrow> 'e"
  MulDec :: "'e \<Rightarrow> 'd \<Rightarrow> 'e result"
  TruncateDecimal :: "'e \<Rightarrow> 'c \<times> 'e"
  Coins_IsZero :: "'c \<Rightarrow> bool"
  Coins_String :: "'c \<Rightarrow> string"
  GetModuleAccount :: "string \<Rightarrow> ('b, addr) act"
  GetAllBalances :: "'b \<Rightarrow> addr \<Rightarrow> 'c"
  SendCoinsFromModuleToAccount :: "string \<Rightarrow> addr \<Rightarrow> 'c \<Rightarrow> ('b, unit) act"
  BlockedAddr :: "addr \<Rightarrow> bool"

section \<open>Parameters\<close>

record 'd Tax_Params =
  tp_Tax :: 'd
  tp_TaxAddress :: string

definition DefaultTax :: string where "DefaultTax = ''0.4''"
definition DefaultTaxAddress :: string where "DefaultTaxAddress = ''nvnm15m77x4pe6w9vtpuqm22qxu0ds7vn4ehzxt8qca''"

definition MaxTax :: "('d, 'e, 'c, 'b) tax_lib \<Rightarrow> 'd" where
  "MaxTax L = LegacyOneDec L"

text \<open>\<open>math.LegacyMustNewDecFromStr\<close> panics on an error.\<close>

definition Tax_NewParams :: "('d, 'e, 'c, 'b) tax_lib \<Rightarrow> string \<Rightarrow> string \<Rightarrow> 'd Tax_Params result" where
  "Tax_NewParams L taxStr taxAddress =
     res_bind (res_map_err (\<lambda>_. GoPanic) (LegacyNewDecFromStr L taxStr)) (\<lambda>tax.
     Inr \<lparr>tp_Tax = tax, tp_TaxAddress = taxAddress\<rparr>)"

definition Tax_DefaultParams :: "('d, 'e, 'c, 'b) tax_lib \<Rightarrow> 'd Tax_Params result" where
  "Tax_DefaultParams L = Tax_NewParams L DefaultTax DefaultTaxAddress"

text \<open>The argument of \<open>ValidateTax\<close> is an \<open>interface{}\<close>: a string or a value of another type, named by \<open>%T\<close>.\<close>

datatype any_value = AnyString string | AnyOther string

definition ValidateTax :: "('d, 'e, 'c, 'b) tax_lib \<Rightarrow> any_value \<Rightarrow> unit result" where
  "ValidateTax L i =
     (case i of
        AnyOther type_name \<Rightarrow> Inl (ErrMsg (''invalid parameter type: '' @ type_name))
      | AnyString v \<Rightarrow>
          res_bind (res_map_err (ErrWrap ''invalid tax'') (LegacyNewDecFromStr L v)) (\<lambda>tax.
          res_bind (res_guard (\<not> IsNegative L tax) (ErrMsg ''tax cannot be negative'')) (\<lambda>_.
          res_guard (\<not> GT L tax (MaxTax L)) (ErrMsg (''tax cannot exceed maximum of '' @ Dec_String L (MaxTax L))))))"

definition ValidateTaxAddress :: "env \<Rightarrow> string \<Rightarrow> unit result" where
  "ValidateTaxAddress E address =
     res_bind (res_guard (address \<noteq> '''') (ErrMsg ''tax address cannot be empty'')) (\<lambda>_.
     res_bind (res_map_err (ErrWrap ''invalid tax address'') (AccAddressFromBech32 E address)) (\<lambda>_.
     Inr ()))"

definition Tax_Params_Validate :: "('d, 'e, 'c, 'b) tax_lib \<Rightarrow> env \<Rightarrow> 'd Tax_Params \<Rightarrow> unit result" where
  "Tax_Params_Validate L E p =
     res_bind (ValidateTax L (AnyString (Dec_String L (tp_Tax p)))) (\<lambda>_.
     ValidateTaxAddress E (tp_TaxAddress p))"

section \<open>The message\<close>

record Tax_MsgUpdateParams =
  tm_Authority :: string
  tm_Tax :: string
  tm_TaxAddress :: string

definition Tax_ValidateBasic :: "('d, 'e, 'c, 'b) tax_lib \<Rightarrow> env \<Rightarrow> Tax_MsgUpdateParams \<Rightarrow> unit result" where
  "Tax_ValidateBasic L E msg =
     res_bind (res_guard (tm_Authority msg \<noteq> '''') (ErrMsg ''authority address cannot be empty'')) (\<lambda>_.
     res_bind (res_map_err (ErrWrap ''invalid authority address'') (AccAddressFromBech32 E (tm_Authority msg))) (\<lambda>_.
     res_bind
       (if tm_Tax msg \<noteq> '''' then
          res_bind (res_map_err (ErrWrap ''invalid tax'') (LegacyNewDecFromStr L (tm_Tax msg))) (\<lambda>tax.
          res_bind (res_guard (\<not> IsNegative L tax) (ErrMsg ''tax cannot be negative'')) (\<lambda>_.
          res_guard (\<not> GT L tax (MaxTax L))
            (ErrMsg (''tax '' @ Dec_String L tax @ '' cannot exceed maximum of '' @ Dec_String L (MaxTax L)))))
        else Inr ()) (\<lambda>_.
     if tm_TaxAddress msg \<noteq> '''' then
       res_bind (res_map_err (ErrWrap ''invalid tax address'') (AccAddressFromBech32 E (tm_TaxAddress msg))) (\<lambda>_. Inr ())
     else Inr ())))"

section \<open>Keeper\<close>

text \<open>
  The state the module reads and writes: its parameters, the name of the fee collector, the other
  modules' state, and the events.
\<close>

record ('d, 'b) Tax_Keeper =
  TaxParamsItem :: "'d Tax_Params option"
  feeCollectorName :: string
  Modules :: 'b
  TaxEvents :: "event list"

text \<open>\<open>NewKeeper\<close>: no parameters yet.\<close>

definition Tax_NewKeeper :: "string \<Rightarrow> 'b \<Rightarrow> ('d, 'b) Tax_Keeper" where
  "Tax_NewKeeper feeCollector b = \<lparr>TaxParamsItem = None, feeCollectorName = feeCollector, Modules = b, TaxEvents = []\<rparr>"

text \<open>A call of another module's keeper.\<close>

definition call_module :: "('b, 'a) act \<Rightarrow> (('d, 'b) Tax_Keeper, 'a) act" where
  "call_module f k = (case f (Modules k) of (r, b) \<Rightarrow> (r, k\<lparr>Modules := b\<rparr>))"

definition EventTypeTaxAmount :: string where "EventTypeTaxAmount = ''tax''"
definition AttributeKeyRecipient :: string where "AttributeKeyRecipient = ''recipient''"

definition AllocateTax ::
  "('d, 'e, 'c, 'b) tax_lib \<Rightarrow> env \<Rightarrow> 'd \<Rightarrow> addr \<Rightarrow> (('d, 'b) Tax_Keeper, unit) act" where
  "AllocateTax L E tax taxAddress k =
     act_bind (call_module (GetModuleAccount L (feeCollectorName k))) (\<lambda>feeCollector.
     act_bind (act_get (\<lambda>k. Inr (NewDecCoinsFromCoins L (GetAllBalances L (Modules k) feeCollector)))) (\<lambda>feesCollected.
     act_bind (act_try (res_guard (\<not> (IsNegative L tax \<or> GT L tax (MaxTax L)))
       (ErrMsg (''invalid tax: '' @ Dec_String L tax)))) (\<lambda>_.
     act_bind (act_try (MulDec L feesCollected tax)) (\<lambda>taxed.
     let taxAllocation = fst (TruncateDecimal L taxed) in
     if Coins_IsZero L taxAllocation then act_return ()
     else
       act_bind (call_module (SendCoinsFromModuleToAccount L (feeCollectorName k) taxAddress taxAllocation)) (\<lambda>_.
       act_put (\<lambda>k. k\<lparr>TaxEvents := TaxEvents k @
         [(EventTypeTaxAmount, [(''amount'', Coins_String L taxAllocation), (AttributeKeyRecipient, AccString E taxAddress)])]\<rparr>)))))) k"

text \<open>The two fields of the request, each applied when it is not empty.\<close>

definition update_tax :: "('d, 'e, 'c, 'b) tax_lib \<Rightarrow> Tax_MsgUpdateParams \<Rightarrow> 'd Tax_Params \<Rightarrow> 'd Tax_Params result" where
  "update_tax L req updateParams =
     (if tm_Tax req \<noteq> '''' then
        res_bind (LegacyNewDecFromStr L (tm_Tax req)) (\<lambda>tax.
        res_bind (res_guard (\<not> GT L tax (MaxTax L))
          (ErrMsg (''tax '' @ Dec_String L tax @ '' cannot exceed maximum of '' @ Dec_String L (MaxTax L)))) (\<lambda>_.
        Inr (updateParams\<lparr>tp_Tax := tax\<rparr>)))
      else Inr updateParams)"

definition update_address ::
  "('d, 'e, 'c, 'b) tax_lib \<Rightarrow> env \<Rightarrow> Tax_MsgUpdateParams \<Rightarrow> 'd Tax_Params \<Rightarrow> 'd Tax_Params result" where
  "update_address L E req updateParams =
     (if tm_TaxAddress req \<noteq> '''' then
        res_bind (res_map_err (ErrWrap ''invalid tax address'') (StringToBytes E (tm_TaxAddress req))) (\<lambda>taxAddr.
        res_bind (res_guard (\<not> BlockedAddr L taxAddr) (ErrMsg (''tax address '' @ tm_TaxAddress req @ '' is blocked''))) (\<lambda>_.
        Inr (updateParams\<lparr>tp_TaxAddress := tm_TaxAddress req\<rparr>)))
      else Inr updateParams)"

definition Tax_UpdateParams ::
  "('d, 'e, 'c, 'b) tax_lib \<Rightarrow> env \<Rightarrow> Tax_MsgUpdateParams option \<Rightarrow> (('d, 'b) Tax_Keeper, unit) act" where
  "Tax_UpdateParams L E request =
     (case request of None \<Rightarrow> act_fail (ErrInvalidRequest (ErrMsg ''empty request''))
      | Some req \<Rightarrow>
     act_bind (act_try (res_map_err ErrInvalidRequest (Tax_ValidateBasic L E req))) (\<lambda>_.
     act_bind (act_try (res_map_err (ErrWrap ''invalid authority address'') (StringToBytes E (tm_Authority req)))) (\<lambda>_.
     act_bind (act_get (\<lambda>k. item_Get (TaxParamsItem k))) (\<lambda>params.
     act_bind (act_try (res_guard (tm_Authority req = tp_TaxAddress params)
       (ErrInvalidSigner (tp_TaxAddress params) (tm_Authority req)))) (\<lambda>_.
     act_bind (act_get (\<lambda>k. item_Get (TaxParamsItem k))) (\<lambda>updateParams.
     act_bind (act_try (update_tax L req updateParams)) (\<lambda>updateParams.
     act_bind (act_try (update_address L E req updateParams)) (\<lambda>updateParams.
     act_bind (act_try (Tax_Params_Validate L E updateParams)) (\<lambda>_.
     act_put (\<lambda>k. k\<lparr>TaxParamsItem := Some updateParams\<rparr>))))))))))"

text \<open>The query returns the parameters and the maximal tax.\<close>

definition Tax_Query_Params ::
  "('d, 'e, 'c, 'b) tax_lib \<Rightarrow> ('d, 'b) Tax_Keeper \<Rightarrow> unit option \<Rightarrow> ('d Tax_Params \<times> 'd) result" where
  "Tax_Query_Params L k req =
     (case req of None \<Rightarrow> Inl (ErrStatus InvalidArgument ''invalid request'')
      | Some _ \<Rightarrow>
          (case item_Get (TaxParamsItem k) of
             Inr params \<Rightarrow> Inr (params, MaxTax L)
           | Inl e \<Rightarrow> if e = ErrCollNotFound then Inl (ErrStatus StatusNotFound ''not found'')
                      else Inl (ErrStatus StatusInternal ''internal error'')))"

section \<open>Module\<close>

definition EndBlocker :: "('d, 'e, 'c, 'b) tax_lib \<Rightarrow> env \<Rightarrow> ctx \<Rightarrow> (('d, 'b) Tax_Keeper, unit) act" where
  "EndBlocker L E cx =
     act_bind (act_get (\<lambda>k. item_Get (TaxParamsItem k))) (\<lambda>params.
     if Dec_IsZero L (tp_Tax params) then act_return ()
     else if BlockHeight cx > 1 then
       act_bind (act_try (AccAddressFromBech32 E (tp_TaxAddress params))) (\<lambda>TaxAddress.
       AllocateTax L E (tp_Tax params) TaxAddress)
     else act_return ())"

record 'd Tax_GenesisState =
  tgs_Params :: "'d Tax_Params"

definition Tax_DefaultGenesis :: "('d, 'e, 'c, 'b) tax_lib \<Rightarrow> 'd Tax_GenesisState result" where
  "Tax_DefaultGenesis L = res_bind (Tax_DefaultParams L) (\<lambda>p. Inr \<lparr>tgs_Params = p\<rparr>)"

definition Tax_GenesisState_Validate :: "('d, 'e, 'c, 'b) tax_lib \<Rightarrow> env \<Rightarrow> 'd Tax_GenesisState \<Rightarrow> unit result" where
  "Tax_GenesisState_Validate L E gs = Tax_Params_Validate L E (tgs_Params gs)"

definition Tax_InitGenesis :: "'d Tax_GenesisState \<Rightarrow> (('d, 'b) Tax_Keeper, unit) act" where
  "Tax_InitGenesis genState = act_put (\<lambda>k. k\<lparr>TaxParamsItem := Some (tgs_Params genState)\<rparr>)"

definition Tax_ExportGenesis :: "('d, 'e, 'c, 'b) tax_lib \<Rightarrow> ('d, 'b) Tax_Keeper \<Rightarrow> 'd Tax_GenesisState result" where
  "Tax_ExportGenesis L k =
     res_bind (Tax_DefaultGenesis L) (\<lambda>genesis.
     res_bind (item_Get (TaxParamsItem k)) (\<lambda>p.
     Inr (genesis\<lparr>tgs_Params := p\<rparr>)))"

text \<open>The methods of the module; \<open>unmarshal\<close> and \<open>marshal\<close> are the JSON codec, whose \<open>Must\<close> variants panic.\<close>

definition Tax_Module_ValidateGenesis ::
  "('d, 'e, 'c, 'b) tax_lib \<Rightarrow> env \<Rightarrow> (bytes \<Rightarrow> 'd Tax_GenesisState result) \<Rightarrow> bytes \<Rightarrow> unit result" where
  "Tax_Module_ValidateGenesis L E unmarshal bz =
     res_bind (res_map_err (ErrWrap ''failed to unmarshal tax genesis state'') (unmarshal bz)) (Tax_GenesisState_Validate L E)"

definition Tax_Module_InitGenesis ::
  "(bytes \<Rightarrow> 'd Tax_GenesisState result) \<Rightarrow> bytes \<Rightarrow> (('d, 'b) Tax_Keeper, unit) act" where
  "Tax_Module_InitGenesis unmarshal gs =
     act_bind (act_try (res_map_err (\<lambda>_. GoPanic) (unmarshal gs))) (\<lambda>genState k.
     case Tax_InitGenesis genState k of (r, k') \<Rightarrow> (res_map_err (\<lambda>_. GoPanic) r, k'))"

definition Tax_Module_ExportGenesis ::
  "('d, 'e, 'c, 'b) tax_lib \<Rightarrow> ('d Tax_GenesisState \<Rightarrow> bytes result) \<Rightarrow> ('d, 'b) Tax_Keeper \<Rightarrow> bytes result" where
  "Tax_Module_ExportGenesis L marshal k =
     res_bind (res_map_err (\<lambda>_. GoPanic) (Tax_ExportGenesis L k)) (\<lambda>genState.
     res_map_err (\<lambda>_. GoPanic) (marshal genState))"

definition Tax_Module_DefaultGenesis ::
  "('d, 'e, 'c, 'b) tax_lib \<Rightarrow> ('d Tax_GenesisState \<Rightarrow> bytes result) \<Rightarrow> bytes result" where
  "Tax_Module_DefaultGenesis L marshal =
     res_bind (Tax_DefaultGenesis L) (\<lambda>genState. res_map_err (\<lambda>_. GoPanic) (marshal genState))"

definition Tax_Module_EndBlock :: "('d, 'e, 'c, 'b) tax_lib \<Rightarrow> env \<Rightarrow> ctx \<Rightarrow> (('d, 'b) Tax_Keeper, unit) act" where
  "Tax_Module_EndBlock L E cx = EndBlocker L E cx"

end
