(* ===== verification/Tax_Safety.thy ===== *)
theory Tax_Safety
  imports Tax Tx_Run
begin

text \<open>
  What the tax module relies on of the libraries, the successful runs of its operations in closed
  form, and that a state with valid parameters and a tax address that may receive coins stays one.
\<close>

section \<open>Documented behaviour of the libraries\<close>

text \<open>
  A decimal stands for an integer number of units of \<open>10\<^sup>-\<^sup>1\<^sup>8\<close> (\<open>val\<close>), coins for an amount of each
  denomination (\<open>amount\<close>, and \<open>damount\<close> in those units). Printing a decimal and parsing it gives it back; the
  product of a whole number of coins with a decimal is exact as long as it has at most 315 bits;
  truncation rounds down.
\<close>

definition dec_one :: int where "dec_one = 10 ^ 18"
definition dec_bound :: int where "dec_bound = 2 ^ 315"

lemma dec_one_pos [simp]: "0 < dec_one" "dec_one \<noteq> 0"
  by (simp_all add: dec_one_def)

definition dec_laws :: "('d, 'e, 'c, 'b) tax_lib \<Rightarrow> ('d \<Rightarrow> int) \<Rightarrow> bool" where
  "dec_laws L val \<longleftrightarrow>
     (\<forall>d. IsNegative L d \<longleftrightarrow> val d < 0) \<and> (\<forall>d. Dec_IsZero L d \<longleftrightarrow> val d = 0) \<and>
     (\<forall>d d'. GT L d d' \<longleftrightarrow> val d > val d') \<and> val (LegacyOneDec L) = dec_one \<and>
     (\<forall>d. LegacyNewDecFromStr L (Dec_String L d) = Inr d)"

definition coin_laws ::
  "('d, 'e, 'c, 'b) tax_lib \<Rightarrow> ('d \<Rightarrow> int) \<Rightarrow> ('c \<Rightarrow> string \<Rightarrow> int) \<Rightarrow> ('e \<Rightarrow> string \<Rightarrow> int) \<Rightarrow> bool" where
  "coin_laws L val amount damount \<longleftrightarrow>
     (\<forall>c x. damount (NewDecCoinsFromCoins L c) x = amount c x * dec_one) \<and>
     (\<forall>c d. (\<forall>x. 0 \<le> amount c x \<and> amount c x * val d < dec_bound) \<longrightarrow> 0 \<le> val d \<longrightarrow>
        (\<exists>e. MulDec L (NewDecCoinsFromCoins L c) d = Inr e \<and> (\<forall>x. damount e x = amount c x * val d))) \<and>
     (\<forall>e x. 0 \<le> damount e x \<longrightarrow> amount (fst (TruncateDecimal L e)) x = damount e x div dec_one) \<and>
     (\<forall>c. Coins_IsZero L c \<longleftrightarrow> (\<forall>x. amount c x = 0))"

text \<open>
  Balances are never negative. \<open>GetModuleAccount\<close> returns the account of a module, at a fixed
  address, and changes no balance. A transfer from a module to an account that is not blocked succeeds
  when the module has the coins, and moves them; to a blocked account it fails.
\<close>

definition balance :: "('d, 'e, 'c, 'b) tax_lib \<Rightarrow> ('c \<Rightarrow> string \<Rightarrow> int) \<Rightarrow> 'b \<Rightarrow> addr \<Rightarrow> string \<Rightarrow> int" where
  "balance L amount b a x = amount (GetAllBalances L b a) x"

definition bank_laws ::
  "('d, 'e, 'c, 'b) tax_lib \<Rightarrow> ('c \<Rightarrow> string \<Rightarrow> int) \<Rightarrow> (string \<Rightarrow> addr) \<Rightarrow> bool" where
  "bank_laws L amount modaddr \<longleftrightarrow>
     (\<forall>b a x. 0 \<le> balance L amount b a x) \<and>
     (\<forall>nm b. \<exists>b'. GetModuleAccount L nm b = (Inr (modaddr nm), b') \<and> balance L amount b' = balance L amount b) \<and>
     (\<forall>nm to c b. \<not> BlockedAddr L to \<longrightarrow> (\<forall>x. 0 \<le> amount c x \<and> amount c x \<le> balance L amount b (modaddr nm) x) \<longrightarrow>
        (\<exists>b'. SendCoinsFromModuleToAccount L nm to c b = (Inr (), b') \<and>
           (\<forall>a x. balance L amount b' a x = balance L amount b a x -
              (if a = modaddr nm then amount c x else 0) + (if a = to then amount c x else 0)))) \<and>
     (\<forall>nm to c b. BlockedAddr L to \<longrightarrow> (\<exists>e. fst (SendCoinsFromModuleToAccount L nm to c b) = Inl e))"

text \<open>The two ways of reading an address agree.\<close>

definition codec_laws :: "env \<Rightarrow> bool" where
  "codec_laws E \<longleftrightarrow> (\<forall>s a b. AccAddressFromBech32 E s = Inr a \<longrightarrow> StringToBytes E s = Inr b \<longrightarrow> a = b)"

lemmas tax_laws_defs = dec_laws_def coin_laws_def bank_laws_def

section \<open>Valid parameters\<close>

definition rate_ok :: "('d \<Rightarrow> int) \<Rightarrow> 'd \<Rightarrow> bool" where
  "rate_ok val d \<longleftrightarrow> 0 \<le> val d \<and> val d \<le> dec_one"

lemma Tax_Params_Validate_iff:
  assumes "dec_laws L val"
  shows "Tax_Params_Validate L E p = Inr () \<longleftrightarrow>
    rate_ok val (tp_Tax p) \<and> tp_TaxAddress p \<noteq> '''' \<and> (\<exists>a. AccAddressFromBech32 E (tp_TaxAddress p) = Inr a)"
  using assms
  by (auto simp: Tax_Params_Validate_def ValidateTax_def ValidateTaxAddress_def res_bind_Inr_iff dec_laws_def MaxTax_def rate_ok_def)

text \<open>A state in which the tax can be paid out.\<close>

definition tax_ready :: "('d, 'e, 'c, 'b) tax_lib \<Rightarrow> env \<Rightarrow> ('d, 'b) Tax_Keeper \<Rightarrow> bool" where
  "tax_ready L E k \<longleftrightarrow>
     (\<exists>p a. TaxParamsItem k = Some p \<and> Tax_Params_Validate L E p = Inr () \<and>
        AccAddressFromBech32 E (tp_TaxAddress p) = Inr a \<and> \<not> BlockedAddr L a)"

text \<open>The fees fit a decimal with any rate up to one.\<close>

definition fees_fit :: "('d, 'e, 'c, 'b) tax_lib \<Rightarrow> ('c \<Rightarrow> string \<Rightarrow> int) \<Rightarrow> addr \<Rightarrow> 'b \<Rightarrow> bool" where
  "fees_fit L amount collector b \<longleftrightarrow> (\<forall>x. balance L amount b collector x * dec_one < dec_bound)"

text \<open>What is due of a balance at a rate.\<close>

definition tax_due :: "int \<Rightarrow> int \<Rightarrow> int" where
  "tax_due fee rate = fee * rate div dec_one"

lemma tax_due_bounds:
  assumes "0 \<le> fee" and "0 \<le> rate" and "rate \<le> dec_one"
  shows "0 \<le> tax_due fee rate \<and> tax_due fee rate \<le> fee"
proof -
  have "fee * rate \<le> fee * dec_one" using assms by (simp add: mult_left_mono)
  then have "tax_due fee rate \<le> fee * dec_one div dec_one"
    unfolding tax_due_def by (intro zdiv_mono1) simp_all
  then show ?thesis using assms by (simp add: tax_due_def pos_imp_zdiv_nonneg_iff)
qed

section \<open>Paying out\<close>

text \<open>The effect of an allocation on the balances: what is due moves from the collector to the account.\<close>

definition tax_moved ::
  "('d, 'e, 'c, 'b) tax_lib \<Rightarrow> ('c \<Rightarrow> string \<Rightarrow> int) \<Rightarrow> addr \<Rightarrow> addr \<Rightarrow> int \<Rightarrow> 'b \<Rightarrow> 'b \<Rightarrow> bool" where
  "tax_moved L amount collector to rate b b' \<longleftrightarrow>
     (\<forall>a x. balance L amount b' a x = balance L amount b a x -
        (if a = collector then tax_due (balance L amount b collector x) rate else 0) +
        (if a = to then tax_due (balance L amount b collector x) rate else 0))"

text \<open>The coins that \<open>AllocateTax\<close> computes are what is due.\<close>

lemma allocation_due:
  assumes "dec_laws L val" and coins: "coin_laws L val amount damount" and "bank_laws L amount modaddr"
    and rate: "rate_ok val tax" and fit: "fees_fit L amount collector b"
  obtains e where "MulDec L (NewDecCoinsFromCoins L (GetAllBalances L b collector)) tax = Inr e"
    and "\<And>x. amount (fst (TruncateDecimal L e)) x = tax_due (balance L amount b collector x) (val tax)"
proof -
  let ?c = "GetAllBalances L b collector"
  have pos: "0 \<le> amount ?c x" for x using assms(3) by (auto simp: bank_laws_def balance_def)
  have "amount ?c x * val tax < dec_bound" for x
  proof -
    have "amount ?c x * val tax \<le> amount ?c x * dec_one" using pos rate by (simp add: rate_ok_def mult_left_mono)
    also have "\<dots> < dec_bound" using fit by (simp add: fees_fit_def balance_def)
    finally show ?thesis .
  qed
  with pos rate obtain e where e: "MulDec L (NewDecCoinsFromCoins L ?c) tax = Inr e"
    "\<And>x. damount e x = amount ?c x * val tax"
    using coins unfolding coin_laws_def rate_ok_def by meson
  moreover have "0 \<le> damount e x" for x using pos rate by (simp add: e(2) rate_ok_def)
  ultimately have "amount (fst (TruncateDecimal L e)) x = tax_due (balance L amount b collector x) (val tax)" for x
    using coins by (simp add: coin_laws_def tax_due_def balance_def)
  with e(1) that show thesis by blast
qed

lemma AllocateTax_pays:
  assumes laws: "dec_laws L val" "coin_laws L val amount damount" "bank_laws L amount modaddr"
    and rate: "rate_ok val tax" and free: "\<not> BlockedAddr L to"
    and fit: "fees_fit L amount (modaddr (feeCollectorName k)) (Modules k)"
  shows "\<exists>b' evs. AllocateTax L E tax to k = (Inr (), k\<lparr>Modules := b', TaxEvents := TaxEvents k @ evs\<rparr>) \<and>
    tax_moved L amount (modaddr (feeCollectorName k)) to (val tax) (Modules k) b' \<and>
    (evs = [] \<longleftrightarrow> (\<forall>x. tax_due (balance L amount (Modules k) (modaddr (feeCollectorName k)) x) (val tax) = 0))"
proof -
  let ?nm = "feeCollectorName k"
  let ?col = "modaddr ?nm"
  let ?due = "\<lambda>x. tax_due (balance L amount (Modules k) ?col x) (val tax)"
  obtain b1 where b1: "GetModuleAccount L ?nm (Modules k) = (Inr ?col, b1)" "balance L amount b1 = balance L amount (Modules k)"
    using laws(3) unfolding bank_laws_def by meson
  have "fees_fit L amount ?col b1" using fit by (simp add: fees_fit_def b1(2))
  with laws rate obtain e where e: "MulDec L (NewDecCoinsFromCoins L (GetAllBalances L b1 ?col)) tax = Inr e"
    and due: "\<And>x. amount (fst (TruncateDecimal L e)) x = ?due x"
    by (rule allocation_due) (simp add: b1(2))
  let ?all = "fst (TruncateDecimal L e)"
  have guard: "\<not> (IsNegative L tax \<or> GT L tax (MaxTax L))"
    using laws(1) rate by (auto simp: dec_laws_def rate_ok_def MaxTax_def)
  have zero: "Coins_IsZero L ?all \<longleftrightarrow> (\<forall>x. ?due x = 0)" using laws(2) by (simp add: coin_laws_def due)
  have pos: "0 \<le> balance L amount (Modules k) a x" for a x using laws(3) by (simp add: bank_laws_def)
  have bounds: "0 \<le> amount ?all x \<and> amount ?all x \<le> balance L amount b1 ?col x" for x
    using tax_due_bounds [OF pos] rate by (simp add: due rate_ok_def b1(2))
  have run: "AllocateTax L E tax to k = (if Coins_IsZero L ?all then (Inr (), k\<lparr>Modules := b1\<rparr>) else
      act_bind (call_module (SendCoinsFromModuleToAccount L ?nm to ?all)) (\<lambda>_.
        act_put (\<lambda>k. k\<lparr>TaxEvents := TaxEvents k @
         [(EventTypeTaxAmount, [(''amount'', Coins_String L ?all), (AttributeKeyRecipient, AccString E to)])]\<rparr>)) (k\<lparr>Modules := b1\<rparr>))"
    using guard by (simp add: AllocateTax_def call_module_def act_defs b1(1) e Let_def)
  show ?thesis
  proof (cases "Coins_IsZero L ?all")
    case True
    then show ?thesis using zero b1(2)
      by (intro exI [of _ b1] exI [of _ "[]"]) (simp add: run tax_moved_def)
  next
    case False
    obtain b2 where b2: "SendCoinsFromModuleToAccount L ?nm to ?all b1 = (Inr (), b2)"
      "\<forall>a x. balance L amount b2 a x = balance L amount b1 a x -
         (if a = ?col then amount ?all x else 0) + (if a = to then amount ?all x else 0)"
      using laws(3) free bounds unfolding bank_laws_def by meson
    with False zero show ?thesis
      by (intro exI [of _ b2] exI [of _ "[(EventTypeTaxAmount, [(''amount'', Coins_String L ?all), (AttributeKeyRecipient, AccString E to)])]"])
        (auto simp: run act_defs call_module_def tax_moved_def due b1(2))
  qed
qed

lemma tax_readyD:
  assumes "tax_ready L E k" and "dec_laws L val"
  obtains p a where "TaxParamsItem k = Some p" "rate_ok val (tp_Tax p)" "AccAddressFromBech32 E (tp_TaxAddress p) = Inr a"
    "\<not> BlockedAddr L a"
  using assms by (auto simp: tax_ready_def Tax_Params_Validate_iff)

text \<open>The end of a block pays what is due, from height 2 on.\<close>

lemma EndBlocker_pays:
  assumes laws: "dec_laws L val" "coin_laws L val amount damount" "bank_laws L amount modaddr"
    and p: "TaxParamsItem k = Some p" "rate_ok val (tp_Tax p)" "AccAddressFromBech32 E (tp_TaxAddress p) = Inr a"
      "\<not> BlockedAddr L a"
    and fit: "fees_fit L amount (modaddr (feeCollectorName k)) (Modules k)"
  shows "\<exists>b' evs. EndBlocker L E cx k = (Inr (), k\<lparr>Modules := b', TaxEvents := TaxEvents k @ evs\<rparr>) \<and>
    tax_moved L amount (modaddr (feeCollectorName k)) a (if BlockHeight cx > 1 then val (tp_Tax p) else 0) (Modules k) b'"
proof (cases "Dec_IsZero L (tp_Tax p) \<or> \<not> BlockHeight cx > 1")
  case True
  have "val (tp_Tax p) = 0" if "Dec_IsZero L (tp_Tax p)" using that laws(1) by (simp add: dec_laws_def)
  with True have "tax_moved L amount c a (if BlockHeight cx > 1 then val (tp_Tax p) else 0) b b" for b c
    by (auto simp: tax_moved_def tax_due_def)
  moreover have "EndBlocker L E cx k = (Inr (), k)" using True by (auto simp: EndBlocker_def p(1) act_defs item_Get_def)
  ultimately show ?thesis by (intro exI [of _ "Modules k"] exI [of _ "[]"]) simp
next
  case False
  then have "EndBlocker L E cx k = AllocateTax L E (tp_Tax p) a k"
    by (simp add: EndBlocker_def p(1,3) act_defs item_Get_def)
  with False AllocateTax_pays [OF laws p(2,4) fit, of E] show ?thesis by auto
qed

text \<open>Paying out leaves the collector with no more than it had.\<close>

lemma tax_moved_fits:
  assumes "bank_laws L amount modaddr" and "tax_moved L amount collector to rate b b'" and "0 \<le> rate" "rate \<le> dec_one"
    and "fees_fit L amount collector b"
  shows "fees_fit L amount collector b'"
  unfolding fees_fit_def
proof
  fix x
  have "0 \<le> balance L amount b collector x" using assms(1) by (simp add: bank_laws_def)
  from tax_due_bounds [OF this assms(3,4)] have "balance L amount b' collector x \<le> balance L amount b collector x"
    using assms(2) by (auto simp: tax_moved_def)
  then have "balance L amount b' collector x * dec_one \<le> balance L amount b collector x * dec_one"
    by (simp add: mult_right_mono)
  then show "balance L amount b' collector x * dec_one < dec_bound" using assms(5) unfolding fees_fit_def by (meson le_less_trans)
qed

section \<open>Changing the parameters\<close>

text \<open>The parameters a message asks for: empty fields keep the old value.\<close>

definition asked :: "('d, 'e, 'c, 'b) tax_lib \<Rightarrow> Tax_MsgUpdateParams \<Rightarrow> 'd Tax_Params \<Rightarrow> 'd Tax_Params \<Rightarrow> bool" where
  "asked L req p p' \<longleftrightarrow>
     (if tm_Tax req = '''' then tp_Tax p' = tp_Tax p else LegacyNewDecFromStr L (tm_Tax req) = Inr (tp_Tax p')) \<and>
     tp_TaxAddress p' = (if tm_TaxAddress req = '''' then tp_TaxAddress p else tm_TaxAddress req)"

definition may_receive :: "('d, 'e, 'c, 'b) tax_lib \<Rightarrow> env \<Rightarrow> string \<Rightarrow> bool" where
  "may_receive L E address \<longleftrightarrow> (\<exists>a. StringToBytes E address = Inr a \<and> \<not> BlockedAddr L a)"

lemma Tax_ValidateBasic_iff:
  assumes "dec_laws L val"
  shows "Tax_ValidateBasic L E msg = Inr () \<longleftrightarrow>
    tm_Authority msg \<noteq> '''' \<and> (\<exists>a. AccAddressFromBech32 E (tm_Authority msg) = Inr a) \<and>
    (tm_Tax msg \<noteq> '''' \<longrightarrow> (\<exists>d. LegacyNewDecFromStr L (tm_Tax msg) = Inr d \<and> rate_ok val d)) \<and>
    (tm_TaxAddress msg \<noteq> '''' \<longrightarrow> (\<exists>a. AccAddressFromBech32 E (tm_TaxAddress msg) = Inr a))"
  using assms by (auto simp: Tax_ValidateBasic_def res_bind_Inr_iff dec_laws_def MaxTax_def rate_ok_def not_less)

lemma update_steps_iff:
  assumes "dec_laws L val"
  shows "(\<exists>q. update_tax L req p = Inr q \<and> update_address L E req q = Inr p') \<and> Tax_Params_Validate L E p' = Inr () \<longleftrightarrow>
    asked L req p p' \<and> (tm_TaxAddress req \<noteq> '''' \<longrightarrow> may_receive L E (tm_TaxAddress req)) \<and>
    Tax_Params_Validate L E p' = Inr ()"
proof -
  have "\<not> GT L (tp_Tax p') (MaxTax L)" if "Tax_Params_Validate L E p' = Inr ()"
    using that assms by (auto simp: Tax_Params_Validate_iff [OF assms] dec_laws_def MaxTax_def rate_ok_def)
  then show ?thesis
    by (cases p'; cases p) (auto simp: update_tax_def update_address_def asked_def may_receive_def res_bind_Inr_iff)
qed

lemma Tax_UpdateParams_iff:
  assumes laws: "dec_laws L val"
  shows "Tax_UpdateParams L E (Some req) k = (Inr (), k') \<longleftrightarrow>
    (\<exists>p p'. TaxParamsItem k = Some p \<and> tm_Authority req = tp_TaxAddress p \<and> tm_Authority req \<noteq> '''' \<and>
       (\<exists>a. AccAddressFromBech32 E (tm_Authority req) = Inr a) \<and> (\<exists>a. StringToBytes E (tm_Authority req) = Inr a) \<and>
       asked L req p p' \<and> (tm_TaxAddress req \<noteq> '''' \<longrightarrow> may_receive L E (tm_TaxAddress req)) \<and>
       Tax_Params_Validate L E p' = Inr () \<and> k' = k\<lparr>TaxParamsItem := Some p'\<rparr>)"
proof -
  have basic: "Tax_ValidateBasic L E req = Inr () \<longleftrightarrow> tm_Authority req \<noteq> '''' \<and>
      (\<exists>a. AccAddressFromBech32 E (tm_Authority req) = Inr a)"
    if "asked L req p p'" and "Tax_Params_Validate L E p' = Inr ()" for p p'
    using that by (auto simp: Tax_ValidateBasic_iff [OF laws] Tax_Params_Validate_iff [OF laws] asked_def split: if_splits)
  have "Tax_UpdateParams L E (Some req) k = (Inr (), k') \<longleftrightarrow>
    (\<exists>p p'. Tax_ValidateBasic L E req = Inr () \<and> (\<exists>a. StringToBytes E (tm_Authority req) = Inr a) \<and>
       TaxParamsItem k = Some p \<and> tm_Authority req = tp_TaxAddress p \<and>
       ((\<exists>q. update_tax L req p = Inr q \<and> update_address L E req q = Inr p') \<and> Tax_Params_Validate L E p' = Inr ()) \<and>
       k' = k\<lparr>TaxParamsItem := Some p'\<rparr>)"
    by (auto simp: Tax_UpdateParams_def act_reads)
  with basic show ?thesis unfolding update_steps_iff [OF laws] by blast
qed

lemma Tax_UpdateParams_ready:
  assumes laws: "dec_laws L val" and codec: "codec_laws E" and ready: "tax_ready L E k"
    and run: "Tax_UpdateParams L E request k = (Inr (), k')"
  shows "tax_ready L E k' \<and> feeCollectorName k' = feeCollectorName k \<and> Modules k' = Modules k"
proof (cases request)
  case (Some req)
  with run obtain p p' where upd: "TaxParamsItem k = Some p" "asked L req p p'"
    "tm_TaxAddress req \<noteq> '''' \<longrightarrow> may_receive L E (tm_TaxAddress req)" "Tax_Params_Validate L E p' = Inr ()"
    "k' = k\<lparr>TaxParamsItem := Some p'\<rparr>"
    by (auto simp: Tax_UpdateParams_iff [OF laws])
  obtain a where a: "AccAddressFromBech32 E (tp_TaxAddress p') = Inr a" using upd(4) by (auto simp: Tax_Params_Validate_iff [OF laws])
  have "\<not> BlockedAddr L a"
  proof (cases "tm_TaxAddress req = ''''")
    case True
    with upd(1,2) ready a show ?thesis by (auto simp: tax_ready_def asked_def)
  next
    case False
    with upd(2,3) codec a show ?thesis by (auto simp: asked_def may_receive_def codec_laws_def)
  qed
  with upd a show ?thesis by (auto simp: tax_ready_def)
qed (use run in \<open>simp add: Tax_UpdateParams_def\<close>)

section \<open>Blocks\<close>

text \<open>
  The states of the module: requests change the parameters, the end of a block pays the tax, and the other
  modules, which collect the fees, move coins as they like.
\<close>

inductive tax_reachable ::
  "('d, 'e, 'c, 'b) tax_lib \<Rightarrow> env \<Rightarrow> ('b \<Rightarrow> bool) \<Rightarrow> ('d, 'b) Tax_Keeper \<Rightarrow> ('d, 'b) Tax_Keeper \<Rightarrow> bool"
  for L E fit k0 where
  start: "tax_reachable L E fit k0 k0"
| request: "tax_reachable L E fit k0 k \<Longrightarrow> tax_reachable L E fit k0 (commit (Tax_UpdateParams L E req) k)"
| end_block: "tax_reachable L E fit k0 k \<Longrightarrow> Tax_Module_EndBlock L E cx k = (Inr (), k') \<Longrightarrow> tax_reachable L E fit k0 k'"
| others: "tax_reachable L E fit k0 k \<Longrightarrow> fit b \<Longrightarrow> tax_reachable L E fit k0 (k\<lparr>Modules := b\<rparr>)"

definition tax_inv ::
  "('d, 'e, 'c, 'b) tax_lib \<Rightarrow> env \<Rightarrow> ('c \<Rightarrow> string \<Rightarrow> int) \<Rightarrow> addr \<Rightarrow> string \<Rightarrow> ('d, 'b) Tax_Keeper \<Rightarrow> bool" where
  "tax_inv L E amount collector nm k \<longleftrightarrow>
     tax_ready L E k \<and> feeCollectorName k = nm \<and> fees_fit L amount collector (Modules k)"

lemma tax_inv_end_block:
  assumes laws: "dec_laws L val" "coin_laws L val amount damount" "bank_laws L amount modaddr"
    and inv: "tax_inv L E amount (modaddr nm) nm k"
  shows "\<exists>k'. Tax_Module_EndBlock L E cx k = (Inr (), k') \<and> tax_inv L E amount (modaddr nm) nm k'"
proof -
  from inv have nm: "feeCollectorName k = nm" and fit: "fees_fit L amount (modaddr nm) (Modules k)" and ready: "tax_ready L E k"
    by (simp_all add: tax_inv_def)
  from ready laws(1) obtain p a where p: "TaxParamsItem k = Some p" "rate_ok val (tp_Tax p)"
    "AccAddressFromBech32 E (tp_TaxAddress p) = Inr a" "\<not> BlockedAddr L a" by (rule tax_readyD)
  from EndBlocker_pays [OF laws p] nm fit obtain b' evs where
    run: "EndBlocker L E cx k = (Inr (), k\<lparr>Modules := b', TaxEvents := TaxEvents k @ evs\<rparr>)" and
    moved: "tax_moved L amount (modaddr nm) a (if BlockHeight cx > 1 then val (tp_Tax p) else 0) (Modules k) b'" by blast
  have "fees_fit L amount (modaddr nm) b'"
    using tax_moved_fits [OF laws(3) moved _ _ fit] p(2) by (simp add: rate_ok_def split: if_splits)
  with run ready nm show ?thesis by (simp add: Tax_Module_EndBlock_def tax_inv_def tax_ready_def)
qed

lemma tax_reachable_inv:
  assumes laws: "dec_laws L val" "coin_laws L val amount damount" "bank_laws L amount modaddr" "codec_laws E"
    and "tax_reachable L E (fees_fit L amount (modaddr nm)) k0 k" and "tax_inv L E amount (modaddr nm) nm k0"
  shows "tax_inv L E amount (modaddr nm) nm k"
  using assms(5,6)
proof (induction rule: tax_reachable.induct)
  case (request k req)
  then have inv: "tax_inv L E amount (modaddr nm) nm k" by simp
  then have ready: "tax_ready L E k" by (simp add: tax_inv_def)
  show ?case
  proof (cases "Tax_UpdateParams L E req k")
    case (Pair r k')
    show ?thesis
    proof (cases r)
      case (Inr u)
      with Tax_UpdateParams_ready [OF laws(1,4) ready, of req k'] Pair inv show ?thesis by (simp add: commit_def tax_inv_def)
    qed (use Pair inv in \<open>simp add: commit_def\<close>)
  qed
next
  case (end_block k cx k')
  then have "tax_inv L E amount (modaddr nm) nm k" by simp
  from tax_inv_end_block [OF laws(1-3) this, of cx] end_block.hyps(2) show ?case by simp
next
  case (others k b)
  then show ?case by (simp add: tax_inv_def tax_ready_def)
qed

text \<open>A blocked tax address, which genesis does not exclude, makes every block with a tax to pay fail.\<close>

lemma blocked_address_halts:
  assumes laws: "dec_laws L val" "coin_laws L val amount damount" "bank_laws L amount modaddr"
    and p: "TaxParamsItem k = Some p" "rate_ok val (tp_Tax p)" "AccAddressFromBech32 E (tp_TaxAddress p) = Inr a" "BlockedAddr L a"
    and fit: "fees_fit L amount (modaddr (feeCollectorName k)) (Modules k)" and high: "BlockHeight cx > 1"
    and due: "tax_due (balance L amount (Modules k) (modaddr (feeCollectorName k)) x) (val (tp_Tax p)) \<noteq> 0"
  shows "\<exists>e. fst (EndBlocker L E cx k) = Inl e"
proof -
  let ?nm = "feeCollectorName k"
  obtain b1 where b1: "GetModuleAccount L ?nm (Modules k) = (Inr (modaddr ?nm), b1)"
    "balance L amount b1 = balance L amount (Modules k)"
    using laws(3) unfolding bank_laws_def by meson
  have "fees_fit L amount (modaddr ?nm) b1" using fit by (simp add: fees_fit_def b1(2))
  with laws p(2) obtain e where e: "MulDec L (NewDecCoinsFromCoins L (GetAllBalances L b1 (modaddr ?nm))) (tp_Tax p) = Inr e"
    and d: "\<And>x. amount (fst (TruncateDecimal L e)) x = tax_due (balance L amount (Modules k) (modaddr ?nm) x) (val (tp_Tax p))"
    by (rule allocation_due) (simp add: b1(2))
  have "\<not> Coins_IsZero L (fst (TruncateDecimal L e))" using laws(2) due d by (auto simp: coin_laws_def)
  moreover have "\<not> Dec_IsZero L (tp_Tax p)" using laws(1) due by (auto simp: dec_laws_def tax_due_def)
  moreover have "\<not> (IsNegative L (tp_Tax p) \<or> GT L (tp_Tax p) (MaxTax L))"
    using laws(1) p(2) by (auto simp: dec_laws_def rate_ok_def MaxTax_def)
  moreover obtain err b2 where "SendCoinsFromModuleToAccount L ?nm a (fst (TruncateDecimal L e)) b1 = (Inl err, b2)"
    using laws(3) p(4) unfolding bank_laws_def by (metis prod.collapse)
  ultimately show ?thesis
    using high by (simp add: EndBlocker_def AllocateTax_def p(1,3) act_defs item_Get_def call_module_def b1(1) e Let_def)
qed

end
