(* ===== verification/Tax_Properties.thy ===== *)
theory Tax_Properties
  imports Tax_Safety Sample_State
begin

text \<open>
  The properties of the tax module, applied to a chain with one denomination.
\<close>

section \<open>A sample chain\<close>

text \<open>
  Decimals are their units, printed as integers; coins are an amount of \<open>uom\<close>; the other modules'
  state is the balance of every account. The fee collector's own account is blocked.
\<close>

definition sample_print :: "int \<Rightarrow> string" where
  "sample_print d = (if d < 0 then CHR ''-'' # dec_string (nat (- d)) else dec_string (nat d))"

definition sample_parse :: "string \<Rightarrow> int result" where
  "sample_parse s =
     (case s of [] \<Rightarrow> Inl (ErrLib ''empty decimal'')
      | c # cs \<Rightarrow> if c = CHR ''-'' then Inr (- int (dec_value cs)) else Inr (int (dec_value s)))"

definition sample_module :: "string \<Rightarrow> addr" where
  "sample_module nm = bytes_of_string nm"

definition sample_send :: "string \<Rightarrow> addr \<Rightarrow> nat \<Rightarrow> (addr \<Rightarrow> nat, unit) act" where
  "sample_send nm to c b =
     (if to = sample_module ''fee_collector'' then (Inl ErrUnauthorized, b)
      else if c \<le> b (sample_module nm) then
        (Inr (), \<lambda>a. b a - (if a = sample_module nm then c else 0) + (if a = to then c else 0))
      else (Inl (ErrLib ''insufficient funds''), b))"

definition sample_tax_lib :: "(int, int, nat, addr \<Rightarrow> nat) tax_lib" where
  "sample_tax_lib = \<lparr>
     LegacyNewDecFromStr = sample_parse, Dec_String = sample_print,
     IsNegative = (\<lambda>d. d < 0), Dec_IsZero = (\<lambda>d. d = 0), GT = (\<lambda>d d'. d > d'), LegacyOneDec = dec_one,
     NewDecCoinsFromCoins = (\<lambda>c. int c * dec_one),
     MulDec = (\<lambda>e d. if e * d div dec_one < dec_bound then Inr (e * d div dec_one) else Inl GoPanic),
     TruncateDecimal = (\<lambda>e. (nat (e div dec_one), e mod dec_one)),
     Coins_IsZero = (\<lambda>c. c = 0), Coins_String = dec_string,
     GetModuleAccount = (\<lambda>nm b. (Inr (sample_module nm), b)), GetAllBalances = (\<lambda>b a. b a),
     SendCoinsFromModuleToAccount = sample_send,
     BlockedAddr = (\<lambda>a. a = sample_module ''fee_collector'')\<rparr>"

definition uom :: "nat \<Rightarrow> string \<Rightarrow> int" where
  "uom c x = (if x = ''uom'' then int c else 0)"

definition dec_uom :: "int \<Rightarrow> string \<Rightarrow> int" where
  "dec_uom e x = (if x = ''uom'' then e else 0)"

lemma sample_parse_print: "sample_parse (sample_print d) = Inr d"
proof (cases "d < 0")
  case False
  have "dec_string n \<noteq> []" for n by (subst dec_string.simps) simp
  then obtain c cs where cs: "dec_string (nat d) = c # cs" by (cases "dec_string (nat d)") auto
  have "is_digit c" using dec_string_digits [of "nat d"] by (simp add: cs)
  then have "c \<noteq> CHR ''-''" by (auto simp: is_digit_def)
  then have "sample_parse (sample_print d) = Inr (int (dec_value (dec_string (nat d))))"
    using False cs by (simp add: sample_parse_def sample_print_def)
  with False show ?thesis by (simp add: dec_value_dec_string)
qed (simp add: sample_parse_def sample_print_def dec_value_dec_string)

lemma sample_dec_laws: "dec_laws sample_tax_lib (\<lambda>d. d)"
  by (simp add: dec_laws_def sample_tax_lib_def sample_parse_print)

lemma sample_coin_laws: "coin_laws sample_tax_lib (\<lambda>d. d) uom dec_uom"
  unfolding coin_laws_def
proof (intro conjI allI impI)
  fix c d
  assume small: "\<forall>x. 0 \<le> uom c x \<and> uom c x * d < dec_bound" and "0 \<le> d"
  have "int c * dec_one * d div dec_one = int c * d" by (simp add: mult.commute mult.left_commute)
  moreover have "int c * d < dec_bound" using spec [OF small, of "''uom''"] by (simp add: uom_def)
  ultimately show "\<exists>e. MulDec sample_tax_lib (NewDecCoinsFromCoins sample_tax_lib c) d = Inr e \<and> (\<forall>x. dec_uom e x = uom c x * d)"
    by (simp add: sample_tax_lib_def dec_uom_def uom_def)
qed (auto simp: sample_tax_lib_def dec_uom_def uom_def pos_imp_zdiv_nonneg_iff)

lemma sample_bank_laws: "bank_laws sample_tax_lib uom sample_module"
  unfolding bank_laws_def
proof (intro conjI allI impI)
  fix nm to c and b :: "addr \<Rightarrow> nat"
  assume free: "\<not> BlockedAddr sample_tax_lib to"
    and funds: "\<forall>x. 0 \<le> uom c x \<and> uom c x \<le> balance sample_tax_lib uom b (sample_module nm) x"
  have "to \<noteq> sample_module ''fee_collector''" using free by (simp add: sample_tax_lib_def)
  moreover have "c \<le> b (sample_module nm)"
    using spec [OF funds, of "''uom''"] by (simp add: sample_tax_lib_def balance_def uom_def)
  ultimately show "\<exists>b'. SendCoinsFromModuleToAccount sample_tax_lib nm to c b = (Inr (), b') \<and>
      (\<forall>a x. balance sample_tax_lib uom b' a x = balance sample_tax_lib uom b a x -
        (if a = sample_module nm then uom c x else 0) + (if a = to then uom c x else 0))"
    by (auto simp: sample_tax_lib_def sample_send_def balance_def uom_def)
qed (auto simp: sample_tax_lib_def sample_send_def balance_def uom_def)

lemma sample_codec_laws: "codec_laws sample_env"
  by (simp add: codec_laws_def sample_env_def)

text \<open>Ten coins of fees, a tax of 0.4 and ann's account to receive it.\<close>

definition sample_tax_params :: "int Tax_Params" where
  "sample_tax_params = \<lparr>tp_Tax = 4 * 10 ^ 17, tp_TaxAddress = ''ann''\<rparr>"

definition sample_balances :: "addr \<Rightarrow> nat" where
  "sample_balances a = (if a = sample_module ''fee_collector'' then 10 else 0)"

definition sample_tax :: "(int, addr \<Rightarrow> nat) Tax_Keeper" where
  "sample_tax = (Tax_NewKeeper ''fee_collector'' sample_balances)\<lparr>TaxParamsItem := Some sample_tax_params\<rparr>"

definition second_block :: ctx where
  "second_block = sample_ctx\<lparr>BlockHeight := 2\<rparr>"

lemma sample_address_ann: "AccAddressFromBech32 sample_env ''ann'' = Inr [1]"
  by code_simp

lemma sample_ann_free: "\<not> BlockedAddr sample_tax_lib [1]"
  by (simp add: sample_tax_lib_def sample_module_def bytes_of_string_def)

lemma sample_rate: "rate_ok (\<lambda>d. d) (tp_Tax sample_tax_params)"
  by (simp add: rate_ok_def sample_tax_params_def dec_one_def)

lemma sample_tax_simps [simp]:
  "TaxParamsItem sample_tax = Some sample_tax_params" "feeCollectorName sample_tax = ''fee_collector''"
  "Modules sample_tax = sample_balances" "tp_TaxAddress sample_tax_params = ''ann''"
  by (simp_all add: sample_tax_def Tax_NewKeeper_def sample_tax_params_def)

lemma sample_fees_fit: "fees_fit sample_tax_lib uom (sample_module ''fee_collector'') sample_balances"
  by (simp add: fees_fit_def balance_def sample_tax_lib_def uom_def sample_balances_def dec_one_def dec_bound_def)

lemma sample_tax_ready: "tax_ready sample_tax_lib sample_env sample_tax"
  using sample_rate sample_ann_free
  by (simp add: tax_ready_def Tax_Params_Validate_iff [OF sample_dec_laws] sample_address_ann)

section \<open>Properties\<close>

text \<open>
  C15. The chain does not stop at the tax: from a state with valid parameters and a tax address that may receive
  coins, after any sequence of accepted and refused parameter changes, ends of blocks and transfers by
  other modules, the end of the next block returns without an error. An error there would halt the chain.
\<close>

theorem tax_never_halts:
  assumes "dec_laws L val" and "coin_laws L val amount damount" and "bank_laws L amount modaddr" and "codec_laws E"
    and "tax_ready L E k0" and "fees_fit L amount (modaddr (feeCollectorName k0)) (Modules k0)"
    and "tax_reachable L E (fees_fit L amount (modaddr (feeCollectorName k0))) k0 k"
  shows "\<exists>k'. Tax_Module_EndBlock L E cx k = (Inr (), k')"
proof -
  have "tax_inv L E amount (modaddr (feeCollectorName k0)) (feeCollectorName k0) k"
    by (rule tax_reachable_inv [OF assms(1-4,7)]) (use assms in \<open>simp add: tax_inv_def\<close>)
  from tax_inv_end_block [OF assms(1-3) this] show ?thesis by blast
qed

theorem tax_never_halts_witness:
  "\<exists>k'. Tax_Module_EndBlock sample_tax_lib sample_env second_block
     (commit (Tax_UpdateParams sample_tax_lib sample_env
       (Some \<lparr>tm_Authority = ''ann'', tm_Tax = '''', tm_TaxAddress = ''bob''\<rparr>)) sample_tax) = (Inr (), k')"
proof (rule tax_never_halts [OF sample_dec_laws sample_coin_laws sample_bank_laws sample_codec_laws sample_tax_ready])
  show "fees_fit sample_tax_lib uom (sample_module (feeCollectorName sample_tax)) (Modules sample_tax)"
    by (simp add: sample_fees_fit)
qed (intro tax_reachable.request tax_reachable.start)

text \<open>
  C16. What the end of a block pays: from height 2 on, the tax rate of each denomination's fees, rounded down,
  moves from the fee collector to the tax address; no other balance and no parameter changes, and before
  height 2 nothing moves.
\<close>

theorem EndBlocker_moves_tax:
  assumes "dec_laws L val" and "coin_laws L val amount damount" and "bank_laws L amount modaddr"
    and "TaxParamsItem k = Some p" and "rate_ok val (tp_Tax p)" and "AccAddressFromBech32 E (tp_TaxAddress p) = Inr a"
    and "\<not> BlockedAddr L a" and "fees_fit L amount (modaddr (feeCollectorName k)) (Modules k)"
  shows "\<exists>b' evs. EndBlocker L E cx k = (Inr (), k\<lparr>Modules := b', TaxEvents := TaxEvents k @ evs\<rparr>) \<and>
    (\<forall>other x. balance L amount b' other x = balance L amount (Modules k) other x +
       (if BlockHeight cx > 1 then
          (let due = balance L amount (Modules k) (modaddr (feeCollectorName k)) x * val (tp_Tax p) div 10 ^ 18
           in (if other = a then due else 0) - (if other = modaddr (feeCollectorName k) then due else 0))
        else 0))"
proof -
  from EndBlocker_pays [OF assms, of cx] obtain b' evs where
    "EndBlocker L E cx k = (Inr (), k\<lparr>Modules := b', TaxEvents := TaxEvents k @ evs\<rparr>)"
    "tax_moved L amount (modaddr (feeCollectorName k)) a (if BlockHeight cx > 1 then val (tp_Tax p) else 0) (Modules k) b'"
    by blast
  then show ?thesis
    by (intro exI [of _ b'] exI [of _ evs]) (auto simp: tax_moved_def tax_due_def dec_one_def Let_def)
qed

theorem EndBlocker_moves_tax_witness:
  "\<exists>k'. EndBlocker sample_tax_lib sample_env second_block sample_tax = (Inr (), k') \<and>
     balance sample_tax_lib uom (Modules k') [1] ''uom'' = 4 \<and>
     balance sample_tax_lib uom (Modules k') (sample_module ''fee_collector'') ''uom'' = 6"
proof -
  have "AccAddressFromBech32 sample_env (tp_TaxAddress sample_tax_params) = Inr [1]" by (simp add: sample_address_ann)
  moreover have "fees_fit sample_tax_lib uom (sample_module (feeCollectorName sample_tax)) (Modules sample_tax)"
    by (simp add: sample_fees_fit)
  ultimately obtain b' evs where run: "EndBlocker sample_tax_lib sample_env second_block sample_tax =
      (Inr (), sample_tax\<lparr>Modules := b', TaxEvents := TaxEvents sample_tax @ evs\<rparr>)"
    and bal: "\<And>other x. balance sample_tax_lib uom b' other x = balance sample_tax_lib uom sample_balances other x +
       (if BlockHeight second_block > 1 then
          (let due = balance sample_tax_lib uom sample_balances (sample_module ''fee_collector'') x * tp_Tax sample_tax_params div 10 ^ 18
           in (if other = [1] then due else 0) - (if other = sample_module ''fee_collector'' then due else 0)) else 0)"
    using EndBlocker_moves_tax [OF sample_dec_laws sample_coin_laws sample_bank_laws, of sample_tax sample_tax_params sample_env "[1]" second_block]
      sample_rate sample_ann_free by auto
  have ne: "[1] \<noteq> sample_module ''fee_collector''" by (simp add: sample_module_def bytes_of_string_def)
  have "balance sample_tax_lib uom b' [1] ''uom'' = 4" "balance sample_tax_lib uom b' (sample_module ''fee_collector'') ''uom'' = 6"
    unfolding bal using ne
    by (simp_all add: balance_def sample_tax_lib_def uom_def sample_balances_def second_block_def sample_tax_params_def Let_def)
  with run show ?thesis by auto
qed

text \<open>
  Who changes the tax: a request succeeds exactly when it is signed by the current tax address, a new rate
  parses and lies between zero and one, and a new address is valid and not blocked; it then stores
  the values asked for and changes nothing else.
\<close>

theorem Tax_UpdateParams_exact:
  assumes "dec_laws L val"
  shows "Tax_UpdateParams L E (Some req) k = (Inr (), k') \<longleftrightarrow>
    (\<exists>p p'. TaxParamsItem k = Some p \<and> tm_Authority req = tp_TaxAddress p \<and> tm_Authority req \<noteq> '''' \<and>
       (\<exists>a. AccAddressFromBech32 E (tm_Authority req) = Inr a) \<and> (\<exists>a. StringToBytes E (tm_Authority req) = Inr a) \<and>
       asked L req p p' \<and> (tm_TaxAddress req \<noteq> '''' \<longrightarrow> may_receive L E (tm_TaxAddress req)) \<and>
       0 \<le> val (tp_Tax p') \<and> val (tp_Tax p') \<le> 10 ^ 18 \<and>
       (\<exists>a. AccAddressFromBech32 E (tp_TaxAddress p') = Inr a) \<and> k' = k\<lparr>TaxParamsItem := Some p'\<rparr>)"
proof -
  have "tm_Authority req \<noteq> '''' \<Longrightarrow> tm_Authority req = tp_TaxAddress p \<Longrightarrow> asked L req p p' \<Longrightarrow> tp_TaxAddress p' \<noteq> ''''" for p p'
    by (auto simp: asked_def split: if_splits)
  then show ?thesis
    unfolding Tax_UpdateParams_iff [OF assms] Tax_Params_Validate_iff [OF assms] rate_ok_def dec_one_def by blast
qed

theorem Tax_UpdateParams_exact_witness:
  "Tax_UpdateParams sample_tax_lib sample_env (Some \<lparr>tm_Authority = ''ann'', tm_Tax = '''', tm_TaxAddress = ''bob''\<rparr>) sample_tax =
     (Inr (), sample_tax\<lparr>TaxParamsItem := Some \<lparr>tp_Tax = 4 * 10 ^ 17, tp_TaxAddress = ''bob''\<rparr>\<rparr>)"
proof -
  have "AccAddressFromBech32 sample_env ''bob'' = Inr [2]" "StringToBytes sample_env ''bob'' = Inr [2]"
    "StringToBytes sample_env ''ann'' = Inr [1]" by code_simp+
  then show ?thesis
    unfolding Tax_UpdateParams_exact [OF sample_dec_laws]
    by (intro exI [of _ sample_tax_params] exI [of _ "\<lparr>tp_Tax = 4 * 10 ^ 17, tp_TaxAddress = ''bob''\<rparr>"])
      (simp add: asked_def may_receive_def sample_address_ann sample_tax_lib_def sample_module_def bytes_of_string_def sample_tax_params_def)
qed

end
