(* ===== verification/App_Accounts.thy ===== *)
theory App_Accounts
  imports Tax_Safety Anchoring_Precompile "HOL-Library.Multiset"
begin

text \<open>
  \<open>app/app.go\<close> and \<open>app/precompiles.go\<close>, the parts with logic of their own: the module accounts, the
  addresses that may not receive coins, the restriction on transfers to the rewards buffer, the
  orders in which modules run, the upgrade store loader, and the set of precompiled contracts.
\<close>

section \<open>Module accounts\<close>

text \<open>
  The accounts named in \<open>maccPerms\<close>. Apart from those of this repository the names are constants of
  other packages; \<open>AccountName\<close> gives them. \<open>NewModuleAddress\<close>, \<open>Bech32StringFromHexAddress\<close>, \<open>Address.Hex\<close>
  and the two lists of precompiled contracts are library code too.
\<close>

datatype account =
    FeeCollectorName | DistrModule | MintModule | BondedPoolName | NotBondedPoolName | GovModule | NftModule
  | IbcTransferModule | RateLimitModule | TaxModule | EvmModule | FeeMarketModule | Erc20Module
  | ConsumerRedistributeName | ConsumerToSendToProviderName | AnchoringModule

datatype permission = Minter | Burner | Staking

record app_lib =
  AccountName :: "account \<Rightarrow> string"
  NewModuleAddress :: "string \<Rightarrow> addr"
  Bech32StringFromHexAddress :: "string \<Rightarrow> string"
  Address_Hex :: "Address \<Rightarrow> string"
  AvailableStaticPrecompiles :: "string list"
  PrecompiledAddressesPrague :: "Address list"

definition maccPerms_entries :: "(account \<times> permission list) list" where
  "maccPerms_entries =
     [(FeeCollectorName, []), (DistrModule, []), (MintModule, [Minter]), (BondedPoolName, [Burner, Staking]),
      (NotBondedPoolName, [Burner, Staking]), (GovModule, [Burner]), (NftModule, []), (IbcTransferModule, [Minter, Burner]),
      (RateLimitModule, []), (TaxModule, []), (EvmModule, [Minter, Burner]), (FeeMarketModule, []), (Erc20Module, [Minter, Burner]),
      (ConsumerRedistributeName, []), (ConsumerToSendToProviderName, []), (AnchoringModule, [])]"

definition maccPerms :: "app_lib \<Rightarrow> (string, permission list) coll" where
  "maccPerms P = fold (\<lambda>e. cset (AccountName P (fst e)) (snd e)) maccPerms_entries cempty"

definition GetMaccPerms :: "app_lib \<Rightarrow> (string, permission list) coll" where
  "GetMaccPerms P = fold (\<lambda>e. cset (fst e) (snd e)) (centries (maccPerms P)) cempty"

definition module_address :: "app_lib \<Rightarrow> env \<Rightarrow> account \<Rightarrow> string" where
  "module_address P E acc = AccString E (NewModuleAddress P (AccountName P acc))"

text \<open>A Go set of strings is a map to \<open>true\<close>; the names are visited in sorted order.\<close>

definition block_all :: "string list \<Rightarrow> (string, bool) coll \<Rightarrow> (string, bool) coll" where
  "block_all = fold (\<lambda>s. cset s True)"

definition BlockedAddresses :: "app_lib \<Rightarrow> env \<Rightarrow> (string, bool) coll" where
  "BlockedAddresses P E =
     (let accs = map fst (centries (GetMaccPerms P));
          blocked = block_all (map (\<lambda>acc. AccString E (NewModuleAddress P acc)) accs) cempty;
          blocked = cremove (module_address P E ConsumerToSendToProviderName) blocked;
          blocked = block_all (map (Bech32StringFromHexAddress P) (AvailableStaticPrecompiles P)) blocked;
          blocked = cset (Bech32StringFromHexAddress P (Address_Hex P AnchoringPrecompileAddress)) True blocked
      in block_all (map (\<lambda>a. Bech32StringFromHexAddress P (Address_Hex P a)) (PrecompiledAddressesPrague P)) blocked)"

text \<open>The lookup \<open>blockedAddrs[addr.String()]\<close> that the bank keeper makes.\<close>

definition is_blocked :: "app_lib \<Rightarrow> env \<Rightarrow> addr \<Rightarrow> bool" where
  "is_blocked P E a \<longleftrightarrow> cget (BlockedAddresses P E) (AccString E a) = Some True"

section \<open>The send restriction\<close>

text \<open>The messages of a transaction, as far as the code tells them apart.\<close>

datatype tx_msg =
    MsgTimeout | MsgTimeoutOnClose | MsgAcknowledgement | V2MsgTimeout | V2MsgAcknowledgement
  | MsgUpdateClient | MsgRecvPacket | V2MsgRecvPacket | OtherMsg

fun refund_loop :: "tx_msg list \<Rightarrow> bool \<Rightarrow> bool" where
  "refund_loop [] hasRefund = hasRefund"
| "refund_loop (m # ms) hasRefund =
     (case m of
        MsgTimeout \<Rightarrow> refund_loop ms True
      | MsgTimeoutOnClose \<Rightarrow> refund_loop ms True
      | MsgAcknowledgement \<Rightarrow> refund_loop ms True
      | V2MsgTimeout \<Rightarrow> refund_loop ms True
      | V2MsgAcknowledgement \<Rightarrow> refund_loop ms True
      | MsgUpdateClient \<Rightarrow> refund_loop ms hasRefund
      | _ \<Rightarrow> False)"

text \<open>\<open>txBytes\<close> are the bytes of the transaction in the context, \<open>decode\<close> is \<open>TxDecoder\<close> followed by \<open>GetMsgs\<close>.\<close>

definition isIBCRefundTx :: "app_lib \<Rightarrow> (bytes \<Rightarrow> tx_msg list result) \<Rightarrow> bytes \<Rightarrow> addr \<Rightarrow> bool" where
  "isIBCRefundTx P decode txBytes fromAddr =
     (if txBytes = [] then fromAddr = NewModuleAddress P (AccountName P IbcTransferModule)
      else (case decode txBytes of
              Inl _ \<Rightarrow> False
            | Inr msgs \<Rightarrow> msgs \<noteq> [] \<and> refund_loop msgs False))"

definition blockUserSendsToCCVRewardsBuffer ::
  "app_lib \<Rightarrow> (bytes \<Rightarrow> tx_msg list result) \<Rightarrow> bytes \<Rightarrow> addr \<Rightarrow> addr \<Rightarrow> addr result" where
  "blockUserSendsToCCVRewardsBuffer P decode txBytes fromAddr toAddr =
     (if toAddr \<noteq> NewModuleAddress P (AccountName P ConsumerToSendToProviderName) then Inr toAddr
      else if fromAddr = NewModuleAddress P (AccountName P FeeCollectorName) then Inr toAddr
      else if isIBCRefundTx P decode txBytes fromAddr then Inr toAddr
      else Inl (ErrMsg (''sending to '' @ AccountName P ConsumerToSendToProviderName @ '' is restricted'')))"

section \<open>The orders of the modules\<close>

datatype module_id =
    Auth | Bank | Distr | StakingM | Slashing | Gov | Mint | Evidence | Feegrant | Nft | ParamsM | Upgrade | Vesting
  | ConsensusParam | Circuit | Ibc | Evm | FeeMarket | Erc20 | IbcTransfer | Genutil | RateLimit | TaxM | Consumer | Anchoring | LightClient

text \<open>The modules of the manager, in the order of \<open>module.NewManager\<close>.\<close>

definition manager_modules :: "module_id list" where
  "manager_modules =
     [Genutil, Auth, Vesting, Bank, Feegrant, Gov, Mint, Slashing, Distr, StakingM, Upgrade, Evidence, ParamsM, Nft, ConsensusParam,
      Circuit, Consumer, Ibc, IbcTransfer, LightClient, RateLimit, TaxM, Anchoring, Evm, FeeMarket, Erc20]"

definition pre_blockers :: "module_id list" where
  "pre_blockers = [Upgrade, Auth, Evm]"

definition begin_blockers :: "module_id list" where
  "begin_blockers =
     [Distr, Mint, Ibc, IbcTransfer, Erc20, FeeMarket, Evm, TaxM, Slashing, Evidence, StakingM, Genutil, Gov, RateLimit, Consumer]"

definition end_blockers :: "module_id list" where
  "end_blockers =
     [Gov, StakingM, Auth, Bank, Genutil, Evm, Erc20, FeeMarket, Feegrant, TaxM, IbcTransfer, Ibc, RateLimit, Consumer]"

definition genesisModuleOrder :: "module_id list" where
  "genesisModuleOrder =
     [Auth, Bank, Distr, StakingM, Slashing, Gov, Mint, Evidence, Feegrant, Nft, ParamsM, Upgrade, Vesting, ConsensusParam, Circuit, Ibc,
      Evm, FeeMarket, Erc20, IbcTransfer, Genutil, RateLimit, TaxM, Consumer, Anchoring]"

section \<open>Store keys, upgrades, precompiled contracts\<close>

text \<open>
  \<open>GetStoreKeys\<close> collects the keys in the order in which Go happens to iterate over the map (\<open>iter\<close>) and sorts
  them by name; a key is its name.
\<close>

definition GetStoreKeys :: "(string list \<Rightarrow> string list) \<Rightarrow> (string, 'key) coll \<Rightarrow> string list" where
  "GetStoreKeys iter keys = sort (iter (map fst (centries keys)))"

record StoreUpgrades =
  Added :: "string list"
  Deleted :: "string list"

record 'h Upgrade =
  UpgradeName :: string
  CreateUpgradeHandler :: 'h
  up_StoreUpgrades :: StoreUpgrades

definition v1_4_UpgradeName :: string where "v1_4_UpgradeName = ''v1.4.0''"

definition v1_4_Upgrade :: "'h \<Rightarrow> 'h Upgrade" where
  "v1_4_Upgrade handler = \<lparr>UpgradeName = v1_4_UpgradeName, CreateUpgradeHandler = handler, up_StoreUpgrades = \<lparr>Added = [], Deleted = []\<rparr>\<rparr>"

text \<open>The handler runs the migrations of the modules and returns the new version map.\<close>

definition v1_4_CreateUpgradeHandler :: "('vm \<Rightarrow> ('s, 'vm) act) \<Rightarrow> 'vm \<Rightarrow> ('s, 'vm) act" where
  "v1_4_CreateUpgradeHandler RunMigrations vm = act_bind (RunMigrations vm) (\<lambda>vm. act_return vm)"

definition Upgrades :: "'h \<Rightarrow> 'h Upgrade list" where
  "Upgrades handler = [v1_4_Upgrade handler]"

text \<open>
  The store loader set at start: \<open>info\<close> is \<open>ReadUpgradeInfoFromDisk\<close>, a name and a height; a loader is the height and
  the store changes. Later matches overwrite earlier ones.
\<close>

definition setupUpgradeStoreLoaders ::
  "(string \<times> int) result \<Rightarrow> (int \<Rightarrow> bool) \<Rightarrow> 'h Upgrade list \<Rightarrow> (int \<times> StoreUpgrades) option result" where
  "setupUpgradeStoreLoaders info IsSkipHeight upgrades =
     (case info of
        Inl _ \<Rightarrow> Inl GoPanic
      | Inr (nm, height) \<Rightarrow>
          if IsSkipHeight height then Inr None
          else Inr (fold (\<lambda>u loader. if nm = UpgradeName u then Some (height, up_StoreUpgrades u) else loader) upgrades None))"

definition setupUpgradeHandlers :: "'h Upgrade list \<Rightarrow> (string, 'h) coll \<Rightarrow> (string, 'h) coll" where
  "setupUpgradeHandlers upgrades handlers = fold (\<lambda>u. cset (UpgradeName u) (CreateUpgradeHandler u)) upgrades handlers"

text \<open>\<open>core\<close> is \<open>DefaultStaticPrecompiles\<close>, \<open>staking\<close> and \<open>distribution\<close> the addresses of two of them.\<close>

definition configStaticPrecompiles ::
  "(Address, 'p) coll \<Rightarrow> Address \<Rightarrow> Address \<Rightarrow> 'p result \<Rightarrow> (Address, 'p) coll result" where
  "configStaticPrecompiles core staking distribution NewPrecompile =
     (let core = cremove distribution (cremove staking core) in
      res_bind NewPrecompile (\<lambda>anchoring. Inr (cset AnchoringPrecompileAddress anchoring core)))"

section \<open>Which addresses are blocked\<close>

lemma chas_fold_cset_pair: "chas (fold (\<lambda>e. cset (f e) (g e)) es m) s \<longleftrightarrow> s \<in> f ` set es \<or> chas m s"
  by (induction es arbitrary: m) (auto simp: chas_def)

lemma cget_block_all: "cget (block_all ss m) s = (if s \<in> set ss then Some True else cget m s)"
  unfolding block_all_def by (induction ss arbitrary: m) auto

lemma entry_names_chas: "fst ` set (centries m) = {s. chas m s}"
  using kv.get_None_iff [of m] by (auto simp: chas_def)

text \<open>Every account of the type is in the table, and the copy has the same names.\<close>

lemma all_accounts: "acc \<in> fst ` set maccPerms_entries"
  by (cases acc) (simp_all add: maccPerms_entries_def)

lemma maccPerms_names: "fst ` set (centries (GetMaccPerms P)) = range (AccountName P)"
proof -
  have "fst ` set maccPerms_entries = UNIV" using all_accounts by blast
  then have "chas (maccPerms P) s \<longleftrightarrow> s \<in> range (AccountName P)" for s
    unfolding maccPerms_def chas_fold_cset_pair image_image [symmetric] by (auto simp: chas_def)
  then show ?thesis
    unfolding entry_names_chas GetMaccPerms_def chas_fold_cset_pair by (auto simp: entry_names_chas chas_def)
qed

definition precompile_addresses :: "app_lib \<Rightarrow> string set" where
  "precompile_addresses P =
     Bech32StringFromHexAddress P ` (set (AvailableStaticPrecompiles P) \<union>
       Address_Hex P ` insert AnchoringPrecompileAddress (set (PrecompiledAddressesPrague P)))"

lemma BlockedAddresses_iff:
  "cget (BlockedAddresses P E) s = Some True \<longleftrightarrow>
     (\<exists>acc. s = module_address P E acc) \<and> s \<noteq> module_address P E ConsumerToSendToProviderName \<or> s \<in> precompile_addresses P"
proof -
  have names: "(\<lambda>acc. AccString E (NewModuleAddress P acc)) ` fst ` set (centries (GetMaccPerms P)) = range (module_address P E)"
    unfolding maccPerms_names by (auto simp: module_address_def)
  show ?thesis
    unfolding BlockedAddresses_def Let_def cget_block_all cget_cset cget_cremove set_map names
    by (auto simp: precompile_addresses_def)
qed

section \<open>The send restriction\<close>

definition refund_msg :: "tx_msg \<Rightarrow> bool" where
  "refund_msg m \<longleftrightarrow> m \<in> {MsgTimeout, MsgTimeoutOnClose, MsgAcknowledgement, V2MsgTimeout, V2MsgAcknowledgement}"

lemma refund_loop_iff:
  "refund_loop ms h \<longleftrightarrow> (\<forall>m \<in> set ms. refund_msg m \<or> m = MsgUpdateClient) \<and> (h \<or> (\<exists>m \<in> set ms. refund_msg m))"
proof (induction ms arbitrary: h)
  case (Cons m ms)
  then show ?case by (cases m) (auto simp: refund_msg_def)
qed simp

lemma restriction_iff:
  "blockUserSendsToCCVRewardsBuffer P decode txBytes from to = Inr a \<longleftrightarrow>
     a = to \<and>
     (to = NewModuleAddress P (AccountName P ConsumerToSendToProviderName) \<longrightarrow>
        from = NewModuleAddress P (AccountName P FeeCollectorName) \<or>
        txBytes = [] \<and> from = NewModuleAddress P (AccountName P IbcTransferModule) \<or>
        (\<exists>msgs. txBytes \<noteq> [] \<and> decode txBytes = Inr msgs \<and> (\<exists>m \<in> set msgs. refund_msg m) \<and>
           (\<forall>m \<in> set msgs. refund_msg m \<or> m = MsgUpdateClient)))"
  by (auto simp: blockUserSendsToCCVRewardsBuffer_def isIBCRefundTx_def refund_loop_iff split: sum.splits)

text \<open>Transfers of the fee collector, among them those of the tax, are never restricted.\<close>

lemma fee_collector_unrestricted:
  "blockUserSendsToCCVRewardsBuffer P decode txBytes (NewModuleAddress P (AccountName P FeeCollectorName)) to = Inr to"
  by (simp add: blockUserSendsToCCVRewardsBuffer_def)

section \<open>Orders\<close>

text \<open>The first place of a module in an order.\<close>

fun place :: "'a \<Rightarrow> 'a list \<Rightarrow> nat" where
  "place x [] = 0"
| "place x (y # ys) = (if x = y then 0 else Suc (place x ys))"

definition runs_before :: "'a list \<Rightarrow> 'a \<Rightarrow> 'a \<Rightarrow> bool" where
  "runs_before xs a b \<longleftrightarrow> a \<in> set xs \<and> b \<in> set xs \<and> place a xs < place b xs"

lemmas order_defs = manager_modules_def pre_blockers_def begin_blockers_def end_blockers_def genesisModuleOrder_def

text \<open>What the comments of the code ask of the orders.\<close>

lemma orders_respected:
  "hd pre_blockers = Upgrade" "hd begin_blockers = Distr" "runs_before begin_blockers FeeMarket Evm"
  "runs_before begin_blockers Distr Slashing"
  "runs_before end_blockers TaxM Consumer" "runs_before genesisModuleOrder StakingM Genutil"
  "runs_before genesisModuleOrder Auth Genutil" "runs_before genesisModuleOrder FeeMarket Genutil"
  by (simp_all add: order_defs runs_before_def)

text \<open>Genesis visits every module of the manager once, except the light client, which has no state of its own.\<close>

lemma genesis_order_complete: "distinct genesisModuleOrder" "set genesisModuleOrder = set manager_modules - {LightClient}"
  by (auto simp: order_defs)

text \<open>The modules that run in a block are modules of the manager.\<close>

lemma block_orders_known: "set pre_blockers \<union> set begin_blockers \<union> set end_blockers \<subseteq> set manager_modules"
  by (simp add: order_defs)

lemma block_orders_distinct: "distinct pre_blockers" "distinct begin_blockers" "distinct end_blockers"
  by (simp_all add: order_defs)

section \<open>Store keys, upgrades, precompiled contracts\<close>

text \<open>The order of a Go map does not show in the store keys.\<close>

lemma GetStoreKeys_order:
  assumes "mset (iter (map fst (centries keys))) = mset (map fst (centries keys))"
  shows "GetStoreKeys iter keys = map fst (centries keys)"
proof -
  have "sorted (map fst (centries keys))" using centries_sorted [of keys] by (simp add: strict_sorted_imp_sorted)
  with assms show ?thesis
    unfolding GetStoreKeys_def by (metis properties_for_sort)
qed

lemma store_loader_v1_4:
  "setupUpgradeStoreLoaders (Inr (nm, height)) skip (Upgrades h) =
     Inr (if \<not> skip height \<and> nm = ''v1.4.0'' then Some (height, \<lparr>Added = [], Deleted = []\<rparr>) else None)"
  by (simp add: setupUpgradeStoreLoaders_def Upgrades_def v1_4_Upgrade_def v1_4_UpgradeName_def)

lemma configStaticPrecompiles_lookup:
  assumes "configStaticPrecompiles core staking distribution (Inr p) = Inr m"
  shows "cget m a = (if a = AnchoringPrecompileAddress then Some p else if a = staking \<or> a = distribution then None else cget core a)"
  using assms by (auto simp: configStaticPrecompiles_def res_bind_def Let_def)

end
