(* ===== verification/App_Ante.thy ===== *)
theory App_Ante
  imports Nvnm_Prelude
begin

text \<open>
  \<open>app/ante\<close> and \<open>app/evmosante.go\<close>: the checks a transaction passes before it runs, the routing between the
  Ethereum and the Cosmos chain of checks, the validation of the options and their assembly
  (\<open>setAnteHandler\<close> in \<open>app.go\<close>). The decorators themselves and their chaining are library code.
\<close>

section \<open>Options\<close>

text \<open>Keepers and functions are opaque (\<open>'k\<close>); \<open>None\<close> is nil. \<open>MaxTxGasWanted\<close> is a \<open>uint64\<close>.\<close>

record 'k EVMHandlerOptions =
  Cdc :: "'k option"
  AccountKeeper :: "'k option"
  BankKeeper :: "'k option"
  evm_IBCKeeper :: "'k option"
  FeeMarketKeeper :: "'k option"
  EvmKeeper :: "'k option"
  FeegrantKeeper :: "'k option"
  ExtensionOptionChecker :: "'k option"
  SignModeHandler :: "'k option"
  SigGasConsumer :: "'k option"
  MaxTxGasWanted :: u64
  DynamicFeeChecker :: bool
  PendingTxListener :: "'k option"

definition require :: "'k option \<Rightarrow> string \<Rightarrow> unit result" where
  "require x what = res_guard (x \<noteq> None) (ErrWrap (what @ '' is required for EVM AnteHandler'') (ErrLib ''ErrLogic''))"

definition EVMHandlerOptions_Validate :: "'k EVMHandlerOptions \<Rightarrow> unit result" where
  "EVMHandlerOptions_Validate options =
     res_bind (require (Cdc options) ''codec'') (\<lambda>_.
     res_bind (require (AccountKeeper options) ''account keeper'') (\<lambda>_.
     res_bind (require (BankKeeper options) ''bank keeper'') (\<lambda>_.
     res_bind (require (evm_IBCKeeper options) ''ibc keeper'') (\<lambda>_.
     res_bind (require (FeeMarketKeeper options) ''fee market keeper'') (\<lambda>_.
     res_bind (require (EvmKeeper options) ''evm keeper'') (\<lambda>_.
     res_bind (require (FeegrantKeeper options) ''feegrant keeper'') (\<lambda>_.
     res_bind (require (SigGasConsumer options) ''signature gas consumer'') (\<lambda>_.
     res_bind (require (SignModeHandler options) ''sign mode handler'') (\<lambda>_.
     require (PendingTxListener options) ''pending tx listener'')))))))))"

definition EVMHandlerOptions_Options :: "'k EVMHandlerOptions \<Rightarrow> 'k EVMHandlerOptions" where
  "EVMHandlerOptions_Options options = options"

definition WithCodec :: "'k EVMHandlerOptions \<Rightarrow> 'k option \<Rightarrow> 'k EVMHandlerOptions" where
  "WithCodec options cdc = options\<lparr>Cdc := cdc\<rparr>"

definition WithMaxTxGasWanted :: "'k EVMHandlerOptions \<Rightarrow> u64 \<Rightarrow> 'k EVMHandlerOptions" where
  "WithMaxTxGasWanted options maxTxGasWanted = options\<lparr>MaxTxGasWanted := maxTxGasWanted\<rparr>"

record 'k HandlerOptions =
  EvmOptions :: "'k EVMHandlerOptions"
  IBCKeeper :: "'k option"
  CircuitKeeper :: "'k option"
  ConsumerKeeper :: 'k

definition HandlerOptions_Validate :: "'k HandlerOptions \<Rightarrow> unit result" where
  "HandlerOptions_Validate options =
     (if EVMHandlerOptions_Validate (EvmOptions options) \<noteq> Inr () then EVMHandlerOptions_Validate (EvmOptions options)
      else if IBCKeeper options = None then Inl (ErrMsg ''ibc keeper is required for ante builder'')
      else if CircuitKeeper options = None then Inl (ErrMsg ''circuit keeper is required for ante builder'')
      else Inr ())"

section \<open>The chains of checks\<close>

text \<open>The decorators with the arguments of their constructors; \<open>'p\<close> is the parameters of the fee market, \<open>'q\<close> those of the EVM.\<close>

datatype ('k, 'p, 'q) decorator =
    RejectMessages
  | MsgFilter 'k
  | DisabledModules "string list"
  | SetUpContext
  | CircuitBreaker "'k option"
  | ExtensionOptions "'k option"
  | ValidateBasicDecorator
  | TxTimeoutHeight
  | ValidateMemo "'k option"
  | MinGasPrice 'p
  | ConsumeGasForTxSize "'k option"
  | DeductFee "'k option" "'k option" "'k option" "'p option"
  | SetPubKey "'k option"
  | ValidateSigCount "'k option"
  | SigGasConsume "'k option" "'k option"
  | SigVerification "'k option" "'k option"
  | IncrementSequence "'k option"
  | RedundantRelay "'k option"
  | GasWanted "'k option" "'k option" 'p
  | EVMMono "'k option" "'k option" "'k option" u64 'q 'p
  | TxListener 'k

text \<open>
  An ante handler checks a transaction (\<open>'t\<close>) in a context (\<open>'c\<close>, with the state) and returns the context for its
  execution; \<open>bool\<close> says whether it is simulated. The functions the code calls: reading the parameters, chaining
  decorators, and the extension options of a transaction, which only some transactions have.
\<close>

type_synonym ('c, 't) AnteHandler = "'c \<Rightarrow> 't \<Rightarrow> bool \<Rightarrow> 'c result"

record ('k, 'p, 'q, 'c, 't) ante_lib =
  FeeMarket_GetParams :: "'k \<Rightarrow> 'c \<Rightarrow> 'p"
  Evm_GetParams :: "'k \<Rightarrow> 'c \<Rightarrow> 'q"
  ChainAnteDecorators :: "('k, 'p, 'q) decorator list \<Rightarrow> ('c, 't) AnteHandler"
  GetExtensionOptions :: "'t \<Rightarrow> string list option"

text \<open>A method call on a nil interface is a panic.\<close>

definition on_keeper :: "'k option \<Rightarrow> ('k \<Rightarrow> 'a) \<Rightarrow> 'a result" where
  "on_keeper k f = (case k of None \<Rightarrow> Inl GoPanic | Some k \<Rightarrow> Inr (f k))"

definition cosmos_decorators :: "'k HandlerOptions \<Rightarrow> 'p \<Rightarrow> ('k, 'p, 'q) decorator list" where
  "cosmos_decorators options feemarketParams =
     (let opts = EvmOptions options;
          txFeeChecker = (if DynamicFeeChecker opts then Some feemarketParams else None)
      in [RejectMessages, MsgFilter (ConsumerKeeper options),
          DisabledModules [''/cosmos.evidence'', ''/cosmos.slashing.v1beta1.MsgUnjail''],
          SetUpContext, CircuitBreaker (CircuitKeeper options), ExtensionOptions (ExtensionOptionChecker opts),
          ValidateBasicDecorator, TxTimeoutHeight, ValidateMemo (AccountKeeper opts), MinGasPrice feemarketParams,
          ConsumeGasForTxSize (AccountKeeper opts), DeductFee (AccountKeeper opts) (BankKeeper opts) (FeegrantKeeper opts) txFeeChecker,
          SetPubKey (AccountKeeper opts), ValidateSigCount (AccountKeeper opts), SigGasConsume (AccountKeeper opts) (SigGasConsumer opts),
          SigVerification (AccountKeeper opts) (SignModeHandler opts), IncrementSequence (AccountKeeper opts),
          RedundantRelay (IBCKeeper options), GasWanted (EvmKeeper opts) (FeeMarketKeeper opts) feemarketParams])"

definition newCosmosAnteHandler ::
  "('k, 'p, 'q, 'c, 't) ante_lib \<Rightarrow> 'c \<Rightarrow> 'k HandlerOptions \<Rightarrow> ('c, 't) AnteHandler result" where
  "newCosmosAnteHandler L cx options =
     res_bind (on_keeper (FeeMarketKeeper (EvmOptions options)) (\<lambda>k. FeeMarket_GetParams L k cx)) (\<lambda>feemarketParams.
     Inr (ChainAnteDecorators L (cosmos_decorators options feemarketParams)))"

definition evm_decorators :: "'k HandlerOptions \<Rightarrow> 'q \<Rightarrow> 'p \<Rightarrow> ('k, 'p, 'q) decorator list" where
  "evm_decorators options evmParams feemarketParams =
     (let opts = EvmOptions options in
      [MsgFilter (ConsumerKeeper options),
       EVMMono (AccountKeeper opts) (FeeMarketKeeper opts) (EvmKeeper opts) (MaxTxGasWanted opts) evmParams feemarketParams] @
      (case PendingTxListener opts of None \<Rightarrow> [] | Some listener \<Rightarrow> [TxListener listener]))"

definition newEVMAnteHandler ::
  "('k, 'p, 'q, 'c, 't) ante_lib \<Rightarrow> 'c \<Rightarrow> 'k HandlerOptions \<Rightarrow> ('c, 't) AnteHandler result" where
  "newEVMAnteHandler L cx options =
     res_bind (on_keeper (EvmKeeper (EvmOptions options)) (\<lambda>k. Evm_GetParams L k cx)) (\<lambda>evmParams.
     res_bind (on_keeper (FeeMarketKeeper (EvmOptions options)) (\<lambda>k. FeeMarket_GetParams L k cx)) (\<lambda>feemarketParams.
     Inr (ChainAnteDecorators L (evm_decorators options evmParams feemarketParams))))"

section \<open>Routing\<close>

definition EthereumTxOption :: string where "EthereumTxOption = ''/cosmos.evm.vm.v1.ExtensionOptionsEthereumTx''"
definition DynamicFeeTxOption :: string where "DynamicFeeTxOption = ''/cosmos.evm.ante.v1.ExtensionOptionDynamicFeeTx''"

text \<open>The transaction is an interface value, \<open>None\<close> when it is nil; every other value is an \<open>sdk.Tx\<close>.\<close>

definition NewAnteHandler ::
  "('k, 'p, 'q, 'c, 't) ante_lib \<Rightarrow> 'k HandlerOptions \<Rightarrow> 'c \<Rightarrow> 't option \<Rightarrow> bool \<Rightarrow> 'c result" where
  "NewAnteHandler L options cx tx sim =
     (case tx of
        None \<Rightarrow> Inl (ErrWrap ''invalid transaction type'' (ErrLib ''ErrUnknownRequest''))
      | Some tx \<Rightarrow>
          (case GetExtensionOptions L tx of
             Some (typeURL # _) \<Rightarrow>
               if typeURL = EthereumTxOption then res_bind (newEVMAnteHandler L cx options) (\<lambda>anteHandler. anteHandler cx tx sim)
               else if typeURL = DynamicFeeTxOption then res_bind (newCosmosAnteHandler L cx options) (\<lambda>anteHandler. anteHandler cx tx sim)
               else Inl (ErrWrap (''rejecting tx with unsupported extension option: '' @ typeURL) (ErrLib ''ErrUnknownExtensionOptions''))
           | _ \<Rightarrow> res_bind (newCosmosAnteHandler L cx options) (\<lambda>anteHandler. anteHandler cx tx sim)))"

section \<open>Assembly\<close>

text \<open>The keepers of the application; \<open>onPendingTx\<close> is a method value and never nil.\<close>

record 'k app_keepers =
  ak_Codec :: "'k option"
  ak_Account :: "'k option"
  ak_Bank :: "'k option"
  ak_Evm :: "'k option"
  ak_FeeGrant :: "'k option"
  ak_IBC :: "'k option"
  ak_FeeMarket :: "'k option"
  ak_Circuit :: 'k
  ak_Consumer :: 'k
  ak_HasDynamicFeeExtensionOption :: 'k
  ak_SigVerificationGasConsumer :: 'k
  ak_onPendingTx :: 'k

definition NewEVMAnteHandlerOptionsFromApp :: "'k app_keepers \<Rightarrow> 'k option \<Rightarrow> u64 \<Rightarrow> 'k EVMHandlerOptions" where
  "NewEVMAnteHandlerOptionsFromApp app signModeHandler maxGasWanted =
     \<lparr>Cdc = ak_Codec app, AccountKeeper = ak_Account app, BankKeeper = ak_Bank app, evm_IBCKeeper = ak_IBC app,
      FeeMarketKeeper = ak_FeeMarket app, EvmKeeper = ak_Evm app, FeegrantKeeper = ak_FeeGrant app,
      ExtensionOptionChecker = Some (ak_HasDynamicFeeExtensionOption app), SignModeHandler = signModeHandler,
      SigGasConsumer = Some (ak_SigVerificationGasConsumer app), MaxTxGasWanted = maxGasWanted, DynamicFeeChecker = True,
      PendingTxListener = Some (ak_onPendingTx app)\<rparr>"

definition setAnteHandler ::
  "('k, 'p, 'q, 'c, 't) ante_lib \<Rightarrow> 'k app_keepers \<Rightarrow> 'k option \<Rightarrow> u64 \<Rightarrow> ('c \<Rightarrow> 't option \<Rightarrow> bool \<Rightarrow> 'c result) result" where
  "setAnteHandler L app signModeHandler maxGasWanted =
     (let evmHandlerOpts = NewEVMAnteHandlerOptionsFromApp app signModeHandler maxGasWanted in
      res_bind (res_map_err (\<lambda>_. GoPanic) (EVMHandlerOptions_Validate evmHandlerOpts)) (\<lambda>_.
      let handlerOpts = \<lparr>EvmOptions = EVMHandlerOptions_Options evmHandlerOpts, IBCKeeper = ak_IBC app,
                         CircuitKeeper = Some (ak_Circuit app), ConsumerKeeper = ak_Consumer app\<rparr> in
      res_bind (res_map_err (\<lambda>_. GoPanic) (HandlerOptions_Validate handlerOpts)) (\<lambda>_.
      Inr (NewAnteHandler L handlerOpts))))"

section \<open>What an accepted transaction has passed\<close>

text \<open>
  A decorator makes its check (\<open>check d\<close>) and then calls the next one, so that a chain accepts a transaction only
  if the first check does and the rest of the chain accepts in the context it leaves.
\<close>

definition chain_laws ::
  "('k, 'p, 'q, 'c, 't) ante_lib \<Rightarrow> (('k, 'p, 'q) decorator \<Rightarrow> ('c, 't) AnteHandler) \<Rightarrow> bool" where
  "chain_laws L check \<longleftrightarrow>
     (\<forall>d cx tx sim cx'. ChainAnteDecorators L [d] cx tx sim = Inr cx' \<longrightarrow> (\<exists>c. check d cx tx sim = Inr c)) \<and>
     (\<forall>d ds cx tx sim cx'. ds \<noteq> [] \<longrightarrow> ChainAnteDecorators L (d # ds) cx tx sim = Inr cx' \<longrightarrow>
        (\<exists>c. check d cx tx sim = Inr c \<and> ChainAnteDecorators L ds c tx sim = Inr cx'))"

text \<open>Every check of a list accepts, each in the context the one before leaves.\<close>

fun passed ::
  "(('k, 'p, 'q) decorator \<Rightarrow> ('c, 't) AnteHandler) \<Rightarrow> ('k, 'p, 'q) decorator list \<Rightarrow> 'c \<Rightarrow> 't \<Rightarrow> bool \<Rightarrow> bool" where
  "passed check [] cx tx sim = True"
| "passed check (d # ds) cx tx sim = (case check d cx tx sim of Inl _ \<Rightarrow> False | Inr c \<Rightarrow> passed check ds c tx sim)"

lemma chain_passed:
  assumes "chain_laws L check" and "ds \<noteq> []" and "ChainAnteDecorators L ds cx tx sim = Inr cx'"
  shows "passed check ds cx tx sim"
  using assms(2,3)
proof (induction ds arbitrary: cx)
  case (Cons d ds)
  show ?case
  proof (cases "ds = []")
    case True
    with Cons.prems assms(1) obtain c where "check d cx tx sim = Inr c" unfolding chain_laws_def by blast
    with True show ?thesis by simp
  next
    case False
    with Cons.prems assms(1) obtain c where "check d cx tx sim = Inr c" "ChainAnteDecorators L ds c tx sim = Inr cx'"
      unfolding chain_laws_def by blast
    with Cons.IH False show ?thesis by simp
  qed
qed simp

definition ethereum_tx :: "('k, 'p, 'q, 'c, 't) ante_lib \<Rightarrow> 't \<Rightarrow> bool" where
  "ethereum_tx L tx \<longleftrightarrow> (\<exists>opts. GetExtensionOptions L tx = Some (EthereumTxOption # opts))"

definition cosmos_tx :: "('k, 'p, 'q, 'c, 't) ante_lib \<Rightarrow> 't \<Rightarrow> bool" where
  "cosmos_tx L tx \<longleftrightarrow>
     GetExtensionOptions L tx = None \<or> GetExtensionOptions L tx = Some [] \<or>
     (\<exists>opts. GetExtensionOptions L tx = Some (DynamicFeeTxOption # opts))"

lemma options_differ: "EthereumTxOption \<noteq> DynamicFeeTxOption"
  by (simp add: EthereumTxOption_def DynamicFeeTxOption_def)

lemma tx_kinds_disjoint: "ethereum_tx L tx \<Longrightarrow> \<not> cosmos_tx L tx"
  using options_differ by (auto simp: ethereum_tx_def cosmos_tx_def)

text \<open>The routing: which chain runs, with the keepers that must be there.\<close>

lemma NewAnteHandler_iff:
  "NewAnteHandler L options cx tx sim = Inr cx' \<longleftrightarrow>
     (\<exists>t fm. tx = Some t \<and> FeeMarketKeeper (EvmOptions options) = Some fm \<and>
       (ethereum_tx L t \<and> (\<exists>evm. EvmKeeper (EvmOptions options) = Some evm \<and>
          ChainAnteDecorators L (evm_decorators options (Evm_GetParams L evm cx) (FeeMarket_GetParams L fm cx)) cx t sim = Inr cx') \<or>
        cosmos_tx L t \<and> ChainAnteDecorators L (cosmos_decorators options (FeeMarket_GetParams L fm cx)) cx t sim = Inr cx'))"
proof (cases tx)
  case (Some t)
  note defs = NewAnteHandler_def newEVMAnteHandler_def newCosmosAnteHandler_def on_keeper_def ethereum_tx_def cosmos_tx_def
  show ?thesis
  proof (cases "GetExtensionOptions L t")
    case None
    with Some show ?thesis by (auto simp: defs res_bind_Inr_iff split: option.splits)
  next
    case opts: (Some os)
    show ?thesis
      using Some opts options_differ by (cases os) (auto simp: defs res_bind_Inr_iff split: option.splits)
  qed
qed (simp add: NewAnteHandler_def)

lemma decorator_lists_nonempty [simp]: "evm_decorators options q p \<noteq> []" "cosmos_decorators options p \<noteq> []"
  by (simp_all add: evm_decorators_def cosmos_decorators_def Let_def)

section \<open>Assembly\<close>

lemma EVMHandlerOptions_Validate_iff:
  "EVMHandlerOptions_Validate o' = Inr () \<longleftrightarrow>
     Cdc o' \<noteq> None \<and> AccountKeeper o' \<noteq> None \<and> BankKeeper o' \<noteq> None \<and> evm_IBCKeeper o' \<noteq> None \<and> FeeMarketKeeper o' \<noteq> None \<and>
     EvmKeeper o' \<noteq> None \<and> FeegrantKeeper o' \<noteq> None \<and> SigGasConsumer o' \<noteq> None \<and> SignModeHandler o' \<noteq> None \<and> PendingTxListener o' \<noteq> None"
  by (simp add: EVMHandlerOptions_Validate_def require_def res_bind_Inr_iff)

definition app_options :: "'k app_keepers \<Rightarrow> 'k option \<Rightarrow> u64 \<Rightarrow> 'k HandlerOptions" where
  "app_options app signModeHandler maxGasWanted =
     \<lparr>EvmOptions = NewEVMAnteHandlerOptionsFromApp app signModeHandler maxGasWanted, IBCKeeper = ak_IBC app,
      CircuitKeeper = Some (ak_Circuit app), ConsumerKeeper = ak_Consumer app\<rparr>"

lemma setAnteHandler_iff:
  "setAnteHandler L app h g = Inr handler \<longleftrightarrow>
     handler = NewAnteHandler L (app_options app h g) \<and> h \<noteq> None \<and>
     None \<notin> {ak_Codec app, ak_Account app, ak_Bank app, ak_Evm app, ak_FeeGrant app, ak_IBC app, ak_FeeMarket app}"
  by (auto simp: setAnteHandler_def app_options_def HandlerOptions_Validate_def EVMHandlerOptions_Validate_iff
      EVMHandlerOptions_Options_def NewEVMAnteHandlerOptionsFromApp_def res_bind_Inr_iff Let_def)

text \<open>The only other outcome is a panic at start.\<close>

lemma setAnteHandler_error: "setAnteHandler L app h g = Inl e \<Longrightarrow> e = GoPanic"
  by (auto simp: setAnteHandler_def Let_def res_bind_def res_map_err_def split: sum.splits)

end
