(* ===== verification/App_Properties.thy ===== *)
theory App_Properties
  imports App_Accounts App_Ante Tax_Properties
begin

text \<open>
  Properties of the application: who may send to the rewards buffer, where the tax can go, and which checks
  an accepted transaction has passed.
\<close>

section \<open>The tax and the blocked addresses\<close>

text \<open>The end of a block does not write the tax parameters, whether it succeeds or not.\<close>

lemma call_module_params: "call_module f k = (r, k') \<Longrightarrow> TaxParamsItem k' = TaxParamsItem k"
  by (auto simp: call_module_def split: prod.splits)

lemma EndBlock_keeps_params:
  assumes "Tax_Module_EndBlock L E cx k = (r, k')"
  shows "TaxParamsItem k' = TaxParamsItem k"
proof -
  have "TaxParamsItem (snd (AllocateTax L E t a k)) = TaxParamsItem k" for t a k
    unfolding AllocateTax_def
    by (auto simp: act_defs Let_def call_module_def split: prod.splits sum.splits if_splits)
  then have "AllocateTax L E t a k = (r, k') \<Longrightarrow> TaxParamsItem k' = TaxParamsItem k" for t a k r k' by (metis snd_conv)
  from this [of _ _ k] show ?thesis
    using assms unfolding Tax_Module_EndBlock_def EndBlocker_def
    by (auto simp: act_defs Let_def item_Get_def split: prod.splits sum.splits if_splits option.splits)
qed

lemma tax_reachable_ready:
  assumes laws: "dec_laws L val" "codec_laws E" and "tax_reachable L E fit k0 k" and "tax_ready L E k0"
  shows "tax_ready L E k"
  using assms(3,4)
proof (induction rule: tax_reachable.induct)
  case (request k req)
  then have ready: "tax_ready L E k" by simp
  obtain r k' where run: "Tax_UpdateParams L E req k = (r, k')" by fastforce
  show ?case
  proof (cases r)
    case (Inr u)
    with Tax_UpdateParams_ready [OF laws ready, of req k'] run show ?thesis by (simp add: commit_def)
  qed (use run ready in \<open>simp add: commit_def\<close>)
next
  case (end_block k cx k')
  from EndBlock_keeps_params [OF end_block.hyps(2)] end_block show ?case by (simp add: tax_ready_def)
qed (simp_all add: tax_ready_def)

lemma unblocked_address:
  assumes "\<not> is_blocked P E a"
  shows "AccString E a \<notin> precompile_addresses P"
    and "AccString E a = module_address P E acc \<Longrightarrow> AccString E a = module_address P E ConsumerToSendToProviderName"
  using assms by (auto simp: is_blocked_def BlockedAddresses_iff)

section \<open>The checks of an accepted transaction\<close>

text \<open>What the comments of the chain ask for: the public key is set before the signatures are counted and verified.\<close>

lemma cosmos_chain_orders:
  assumes "options = app_options app h g"
  shows "RejectMessages \<in> set (cosmos_decorators options p)"
    and "MsgFilter (ak_Consumer app) \<in> set (cosmos_decorators options p)"
    and "DisabledModules [''/cosmos.evidence'', ''/cosmos.slashing.v1beta1.MsgUnjail''] \<in> set (cosmos_decorators options p)"
    and "runs_before (cosmos_decorators options p) (DeductFee (ak_Account app) (ak_Bank app) (ak_FeeGrant app) (Some p))
      (IncrementSequence (ak_Account app))"
    and "runs_before (cosmos_decorators options p) (SetPubKey (ak_Account app)) (SigVerification (ak_Account app) h)"
    and "runs_before (cosmos_decorators options p) (SigVerification (ak_Account app) h) (IncrementSequence (ak_Account app))"
  using assms
  by (simp_all add: cosmos_decorators_def app_options_def NewEVMAnteHandlerOptionsFromApp_def runs_before_def Let_def)

lemma evm_chain:
  assumes "options = app_options app h g"
  shows "evm_decorators options q p =
    [MsgFilter (ak_Consumer app), EVMMono (ak_Account app) (ak_FeeMarket app) (ak_Evm app) g q p, TxListener (ak_onPendingTx app)]"
  using assms by (simp add: evm_decorators_def app_options_def NewEVMAnteHandlerOptionsFromApp_def Let_def)

lemma accepted_tx_passed:
  assumes laws: "chain_laws L check" and "setAnteHandler L app h g = Inr handler" and run: "handler cx tx sim = Inr cx'"
  shows "\<exists>t p q. tx = Some t \<and>
    (ethereum_tx L t \<and> passed check (evm_decorators (app_options app h g) q p) cx t sim \<or>
     cosmos_tx L t \<and> passed check (cosmos_decorators (app_options app h g) p) cx t sim)"
proof -
  from assms(2) have "handler = NewAnteHandler L (app_options app h g)" by (simp add: setAnteHandler_iff)
  with run obtain t fm where t: "tx = Some t" and
    cases: "ethereum_tx L t \<and> (\<exists>evm. ChainAnteDecorators L (evm_decorators (app_options app h g) (Evm_GetParams L evm cx)
        (FeeMarket_GetParams L fm cx)) cx t sim = Inr cx') \<or>
      cosmos_tx L t \<and> ChainAnteDecorators L (cosmos_decorators (app_options app h g) (FeeMarket_GetParams L fm cx)) cx t sim = Inr cx'"
    by (auto simp: NewAnteHandler_iff)
  from cases show ?thesis
  proof
    assume "ethereum_tx L t \<and> (\<exists>evm. ChainAnteDecorators L (evm_decorators (app_options app h g) (Evm_GetParams L evm cx)
        (FeeMarket_GetParams L fm cx)) cx t sim = Inr cx')"
    with chain_passed [OF laws decorator_lists_nonempty(1)] t show ?thesis by blast
  next
    assume "cosmos_tx L t \<and> ChainAnteDecorators L (cosmos_decorators (app_options app h g) (FeeMarket_GetParams L fm cx)) cx t sim = Inr cx'"
    with chain_passed [OF laws decorator_lists_nonempty(2)] t show ?thesis by blast
  qed
qed

section \<open>A concrete application\<close>

definition sample_app_lib :: app_lib where
  "sample_app_lib =
     \<lparr>AccountName = (\<lambda>acc. case acc of FeeCollectorName \<Rightarrow> ''fee_collector'' | ConsumerToSendToProviderName \<Rightarrow> ''to_provider''
        | IbcTransferModule \<Rightarrow> ''transfer'' | _ \<Rightarrow> ''other''),
      NewModuleAddress = sample_module, Bech32StringFromHexAddress = (\<lambda>s. ''nvnm'' @ s), Address_Hex = (\<lambda>_. ''0x''),
      AvailableStaticPrecompiles = [''0x100''], PrecompiledAddressesPrague = []\<rparr>"

definition sample_blocking_lib :: "(int, int, nat, addr \<Rightarrow> nat) tax_lib" where
  "sample_blocking_lib = sample_tax_lib\<lparr>BlockedAddr := is_blocked sample_app_lib sample_env\<rparr>"

lemma sample_blocking_laws: "dec_laws sample_blocking_lib (\<lambda>d. d)"
  using sample_dec_laws by (simp add: dec_laws_def sample_blocking_lib_def)

lemma sample_ann_string: "AccString sample_env [1] = ''ann''" by code_simp

text \<open>The account names of the example are not those of users.\<close>

lemma sample_module_address: "module_address sample_app_lib sample_env acc \<noteq> ''ann''"
  by (cases acc)
    (simp_all add: module_address_def sample_app_lib_def sample_env_def sample_name_def sample_accounts_def sample_module_def bytes_of_string_def)

lemma sample_ann_unblocked: "\<not> is_blocked sample_app_lib sample_env [1]"
proof -
  have "''ann'' \<notin> precompile_addresses sample_app_lib" by (auto simp: precompile_addresses_def sample_app_lib_def)
  moreover have "\<forall>acc. ''ann'' \<noteq> module_address sample_app_lib sample_env acc" using sample_module_address by metis
  ultimately show ?thesis unfolding is_blocked_def BlockedAddresses_iff sample_ann_string by blast
qed

lemma sample_blocking_ready: "tax_ready sample_blocking_lib sample_env sample_tax"
  using sample_rate sample_ann_unblocked
  by (simp add: tax_ready_def Tax_Params_Validate_iff [OF sample_blocking_laws] sample_address_ann)
    (simp add: sample_blocking_lib_def)

text \<open>Checks that all accept and count the decorators.\<close>

definition sample_ante_lib :: "(nat, unit, unit, nat, string list) ante_lib" where
  "sample_ante_lib =
     \<lparr>FeeMarket_GetParams = (\<lambda>_ _. ()), Evm_GetParams = (\<lambda>_ _. ()),
      ChainAnteDecorators = (\<lambda>ds cx _ _. Inr (cx + length ds)), GetExtensionOptions = Some\<rparr>"

definition sample_check :: "(nat, unit, unit) decorator \<Rightarrow> (nat, string list) AnteHandler" where
  "sample_check d cx tx sim = Inr (Suc cx)"

definition sample_keepers :: "nat app_keepers" where
  "sample_keepers =
     \<lparr>ak_Codec = Some 0, ak_Account = Some 1, ak_Bank = Some 2, ak_Evm = Some 3, ak_FeeGrant = Some 4, ak_IBC = Some 5, ak_FeeMarket = Some 6,
      ak_Circuit = 7, ak_Consumer = 8, ak_HasDynamicFeeExtensionOption = 9, ak_SigVerificationGasConsumer = 10, ak_onPendingTx = 11\<rparr>"

lemma sample_chain_laws: "chain_laws sample_ante_lib sample_check"
  by (simp add: chain_laws_def sample_ante_lib_def sample_check_def)

lemma sample_handler: "setAnteHandler sample_ante_lib sample_keepers (Some 12) 0 =
    Inr (NewAnteHandler sample_ante_lib (app_options sample_keepers (Some 12) 0))"
  by (simp add: setAnteHandler_iff sample_keepers_def)

section \<open>Properties\<close>



text \<open>
  C19. Who can fill the rewards buffer: a transfer to it passes the restriction exactly when it comes from the fee
  collector, or outside of a transaction from the transfer module, or in a transaction whose messages are
  IBC acknowledgements and timeouts, at least one, with client updates between them; every other transfer
  passes unchanged, and a refused one names the buffer.
\<close>

theorem rewards_buffer_guarded:
  "blockUserSendsToCCVRewardsBuffer P decode txBytes sender to =
     (if to \<noteq> NewModuleAddress P (AccountName P ConsumerToSendToProviderName) \<or>
         sender = NewModuleAddress P (AccountName P FeeCollectorName) \<or>
         txBytes = [] \<and> sender = NewModuleAddress P (AccountName P IbcTransferModule) \<or>
         (\<exists>msgs. txBytes \<noteq> [] \<and> decode txBytes = Inr msgs \<and> set msgs \<subseteq> insert MsgUpdateClient (Collect refund_msg) \<and>
            set msgs \<inter> Collect refund_msg \<noteq> {})
      then Inr to
      else Inl (ErrMsg (''sending to '' @ AccountName P ConsumerToSendToProviderName @ '' is restricted'')))"
proof -
  have "msgs \<noteq> [] \<and> refund_loop msgs False \<longleftrightarrow>
      set msgs \<subseteq> insert MsgUpdateClient (Collect refund_msg) \<and> set msgs \<inter> Collect refund_msg \<noteq> {}" for msgs
    unfolding refund_loop_iff by (cases msgs) auto
  then show ?thesis by (auto simp: blockUserSendsToCCVRewardsBuffer_def isIBCRefundTx_def split: sum.splits)
qed

theorem rewards_buffer_guarded_witness:
  "blockUserSendsToCCVRewardsBuffer sample_app_lib (\<lambda>_. Inr [MsgUpdateClient, V2MsgTimeout]) [1] [9] (sample_module ''to_provider'') =
     Inr (sample_module ''to_provider'') \<and>
   blockUserSendsToCCVRewardsBuffer sample_app_lib (\<lambda>_. Inr [V2MsgTimeout, OtherMsg]) [1] [9] (sample_module ''to_provider'') =
     Inl (ErrMsg ''sending to to_provider is restricted'')"
  unfolding rewards_buffer_guarded
  by (simp add: sample_app_lib_def sample_module_def bytes_of_string_def refund_msg_def)



end
