(* ===== verification/App_Chain_Id.thy ===== *)
theory App_Chain_Id
  imports Nvnm_Prelude
begin

text \<open>
  \<open>app/config.go\<close>: how a node finds the chain id of the EVM, from the genesis file, from
  \<open>app.toml\<close>, or from the text of the Cosmos chain id. The file system and the two file formats are
  library code and arguments.
\<close>

section \<open>The id in the text of a chain id\<close>

text \<open>
  \<open>strings.TrimSpace\<close> cuts the characters that Unicode calls white space off both ends; here as the
  byte sequences that encode them.
\<close>

definition space_encodings :: "string list" where
  "space_encodings =
     map (\<lambda>n. [char_of (n :: nat)]) [9, 10, 11, 12, 13, 32] @
     map (map char_of) [[0xC2, 0x85 :: nat], [0xC2, 0xA0], [0xE1, 0x9A, 0x80]] @
     map (\<lambda>n. map char_of [0xE2, 0x80, n :: nat]) ([0x80..<0x8B] @ [0xA8, 0xA9, 0xAF]) @
     map (map char_of) [[0xE2, 0x81, 0x9F :: nat], [0xE3, 0x80, 0x80]]"

definition strip_one :: "string list \<Rightarrow> string \<Rightarrow> string option" where
  "strip_one encs s = (case filter (\<lambda>e. take (length e) s = e \<and> e \<noteq> []) encs of [] \<Rightarrow> None | e # _ \<Rightarrow> Some (drop (length e) s))"

lemma strip_one_shorter: "strip_one encs s = Some t \<Longrightarrow> length t < length s"
proof -
  assume "strip_one encs s = Some t"
  then obtain e es where e: "filter (\<lambda>e. take (length e) s = e \<and> e \<noteq> []) encs = e # es" and t: "t = drop (length e) s"
    by (auto simp: strip_one_def split: list.splits)
  have "e \<in> set (filter (\<lambda>e. take (length e) s = e \<and> e \<noteq> []) encs)" by (simp add: e)
  then have "take (length e) s = e" "e \<noteq> []" by auto
  then show ?thesis using t by (cases s) auto
qed

function trim_left :: "string list \<Rightarrow> string \<Rightarrow> string" where
  "trim_left encs s = (case strip_one encs s of None \<Rightarrow> s | Some t \<Rightarrow> trim_left encs t)"
  by auto
termination
  by (relation "measure (\<lambda>(encs, s). length s)") (auto dest: strip_one_shorter)

declare trim_left.simps [simp del]

definition TrimSpace :: "string \<Rightarrow> string" where
  "TrimSpace s = rev (trim_left (map rev space_encodings) (rev (trim_left space_encodings s)))"

text \<open>
  The expression \<open>^([a-z]{1,})_{1}([1-9][0-9]*)-{1}([1-9][0-9]*)$\<close>; the separators are in none of the
  character classes, so that a text matches in one way only.
\<close>

definition is_lower :: "char \<Rightarrow> bool" where
  "is_lower c \<longleftrightarrow> 97 \<le> (of_char c :: nat) \<and> (of_char c :: nat) < 123"

definition numeral_text :: "string \<Rightarrow> bool" where
  "numeral_text s = (case s of [] \<Rightarrow> False | c # cs \<Rightarrow> is_digit c \<and> c \<noteq> CHR ''0'' \<and> list_all is_digit cs)"

definition evmosChainID :: "string \<Rightarrow> (string \<times> string \<times> string) option" where
  "evmosChainID s =
     (case dropWhile is_lower s of
        [] \<Rightarrow> None
      | sep # r \<Rightarrow>
          (case dropWhile is_digit r of
             [] \<Rightarrow> None
           | sep' # epoch \<Rightarrow>
               if takeWhile is_lower s \<noteq> [] \<and> sep = CHR ''_'' \<and> numeral_text (takeWhile is_digit r) \<and>
                 sep' = CHR ''-'' \<and> numeral_text epoch
               then Some (takeWhile is_lower s, takeWhile is_digit r, epoch) else None))"

text \<open>\<open>strconv.Atoi\<close> of a text of digits fails when the value does not fit 64 bits with sign.\<close>

definition Atoi :: "string \<Rightarrow> u64 result" where
  "Atoi s = (if dec_value s < 2 ^ 63 then Inr (of_nat (dec_value s)) else Inl (ErrLib ''value out of range''))"

definition ParseChainID :: "string \<Rightarrow> u64 result" where
  "ParseChainID chain =
     (let chainID = TrimSpace chain in
      if length chainID > 48 then Inl (ErrMsg (''chain-id '' @ [CHR 0x27] @ chainID @ [CHR 0x27] @ '' cannot exceed 48 chars''))
      else
        (case evmosChainID chainID of
           None \<Rightarrow> Inl (ErrMsg (chainID @ '': []''))
         | Some (_, eip155, _) \<Rightarrow>
             res_map_err (\<lambda>_. ErrMsg (''epoch '' @ eip155 @ '' must be base-10 integer format'')) (Atoi eip155)))"

section \<open>Start of the node\<close>

definition EVMChainIDMap :: "string \<Rightarrow> u64 option" where
  "EVMChainIDMap = map_of [(''nvnm-1'', 1611), (''manveniam-1'', 58887), (''nvnm-testnet-1'', 787111), (''nvnmchain-canary-net-1'', 59888)]"

definition DefaultEVMChainID :: u64 where
  "DefaultEVMChainID = 58886"

text \<open>
  What the node finds: its home directory, for each file whether \<open>os.Stat\<close> succeeds, the chain id
  in the genesis file (\<open>os.Open\<close>, \<open>ParseChainIDFromGenesis\<close>), and the setting \<open>evm.evm-chain-id\<close> of
  \<open>app.toml\<close> (\<open>ReadInConfig\<close>, then \<open>IsSet\<close> and \<open>GetUint64\<close>). \<open>IsNotExist\<close> is \<open>os.IsNotExist\<close>.
\<close>

record node_files =
  GetNodeHomeDirectory :: "string result"
  StatGenesis :: "unit result"
  OpenGenesis :: "unit result"
  ParseChainIDFromGenesis :: "string result"
  StatAppToml :: "unit result"
  ReadInConfig :: "unit result"
  EvmChainIDSetting :: "u64 option"
  IsNotExist :: "error \<Rightarrow> bool"

text \<open>The part on the genesis file: the id it decides on, or the chain id read and the error left in \<open>err\<close>.\<close>

definition genesis_part :: "node_files \<Rightarrow> u64 + (string \<times> error option)" where
  "genesis_part F =
     (case StatGenesis F of
        Inl e \<Rightarrow> Inr ('''', Some e)
      | Inr _ \<Rightarrow>
          (case OpenGenesis F of
             Inl e \<Rightarrow> Inr ('''', Some e)
           | Inr _ \<Rightarrow>
               (case ParseChainIDFromGenesis F of
                  Inl e \<Rightarrow> Inr ('''', Some e)
                | Inr chainID \<Rightarrow>
                    (if chainID \<noteq> '''' then (case EVMChainIDMap chainID of Some n \<Rightarrow> Inl n | None \<Rightarrow> Inr (chainID, None))
                     else Inr (chainID, None)))))"

text \<open>The part on \<open>app.toml\<close>: the id it decides on, or the error left in \<open>err\<close>.\<close>

definition toml_part :: "node_files \<Rightarrow> u64 + error option" where
  "toml_part F =
     (case StatAppToml F of
        Inl e \<Rightarrow> Inr (Some e)
      | Inr _ \<Rightarrow>
          (case ReadInConfig F of
             Inl e \<Rightarrow> Inr (Some e)
           | Inr _ \<Rightarrow> (case EvmChainIDSetting F of Some n \<Rightarrow> Inl n | None \<Rightarrow> Inr None)))"

definition fatal :: "node_files \<Rightarrow> error option \<Rightarrow> bool" where
  "fatal F err = (case err of None \<Rightarrow> False | Some e \<Rightarrow> \<not> IsNotExist F e)"

definition init_chain_id :: "node_files \<Rightarrow> u64 result" where
  "init_chain_id F =
     (case GetNodeHomeDirectory F of
        Inl _ \<Rightarrow> Inl GoPanic
      | Inr _ \<Rightarrow>
          (case genesis_part F of
             Inl n \<Rightarrow> Inr n
           | Inr (chainID, err) \<Rightarrow>
               if fatal F err then Inl GoPanic
               else
                 (case toml_part F of
                    Inl n \<Rightarrow> Inr n
                  | Inr err' \<Rightarrow>
                      if chainID \<noteq> '''' then res_map_err (\<lambda>_. GoPanic) (ParseChainID chainID)
                      else if fatal F err' then Inl GoPanic
                      else Inr DefaultEVMChainID)))"

section \<open>Numerals\<close>

lemma dec_value_snoc: "dec_value (s @ [c]) = 10 * dec_value s + (of_char c - 48)"
  by (simp add: dec_value_def)

lemma digit_char_of_char: "is_digit c \<Longrightarrow> digit_char (of_char c - 48) = c"
  by (simp add: is_digit_def digit_char_def)

lemma numeral_text_snoc:
  "s \<noteq> [] \<Longrightarrow> numeral_text (s @ [c]) \<longleftrightarrow> numeral_text s \<and> is_digit c"
  by (cases s) (auto simp: numeral_text_def)

text \<open>The texts of the expression are exactly the decimal texts of the positive numbers.\<close>

lemma numeral_text_dec_value: "numeral_text s \<Longrightarrow> 0 < dec_value s \<and> dec_string (dec_value s) = s"
proof (induction s rule: rev_induct)
  case (snoc c s)
  show ?case
  proof (cases "s = []")
    case True
    with snoc.prems have "is_digit c" "c \<noteq> CHR ''0''" by (simp_all add: numeral_text_def)
    moreover have "char_of (48 :: nat) = CHR ''0''" by code_simp
    then have "of_char c \<noteq> (48 :: nat)" using \<open>c \<noteq> CHR ''0''\<close> by (metis char_of_char)
    ultimately show ?thesis
      using True digit_char_of_char [of c] by (subst dec_string.simps) (auto simp: dec_value_def is_digit_def)
  next
    case False
    with snoc have s: "0 < dec_value s" "dec_string (dec_value s) = s" "is_digit c" by (simp_all add: numeral_text_snoc)
    have v: "dec_value (s @ [c]) = 10 * dec_value s + (of_char c - 48)" by (rule dec_value_snoc)
    have d: "of_char c - 48 < (10 :: nat)" using s(3) by (auto simp: is_digit_def)
    have "dec_string (dec_value (s @ [c])) = dec_string (dec_value s) @ [digit_char (of_char c - 48)]"
      unfolding v using s(1) d by (subst dec_string.simps) simp
    with s digit_char_of_char [OF s(3)] v show ?thesis by simp
  qed
qed (simp add: numeral_text_def)

lemma numeral_text_dec_string: "0 < n \<Longrightarrow> numeral_text (dec_string n)"
proof (induction n rule: dec_string.induct)
  case (1 n)
  show ?case
  proof (cases "n < 10")
    case True
    have "of_char (digit_char n) = 48 + n" by (rule of_char_digit_char [OF True])
    with 1 True show ?thesis by (subst dec_string.simps) (auto simp: numeral_text_def is_digit_def)
  next
    case False
    then have "numeral_text (dec_string (n div 10))" using 1 by simp
    moreover have "is_digit (digit_char (n mod 10))" using of_char_digit_char [of "n mod 10"] by (simp add: is_digit_def)
    moreover have "dec_string (n div 10) \<noteq> []" using \<open>numeral_text (dec_string (n div 10))\<close> by (auto simp: numeral_text_def)
    ultimately show ?thesis using False by (subst dec_string.simps) (simp add: numeral_text_snoc)
  qed
qed

lemma numeral_text_iff: "numeral_text s \<longleftrightarrow> (\<exists>n > 0. s = dec_string n)"
  using numeral_text_dec_value [of s] numeral_text_dec_string by metis

section \<open>Correctness\<close>

lemma sep_classes [simp]: "\<not> is_lower (CHR ''_'')" "\<not> is_digit (CHR ''-'')"
  by (simp_all add: is_lower_def is_digit_def)

lemma list_all_numeral_text: "numeral_text s \<Longrightarrow> list_all is_digit s"
  by (auto simp: numeral_text_def split: list.splits)

text \<open>The expression matches exactly the texts of its form.\<close>

lemma evmosChainID_iff:
  "evmosChainID s = Some (name, num, epoch) \<longleftrightarrow>
     s = name @ CHR ''_'' # num @ CHR ''-'' # epoch \<and> name \<noteq> [] \<and> list_all is_lower name \<and> numeral_text num \<and> numeral_text epoch"
proof
  assume m: "evmosChainID s = Some (name, num, epoch)"
  then obtain sep r sep' where r: "dropWhile is_lower s = sep # r" "dropWhile is_digit r = sep' # epoch"
    and parts: "takeWhile is_lower s = name" "takeWhile is_digit r = num" "name \<noteq> []" "sep = CHR ''_''" "sep' = CHR ''-''"
      "numeral_text num" "numeral_text epoch"
    by (auto simp: evmosChainID_def split: list.splits if_splits)
  have "s = name @ sep # r" "r = num @ sep' # epoch"
    using takeWhile_dropWhile_id [of is_lower s] takeWhile_dropWhile_id [of is_digit r] r parts(1,2) by simp_all
  moreover have "list_all is_lower name" unfolding parts(1) [symmetric] by (auto simp: list_all_iff dest: set_takeWhileD)
  ultimately show "s = name @ CHR ''_'' # num @ CHR ''-'' # epoch \<and> name \<noteq> [] \<and> list_all is_lower name \<and> numeral_text num \<and> numeral_text epoch"
    using parts by simp
next
  assume f: "s = name @ CHR ''_'' # num @ CHR ''-'' # epoch \<and> name \<noteq> [] \<and> list_all is_lower name \<and> numeral_text num \<and> numeral_text epoch"
  then have "\<forall>c \<in> set name. is_lower c" "\<forall>c \<in> set num. is_digit c" using list_all_numeral_text [of num] by (auto simp: list_all_iff)
  then have "takeWhile is_lower s = name" "dropWhile is_lower s = CHR ''_'' # num @ CHR ''-'' # epoch"
    "takeWhile is_digit (num @ CHR ''-'' # epoch) = num" "dropWhile is_digit (num @ CHR ''-'' # epoch) = CHR ''-'' # epoch"
    using f by (simp_all add: takeWhile_append2 dropWhile_append2)
  with f show "evmosChainID s = Some (name, num, epoch)" by (simp add: evmosChainID_def)
qed

lemma ParseChainID_iff:
  "ParseChainID s = Inr n \<longleftrightarrow>
     (\<exists>name epoch. TrimSpace s = name @ ''_'' @ dec_string (unat n) @ ''-'' @ dec_string epoch \<and> name \<noteq> [] \<and> list_all is_lower name \<and>
        0 < unat n \<and> unat n < 2 ^ 63 \<and> 0 < epoch \<and> length (TrimSpace s) \<le> 48)"
proof
  assume "ParseChainID s = Inr n"
  then obtain name num epoch where p: "length (TrimSpace s) \<le> 48" "evmosChainID (TrimSpace s) = Some (name, num, epoch)" "Atoi num = Inr n"
    by (auto simp: ParseChainID_def Let_def split: if_splits option.splits)
  note parts = p(2) [unfolded evmosChainID_iff]
  from parts obtain e where e: "0 < e" "epoch = dec_string e" by (auto simp: numeral_text_iff)
  from p(3) have n: "n = of_nat (dec_value num)" "dec_value num < 2 ^ 63" by (auto simp: Atoi_def split: if_splits)
  then have "unat n = dec_value num" unfolding n(1) unat_of_nat using n(2) by simp
  moreover have "0 < dec_value num" "dec_string (dec_value num) = num" using numeral_text_dec_value [of num] parts by simp_all
  ultimately show "\<exists>name epoch. TrimSpace s = name @ ''_'' @ dec_string (unat n) @ ''-'' @ dec_string epoch \<and> name \<noteq> [] \<and>
      list_all is_lower name \<and> 0 < unat n \<and> unat n < 2 ^ 63 \<and> 0 < epoch \<and> length (TrimSpace s) \<le> 48"
    using parts p(1) e n(2) by (intro exI [of _ name] exI [of _ e]) simp
next
  assume "\<exists>name epoch. TrimSpace s = name @ ''_'' @ dec_string (unat n) @ ''-'' @ dec_string epoch \<and> name \<noteq> [] \<and>
      list_all is_lower name \<and> 0 < unat n \<and> unat n < 2 ^ 63 \<and> 0 < epoch \<and> length (TrimSpace s) \<le> 48"
  then obtain name epoch where f: "TrimSpace s = name @ ''_'' @ dec_string (unat n) @ ''-'' @ dec_string epoch" "name \<noteq> []"
    "list_all is_lower name" "0 < unat n" "unat n < 2 ^ 63" "0 < epoch" "length (TrimSpace s) \<le> 48" by blast
  have "evmosChainID (TrimSpace s) = Some (name, dec_string (unat n), dec_string epoch)"
    unfolding evmosChainID_iff using f by (simp add: numeral_text_dec_string)
  moreover have "Atoi (dec_string (unat n)) = Inr n" using f(5) by (simp add: Atoi_def dec_value_dec_string)
  ultimately show "ParseChainID s = Inr n" using f(7) by (simp add: ParseChainID_def Let_def)
qed

text \<open>Trimming leaves a text alone that neither starts nor ends with a white-space encoding.\<close>

lemma trim_left_id: "\<forall>e \<in> set encs. e \<noteq> [] \<longrightarrow> take (length e) s \<noteq> e \<Longrightarrow> trim_left encs s = s"
proof -
  assume "\<forall>e \<in> set encs. e \<noteq> [] \<longrightarrow> take (length e) s \<noteq> e"
  then have "filter (\<lambda>e. take (length e) s = e \<and> e \<noteq> []) encs = []" by (auto simp: filter_empty_conv)
  then have "strip_one encs s = None" by (simp add: strip_one_def)
  then show ?thesis by (subst trim_left.simps) simp
qed

definition printable :: "char \<Rightarrow> bool" where
  "printable c \<longleftrightarrow> 32 < (of_char c :: nat) \<and> (of_char c :: nat) < 128"

lemma space_bytes:
  "e \<in> set space_encodings \<Longrightarrow> e \<noteq> [] \<and> \<not> printable (hd e) \<and> \<not> printable (last e)"
proof -
  have "list_all (\<lambda>e. e \<noteq> [] \<and> \<not> printable (hd e) \<and> \<not> printable (last e)) space_encodings" by code_simp
  then show "e \<in> set space_encodings \<Longrightarrow> e \<noteq> [] \<and> \<not> printable (hd e) \<and> \<not> printable (last e)" by (auto simp: list_all_iff)
qed

lemma take_hd: "take (length e) s = e \<Longrightarrow> e \<noteq> [] \<Longrightarrow> hd e = hd s"
  by (metis hd_take length_greater_0_conv)

lemma TrimSpace_id:
  assumes "s \<noteq> []" and "printable (hd s)" and "printable (last s)"
  shows "TrimSpace s = s"
proof -
  have "trim_left space_encodings s = s"
  proof (rule trim_left_id, intro ballI impI)
    fix e
    assume "e \<in> set space_encodings" "e \<noteq> []"
    then show "take (length e) s \<noteq> e" using space_bytes [of e] take_hd [of e s] assms(2) by auto
  qed
  moreover have "trim_left (map rev space_encodings) (rev s) = rev s"
  proof (rule trim_left_id, intro ballI impI)
    fix e
    assume e: "e \<in> set (map rev space_encodings)" "e \<noteq> []"
    then obtain e' where "e' \<in> set space_encodings" "e = rev e'" by auto
    then have "\<not> printable (hd e)" using space_bytes [of e'] by (simp add: hd_rev)
    then show "take (length e) (rev s) \<noteq> e" using assms take_hd [OF _ e(2), of "rev s"] by (auto simp: hd_rev)
  qed
  ultimately show ?thesis by (simp add: TrimSpace_def)
qed

lemma is_lower_printable: "is_lower c \<Longrightarrow> printable c" and is_digit_printable: "is_digit c \<Longrightarrow> printable c"
  by (simp_all add: is_lower_def is_digit_def printable_def)

text \<open>So the text built from a name, an id and an epoch needs no trimming and gives the id back.\<close>

lemma ParseChainID_text:
  assumes "name \<noteq> []" and "list_all is_lower name" and "0 < unat n" and "unat n < 2 ^ 63" and "0 < epoch"
    and "length (name @ ''_'' @ dec_string (unat n) @ ''-'' @ dec_string epoch) \<le> 48"
  shows "ParseChainID (name @ ''_'' @ dec_string (unat n) @ ''-'' @ dec_string epoch) = Inr n"
proof -
  let ?s = "name @ ''_'' @ dec_string (unat n) @ ''-'' @ dec_string epoch"
  have e: "dec_string epoch \<noteq> []" by (subst dec_string.simps) simp
  have "printable (hd ?s)" using assms(1,2) is_lower_printable by (cases name) auto
  moreover have "printable (last ?s)" using dec_string_digits [of epoch] last_in_set [OF e] is_digit_printable e by auto
  ultimately have "TrimSpace ?s = ?s" by (intro TrimSpace_id) simp_all
  with assms show ?thesis unfolding ParseChainID_iff by (intro exI [of _ name] exI [of _ epoch]) simp
qed

text \<open>A node that reads a chain id from its genesis never falls back to the built-in default.\<close>

lemma init_chain_id_of_genesis:
  assumes "StatGenesis F = Inr ()" and "OpenGenesis F = Inr ()" and "ParseChainIDFromGenesis F = Inr chain" and "chain \<noteq> ''''"
    and "init_chain_id F = Inr n"
  shows "EVMChainIDMap chain = Some n \<or>
    EVMChainIDMap chain = None \<and> (EvmChainIDSetting F = Some n \<or> ParseChainID chain = Inr n)"
  using assms
  by (auto simp: init_chain_id_def genesis_part_def toml_part_def fatal_def split: sum.splits option.splits if_splits)

text \<open>The known chains have different EVM ids.\<close>

lemma EVMChainIDMap_inj: "inj_on EVMChainIDMap (dom EVMChainIDMap)"
  by (auto simp: EVMChainIDMap_def inj_on_def dom_def split: if_splits)

text \<open>Without both files the default is used.\<close>

lemma init_chain_id_default:
  assumes "GetNodeHomeDirectory F = Inr home" and "StatGenesis F = Inl e" and "StatAppToml F = Inl e'"
    and "IsNotExist F e" and "IsNotExist F e'"
  shows "init_chain_id F = Inr 58886"
  using assms by (simp add: init_chain_id_def genesis_part_def toml_part_def fatal_def DefaultEVMChainID_def)

text \<open>A chain id that is neither known nor of the parsed form stops the node unless \<open>app.toml\<close> sets an id.\<close>

lemma init_chain_id_panics:
  assumes "GetNodeHomeDirectory F = Inr home" and "StatGenesis F = Inr ()" and "OpenGenesis F = Inr ()"
    and "ParseChainIDFromGenesis F = Inr chain" and "chain \<noteq> ''''" and "EVMChainIDMap chain = None" and "EvmChainIDSetting F = None"
    and "ParseChainID chain = Inl e"
  shows "init_chain_id F = Inl GoPanic"
  using assms by (auto simp: init_chain_id_def genesis_part_def toml_part_def fatal_def res_map_err_def split: sum.splits)

text \<open>
  C22. The EVM chain id in the text of a chain id: parsing succeeds exactly for a lower-case name, the id and an epoch in the
  form name\_id-epoch, within 48 characters after trimming, both numbers positive and without leading zeros and
  the id below 2^63, and it returns that id.
\<close>

theorem ParseChainID_exact:
  "ParseChainID s = Inr n \<longleftrightarrow>
     (\<exists>name epoch. TrimSpace s = name @ ''_'' @ dec_string (unat n) @ ''-'' @ dec_string epoch \<and> name \<noteq> [] \<and> list_all is_lower name \<and>
        0 < unat n \<and> unat n < 2 ^ 63 \<and> 0 < epoch \<and> length (TrimSpace s) \<le> 48)"
  by (rule ParseChainID_iff)

end
