(* ===== verification/Cmd_Config.thy ===== *)
theory Cmd_Config
  imports App_Chain_Id
begin

text \<open>
  \<open>cmd/nvnmchaind/cmd/config.go\<close>: the configuration the command writes for a new node. The default
  configurations of the SDK, the EVM packages and CometBFT are library values and arguments.
\<close>

section \<open>CometBFT\<close>

text \<open>The fields that the code sets, and the rest (\<open>'r\<close>). A duration is in nanoseconds.\<close>

record 'r CometConfig =
  MaxNumInboundPeers :: int
  MaxNumOutboundPeers :: int
  TimeoutCommit :: int
  comet_Rest :: 'r

definition Second :: int where "Second = 1000000000"

definition initCometBFTConfig :: "'r CometConfig \<Rightarrow> 'r CometConfig" where
  "initCometBFTConfig DefaultConfig =
     DefaultConfig\<lparr>MaxNumInboundPeers := 100, MaxNumOutboundPeers := 40, TimeoutCommit := 2 * Second\<rparr>"

section \<open>The application\<close>

record 's ServerConfig =
  MinGasPrices :: string
  srv_Rest :: 's

record 'e EVMConfig =
  EVMChainID :: u64
  evm_Rest :: 'e

record ('s, 'e, 'j, 't, 'n) CustomAppConfig =
  cac_Config :: "'s ServerConfig"
  cac_EVM :: "'e EVMConfig"
  cac_JSONRPC :: 'j
  cac_TLS :: 't
  cac_AnchoringNameIndex :: 'n

text \<open>
  \<open>srvCfg\<close> is a pointer; \<open>Config: *srvCfg\<close> copies what it points to into the result before the last
  assignment changes it. The state of the function is that of the variable.
\<close>

definition initAppConfig ::
  "u64 \<Rightarrow> 's ServerConfig \<Rightarrow> 'e EVMConfig \<Rightarrow> 'j \<Rightarrow> 't \<Rightarrow> 'n \<Rightarrow> string \<Rightarrow> string \<Rightarrow> string \<Rightarrow>
     string \<times> ('s, 'e, 'j, 't, 'n) CustomAppConfig \<times> 's ServerConfig" where
  "initAppConfig appEVMChainID srvDefault evmDefault jsonrpc tls nameindex srvTemplate evmTemplate nameTemplate =
     (let srvCfg = srvDefault;
          evmConfig = evmDefault\<lparr>EVMChainID := appEVMChainID\<rparr>;
          customAppConfig = \<lparr>cac_Config = srvCfg, cac_EVM = evmConfig, cac_JSONRPC = jsonrpc, cac_TLS = tls, cac_AnchoringNameIndex = nameindex\<rparr>;
          srvCfg = srvCfg\<lparr>MinGasPrices := ''0anvnm''\<rparr>;
          customAppTemplate = srvTemplate @ evmTemplate @ nameTemplate
      in (customAppTemplate, customAppConfig, srvCfg))"

text \<open>The configuration that is returned has the minimum gas price of the SDK's default, not the one that is set.\<close>

lemma min_gas_price_not_set:
  "MinGasPrices (cac_Config (fst (snd (initAppConfig n srv evm j t nm a b c)))) = MinGasPrices srv"
  by (simp add: initAppConfig_def Let_def)

lemma initAppConfig_chain_id:
  "EVMChainID (cac_EVM (fst (snd (initAppConfig n srv evm j t nm a b c)))) = n"
  by (simp add: initAppConfig_def Let_def)

end
