(* ===== verification/Cmd_Genesis.thy ===== *)
theory Cmd_Genesis
  imports Anchoring_Types
begin

text \<open>
  \<open>cmd/nvnmchaind/cmd/genaccounts.go\<close>: the command that adds an account with its coins to a genesis
  file; and from \<open>testnet.go\<close> the genesis of a test network and the addresses of its nodes. The
  keyring, coins, account types, codecs and file formats of the SDK are library code.
\<close>

section \<open>Library functions the command calls\<close>

text \<open>
  \<open>'c\<close> is \<open>sdk.Coins\<close>, \<open>'b\<close> \<open>*BaseAccount\<close>, \<open>'v\<close> \<open>*BaseVestingAccount\<close>, \<open>'p\<close> the packed accounts of a genesis, \<open>'k\<close> a
  keyring, \<open>'r\<close> what else a genesis state holds, \<open>'d\<close> what else the genesis document holds and \<open>'f\<close> the content of
  a genesis file. A key
  found in a keyring is what \<open>GetAddress\<close> returns for it.
\<close>

datatype ('b, 'v) genesis_account = BaseAccount 'b | ContinuousVestingAccount 'v int | DelayedVestingAccount 'v

record 'c Balance =
  bal_Address :: string
  bal_Coins :: 'c

record ('p, 'r) AuthGenesis =
  ag_Accounts :: 'p
  ag_Rest :: 'r

record ('c, 'r) BankGenesis =
  bg_Balances :: "'c Balance list"
  bg_Supply :: 'c
  bg_Rest :: 'r

text \<open>The application state: the raw JSON (\<open>'j\<close>) of each module.\<close>

type_synonym 'j app_state = "(string, 'j) coll"

record ('c, 'b, 'v, 'p, 'k, 'r, 'd, 'j, 'f) genesis_lib =
  NewKeyring :: "string \<Rightarrow> 'k result"
  Key :: "'k \<Rightarrow> string \<Rightarrow> addr result result"
  ParseCoinsNormalized :: "string \<Rightarrow> 'c result"
  Coins_Sort :: "'c \<Rightarrow> 'c"
  Coins_IsZero' :: "'c \<Rightarrow> bool"
  IsAnyGT :: "'c \<Rightarrow> 'c \<Rightarrow> bool"
  Coins_Add :: "'c \<Rightarrow> 'c \<Rightarrow> 'c"
  NewBaseAccount :: "addr \<Rightarrow> 'b"
  NewBaseVestingAccount :: "'b \<Rightarrow> 'c \<Rightarrow> int \<Rightarrow> 'v result"
  OriginalVesting :: "'v \<Rightarrow> 'c"
  Account_Validate :: "('b, 'v) genesis_account \<Rightarrow> unit result"
  Account_Address :: "('b, 'v) genesis_account \<Rightarrow> addr"
  UnpackAccounts :: "'p \<Rightarrow> ('b, 'v) genesis_account list result"
  PackAccounts :: "('b, 'v) genesis_account list \<Rightarrow> 'p result"
  SanitizeGenesisAccounts :: "('b, 'v) genesis_account list \<Rightarrow> ('b, 'v) genesis_account list"
  SanitizeGenesisBalances :: "'c Balance list \<Rightarrow> 'c Balance list"
  AuthModuleName :: string
  BankModuleName :: string
  AuthFromAppState :: "'j app_state \<Rightarrow> ('p, 'r) AuthGenesis"
  BankFromAppState :: "'j app_state \<Rightarrow> ('c, 'r) BankGenesis"
  MarshalAuth :: "('p, 'r) AuthGenesis \<Rightarrow> 'j result"
  MarshalBank :: "('c, 'r) BankGenesis \<Rightarrow> 'j result"
  MarshalAppState :: "'j app_state \<Rightarrow> 'f result"
  ReadGenFile :: "'f \<Rightarrow> ('j app_state \<times> 'd) result"
  WriteGenFile :: "'d \<Rightarrow> 'f \<Rightarrow> 'f result"

text \<open>The flags and arguments of a call, the keyring of the client context, and the content of the genesis file.\<close>

record 'k add_account_args =
  arg_Account :: string
  arg_Coins :: string
  flag_KeyringBackend :: "string result"
  client_Keyring :: "'k option"
  flag_VestingStart :: "int result"
  flag_VestingEnd :: "int result"
  flag_VestingAmt :: "string result"

section \<open>Adding an account\<close>

text \<open>The address, given as such or as the name of a key; a missing keyring is a nil dereference.\<close>

definition account_address ::
  "('c, 'b, 'v, 'p, 'k, 'r, 'd, 'j, 'f) genesis_lib \<Rightarrow> env \<Rightarrow> 'k add_account_args \<Rightarrow> addr result" where
  "account_address G E args =
     (case AccAddressFromBech32 E (arg_Account args) of
        Inr addr \<Rightarrow> Inr addr
      | Inl _ \<Rightarrow>
          res_bind (flag_KeyringBackend args) (\<lambda>backend.
          res_bind (if backend \<noteq> '''' \<and> client_Keyring args = None then res_bind (NewKeyring G backend) (\<lambda>kr. Inr (Some kr))
                    else Inr (client_Keyring args)) (\<lambda>kr.
          case kr of None \<Rightarrow> Inl GoPanic
          | Some kr \<Rightarrow>
              res_bind (res_map_err (ErrWrap ''failed to get address from Keyring'') (Key G kr (arg_Account args))) (\<lambda>k.
              res_map_err (ErrWrap ''failed to GetAddress() from Keyring'') k))))"

definition genesis_account_of ::
  "('c, 'b, 'v, 'p, 'k, 'r, 'd, 'j, 'f) genesis_lib \<Rightarrow> addr \<Rightarrow> 'c \<Rightarrow> 'c \<Rightarrow> int \<Rightarrow> int \<Rightarrow> ('b, 'v) genesis_account result" where
  "genesis_account_of G addr balance vestingAmt vestingStart vestingEnd =
     (let baseAccount = NewBaseAccount G addr in
      if \<not> Coins_IsZero' G vestingAmt then
        res_bind (NewBaseVestingAccount G baseAccount (Coins_Sort G vestingAmt) vestingEnd) (\<lambda>v.
        res_bind (res_guard (\<not> ((Coins_IsZero' G balance \<and> \<not> Coins_IsZero' G (OriginalVesting G v)) \<or> IsAnyGT G (OriginalVesting G v) balance))
          (ErrMsg ''vesting amount cannot be greater than total amount'')) (\<lambda>_.
        if vestingStart \<noteq> 0 \<and> vestingEnd \<noteq> 0 then Inr (ContinuousVestingAccount v vestingStart)
        else if vestingEnd \<noteq> 0 then Inr (DelayedVestingAccount v)
        else Inl (ErrMsg ''invalid vesting parameters; must supply start and end time or end time'')))
      else Inr (BaseAccount baseAccount))"

definition add_auth_account ::
  "('c, 'b, 'v, 'p, 'k, 'r, 'd, 'j, 'f) genesis_lib \<Rightarrow> env \<Rightarrow> addr \<Rightarrow> ('b, 'v) genesis_account \<Rightarrow> 'j app_state \<Rightarrow> 'j app_state result" where
  "add_auth_account G E addr genAccount appState =
     (let authGenState = AuthFromAppState G appState in
      res_bind (res_map_err (ErrWrap ''failed to get accounts from any'') (UnpackAccounts G (ag_Accounts authGenState))) (\<lambda>accs.
      res_bind (res_guard (addr \<notin> Account_Address G ` set accs) (ErrMsg (''cannot add account at existing address '' @ AccString E addr))) (\<lambda>_.
      res_bind (res_map_err (ErrWrap ''failed to convert accounts into any's'') (PackAccounts G (SanitizeGenesisAccounts G (accs @ [genAccount])))) (\<lambda>genAccs.
      res_bind (res_map_err (ErrWrap ''failed to marshal auth genesis state'') (MarshalAuth G (authGenState\<lparr>ag_Accounts := genAccs\<rparr>))) (\<lambda>bz.
      Inr (cset (AuthModuleName G) bz appState))))))"

definition add_bank_balance ::
  "('c, 'b, 'v, 'p, 'k, 'r, 'd, 'j, 'f) genesis_lib \<Rightarrow> 'c Balance \<Rightarrow> 'j app_state \<Rightarrow> 'j app_state result" where
  "add_bank_balance G balances appState =
     (let bankGenState = BankFromAppState G appState;
          bankGenState = bankGenState\<lparr>bg_Balances := SanitizeGenesisBalances G (bg_Balances bankGenState @ [balances])\<rparr>;
          bankGenState = bankGenState\<lparr>bg_Supply := Coins_Add G (bg_Supply bankGenState) (bal_Coins balances)\<rparr>
      in res_bind (res_map_err (ErrWrap ''failed to marshal bank genesis state'') (MarshalBank G bankGenState)) (\<lambda>bz.
         Inr (cset (BankModuleName G) bz appState)))"

text \<open>The command: the new content of the genesis file.\<close>

definition AddGenesisAccountCmd ::
  "('c, 'b, 'v, 'p, 'k, 'r, 'd, 'j, 'f) genesis_lib \<Rightarrow> env \<Rightarrow> 'k add_account_args \<Rightarrow> 'f \<Rightarrow> 'f result" where
  "AddGenesisAccountCmd G E args genFile =
     res_bind (account_address G E args) (\<lambda>addr.
     res_bind (res_map_err (ErrWrap ''failed to parse coins'') (ParseCoinsNormalized G (arg_Coins args))) (\<lambda>coins.
     res_bind (flag_VestingStart args) (\<lambda>vestingStart.
     res_bind (flag_VestingEnd args) (\<lambda>vestingEnd.
     res_bind (flag_VestingAmt args) (\<lambda>vestingAmtStr.
     res_bind (res_map_err (ErrWrap ''failed to parse vesting amount'') (ParseCoinsNormalized G vestingAmtStr)) (\<lambda>vestingAmt.
     let balances = \<lparr>bal_Address = AccString E addr, bal_Coins = Coins_Sort G coins\<rparr> in
     res_bind (genesis_account_of G addr (bal_Coins balances) vestingAmt vestingStart vestingEnd) (\<lambda>genAccount.
     res_bind (res_map_err (ErrWrap ''failed to validate new genesis account'') (Account_Validate G genAccount)) (\<lambda>_.
     res_bind (res_map_err (ErrWrap ''failed to unmarshal genesis state'') (ReadGenFile G genFile)) (\<lambda>(appState, genDoc).
     res_bind (add_auth_account G E addr genAccount appState) (\<lambda>appState.
     res_bind (add_bank_balance G balances appState) (\<lambda>appState.
     res_bind (res_map_err (ErrWrap ''failed to marshal application genesis state'') (MarshalAppState G appState)) (\<lambda>json.
     WriteGenFile G genDoc json))))))))))))"

section \<open>The genesis of a test network\<close>

text \<open>\<open>initGenFiles\<close> of \<open>testnet.go\<close>, up to the state that is written to each file.\<close>

definition add_supplies :: "('c, 'b, 'v, 'p, 'k, 'r, 'd, 'j, 'f) genesis_lib \<Rightarrow> 'c Balance list \<Rightarrow> 'c \<Rightarrow> 'c" where
  "add_supplies G bals supply = fold (\<lambda>bal s. Coins_Add G s (bal_Coins bal)) bals supply"

definition initGenFiles ::
  "('c, 'b, 'v, 'p, 'k, 'r, 'd, 'j, 'f) genesis_lib \<Rightarrow> 'j app_state \<Rightarrow> ('b, 'v) genesis_account list \<Rightarrow> 'c Balance list \<Rightarrow> 'j app_state result" where
  "initGenFiles G appGenState genAccounts genBalances =
     (let authGenState = AuthFromAppState G appGenState in
      res_bind (PackAccounts G genAccounts) (\<lambda>accounts.
      res_bind (res_map_err (\<lambda>_. GoPanic) (MarshalAuth G (authGenState\<lparr>ag_Accounts := accounts\<rparr>))) (\<lambda>bz.
      let appGenState = cset (AuthModuleName G) bz appGenState;
          bankGenState = BankFromAppState G appGenState;
          bals = SanitizeGenesisBalances G genBalances;
          bankGenState = bankGenState\<lparr>bg_Balances := bals, bg_Supply := add_supplies G bals (bg_Supply bankGenState)\<rparr>
      in res_bind (res_map_err (\<lambda>_. GoPanic) (MarshalBank G bankGenState)) (\<lambda>bz.
         Inr (cset (BankModuleName G) bz appGenState)))))"

text \<open>\<open>calculateIP\<close>: the last byte is incremented and wraps.\<close>

definition calculateIP :: "bytes option \<Rightarrow> nat \<Rightarrow> bytes result" where
  "calculateIP ipv4 i =
     (case ipv4 of None \<Rightarrow> Inl (ErrMsg ''non ipv4 address'')
      | Some ip \<Rightarrow> Inr (((\<lambda>ip. ip[3 := ip ! 3 + 1]) ^^ i) ip))"

end
