(* ===== verification/Cmd_Properties.thy ===== *)
theory Cmd_Properties
  imports Cmd_Genesis Sample_State "HOL-Library.Multiset"
begin

text \<open>
  What the command that adds a genesis account keeps: the supply is the sum of the balances, and no
  two accounts have one address.
\<close>

section \<open>Documented behaviour of the libraries\<close>

text \<open>
  Coins stand for an amount of each denomination; sorting them changes no amount. Sanitising sorts balances
  and accounts. A module's state is read back from the JSON it was written to, also after another module's
  JSON was written, and a genesis file gives back what was written to it. An account has the address it
  was built with.
\<close>

definition coin_laws' :: "('c, 'b, 'v, 'p, 'k, 'r, 'd, 'j, 'f) genesis_lib \<Rightarrow> ('c \<Rightarrow> string \<Rightarrow> int) \<Rightarrow> bool" where
  "coin_laws' G amount \<longleftrightarrow>
     (\<forall>c d x. amount (Coins_Add G c d) x = amount c x + amount d x) \<and> (\<forall>c x. amount (Coins_Sort G c) x = amount c x) \<and>
     (\<forall>bals. mset (map bal_Address (SanitizeGenesisBalances G bals)) = mset (map bal_Address bals)) \<and>
     (\<forall>bals x. mset (map (\<lambda>b. amount (bal_Coins b) x) (SanitizeGenesisBalances G bals)) = mset (map (\<lambda>b. amount (bal_Coins b) x) bals))"

definition json_laws :: "('c, 'b, 'v, 'p, 'k, 'r, 'd, 'j, 'f) genesis_lib \<Rightarrow> bool" where
  "json_laws G \<longleftrightarrow>
     (\<forall>g j st. MarshalAuth G g = Inr j \<longrightarrow> AuthFromAppState G (cset (AuthModuleName G) j st) = g) \<and>
     (\<forall>g j st. MarshalBank G g = Inr j \<longrightarrow> BankFromAppState G (cset (BankModuleName G) j st) = g) \<and>
     (\<forall>j st. BankFromAppState G (cset (AuthModuleName G) j st) = BankFromAppState G st) \<and>
     (\<forall>j st. AuthFromAppState G (cset (BankModuleName G) j st) = AuthFromAppState G st) \<and>
     (\<forall>st json doc f. MarshalAppState G st = Inr json \<longrightarrow> WriteGenFile G doc json = Inr f \<longrightarrow> ReadGenFile G f = Inr (st, doc))"

definition account_laws :: "('c, 'b, 'v, 'p, 'k, 'r, 'd, 'j, 'f) genesis_lib \<Rightarrow> bool" where
  "account_laws G \<longleftrightarrow>
     (\<forall>accs p. PackAccounts G accs = Inr p \<longrightarrow> UnpackAccounts G p = Inr accs) \<and>
     (\<forall>accs. mset (map (Account_Address G) (SanitizeGenesisAccounts G accs)) = mset (map (Account_Address G) accs)) \<and>
     (\<forall>addr. Account_Address G (BaseAccount (NewBaseAccount G addr)) = addr) \<and>
     (\<forall>addr c t v s. NewBaseVestingAccount G (NewBaseAccount G addr) c t = Inr v \<longrightarrow>
        Account_Address G (ContinuousVestingAccount v s) = addr \<and> Account_Address G (DelayedVestingAccount v) = addr)"

section \<open>Consistent genesis states\<close>

definition balance_sum :: "('c \<Rightarrow> string \<Rightarrow> int) \<Rightarrow> 'c Balance list \<Rightarrow> string \<Rightarrow> int" where
  "balance_sum amount bals x = sum_list (map (\<lambda>b. amount (bal_Coins b) x) bals)"

definition genesis_ok :: "('c, 'b, 'v, 'p, 'k, 'r, 'd, 'j, 'f) genesis_lib \<Rightarrow> ('c \<Rightarrow> string \<Rightarrow> int) \<Rightarrow> 'j app_state \<Rightarrow> bool" where
  "genesis_ok G amount st \<longleftrightarrow>
     (\<forall>x. amount (bg_Supply (BankFromAppState G st)) x = balance_sum amount (bg_Balances (BankFromAppState G st)) x) \<and>
     (\<exists>accs. UnpackAccounts G (ag_Accounts (AuthFromAppState G st)) = Inr accs \<and> distinct (map (Account_Address G) accs))"

lemma sanitized_sum:
  assumes "coin_laws' G amount"
  shows "balance_sum amount (SanitizeGenesisBalances G bals) x = balance_sum amount bals x"
proof -
  have "mset (map (\<lambda>b. amount (bal_Coins b) x) (SanitizeGenesisBalances G bals)) = mset (map (\<lambda>b. amount (bal_Coins b) x) bals)"
    using assms by (simp add: coin_laws'_def)
  then show ?thesis unfolding balance_sum_def by (metis sum_mset_sum_list)
qed

lemma genesis_account_address:
  assumes "account_laws G" and "genesis_account_of G addr bal vest s t = Inr acc"
  shows "Account_Address G acc = addr"
  using assms by (auto simp: genesis_account_of_def account_laws_def Let_def res_bind_Inr_iff split: if_splits)

text \<open>The vesting amount of a new account is covered by its balance.\<close>

lemma vesting_covered:
  assumes "genesis_account_of G addr bal vest s t = Inr acc" and "\<not> Coins_IsZero' G vest"
  shows "\<exists>v. (acc = DelayedVestingAccount v \<or> acc = ContinuousVestingAccount v s) \<and> \<not> IsAnyGT G (OriginalVesting G v) bal \<and> t \<noteq> 0"
  using assms by (auto simp: genesis_account_of_def Let_def res_bind_Inr_iff split: if_splits)

lemma add_auth_account_ok:
  assumes laws: "json_laws G" "account_laws G" and run: "add_auth_account G E addr acc st = Inr st'"
    and acc: "Account_Address G acc = addr"
    and old: "UnpackAccounts G (ag_Accounts (AuthFromAppState G st)) = Inr accs" "distinct (map (Account_Address G) accs)"
  shows "BankFromAppState G st' = BankFromAppState G st"
    and "\<exists>accs'. UnpackAccounts G (ag_Accounts (AuthFromAppState G st')) = Inr accs' \<and> distinct (map (Account_Address G) accs') \<and>
       set (map (Account_Address G) accs') = insert addr (set (map (Account_Address G) accs)) \<and> addr \<notin> set (map (Account_Address G) accs)"
proof -
  let ?accs = "SanitizeGenesisAccounts G (accs @ [acc])"
  from run old(1) obtain p j where new: "addr \<notin> Account_Address G ` set accs" and p: "PackAccounts G ?accs = Inr p"
    and j: "MarshalAuth G ((AuthFromAppState G st)\<lparr>ag_Accounts := p\<rparr>) = Inr j" and st': "st' = cset (AuthModuleName G) j st"
    by (auto simp: add_auth_account_def Let_def res_bind_Inr_iff)
  show "BankFromAppState G st' = BankFromAppState G st" using laws(1) by (simp add: st' json_laws_def)
  have "AuthFromAppState G st' = (AuthFromAppState G st)\<lparr>ag_Accounts := p\<rparr>" using laws(1) j by (simp add: st' json_laws_def)
  moreover have "UnpackAccounts G p = Inr ?accs" using laws(2) p by (simp add: account_laws_def)
  moreover have m: "mset (map (Account_Address G) ?accs) = mset (map (Account_Address G) (accs @ [acc]))"
    using laws(2) by (simp add: account_laws_def del: map_append)
  moreover have "distinct (map (Account_Address G) (accs @ [acc]))" using old(2) new acc by simp
  ultimately have "UnpackAccounts G (ag_Accounts (AuthFromAppState G st')) = Inr ?accs" "distinct (map (Account_Address G) ?accs)"
    by (simp_all add: mset_eq_imp_distinct_iff [OF m] del: map_append)
  moreover have "set (map (Account_Address G) ?accs) = insert addr (set (map (Account_Address G) accs))"
    using mset_eq_setD [OF m] acc by simp
  ultimately show "\<exists>accs'. UnpackAccounts G (ag_Accounts (AuthFromAppState G st')) = Inr accs' \<and> distinct (map (Account_Address G) accs') \<and>
       set (map (Account_Address G) accs') = insert addr (set (map (Account_Address G) accs)) \<and> addr \<notin> set (map (Account_Address G) accs)"
    using new by (intro exI [of _ ?accs]) simp
qed

lemma add_bank_balance_ok:
  assumes laws: "json_laws G" "coin_laws' G amount" and run: "add_bank_balance G b st = Inr st'"
  shows "AuthFromAppState G st' = AuthFromAppState G st"
    and "amount (bg_Supply (BankFromAppState G st')) x = amount (bg_Supply (BankFromAppState G st)) x + amount (bal_Coins b) x"
    and "balance_sum amount (bg_Balances (BankFromAppState G st')) x =
      balance_sum amount (bg_Balances (BankFromAppState G st)) x + amount (bal_Coins b) x"
    and "bal_Address b \<in> bal_Address ` set (bg_Balances (BankFromAppState G st'))"
proof -
  let ?g = "BankFromAppState G st"
  let ?bals = "SanitizeGenesisBalances G (bg_Balances ?g @ [b])"
  let ?g' = "?g\<lparr>bg_Balances := ?bals, bg_Supply := Coins_Add G (bg_Supply ?g) (bal_Coins b)\<rparr>"
  from run obtain j where j: "MarshalBank G ?g' = Inr j" and st': "st' = cset (BankModuleName G) j st"
    by (auto simp: add_bank_balance_def Let_def res_bind_Inr_iff)
  have g': "BankFromAppState G st' = ?g'" using laws(1) j by (simp add: st' json_laws_def)
  show "AuthFromAppState G st' = AuthFromAppState G st" using laws(1) by (simp add: st' json_laws_def)
  show "amount (bg_Supply (BankFromAppState G st')) x = amount (bg_Supply ?g) x + amount (bal_Coins b) x"
    using laws(2) by (simp add: g' coin_laws'_def)
  show "balance_sum amount (bg_Balances (BankFromAppState G st')) x = balance_sum amount (bg_Balances ?g) x + amount (bal_Coins b) x"
    using sanitized_sum [OF laws(2), of "bg_Balances ?g @ [b]" x] by (simp add: g' balance_sum_def)
  have "mset (map bal_Address ?bals) = mset (map bal_Address (bg_Balances ?g @ [b]))"
    using laws(2) by (simp add: coin_laws'_def del: map_append)
  from mset_eq_setD [OF this] have "bal_Address ` set ?bals = insert (bal_Address b) (bal_Address ` set (bg_Balances ?g))" by simp
  then show "bal_Address b \<in> bal_Address ` set (bg_Balances (BankFromAppState G st'))" by (simp add: g')
qed

lemma AddGenesisAccountCmd_ok:
  assumes laws: "json_laws G" "coin_laws' G amount" "account_laws G"
    and gen: "ReadGenFile G f = Inr (st, doc)" and ok: "genesis_ok G amount st"
    and run: "AddGenesisAccountCmd G E args f = Inr f'"
  shows "\<exists>st' addr coins. ReadGenFile G f' = Inr (st', doc) \<and> genesis_ok G amount st' \<and>
    account_address G E args = Inr addr \<and> ParseCoinsNormalized G (arg_Coins args) = Inr coins \<and>
    (\<forall>x. amount (bg_Supply (BankFromAppState G st')) x = amount (bg_Supply (BankFromAppState G st)) x + amount coins x) \<and>
    AccString E addr \<in> bal_Address ` set (bg_Balances (BankFromAppState G st'))"
proof -
  from run gen obtain addr coins vest s t acc st1 st2 json where
    addr: "account_address G E args = Inr addr" and coins: "ParseCoinsNormalized G (arg_Coins args) = Inr coins" and
    acc: "genesis_account_of G addr (Coins_Sort G coins) vest s t = Inr acc" and
    auth: "add_auth_account G E addr acc st = Inr st1" and
    bank: "add_bank_balance G \<lparr>bal_Address = AccString E addr, bal_Coins = Coins_Sort G coins\<rparr> st1 = Inr st2" and
    json: "MarshalAppState G st2 = Inr json" "WriteGenFile G doc json = Inr f'"
    by (auto simp: AddGenesisAccountCmd_def res_bind_Inr_iff Let_def)
  from ok obtain accs where accs: "UnpackAccounts G (ag_Accounts (AuthFromAppState G st)) = Inr accs" "distinct (map (Account_Address G) accs)"
    and sum: "\<And>x. amount (bg_Supply (BankFromAppState G st)) x = balance_sum amount (bg_Balances (BankFromAppState G st)) x"
    by (auto simp: genesis_ok_def)
  note a = add_auth_account_ok [OF laws(1,3) auth genesis_account_address [OF laws(3) acc] accs]
  note b = add_bank_balance_ok [OF laws(1,2) bank]
  have sorted: "amount (Coins_Sort G coins) x = amount coins x" for x using laws(2) by (simp add: coin_laws'_def)
  have "genesis_ok G amount st2"
    using a(2) b(1-3) sum by (auto simp: genesis_ok_def a(1))
  moreover have "ReadGenFile G f' = Inr (st2, doc)" using laws(1) json by (auto simp: json_laws_def)
  ultimately show ?thesis using addr coins b(2,4) by (auto simp: a(1) sorted)
qed

text \<open>The genesis of a test network is consistent as well, when its module genesis starts without balances and supply.\<close>

lemma add_supplies_amount:
  "coin_laws' G amount \<Longrightarrow> amount (add_supplies G bals s) x = amount s x + balance_sum amount bals x"
  unfolding add_supplies_def balance_sum_def by (induction bals arbitrary: s) (simp_all add: coin_laws'_def)

lemma initGenFiles_ok:
  assumes laws: "json_laws G" "coin_laws' G amount" "account_laws G" and run: "initGenFiles G st accs bals = Inr st'"
    and "\<forall>x. amount (bg_Supply (BankFromAppState G st)) x = 0" and "distinct (map (Account_Address G) accs)"
  shows "genesis_ok G amount st'"
proof -
  let ?bals = "SanitizeGenesisBalances G bals"
  from run obtain p ja jb where p: "PackAccounts G accs = Inr p"
    and ja: "MarshalAuth G ((AuthFromAppState G st)\<lparr>ag_Accounts := p\<rparr>) = Inr ja"
    and jb: "MarshalBank G ((BankFromAppState G (cset (AuthModuleName G) ja st))\<lparr>bg_Balances := ?bals,
        bg_Supply := add_supplies G ?bals (bg_Supply (BankFromAppState G (cset (AuthModuleName G) ja st)))\<rparr>) = Inr jb"
    and st': "st' = cset (BankModuleName G) jb (cset (AuthModuleName G) ja st)"
    by (auto simp: initGenFiles_def Let_def res_bind_Inr_iff)
  have bank: "BankFromAppState G st' = (BankFromAppState G st)\<lparr>bg_Balances := ?bals, bg_Supply := add_supplies G ?bals (bg_Supply (BankFromAppState G st))\<rparr>"
    using laws(1) jb by (simp add: st' json_laws_def)
  have auth: "AuthFromAppState G st' = (AuthFromAppState G st)\<lparr>ag_Accounts := p\<rparr>" using laws(1) ja by (simp add: st' json_laws_def)
  have "UnpackAccounts G p = Inr accs" using laws(3) p by (simp add: account_laws_def)
  with assms(5,6) show ?thesis by (simp add: genesis_ok_def bank auth add_supplies_amount [OF laws(2)])
qed

text \<open>The addresses of up to 256 nodes differ; the next one is that of the first again.\<close>

lemma ip_steps: "length ip = 4 \<Longrightarrow> ((\<lambda>ip. ip[3 := ip ! 3 + 1]) ^^ i) ip = ip[3 := ip ! 3 + of_nat i]"
  by (induction i) (simp_all add: ac_simps)

lemma calculateIP_distinct:
  assumes "length ip = 4" and "i < 256" and "j < 256" and "calculateIP (Some ip) i = calculateIP (Some ip) j"
  shows "i = j"
proof -
  have "(ip[3 := ip ! 3 + of_nat i]) ! 3 = (ip[3 := ip ! 3 + of_nat j]) ! 3"
    using assms by (simp add: calculateIP_def ip_steps)
  then have "(of_nat i :: byte) = of_nat j" using assms(1) by simp
  then have "unat (of_nat i :: byte) = unat (of_nat j :: byte)" by simp
  then show ?thesis unfolding unat_of_nat using assms(2,3) by simp
qed

lemma calculateIP_wraps:
  assumes "length ip = 4"
  shows "calculateIP (Some ip) 256 = calculateIP (Some ip) 0"
proof -
  have "(256 :: byte) = 0" by transfer simp
  then have "(of_nat 256 :: byte) = 0" by simp
  then show ?thesis using assms by (simp add: calculateIP_def ip_steps del: of_nat_numeral)
qed

section \<open>A concrete genesis file\<close>

text \<open>Coins of one denomination, as a number; the JSON of a module is its state, and a file holds the state as it is.\<close>

datatype sample_json =
    JAuth "(addr, addr \<times> nat) genesis_account list"
  | JBank "nat Balance list" nat

definition sample_amount :: "nat \<Rightarrow> string \<Rightarrow> int" where
  "sample_amount c x = (if x = ''anvnm'' then int c else 0)"

fun sample_account_address :: "(addr, addr \<times> nat) genesis_account \<Rightarrow> addr" where
  "sample_account_address (BaseAccount b) = b"
| "sample_account_address (ContinuousVestingAccount v _) = fst v"
| "sample_account_address (DelayedVestingAccount v) = fst v"

definition sample_auth :: "sample_json app_state \<Rightarrow> ((addr, addr \<times> nat) genesis_account list, unit) AuthGenesis" where
  "sample_auth st = \<lparr>ag_Accounts = (case cget st ''auth'' of Some (JAuth accs) \<Rightarrow> accs | _ \<Rightarrow> []), ag_Rest = ()\<rparr>"

definition sample_bank :: "sample_json app_state \<Rightarrow> (nat, unit) BankGenesis" where
  "sample_bank st = (case cget st ''bank'' of
       Some (JBank bals supply) \<Rightarrow> \<lparr>bg_Balances = bals, bg_Supply = supply, bg_Rest = ()\<rparr>
     | _ \<Rightarrow> \<lparr>bg_Balances = [], bg_Supply = 0, bg_Rest = ()\<rparr>)"

definition sample_genesis_lib ::
  "(nat, addr, addr \<times> nat, (addr, addr \<times> nat) genesis_account list, unit, unit, unit, sample_json, sample_json app_state) genesis_lib" where
  "sample_genesis_lib =
     \<lparr>NewKeyring = (\<lambda>_. Inr ()), Key = (\<lambda>_ _. Inl (ErrMsg ''no key'')),
      ParseCoinsNormalized = (\<lambda>s. Inr (length s)), Coins_Sort = (\<lambda>c. c), Coins_IsZero' = (\<lambda>c. c = 0), IsAnyGT = (\<lambda>c d. d < c),
      Coins_Add = (+), NewBaseAccount = (\<lambda>a. a), NewBaseVestingAccount = (\<lambda>b c _. Inr (b, c)), OriginalVesting = snd,
      Account_Validate = (\<lambda>_. Inr ()), Account_Address = sample_account_address, UnpackAccounts = Inr, PackAccounts = Inr,
      SanitizeGenesisAccounts = (\<lambda>accs. accs), SanitizeGenesisBalances = (\<lambda>bals. bals),
      AuthModuleName = ''auth'', BankModuleName = ''bank'', AuthFromAppState = sample_auth, BankFromAppState = sample_bank,
      MarshalAuth = (\<lambda>g. Inr (JAuth (ag_Accounts g))), MarshalBank = (\<lambda>g. Inr (JBank (bg_Balances g) (bg_Supply g))),
      MarshalAppState = Inr, ReadGenFile = (\<lambda>f. Inr (f, ())), WriteGenFile = (\<lambda>_ f. Inr f)\<rparr>"

lemma sample_genesis_laws:
  "json_laws sample_genesis_lib" "coin_laws' sample_genesis_lib sample_amount" "account_laws sample_genesis_lib"
  by (auto simp: json_laws_def coin_laws'_def account_laws_def sample_genesis_lib_def sample_auth_def sample_bank_def sample_amount_def)

definition sample_args :: "unit add_account_args" where
  "sample_args = \<lparr>arg_Account = ''ann'', arg_Coins = ''12345'', flag_KeyringBackend = Inr ''test'', client_Keyring = None,
     flag_VestingStart = Inr 0, flag_VestingEnd = Inr 77, flag_VestingAmt = Inr ''123''\<rparr>"

definition sample_genesis_file :: "sample_json app_state" where
  "sample_genesis_file = cset ''auth'' (JAuth [BaseAccount [2]]) (cset ''bank'' (JBank [\<lparr>bal_Address = ''bob'', bal_Coins = 4\<rparr>] 4) cempty)"

definition sample_new_file :: "sample_json app_state" where
  "sample_new_file = cset ''bank'' (JBank [\<lparr>bal_Address = ''bob'', bal_Coins = 4\<rparr>, \<lparr>bal_Address = ''ann'', bal_Coins = 5\<rparr>] 9)
     (cset ''auth'' (JAuth [BaseAccount [2], DelayedVestingAccount ([1], 3)]) sample_genesis_file)"

lemma sample_genesis_run: "AddGenesisAccountCmd sample_genesis_lib sample_env sample_args sample_genesis_file = Inr sample_new_file"
proof -
  have ann: "AccAddressFromBech32 sample_env ''ann'' = Inr [1]" "AccString sample_env [1] = ''ann''" by code_simp+
  show ?thesis
    by (simp add: AddGenesisAccountCmd_def account_address_def ann sample_args_def sample_genesis_lib_def genesis_account_of_def
        add_auth_account_def add_bank_balance_def sample_auth_def sample_bank_def sample_genesis_file_def sample_new_file_def
        res_bind_def res_map_err_def res_guard_def Let_def eval_nat_numeral)
qed

lemma sample_genesis_ok: "genesis_ok sample_genesis_lib sample_amount sample_genesis_file"
  by (simp add: genesis_ok_def balance_sum_def sample_genesis_lib_def sample_bank_def sample_auth_def sample_genesis_file_def)

section \<open>The property\<close>

text \<open>
  C21. Adding an account keeps a genesis file consistent: if no two accounts of the file share an address and
  the supply of every denomination is the sum of the balances, then the file the command writes is read
  back to a state with the same properties, in which the supply has grown by the coins given and the
  address given, by itself or through the keyring, has a balance.
\<close>

theorem AddGenesisAccountCmd_keeps_genesis:
  assumes "json_laws G" and "coin_laws' G amount" and "account_laws G"
    and "ReadGenFile G f = Inr (st, doc)" and "genesis_ok G amount st"
    and "AddGenesisAccountCmd G E args f = Inr f'"
  shows "\<exists>st' addr coins. ReadGenFile G f' = Inr (st', doc) \<and> genesis_ok G amount st' \<and>
    account_address G E args = Inr addr \<and> ParseCoinsNormalized G (arg_Coins args) = Inr coins \<and>
    (\<forall>x. amount (bg_Supply (BankFromAppState G st')) x = amount (bg_Supply (BankFromAppState G st)) x + amount coins x) \<and>
    AccString E addr \<in> bal_Address ` set (bg_Balances (BankFromAppState G st'))"
  by (rule AddGenesisAccountCmd_ok [OF assms])

theorem AddGenesisAccountCmd_keeps_genesis_witness:
  "AddGenesisAccountCmd sample_genesis_lib sample_env sample_args sample_genesis_file = Inr sample_new_file \<and>
   genesis_ok sample_genesis_lib sample_amount sample_new_file"
proof -
  have read: "ReadGenFile sample_genesis_lib f = Inr (f, ())" for f by (simp add: sample_genesis_lib_def)
  from AddGenesisAccountCmd_keeps_genesis [OF sample_genesis_laws read sample_genesis_ok sample_genesis_run]
  show ?thesis by (simp add: read sample_genesis_run)
qed

end
