(* ===== verification/Spec2Isabelle.thy ===== *)
theory Spec2Isabelle
  imports Anchoring_Properties Genesis_Properties Abi_Properties Query_Properties Precompile_Properties Evm_Properties
    Migration_V2 Tax_Properties App_Properties Cmd_Config Cmd_Properties
begin

text \<open>
  A verification development for the NVNM chain (\<open>src/\<close>), a Cosmos SDK application in Go.

  \<^bold>\<open>The program.\<close> The anchoring module (\<open>x/anchoring\<close>) keeps registries of document records.
  A record is identified by its checksum in its registry and has versions, the newest of
  which is marked latest. Who may write is decided by roles (\<open>x/anchoring/rbac\<close>): each
  registry has an admin role, and editor and admin roles exist per registry and per
  checksum. A module admin, kept in the parameters, can add registry admins.

  \<^bold>\<open>The theories.\<close>
  \<^item> \<open>Nvnm_Prelude\<close>: integers and bytes, errors, results and actions, the \<open>fmt\<close> verbs.
  \<^item> \<open>Kv_Store\<close>: \<open>collections.Map\<close> as sorted association lists behind the locale \<open>kv_collection\<close>.
  \<^item> \<open>Tx_Run\<close>: what the transaction runner commits, and invariants and preorders over
    sequences of transactions (locales \<open>tx_invariant\<close> and \<open>tx_preorder\<close>).
  \<^item> \<open>Anchoring_Types\<close>: \<open>x/anchoring/types\<close>, the data, the field checks and \<open>ValidateBasic\<close>.
    The record \<open>env\<close> holds the library functions the module calls.
  \<^item> \<open>Rbac\<close>: \<open>x/anchoring/rbac\<close>, with the contract of the role keeper as locale \<open>access_control\<close>.
  \<^item> \<open>Anchoring_Keeper\<close>: \<open>keeper/keeper.go\<close> and \<open>keeper/anchoring.go\<close>. The record \<open>keeper\<close> has
    one field per collection of the Go struct; a handler is an action on it.
  \<^item> \<open>Keeper_Invariant\<close>: the invariants of the collections and their preservation.
  \<^item> \<open>Anchoring_Msg\<close>: \<open>keeper/msg_server.go\<close> and \<open>keeper/msg_update_params.go\<close>, and sequences
    of messages.
  \<^item> \<open>Msg_Safety\<close>, \<open>Role_Safety\<close>: what every sequence of messages preserves, and the
    authority every change needs.
  \<^item> \<open>Anchoring_Genesis\<close>, \<open>Genesis_Safety\<close>, \<open>Genesis_Properties\<close>: validation, import and export
    of the genesis state. The order in which Go ranges over a map is a parameter.
  \<^item> \<open>Big_Endian\<close>, \<open>Abi_Codec\<close>: byte order, and the building blocks of the generated ABI code with
    the contract of a tuple (locale \<open>abi_tuple\<close>). The functions of the package \<open>go-abi\<close> are the
    fields of the record \<open>abi\<close>, their laws are \<open>abi_ok\<close> and \<open>abi_safe\<close>.
  \<^item> \<open>Abi_Common\<close>, \<open>Abi_Anchoring\<close>, \<open>Abi_Events\<close>: \<open>precompiles/common.abi.go\<close> and
    \<open>x/anchoring/precompile/anchoring.abi.go\<close>, tuple by tuple; \<open>Abi_Sample\<close>, \<open>Abi_Properties\<close>: an
    instance of the library, and the properties.
  \<^item> \<open>Sample_State\<close>, \<open>Anchoring_Properties\<close>: concrete inputs, and the properties.

  \<^bold>\<open>Errors and writes.\<close> A Go function that returns \<open>(T, error)\<close> on a context is an action: it
  returns a result and the state. Writes before an error stay in the action, as they do in
  the context; \<open>commit\<close> discards them, as the transaction runner does.

  \<^bold>\<open>Bounds.\<close> Registry ids, record ids and version indexes are 64-bit words that wrap around.
  The statements about sequences assume that the counters have room for as many increments
  as there are messages (\<open>room\<close>), since each message increments a counter at most once.

  \<^bold>\<open>Hashes.\<close> Roles are Keccak hashes. No statement assumes the hash to be injective on all
  strings: collision freedom is assumed on the finite set of identifiers in use.

  \<^bold>\<open>Not modelled.\<close> Gas, the protobuf encoding of stored values (a stored value is read back
  as it was written) and errors of the underlying store. Queries, migrations, the
  name index, the storage layout for the EVM, the precompile and the tax module are not
  modelled.
\<close>

end
